(* ===== verification/Kscribe_Prelude.thy ===== *)
theory Kscribe_Prelude
  imports Main "HOL-Library.AList" "HOL-Library.Sublist"
begin

text \<open>
  Shared vocabulary of the development: Go's time values, error values, string
  helpers of the packages \<^verbatim>\<open>strings\<close>, \<^verbatim>\<open>strconv\<close> and \<^verbatim>\<open>fmt\<close>, Go maps as
  association lists with distinct keys, and the generic lemmas about them that the
  component theories use.

  Go strings are byte strings. A \<^typ>\<open>string\<close> here is a list of \<^typ>\<open>char\<close>, and a
  \<^typ>\<open>char\<close> is a byte, so \<^term>\<open>length\<close> is Go's \<^verbatim>\<open>len\<close> and slicing is \<^term>\<open>take\<close> and
  \<^term>\<open>drop\<close>.
\<close>

named_theorems go_map_simps \<open>Facts about Go maps kept as association lists\<close>
named_theorems go_string_simps \<open>Facts about the modelled string helpers\<close>

section \<open>Time\<close>

text \<open>
  A \<^verbatim>\<open>time.Time\<close> is a number of nanoseconds since the Unix epoch, a \<^verbatim>\<open>time.Duration\<close> a
  number of nanoseconds. The zero \<^verbatim>\<open>time.Time\<close> is 1 January of year 1, UTC.
\<close>

type_synonym gotime = int
type_synonym duration = int

definition nanos_per_second :: int where
  "nanos_per_second = 1000000000"

definition Second :: duration where
  "Second = nanos_per_second"

definition Minute :: duration where
  "Minute = 60 * Second"

definition Hour :: duration where
  "Hour = 60 * Minute"

lemmas duration_defs = nanos_per_second_def Second_def Minute_def Hour_def

definition zero_time :: gotime where
  "zero_time = - 62135596800000000000"

definition IsZero :: "gotime \<Rightarrow> bool" where
  "IsZero t \<longleftrightarrow> t = zero_time"

text \<open>\<^verbatim>\<open>Time.Sub\<close> saturates at the bounds of an \<^verbatim>\<open>int64\<close> duration.\<close>

definition max_duration :: duration where
  "max_duration = 2 ^ 63 - 1"

definition min_duration :: duration where
  "min_duration = - (2 ^ 63)"

definition time_Sub :: "gotime \<Rightarrow> gotime \<Rightarrow> duration" where
  "time_Sub t u = max min_duration (min max_duration (t - u))"

lemma Minute_pos [simp]: "0 < Minute"
  by (simp add: duration_defs)

lemma Hour_pos [simp]: "0 < Hour"
  by (simp add: duration_defs)

section \<open>Sized integers\<close>

text \<open>
  Conversion to a signed integer of \<^verbatim>\<open>w\<close> bits, as Go's conversions and arithmetic do it:
  the value modulo \<^verbatim>\<open>2^w\<close>, read in two's complement.
\<close>

definition wrap_signed :: "nat \<Rightarrow> int \<Rightarrow> int" where
  "wrap_signed w x = (x + 2 ^ (w - 1)) mod 2 ^ w - 2 ^ (w - 1)"

abbreviation to_int32 :: "int \<Rightarrow> int" where
  "to_int32 \<equiv> wrap_signed 32"

abbreviation to_int64 :: "int \<Rightarrow> int" where
  "to_int64 \<equiv> wrap_signed 64"

lemma wrap_signed_add: "wrap_signed w (wrap_signed w a + b) = wrap_signed w (a + b)"
proof -
  have "wrap_signed w a + b + 2 ^ (w - 1) = (a + 2 ^ (w - 1)) mod 2 ^ w + b"
    by (simp add: wrap_signed_def)
  moreover have "((a + 2 ^ (w - 1)) mod 2 ^ w + b) mod 2 ^ w = (a + b + 2 ^ (w - 1)) mod 2 ^ w"
    by (subst mod_add_left_eq) (simp add: algebra_simps)
  ultimately show ?thesis
    by (simp add: wrap_signed_def)
qed

lemma wrap_signed_id:
  "0 < w \<Longrightarrow> - (2 ^ (w - 1)) \<le> x \<Longrightarrow> x < 2 ^ (w - 1) \<Longrightarrow> wrap_signed w x = x"
  by (cases w) (simp_all add: wrap_signed_def)

lemma wrap_signed_bounds:
  "0 < w \<Longrightarrow> - (2 ^ (w - 1)) \<le> wrap_signed w x \<and> wrap_signed w x < 2 ^ (w - 1)"
proof (cases w)
  case (Suc n)
  have "0 \<le> (x + 2 ^ n) mod 2 ^ Suc n" and "(x + 2 ^ n) mod 2 ^ Suc n < 2 ^ Suc n"
    by simp_all
  then show ?thesis
    by (simp add: wrap_signed_def Suc)
qed simp

section \<open>Errors\<close>

text \<open>
  An \<^verbatim>\<open>error\<close> is the text that \<^verbatim>\<open>Error()\<close> returns together with the class that the API
  machinery's predicates (\<^verbatim>\<open>IsNotFound\<close>, \<^verbatim>\<open>IsAlreadyExists\<close>, \<^verbatim>\<open>IsConflict\<close>) see through any
  wrapping with \<^verbatim>\<open>%w\<close>. A Go result \<^verbatim>\<open>(T, error)\<close> is a sum, \<^verbatim>\<open>Inl\<close> the error; a bare
  \<^verbatim>\<open>error\<close> result is an option, \<^term>\<open>None\<close> for \<^verbatim>\<open>nil\<close>.
\<close>

datatype err_class = NotFound | AlreadyExists | Conflict | OtherClass

datatype err = Err (class_of: err_class) (msg_of: string)

definition errorf_w :: "string \<Rightarrow> err \<Rightarrow> err" where
  "errorf_w p e = Err (class_of e) (p @ msg_of e)"

definition errorf :: "string \<Rightarrow> err" where
  "errorf m = Err OtherClass m"

definition IsNotFound :: "err \<Rightarrow> bool" where
  "IsNotFound e \<longleftrightarrow> class_of e = NotFound"

definition IsAlreadyExists :: "err \<Rightarrow> bool" where
  "IsAlreadyExists e \<longleftrightarrow> class_of e = AlreadyExists"

definition IgnoreNotFound :: "err \<Rightarrow> err option" where
  "IgnoreNotFound e = (if IsNotFound e then None else Some e)"

lemma class_of_errorf_w [simp]: "class_of (errorf_w p e) = class_of e"
  by (simp add: errorf_w_def)

lemma class_of_errorf [simp]: "class_of (errorf m) = OtherClass"
  by (simp add: errorf_def)

section \<open>Strings\<close>

definition nl :: string where
  "nl = [CHR 0x0A]"

definition dquote :: string where
  "dquote = [CHR 0x22]"

text \<open>The bytes of U+2014, the dash the program writes in several texts.\<close>

definition em_dash :: string where
  "em_dash = [CHR 0xE2, CHR 0x80, CHR 0x94]"

fun join_sep :: "string \<Rightarrow> string list \<Rightarrow> string" where
  "join_sep sep [] = []"
| "join_sep sep [x] = x"
| "join_sep sep (x # y # ys) = x @ sep @ join_sep sep (y # ys)"

text \<open>
  Decimal formatting (\<^verbatim>\<open>%d\<close>): the digits of a natural number, most significant first,
  and a sign for negative integers.
\<close>

definition digit_char :: "nat \<Rightarrow> char" where
  "digit_char d = char_of (48 + d)"

fun nat_dec :: "nat \<Rightarrow> string" where
  "nat_dec n = (if n < 10 then [digit_char n] else nat_dec (n div 10) @ [digit_char (n mod 10)])"

declare nat_dec.simps [simp del]

definition int_dec :: "int \<Rightarrow> string" where
  "int_dec i = (if i < 0 then ''-'' @ nat_dec (nat (- i)) else nat_dec (nat i))"

text \<open>
  \<^verbatim>\<open>strings.TrimSpace\<close> removes leading and trailing Unicode white space. The byte
  sequences below are the UTF-8 encodings of every character of \<^verbatim>\<open>unicode.IsSpace\<close>; each
  starts with a leading byte, so a suffix of a string that is one of them is also what
  decoding the last rune sees.
\<close>

definition space_seqs :: "string list" where
  "space_seqs =
     [[CHR 0x09], [CHR 0x0A], [CHR 0x0B], [CHR 0x0C], [CHR 0x0D], [CHR 0x20],
      [CHR 0xC2, CHR 0x85], [CHR 0xC2, CHR 0xA0], [CHR 0xE1, CHR 0x9A, CHR 0x80],
      [CHR 0xE2, CHR 0x80, CHR 0x80], [CHR 0xE2, CHR 0x80, CHR 0x81],
      [CHR 0xE2, CHR 0x80, CHR 0x82], [CHR 0xE2, CHR 0x80, CHR 0x83],
      [CHR 0xE2, CHR 0x80, CHR 0x84], [CHR 0xE2, CHR 0x80, CHR 0x85],
      [CHR 0xE2, CHR 0x80, CHR 0x86], [CHR 0xE2, CHR 0x80, CHR 0x87],
      [CHR 0xE2, CHR 0x80, CHR 0x88], [CHR 0xE2, CHR 0x80, CHR 0x89],
      [CHR 0xE2, CHR 0x80, CHR 0x8A], [CHR 0xE2, CHR 0x80, CHR 0xA8],
      [CHR 0xE2, CHR 0x80, CHR 0xA9], [CHR 0xE2, CHR 0x80, CHR 0xAF],
      [CHR 0xE2, CHR 0x81, CHR 0x9F], [CHR 0xE3, CHR 0x80, CHR 0x80]]"

fun strip_one :: "string list \<Rightarrow> string \<Rightarrow> string option" where
  "strip_one [] s = None"
| "strip_one (p # ps) s =
     (if p \<noteq> [] \<and> prefix p s then Some (drop (length p) s) else strip_one ps s)"

lemma strip_one_length: "strip_one ps s = Some t \<Longrightarrow> length t < length s"
proof (induction ps)
  case (Cons p ps)
  then show ?case
    by (cases p) (auto split: if_splits dest: prefix_length_le)
qed simp

function trim_front :: "string list \<Rightarrow> string \<Rightarrow> string" where
  "trim_front ps s = (case strip_one ps s of None \<Rightarrow> s | Some t \<Rightarrow> trim_front ps t)"
  by pat_completeness auto
termination
  by (relation "measure (\<lambda>(ps, s). length s)") (auto dest: strip_one_length)

declare trim_front.simps [simp del]

definition TrimSpace :: "string \<Rightarrow> string" where
  "TrimSpace s =
     rev (trim_front (map rev space_seqs) (rev (trim_front space_seqs s)))"

lemma trim_front_length: "length (trim_front ps s) \<le> length s"
proof (induction ps s rule: trim_front.induct)
  case (1 ps s)
  then show ?case
    by (subst trim_front.simps) (fastforce split: option.splits dest: strip_one_length)
qed

lemma trim_front_fixed: "strip_one ps (trim_front ps s) = None"
proof (induction ps s rule: trim_front.induct)
  case (1 ps s)
  then show ?case
    by (subst trim_front.simps) (auto split: option.splits)
qed

lemma TrimSpace_length: "length (TrimSpace s) \<le> length s"
  using trim_front_length [of "map rev space_seqs" "rev (trim_front space_seqs s)"]
    trim_front_length [of space_seqs s]
  by (simp add: TrimSpace_def)

text \<open>
  Case mapping. \<^verbatim>\<open>strings.ToLower\<close> and \<^verbatim>\<open>strings.EqualFold\<close> are used by the program only
  against ASCII constants. Beside the ASCII letters, the characters whose lower case is an
  ASCII letter are U+0130 (to i) and U+212A (to k); the characters that fold to an ASCII
  letter are U+017F (to s) and U+212A (to k). Every other multi-byte character stays
  outside ASCII and is left as it is.
\<close>

definition lower_char :: "char \<Rightarrow> char" where
  "lower_char c = (let n = of_char c :: nat in
     if 65 \<le> n \<and> n \<le> 90 then char_of (n + 32) else c)"

fun ToLower :: "string \<Rightarrow> string" where
  "ToLower [] = []"
| "ToLower (a # s) =
     (case s of
        b # t \<Rightarrow>
          if a = CHR 0xC4 \<and> b = CHR 0xB0 then CHR ''i'' # ToLower t
          else (case t of
                  c # u \<Rightarrow>
                    if a = CHR 0xE2 \<and> b = CHR 0x84 \<and> c = CHR 0xAA then CHR ''k'' # ToLower u
                    else lower_char a # ToLower s
                | [] \<Rightarrow> lower_char a # ToLower s)
      | [] \<Rightarrow> [lower_char a])"

fun fold_case :: "string \<Rightarrow> string" where
  "fold_case [] = []"
| "fold_case (a # s) =
     (case s of
        b # t \<Rightarrow>
          if a = CHR 0xC5 \<and> b = CHR 0xBF then CHR ''s'' # fold_case t
          else (case t of
                  c # u \<Rightarrow>
                    if a = CHR 0xE2 \<and> b = CHR 0x84 \<and> c = CHR 0xAA then CHR ''k'' # fold_case u
                    else lower_char a # fold_case s
                | [] \<Rightarrow> lower_char a # fold_case s)
      | [] \<Rightarrow> [lower_char a])"

definition EqualFold :: "string \<Rightarrow> string \<Rightarrow> bool" where
  "EqualFold s t \<longleftrightarrow> fold_case s = fold_case t"

section \<open>Go maps\<close>

text \<open>
  A Go map is an association list with distinct keys. Iteration over a Go map has no
  defined order; where the code iterates, the model's result does not depend on it.
\<close>

type_synonym ('k, 'v) gomap = "('k \<times> 'v) list"

definition gm_ok :: "('k, 'v) gomap \<Rightarrow> bool" where
  "gm_ok m \<longleftrightarrow> distinct (map fst m)"

definition gm_get :: "('k, 'v) gomap \<Rightarrow> 'k \<Rightarrow> 'v option" where
  "gm_get m k = map_of m k"

definition gm_put :: "'k \<Rightarrow> 'v \<Rightarrow> ('k, 'v) gomap \<Rightarrow> ('k, 'v) gomap" where
  "gm_put k v m = AList.update k v m"

definition gm_del :: "'k \<Rightarrow> ('k, 'v) gomap \<Rightarrow> ('k, 'v) gomap" where
  "gm_del k m = AList.delete k m"

definition gm_len :: "('k, 'v) gomap \<Rightarrow> nat" where
  "gm_len m = length m"

definition gm_filter :: "('v \<Rightarrow> bool) \<Rightarrow> ('k, 'v) gomap \<Rightarrow> ('k, 'v) gomap" where
  "gm_filter P m = filter (\<lambda>(k, v). P v) m"

lemmas gm_defs = gm_ok_def gm_get_def gm_put_def gm_del_def gm_len_def gm_filter_def

lemma gm_get_put [simp, go_map_simps]:
  "gm_get (gm_put k v m) k' = (if k' = k then Some v else gm_get m k')"
  by (simp add: gm_get_def gm_put_def update_conv')

lemma gm_get_del [simp, go_map_simps]:
  "gm_get (gm_del k m) k' = (if k' = k then None else gm_get m k')"
  by (simp add: gm_get_def gm_del_def delete_conv')

lemma gm_get_Nil [simp, go_map_simps]: "gm_get [] k = None"
  by (simp add: gm_get_def)

lemma gm_ok_Nil [simp, intro]: "gm_ok []"
  by (simp add: gm_ok_def)

lemma gm_ok_put [simp, intro]: "gm_ok m \<Longrightarrow> gm_ok (gm_put k v m)"
  by (simp add: gm_ok_def gm_put_def distinct_update)

lemma gm_ok_del [simp, intro]: "gm_ok m \<Longrightarrow> gm_ok (gm_del k m)"
  by (simp add: gm_ok_def gm_del_def distinct_delete)

lemma gm_ok_filter [simp, intro]: "gm_ok m \<Longrightarrow> gm_ok (gm_filter P m)"
  unfolding gm_ok_def gm_filter_def by (induction m) auto

lemma gm_get_notin: "k \<notin> fst ` set m \<Longrightarrow> gm_get m k = None"
  by (simp add: gm_get_def map_of_eq_None_iff)

lemma gm_get_filter [go_map_simps]:
  "gm_ok m \<Longrightarrow> gm_get (gm_filter P m) k =
     (case gm_get m k of None \<Rightarrow> None | Some v \<Rightarrow> if P v then Some v else None)"
proof (induction m)
  case Nil
  show ?case by (simp add: gm_filter_def)
next
  case (Cons a m)
  obtain k0 v0 where a: "a = (k0, v0)" by (cases a)
  from Cons.prems have fresh: "k0 \<notin> fst ` set m" and ok: "gm_ok m"
    by (simp_all add: gm_ok_def a)
  from fresh have "gm_get (gm_filter P m) k0 = None"
    by (intro gm_get_notin) (auto simp: gm_filter_def)
  with Cons.IH [OF ok] show ?case
    by (auto simp: a gm_filter_def gm_get_def split: option.splits if_splits)
qed

lemma gm_mem_get: "gm_ok m \<Longrightarrow> (k, v) \<in> set m \<longleftrightarrow> gm_get m k = Some v"
  by (simp add: gm_ok_def gm_get_def)

lemma gm_get_mem: "gm_get m k = Some v \<Longrightarrow> (k, v) \<in> set m"
  by (simp add: gm_get_def map_of_SomeD)

lemma gm_put_mem: "x \<in> set (gm_put k v m) \<Longrightarrow> x = (k, v) \<or> x \<in> set m"
  unfolding gm_put_def by (induction m) (auto split: if_splits)

lemma gm_len_put_le: "gm_len (gm_put k v m) \<le> Suc (gm_len m)"
  unfolding gm_len_def gm_put_def by (induction m) auto

lemma gm_len_filter_le: "gm_len (gm_filter P m) \<le> gm_len m"
  by (simp add: gm_len_def gm_filter_def)

section \<open>Lists\<close>

text \<open>The requests that were answered with \<^term>\<open>True\<close>.\<close>

fun accepted :: "'a list \<Rightarrow> bool list \<Rightarrow> 'a list" where
  "accepted (c # cs) (b # bs) = (if b then c # accepted cs bs else accepted cs bs)"
| "accepted _ _ = []"

lemma filter_filter_imp:
  "(\<And>x. x \<in> set xs \<Longrightarrow> P x \<Longrightarrow> Q x) \<Longrightarrow> filter P (filter Q xs) = filter P xs"
  by (induction xs) auto

lemma length_filter_mono:
  "(\<And>x. x \<in> set xs \<Longrightarrow> P x \<Longrightarrow> Q x) \<Longrightarrow> length (filter P xs) \<le> length (filter Q xs)"
  by (induction xs) auto

lemma subseq_sorted_wrt: "subseq xs ys \<Longrightarrow> sorted_wrt P ys \<Longrightarrow> sorted_wrt P xs"
proof (induction rule: list_emb.induct)
  case (list_emb_Cons2 x y xs ys)
  then show ?case by (auto dest: list_emb_set)
qed auto

end
