(* ===== verification/Api_Types.thy ===== *)
theory Api_Types
  imports Kscribe_Prelude
begin

text \<open>
  The data of the \<^verbatim>\<open>kscribe.amjadjibon.dev/v1alpha1\<close> API group
  (\<^verbatim>\<open>src/api/v1alpha1\<close>) and the fields of the Kubernetes objects the program reads. A
  pointer field is an option; a \<^verbatim>\<open>*metav1.Time\<close> is an optional time. Kubernetes list
  and object types come from a third-party package: only the fields the program touches
  are kept, and nothing is assumed about how the API server fills them.
\<close>

section \<open>Kubernetes objects\<close>

record NamespacedName =
  nn_Namespace :: string
  nn_Name :: string

record ObjectReference =
  or_Kind :: string
  or_Namespace :: string
  or_Name :: string

text \<open>\<^verbatim>\<open>corev1.Event\<close>.\<close>

record Event =
  ev_Name :: string
  ev_Namespace :: string
  ev_UID :: string
  ev_Type :: string
  ev_InvolvedObject :: ObjectReference
  ev_Reason :: string
  ev_Message :: string
  ev_Count :: int
  ev_FirstTimestamp :: gotime
  ev_LastTimestamp :: gotime

definition EventTypeWarning :: string where
  "EventTypeWarning = ''Warning''"

text \<open>\<^verbatim>\<open>metav1.ObjectMeta\<close>: labels are a Go map.\<close>

record ObjectMeta =
  om_Name :: string
  om_Namespace :: string
  om_Labels :: "(string, string) gomap"
  om_Generation :: int
  om_ResourceVersion :: string
  om_CreationTimestamp :: gotime

record Condition =
  cond_Type :: string
  cond_Status :: string
  cond_ObservedGeneration :: int
  cond_LastTransitionTime :: gotime
  cond_Reason :: string
  cond_Message :: string

definition ConditionTrue :: string where
  "ConditionTrue = ''True''"

definition ConditionFalse :: string where
  "ConditionFalse = ''False''"

section \<open>KscribeDiagnosis\<close>

text \<open>
  \<^verbatim>\<open>DiagnosisPhase\<close> is a string type with five named values; the empty string is the
  unset phase. Any other string is possible in an object read from the API.
\<close>

type_synonym DiagnosisPhase = string

definition DiagnosisPhasePending :: DiagnosisPhase where
  "DiagnosisPhasePending = ''Pending''"

definition DiagnosisPhaseDiagnosing :: DiagnosisPhase where
  "DiagnosisPhaseDiagnosing = ''Diagnosing''"

definition DiagnosisPhaseDone :: DiagnosisPhase where
  "DiagnosisPhaseDone = ''Done''"

definition DiagnosisPhasePartial :: DiagnosisPhase where
  "DiagnosisPhasePartial = ''Partial''"

definition DiagnosisPhaseFailed :: DiagnosisPhase where
  "DiagnosisPhaseFailed = ''Failed''"

lemmas phase_defs = DiagnosisPhasePending_def DiagnosisPhaseDiagnosing_def
  DiagnosisPhaseDone_def DiagnosisPhasePartial_def DiagnosisPhaseFailed_def

definition ConditionDiagnosing :: string where
  "ConditionDiagnosing = ''Diagnosing''"

definition ConditionDiagnosed :: string where
  "ConditionDiagnosed = ''Diagnosed''"

definition ConditionPersisted :: string where
  "ConditionPersisted = ''Persisted''"

lemmas condition_type_defs = ConditionDiagnosing_def ConditionDiagnosed_def
  ConditionPersisted_def ConditionTrue_def ConditionFalse_def

record KscribeDiagnosisSpec =
  spec_InvolvedObjectName :: string
  spec_InvolvedObjectNamespace :: string
  spec_InvolvedObjectKind :: string
  spec_Reason :: string
  spec_Message :: string
  spec_EventUID :: string
  spec_Count :: int
  spec_FirstTimestamp :: "gotime option"
  spec_LastTimestamp :: "gotime option"
  spec_PolicyRef :: string
  spec_LLMProvider :: string
  spec_LLMModel :: string
  spec_LLMBaseURL :: string
  spec_MaxIterations :: "int option"
  spec_Redact :: "bool option"

record KscribeDiagnosisStatus =
  st_Phase :: DiagnosisPhase
  st_Conditions :: "Condition list"
  st_ObservedGeneration :: int
  st_StartedAt :: "gotime option"
  st_CompletedAt :: "gotime option"
  st_Summary :: string
  st_RootCause :: string
  st_LLMProvider :: string
  st_LLMModel :: string
  st_TokensUsed :: int
  st_PromptRedacted :: bool
  st_Persisted :: bool

text \<open>The zero value of the status struct.\<close>

definition zero_status :: KscribeDiagnosisStatus where
  "zero_status = \<lparr>st_Phase = [], st_Conditions = [], st_ObservedGeneration = 0,
     st_StartedAt = None, st_CompletedAt = None, st_Summary = [], st_RootCause = [],
     st_LLMProvider = [], st_LLMModel = [], st_TokensUsed = 0, st_PromptRedacted = False,
     st_Persisted = False\<rparr>"

record KscribeDiagnosis =
  kd_Meta :: ObjectMeta
  kd_Spec :: KscribeDiagnosisSpec
  kd_Status :: KscribeDiagnosisStatus

abbreviation kd_Name :: "KscribeDiagnosis \<Rightarrow> string" where
  "kd_Name kd \<equiv> om_Name (kd_Meta kd)"

abbreviation kd_Namespace :: "KscribeDiagnosis \<Rightarrow> string" where
  "kd_Namespace kd \<equiv> om_Namespace (kd_Meta kd)"

abbreviation kd_Phase :: "KscribeDiagnosis \<Rightarrow> DiagnosisPhase" where
  "kd_Phase kd \<equiv> st_Phase (kd_Status kd)"

definition kd_key :: "KscribeDiagnosis \<Rightarrow> NamespacedName" where
  "kd_key kd = \<lparr>nn_Namespace = kd_Namespace kd, nn_Name = kd_Name kd\<rparr>"

text \<open>
  \<^verbatim>\<open>SetCondition\<close> delegates to \<^verbatim>\<open>apimeta.SetStatusCondition\<close>, which is third-party code:
  it is the first argument here.
\<close>

type_synonym set_status_condition = "Condition list \<Rightarrow> Condition \<Rightarrow> Condition list"

definition SetCondition ::
  "set_status_condition \<Rightarrow> Condition \<Rightarrow> KscribeDiagnosisStatus \<Rightarrow> KscribeDiagnosisStatus" where
  "SetCondition ssc cond status = status\<lparr>st_Conditions := ssc (st_Conditions status) cond\<rparr>"

definition SetPhase :: "KscribeDiagnosisStatus \<Rightarrow> DiagnosisPhase \<Rightarrow> KscribeDiagnosisStatus" where
  "SetPhase status phase = status\<lparr>st_Phase := phase\<rparr>"

lemma SetCondition_frame [simp]:
  "st_Phase (SetCondition ssc c s) = st_Phase s"
  "st_StartedAt (SetCondition ssc c s) = st_StartedAt s"
  "st_CompletedAt (SetCondition ssc c s) = st_CompletedAt s"
  "st_Persisted (SetCondition ssc c s) = st_Persisted s"
  "st_PromptRedacted (SetCondition ssc c s) = st_PromptRedacted s"
  "st_TokensUsed (SetCondition ssc c s) = st_TokensUsed s"
  "st_Summary (SetCondition ssc c s) = st_Summary s"
  "st_RootCause (SetCondition ssc c s) = st_RootCause s"
  "st_LLMProvider (SetCondition ssc c s) = st_LLMProvider s"
  "st_LLMModel (SetCondition ssc c s) = st_LLMModel s"
  "st_ObservedGeneration (SetCondition ssc c s) = st_ObservedGeneration s"
  "st_Conditions (SetCondition ssc c s) = ssc (st_Conditions s) c"
  by (simp_all add: SetCondition_def)

section \<open>DiagnosisPolicy\<close>

record DiagnosisPolicySpec =
  dps_Enabled :: "bool option"
  dps_EventReasons :: "string list"
  dps_LLMProvider :: string
  dps_LLMModel :: string
  dps_LLMBaseURL :: string
  dps_MaxIterations :: "int option"
  dps_Redact :: "bool option"

record DiagnosisPolicy =
  dp_Name :: string
  dp_Namespace :: string
  dp_Spec :: DiagnosisPolicySpec

end
