(* ===== verification/Dedup.thy ===== *)
theory Dedup
  imports Api_Types
begin

text \<open>
  The event deduplication guard, \<^verbatim>\<open>src/internal/controller/dedup.go\<close>: a map from event
  keys to expiry times, with a sweep of expired entries once the map is large. The mutex
  makes each call atomic, so a call is one state transformation; the injected clock
  reading is an argument. The locale \<^verbatim>\<open>dedup_guard\<close> states what the event watcher relies
  on; its interpretation shows that the sweep is invisible through that interface.
\<close>

section \<open>Model\<close>

definition defaultDedupTTL :: duration where
  "defaultDedupTTL = Hour"

definition dedupSweepThresh :: nat where
  "dedupSweepThresh = 1024"

record Deduper =
  dd_ttl :: duration
  dd_seen :: "(string, gotime) gomap"

definition NewDeduper :: "duration \<Rightarrow> Deduper" where
  "NewDeduper ttl = \<lparr>dd_ttl = (if ttl \<le> 0 then defaultDedupTTL else ttl), dd_seen = []\<rparr>"

text \<open>The sweep deletes the entries with \<^verbatim>\<open>now.After(exp)\<close>.\<close>

definition sweep :: "gotime \<Rightarrow> (string, gotime) gomap \<Rightarrow> (string, gotime) gomap" where
  "sweep now m =
     (if gm_len m \<ge> dedupSweepThresh then gm_filter (\<lambda>ex. \<not> now > ex) m else m)"

definition ShouldProcess :: "string \<Rightarrow> gotime \<Rightarrow> Deduper \<Rightarrow> bool \<times> Deduper" where
  "ShouldProcess key now d =
     (case gm_get (dd_seen d) key of
        Some ex \<Rightarrow> if now < ex then (False, d)
                    else (True, d\<lparr>dd_seen := gm_put key (now + dd_ttl d) (sweep now (dd_seen d))\<rparr>)
      | None \<Rightarrow> (True, d\<lparr>dd_seen := gm_put key (now + dd_ttl d) (sweep now (dd_seen d))\<rparr>))"

definition EventKey :: "Event \<Rightarrow> string" where
  "EventKey ev =
     (if ev_UID ev \<noteq> [] then ev_UID ev
      else ev_Namespace ev @ ''/'' @ or_Kind (ev_InvolvedObject ev) @ ''/''
           @ or_Name (ev_InvolvedObject ev) @ ''/'' @ ev_Reason ev)"

text \<open>A sequence of calls, each with the clock reading it sees.\<close>

fun guard_run ::
  "(string \<Rightarrow> gotime \<Rightarrow> 'd \<Rightarrow> bool \<times> 'd) \<Rightarrow> 'd \<Rightarrow> (gotime \<times> string) list \<Rightarrow> bool list \<times> 'd" where
  "guard_run f d [] = ([], d)"
| "guard_run f d ((t, k) # calls) =
     (let (b, d1) = f k t d; (bs, d2) = guard_run f d1 calls in (b # bs, d2))"

section \<open>Specification\<close>

text \<open>
  The abstract guard remembers every accepted call for ever and accepts a call when no
  accepted call with the same key is younger than the TTL.
\<close>

definition spec_accepts :: "duration \<Rightarrow> (gotime \<times> string) list \<Rightarrow> gotime \<Rightarrow> string \<Rightarrow> bool" where
  "spec_accepts ttl hist t k \<longleftrightarrow> (\<forall>(t', k') \<in> set hist. k' = k \<longrightarrow> t' + ttl \<le> t)"

fun spec_run :: "duration \<Rightarrow> (gotime \<times> string) list \<Rightarrow> (gotime \<times> string) list \<Rightarrow> bool list" where
  "spec_run ttl hist [] = []"
| "spec_run ttl hist ((t, k) # calls) =
     (if spec_accepts ttl hist t k then True # spec_run ttl ((t, k) # hist) calls
      else False # spec_run ttl hist calls)"

text \<open>
  What a client of the guard relies on. \<open>live d k t\<close> says that a call with key \<open>k\<close> at
  time \<open>t\<close> would be rejected; the laws speak about times not before the last call, because
  the guard may forget what has already expired.
\<close>

locale dedup_guard =
  fixes check :: "string \<Rightarrow> gotime \<Rightarrow> 'd \<Rightarrow> bool \<times> 'd"
    and live :: "'d \<Rightarrow> string \<Rightarrow> gotime \<Rightarrow> bool"
    and ttl :: duration
    and inv :: "'d \<Rightarrow> bool"
  assumes check_result: "inv d \<Longrightarrow> fst (check k now d) \<longleftrightarrow> \<not> live d k now"
    and check_rejected: "inv d \<Longrightarrow> live d k now \<Longrightarrow> snd (check k now d) = d"
    and check_accepted: "inv d \<Longrightarrow> \<not> live d k now \<Longrightarrow> now \<le> t \<Longrightarrow>
          live (snd (check k now d)) k' t \<longleftrightarrow> (if k' = k then t < now + ttl else live d k' t)"
    and check_inv: "inv d \<Longrightarrow> inv (snd (check k now d))"
begin

text \<open>The guard and the history agree about every call from time \<open>now\<close> on.\<close>

definition agrees :: "'d \<Rightarrow> (gotime \<times> string) list \<Rightarrow> gotime \<Rightarrow> bool" where
  "agrees d hist now \<longleftrightarrow> inv d \<and> (\<forall>k t. now \<le> t \<longrightarrow> live d k t = (\<not> spec_accepts ttl hist t k))"

lemma agrees_accept:
  assumes "agrees d hist t0" "t0 \<le> now" "\<not> live d k now"
  shows "agrees (snd (check k now d)) ((now, k) # hist) now"
proof -
  have acc: "spec_accepts ttl hist now k"
    using assms unfolding agrees_def by blast
  have "live (snd (check k now d)) k' t = (\<not> spec_accepts ttl ((now, k) # hist) t k')"
    if "now \<le> t" for k' t
  proof -
    have "live (snd (check k now d)) k' t = (if k' = k then t < now + ttl else live d k' t)"
      using assms that by (intro check_accepted) (auto simp: agrees_def)
    moreover have "spec_accepts ttl hist t k"
      using acc that unfolding spec_accepts_def by fastforce
    moreover have "live d k' t = (\<not> spec_accepts ttl hist t k')"
      using assms that unfolding agrees_def by simp
    ultimately show ?thesis
      by (auto simp: spec_accepts_def)
  qed
  moreover have "inv (snd (check k now d))"
    using assms check_inv by (simp add: agrees_def)
  ultimately show ?thesis
    by (simp add: agrees_def)
qed

lemma agrees_later: "agrees d hist t0 \<Longrightarrow> t0 \<le> now \<Longrightarrow> agrees d hist now"
  by (auto simp: agrees_def)

theorem run_refines:
  assumes "agrees d hist t0" "sorted (map fst calls)" "\<forall>c \<in> set calls. t0 \<le> fst c"
  shows "fst (guard_run check d calls) = spec_run ttl hist calls"
  using assms
proof (induction calls arbitrary: d hist t0)
  case Nil
  show ?case by simp
next
  case (Cons c calls)
  obtain now k where c: "c = (now, k)" by (cases c)
  have later: "t0 \<le> now" "sorted (map fst calls)" "\<forall>c \<in> set calls. now \<le> fst c"
    using Cons.prems by (auto simp: c)
  have inv: "inv d" and live: "live d k now = (\<not> spec_accepts ttl hist now k)"
    using Cons.prems(1) later(1) unfolding agrees_def by auto
  show ?case
  proof (cases "live d k now")
    case True
    then have "check k now d = (False, d)"
      using check_result [OF inv, of k now] check_rejected [OF inv, of k now]
      by (cases "check k now d") auto
    moreover have "fst (guard_run check d calls) = spec_run ttl hist calls"
      using Cons.IH agrees_later [OF Cons.prems(1) later(1)] later by blast
    ultimately show ?thesis
      using True live by (auto simp: c split: prod.splits)
  next
    case False
    then have "fst (check k now d)"
      using check_result [OF inv] by blast
    moreover have "fst (guard_run check (snd (check k now d)) calls)
        = spec_run ttl ((now, k) # hist) calls"
      using Cons.IH agrees_accept [OF Cons.prems(1) later(1) False] later by blast
    ultimately show ?thesis
      using False live by (auto simp: c split: prod.splits)
  qed
qed

end

section \<open>The model meets the specification\<close>

definition dd_live :: "Deduper \<Rightarrow> string \<Rightarrow> gotime \<Rightarrow> bool" where
  "dd_live d k t \<longleftrightarrow> (case gm_get (dd_seen d) k of None \<Rightarrow> False | Some ex \<Rightarrow> t < ex)"

definition dd_inv :: "duration \<Rightarrow> Deduper \<Rightarrow> bool" where
  "dd_inv ttl d \<longleftrightarrow> dd_ttl d = ttl \<and> gm_ok (dd_seen d)"

lemma gm_ok_sweep [simp, intro]: "gm_ok m \<Longrightarrow> gm_ok (sweep now m)"
  by (simp add: sweep_def)

lemma sweep_live:
  "gm_ok m \<Longrightarrow> now \<le> t \<Longrightarrow>
    (case gm_get (sweep now m) k of None \<Rightarrow> False | Some ex \<Rightarrow> t < ex)
    = (case gm_get m k of None \<Rightarrow> False | Some ex \<Rightarrow> t < ex)"
  by (auto simp: sweep_def gm_get_filter split: option.splits)

lemma ShouldProcess_cases:
  "ShouldProcess key now d =
     (if dd_live d key now then (False, d)
      else (True, d\<lparr>dd_seen := gm_put key (now + dd_ttl d) (sweep now (dd_seen d))\<rparr>))"
  by (auto simp: ShouldProcess_def dd_live_def split: option.splits)

interpretation dedup: dedup_guard ShouldProcess dd_live ttl "dd_inv ttl" for ttl
  by unfold_locales
    (auto simp: ShouldProcess_cases dd_inv_def dd_live_def sweep_live)

lemma NewDeduper_agrees:
  "dedup.agrees (dd_ttl (NewDeduper ttl)) (NewDeduper ttl) [] t0"
  by (simp add: dedup.agrees_def dd_inv_def dd_live_def spec_accepts_def NewDeduper_def)

text \<open>A rejected specification call never extends the history: accepted calls are apart.\<close>

lemma accepted_after:
  "(t', k') \<in> set hist \<Longrightarrow> (t, k') \<in> set (accepted calls (spec_run ttl hist calls))
    \<Longrightarrow> t' + ttl \<le> t"
proof (induction calls arbitrary: hist)
  case (Cons c calls)
  show ?case
    using Cons.prems Cons.IH [of hist] Cons.IH [of "c # hist"]
    by (cases c) (auto simp: spec_accepts_def split: if_splits)
qed simp

lemma spec_run_spaced:
  "sorted_wrt (\<lambda>c c'. snd c = snd c' \<longrightarrow> fst c + ttl \<le> fst c')
     (accepted calls (spec_run ttl hist calls))"
proof (induction calls arbitrary: hist)
  case (Cons c calls)
  obtain t k where c: "c = (t, k)" by (cases c)
  have "fst c + ttl \<le> fst c'"
    if "c' \<in> set (accepted calls (spec_run ttl ((t, k) # hist) calls))" "snd c' = k" for c'
    using that accepted_after [of t k "(t, k) # hist" "fst c'" calls ttl] by (cases c') (auto simp: c)
  with Cons.IH show ?case
    by (auto simp: c)
qed simp

lemma dedup_run_spec:
  assumes "sorted (map fst calls)"
  shows "fst (guard_run ShouldProcess (NewDeduper ttl) calls)
       = spec_run (if ttl \<le> 0 then Hour else ttl) [] calls"
proof (cases calls)
  case (Cons c cs)
  have "\<forall>c' \<in> set calls. fst c \<le> fst c'"
    using assms by (auto simp: Cons)
  then have "fst (guard_run ShouldProcess (NewDeduper ttl) calls)
      = spec_run (dd_ttl (NewDeduper ttl)) [] calls"
    using dedup.run_refines [OF NewDeduper_agrees assms] by blast
  then show ?thesis
    by (simp add: NewDeduper_def defaultDedupTTL_def)
qed simp

section \<open>Properties\<close>

text \<open>
C6: the deduplication guard refines its specification. For any sequence of calls with
non-decreasing clock readings, a fresh \<^verbatim>\<open>Deduper\<close> answers exactly as the guard that keeps
the whole history of accepted calls, for every TTL (a non-positive TTL means one hour):
sweeping and overwriting entries is not observable.
\<close>

theorem dedup_refines_spec:
  assumes "sorted (map fst calls)"
  shows "fst (guard_run ShouldProcess (NewDeduper ttl) calls)
       = spec_run (if ttl \<le> 0 then Hour else ttl) [] calls"
  by (rule dedup_run_spec [OF assms])

theorem dedup_refines_spec_witness:
  "fst (guard_run ShouldProcess (NewDeduper 10) [(0, ''a''), (5, ''a''), (10, ''a'')])
     = [True, False, True]"
  using dedup_refines_spec [of "[(0, ''a''), (5, ''a''), (10, ''a'')]" 10]
  by (simp add: spec_accepts_def)

text \<open>
one diagnosis per key and TTL window. Of the calls that a fresh \<^verbatim>\<open>Deduper\<close> accepts,
two with the same key are at least the TTL apart.
\<close>

theorem dedup_accepted_spaced:
  assumes "sorted (map fst calls)"
  shows "sorted_wrt (\<lambda>c c'. snd c = snd c' \<longrightarrow> fst c + (if ttl \<le> 0 then Hour else ttl) \<le> fst c')
     (accepted calls (fst (guard_run ShouldProcess (NewDeduper ttl) calls)))"
  by (simp only: dedup_run_spec [OF assms] spec_run_spaced)

theorem dedup_accepted_spaced_witness:
  "accepted [(0, ''a''), (5, ''a''), (12, ''a'')]
      (fst (guard_run ShouldProcess (NewDeduper 10) [(0, ''a''), (5, ''a''), (12, ''a'')]))
     = [(0, ''a''), (12, ''a'')] \<and> (0::int) + 10 \<le> 12"
proof -
  have "sorted (map fst [(0::int, ''a''), (5, ''a''), (12, ''a'')])"
    by simp
  from dedup_accepted_spaced [OF this, of 10] dedup_run_spec [OF this, of 10]
  show ?thesis
    by (simp add: spec_accepts_def)
qed

text \<open>
the sweep bounds memory. When a call is accepted while the map holds at least 1024
entries, every entry of the resulting map is still unexpired at the time of the call, and
the map has grown by at most one entry.
\<close>

theorem dedup_sweep_drops_expired:
  assumes "ShouldProcess key now d = (True, d')" "dedupSweepThresh \<le> gm_len (dd_seen d)"
    and "0 \<le> dd_ttl d"
  shows "(\<forall>(k, ex) \<in> set (dd_seen d'). now \<le> ex)
       \<and> gm_len (dd_seen d') \<le> Suc (gm_len (gm_filter (\<lambda>ex. now \<le> ex) (dd_seen d)))"
proof -
  have seen: "dd_seen d' = gm_put key (now + dd_ttl d) (gm_filter (\<lambda>ex. now \<le> ex) (dd_seen d))"
    using assms(1,2) by (auto simp: ShouldProcess_cases sweep_def not_less split: if_splits)
  have "(k, ex) = (key, now + dd_ttl d) \<or> (k, ex) \<in> set (gm_filter (\<lambda>ex. now \<le> ex) (dd_seen d))"
    if "(k, ex) \<in> set (dd_seen d')" for k ex
    using that gm_put_mem unfolding seen by metis
  then have "\<forall>(k, ex) \<in> set (dd_seen d'). now \<le> ex"
    using assms(3) by (fastforce simp: gm_filter_def)
  then show ?thesis
    by (simp add: seen gm_len_put_le)
qed

theorem dedup_sweep_drops_expired_witness:
  "\<exists>d. dedupSweepThresh \<le> gm_len (dd_seen d) \<and>
     (\<forall>(k, ex) \<in> set (dd_seen (snd (ShouldProcess ''x'' 5 d))). 5 \<le> ex)"
proof -
  let ?d = "\<lparr>dd_ttl = 10, dd_seen = map (\<lambda>i. (nat_dec i, 0)) [0..<1024]\<rparr>"
  have "\<not> dd_live ?d ''x'' 5"
    by (auto simp: dd_live_def split: option.splits dest!: gm_get_mem)
  then have sp: "ShouldProcess ''x'' 5 ?d = (True, snd (ShouldProcess ''x'' 5 ?d))"
    by (simp add: ShouldProcess_cases)
  have len: "dedupSweepThresh \<le> gm_len (dd_seen ?d)"
    by (simp add: gm_len_def dedupSweepThresh_def)
  have "\<forall>(k, ex) \<in> set (dd_seen (snd (ShouldProcess ''x'' 5 ?d))). 5 \<le> ex"
    using dedup_sweep_drops_expired [OF sp len] by simp
  with len show ?thesis
    by (intro exI [of _ ?d] conjI)
qed

end
