(* ===== verification/Rate_Limit.thy ===== *)
theory Rate_Limit
  imports Kscribe_Prelude
begin

text \<open>
  The hourly cap on diagnosis starts, \<^verbatim>\<open>src/internal/controller/ratelimit.go\<close>: a sliding
  window over the times of the granted starts. A nil limiter is \<^term>\<open>None\<close>. The mutex makes
  \<^verbatim>\<open>Allow\<close> atomic; the injected clock reading is an argument. The locale \<^verbatim>\<open>start_limiter\<close> is
  the contract the reconciler relies on.
\<close>

section \<open>Model\<close>

record RateLimiter =
  rl_limit :: int
  rl_window :: duration
  rl_starts :: "gotime list"

definition NewRateLimiter :: "int \<Rightarrow> RateLimiter" where
  "NewRateLimiter limit = \<lparr>rl_limit = limit, rl_window = Hour, rl_starts = []\<rparr>"

text \<open>The loop that keeps the timestamps with \<^verbatim>\<open>t.After(cutoff)\<close>, in order.\<close>

definition keep_after :: "gotime \<Rightarrow> gotime list \<Rightarrow> gotime list" where
  "keep_after cutoff ts = filter (\<lambda>t. t > cutoff) ts"

definition Allow :: "gotime \<Rightarrow> RateLimiter option \<Rightarrow> bool \<times> RateLimiter option" where
  "Allow now lo =
     (case lo of
        None \<Rightarrow> (True, None)
      | Some l \<Rightarrow>
          if rl_limit l \<le> 0 then (True, Some l)
          else
            (let cutoff = now - rl_window l;
                 keep = keep_after cutoff (rl_starts l)
             in if int (length keep) \<ge> rl_limit l then (False, Some (l\<lparr>rl_starts := keep\<rparr>))
                else (True, Some (l\<lparr>rl_starts := keep @ [now]\<rparr>))))"

fun limiter_run :: "(gotime \<Rightarrow> 'l \<Rightarrow> bool \<times> 'l) \<Rightarrow> 'l \<Rightarrow> gotime list \<Rightarrow> bool list \<times> 'l" where
  "limiter_run f l [] = ([], l)"
| "limiter_run f l (t # ts) =
     (let (b, l1) = f t l; (bs, l2) = limiter_run f l1 ts in (b # bs, l2))"

section \<open>Specification\<close>

text \<open>
  The abstract limiter keeps every granted start and grants a request when fewer than
  \<open>limit\<close> of them lie in the window of length \<open>w\<close> that ends at the request.
\<close>

definition in_window :: "duration \<Rightarrow> gotime \<Rightarrow> gotime list \<Rightarrow> nat" where
  "in_window w t ts = length (filter (\<lambda>a. t - w < a) ts)"

fun spec_starts :: "nat \<Rightarrow> duration \<Rightarrow> gotime list \<Rightarrow> gotime list \<Rightarrow> bool list" where
  "spec_starts limit w hist [] = []"
| "spec_starts limit w hist (t # ts) =
     (if in_window w t hist < limit then True # spec_starts limit w (hist @ [t]) ts
      else False # spec_starts limit w hist ts)"

lemma spec_starts_bounded:
  assumes "\<And>x. length (filter (\<lambda>a. x < a \<and> a \<le> x + w) hist) \<le> limit"
    and "sorted ts"
  shows "length (filter (\<lambda>a. x < a \<and> a \<le> x + w) (hist @ accepted ts (spec_starts limit w hist ts)))
           \<le> limit"
  using assms
proof (induction ts arbitrary: hist)
  case Nil
  then show ?case by simp
next
  case (Cons t ts)
  show ?case
  proof (cases "in_window w t hist < limit")
    case False
    then show ?thesis
      using Cons.IH [OF Cons.prems(1)] Cons.prems(2) by simp
  next
    case True
    have "length (filter (\<lambda>a. x < a \<and> a \<le> x + w) (hist @ [t])) \<le> limit" for x
    proof (cases "x < t \<and> t \<le> x + w")
      case inside: True
      then have "length (filter (\<lambda>a. x < a \<and> a \<le> x + w) hist) \<le> in_window w t hist"
        unfolding in_window_def by (intro length_filter_mono) auto
      then show ?thesis
        using True inside by simp
    next
      case False
      then show ?thesis
        using Cons.prems(1) [of x] by auto
    qed
    then show ?thesis
      using Cons.IH [of "hist @ [t]"] Cons.prems(2) True by simp
  qed
qed

text \<open>
  The contract: \<open>recent l t\<close> is the number of granted starts in the window ending at
  \<open>t\<close>, known for every \<open>t\<close> not before the last request.
\<close>

locale start_limiter =
  fixes allow :: "gotime \<Rightarrow> 'l \<Rightarrow> bool \<times> 'l"
    and recent :: "'l \<Rightarrow> gotime \<Rightarrow> nat"
    and limit :: nat
    and window :: duration
    and inv :: "'l \<Rightarrow> bool"
  assumes allow_result: "inv l \<Longrightarrow> fst (allow now l) \<longleftrightarrow> recent l now < limit"
    and allow_granted: "inv l \<Longrightarrow> recent l now < limit \<Longrightarrow> now \<le> t \<Longrightarrow>
          recent (snd (allow now l)) t = recent l t + (if t - window < now then 1 else 0)"
    and allow_denied: "inv l \<Longrightarrow> \<not> recent l now < limit \<Longrightarrow> now \<le> t \<Longrightarrow>
          recent (snd (allow now l)) t = recent l t"
    and allow_inv: "inv l \<Longrightarrow> inv (snd (allow now l))"
begin

theorem run_refines:
  assumes "inv l" "\<forall>t. t0 \<le> t \<longrightarrow> recent l t = in_window window t hist"
    and "sorted ts" "\<forall>t \<in> set ts. t0 \<le> t"
  shows "fst (limiter_run allow l ts) = spec_starts limit window hist ts"
  using assms
proof (induction ts arbitrary: l hist t0)
  case Nil
  show ?case by simp
next
  case (Cons now ts)
  have later: "t0 \<le> now" "sorted ts" "\<forall>t \<in> set ts. now \<le> t"
    using Cons.prems by auto
  have now: "recent l now = in_window window now hist"
    using Cons.prems(2) later(1) by blast
  have res: "fst (allow now l) \<longleftrightarrow> in_window window now hist < limit"
    using allow_result [OF Cons.prems(1)] now by simp
  let ?hist = "if fst (allow now l) then hist @ [now] else hist"
  have "\<forall>t. now \<le> t \<longrightarrow> recent (snd (allow now l)) t = in_window window t ?hist"
  proof (intro allI impI)
    fix t assume t: "now \<le> t"
    then have "recent l t = in_window window t hist"
      using Cons.prems(2) later(1) by simp
    then show "recent (snd (allow now l)) t = in_window window t ?hist"
      using allow_granted [OF Cons.prems(1) _ t] allow_denied [OF Cons.prems(1) _ t] res now
      by (auto simp: in_window_def)
  qed
  then have "fst (limiter_run allow (snd (allow now l)) ts) = spec_starts limit window ?hist ts"
    using Cons.IH [OF allow_inv [OF Cons.prems(1)]] later(2,3) by blast
  then show ?case
    using res by (auto split: prod.splits)
qed

end

section \<open>The model meets the specification\<close>

definition rl_recent :: "RateLimiter option \<Rightarrow> gotime \<Rightarrow> nat" where
  "rl_recent lo t = (case lo of None \<Rightarrow> 0 | Some l \<Rightarrow> in_window (rl_window l) t (rl_starts l))"

definition rl_inv :: "nat \<Rightarrow> duration \<Rightarrow> RateLimiter option \<Rightarrow> bool" where
  "rl_inv limit w lo \<longleftrightarrow>
     (\<exists>l. lo = Some l \<and> 0 < limit \<and> rl_limit l = int limit \<and> rl_window l = w)"

lemma in_window_keep_after:
  "now \<le> t \<Longrightarrow> in_window w t (keep_after (now - w) ts) = in_window w t ts"
  unfolding in_window_def keep_after_def by (simp only: filter_filter_imp)

lemma length_keep_after: "length (keep_after (now - w) ts) = in_window w now ts"
  by (simp add: in_window_def keep_after_def)

lemma in_window_append: "in_window w t (xs @ [x]) = in_window w t xs + (if t - w < x then 1 else 0)"
  by (simp add: in_window_def)

interpretation rate: start_limiter Allow rl_recent limit w "rl_inv limit w" for limit w
  by unfold_locales
    (auto simp: Allow_def rl_recent_def rl_inv_def Let_def length_keep_after in_window_append
      in_window_keep_after split: if_splits)

lemma rate_run_spec:
  assumes "0 < limit" "sorted ts"
  shows "fst (limiter_run Allow (Some (NewRateLimiter limit)) ts) = spec_starts (nat limit) Hour [] ts"
proof (cases ts)
  case (Cons t0 ts')
  have "\<forall>t \<in> set ts. t0 \<le> t"
    using assms by (auto simp: Cons)
  moreover have "rl_inv (nat limit) Hour (Some (NewRateLimiter limit))"
    using assms by (simp add: rl_inv_def NewRateLimiter_def)
  moreover have "\<forall>t. t0 \<le> t \<longrightarrow> rl_recent (Some (NewRateLimiter limit)) t = in_window Hour t []"
    by (simp add: rl_recent_def NewRateLimiter_def)
  ultimately show ?thesis
    using rate.run_refines [of "nat limit" Hour] assms(2) by blast
qed simp

section \<open>Properties\<close>

text \<open>
C8: the rate limiter refines its specification. With a positive limit and non-decreasing
clock readings, a fresh limiter grants a start exactly when fewer than \<open>limit\<close> starts were
granted in the hour before it, although it forgets every start older than the window.
\<close>

theorem rate_limiter_refines_spec:
  assumes "0 < limit" "sorted ts"
  shows "fst (limiter_run Allow (Some (NewRateLimiter limit)) ts) = spec_starts (nat limit) Hour [] ts"
  by (rule rate_run_spec [OF assms])

theorem rate_limiter_refines_spec_witness:
  "fst (limiter_run Allow (Some (NewRateLimiter 1)) [0, 1, Hour]) = [True, False, True]"
  using rate_limiter_refines_spec [of 1 "[0, 1, Hour]"]
  by (simp add: in_window_def duration_defs)

text \<open>
C7: the cost cap. Over any one-hour interval, wherever it starts, a limiter created with a
positive limit grants at most that many diagnosis starts.
\<close>

theorem rate_limiter_caps_every_hour:
  assumes "0 < limit" "sorted ts"
  shows "int (length (filter (\<lambda>a. x < a \<and> a \<le> x + Hour)
           (accepted ts (fst (limiter_run Allow (Some (NewRateLimiter limit)) ts))))) \<le> limit"
  using spec_starts_bounded [of Hour "[]" "nat limit" ts x] assms
  by (simp add: rate_run_spec)

theorem rate_limiter_caps_every_hour_witness:
  "int (length (filter (\<lambda>a. -1 < a \<and> a \<le> -1 + Hour)
     (accepted [0, 1, 2] (fst (limiter_run Allow (Some (NewRateLimiter 2)) [0, 1, 2]))))) \<le> 2"
  using rate_limiter_caps_every_hour [of 2 "[0, 1, 2]" "-1"] by simp

text \<open>
an unset limiter and a non-positive limit never deny a start and keep no state.
\<close>

theorem rate_limiter_unlimited:
  "Allow now None = (True, None)
   \<and> (rl_limit l \<le> 0 \<longrightarrow> Allow now (Some l) = (True, Some l))"
  by (simp add: Allow_def)

theorem rate_limiter_unlimited_witness:
  "Allow 5 None = (True, None) \<and> Allow 5 (Some (NewRateLimiter 0)) = (True, Some (NewRateLimiter 0))"
  using rate_limiter_unlimited [of 5 "NewRateLimiter 0"] by (simp add: NewRateLimiter_def)

end
