(* ===== verification/Go_Utf8.thy ===== *)
theory Go_Utf8
  imports Kscribe_Prelude
begin

text \<open>
  The part of \<^verbatim>\<open>unicode/utf8\<close> the program uses: the width of the encoded rune at the front
  of a byte string, validity, encoding of a code point, and the lemmas about concatenation
  and truncation that the JSON codec and the chat pipeline need.
\<close>

section \<open>Decoding and encoding\<close>

abbreviation byte :: "char \<Rightarrow> nat" where
  "byte c \<equiv> of_char c"

definition is_cont :: "char \<Rightarrow> bool" where
  "is_cont c \<longleftrightarrow> 0x80 \<le> byte c \<and> byte c \<le> 0xBF"

text \<open>The range of the second byte that goes with a leading byte of three or four bytes.\<close>

definition second_ok :: "nat \<Rightarrow> nat \<Rightarrow> bool" where
  "second_ok b0 b1 \<longleftrightarrow>
     (if b0 = 0xE0 then 0xA0 \<le> b1 \<and> b1 \<le> 0xBF
      else if b0 = 0xED then 0x80 \<le> b1 \<and> b1 \<le> 0x9F
      else if b0 = 0xF0 then 0x90 \<le> b1 \<and> b1 \<le> 0xBF
      else if b0 = 0xF4 then 0x80 \<le> b1 \<and> b1 \<le> 0x8F
      else 0x80 \<le> b1 \<and> b1 \<le> 0xBF)"

text \<open>
  \<open>rune_width s\<close> is the number of bytes of the well-formed rune that \<open>s\<close> starts with, and 0
  when \<open>s\<close> is empty or starts with no well-formed rune.
\<close>

fun rune_width :: "string \<Rightarrow> nat" where
  "rune_width [] = 0"
| "rune_width (a # s) =
     (if byte a < 0x80 then 1
      else if 0xC2 \<le> byte a \<and> byte a \<le> 0xDF then
        (case s of b # _ \<Rightarrow> if is_cont b then 2 else 0 | [] \<Rightarrow> 0)
      else if 0xE0 \<le> byte a \<and> byte a \<le> 0xEF then
        (case s of b # c # _ \<Rightarrow> if second_ok (byte a) (byte b) \<and> is_cont c then 3 else 0 | _ \<Rightarrow> 0)
      else if 0xF0 \<le> byte a \<and> byte a \<le> 0xF4 then
        (case s of
           b # c # d # _ \<Rightarrow> if second_ok (byte a) (byte b) \<and> is_cont c \<and> is_cont d then 4 else 0
         | _ \<Rightarrow> 0)
      else 0)"

lemma rune_width_le_length: "rune_width s \<le> length s"
  by (cases s) (auto split: list.splits)

lemma rune_width_le_4: "rune_width s \<le> 4"
  by (cases s) (auto split: list.splits)

lemma rune_width_pos_Nil [simp]: "0 < rune_width s \<Longrightarrow> s \<noteq> []"
  by (cases s) auto

function utf8_valid :: "string \<Rightarrow> bool" where
  "utf8_valid s =
     (if s = [] then True
      else if rune_width s = 0 then False
      else utf8_valid (drop (rune_width s) s))"
  by pat_completeness auto
termination
  by (relation "measure length") auto

declare utf8_valid.simps [simp del]

text \<open>Encoding of a code point (\<^verbatim>\<open>utf8.AppendRune\<close> on valid runes below U+10000 and above).\<close>

definition encode_rune :: "nat \<Rightarrow> string" where
  "encode_rune r =
     (if r < 0x80 then [char_of r]
      else if r < 0x800 then [char_of (0xC0 + r div 64), char_of (0x80 + r mod 64)]
      else if (0xD800 \<le> r \<and> r \<le> 0xDFFF) \<or> r > 0x10FFFF then [CHR 0xEF, CHR 0xBF, CHR 0xBD]
      else if r < 0x10000 then
        [char_of (0xE0 + r div 4096), char_of (0x80 + r div 64 mod 64), char_of (0x80 + r mod 64)]
      else
        [char_of (0xF0 + r div 262144), char_of (0x80 + r div 4096 mod 64),
         char_of (0x80 + r div 64 mod 64), char_of (0x80 + r mod 64)])"

section \<open>Validity of concatenations and prefixes\<close>

lemma utf8_valid_Nil [simp]: "utf8_valid []"
  by (subst utf8_valid.simps) simp

lemma utf8_valid_step:
  "0 < rune_width s \<Longrightarrow> utf8_valid s = utf8_valid (drop (rune_width s) s)"
  by (subst utf8_valid.simps) (use rune_width_pos_Nil in auto)

lemma utf8_valid_width: "utf8_valid s \<Longrightarrow> s \<noteq> [] \<Longrightarrow> 0 < rune_width s"
  by (subst (asm) utf8_valid.simps) (auto split: if_splits)

lemma rune_width_append: "0 < rune_width s \<Longrightarrow> rune_width (s @ t) = rune_width s"
  by (cases s) (auto split: list.splits if_splits)

lemma rune_width_take:
  "0 < rune_width s \<Longrightarrow> rune_width s \<le> n \<Longrightarrow> rune_width (take n s) = rune_width s"
proof (cases s)
  case (Cons a s')
  assume w: "0 < rune_width s" "rune_width s \<le> n"
  let ?u = "take (rune_width s) s"
  have "rune_width ?u = rune_width s"
    using w unfolding Cons by (auto split: list.splits if_splits simp: numeral_eq_Suc)
  moreover have "take n s = ?u @ take (n - rune_width s) (drop (rune_width s) s)"
    using w by (metis le_add_diff_inverse take_add)
  ultimately show ?thesis
    using w rune_width_append by metis
qed simp

lemma utf8_induct [consumes 1, case_names Nil Rune]:
  assumes "utf8_valid s"
    and "P []"
    and "\<And>s. 0 < rune_width s \<Longrightarrow> utf8_valid (drop (rune_width s) s) \<Longrightarrow>
          P (drop (rune_width s) s) \<Longrightarrow> P s"
  shows "P s"
  using assms(1)
proof (induction s rule: length_induct)
  case (1 s)
  show ?case
  proof (cases "s = []")
    case False
    with 1 have w: "0 < rune_width s" by (simp add: utf8_valid_width)
    then have "length (drop (rune_width s) s) < length s"
      using False by simp
    with 1 w show ?thesis
      using assms(3) utf8_valid_step by blast
  qed (simp add: assms(2))
qed

lemma utf8_valid_append: "utf8_valid s \<Longrightarrow> utf8_valid t \<Longrightarrow> utf8_valid (s @ t)"
proof (induction s rule: utf8_induct)
  case (Rune s)
  have "rune_width s \<le> length s" by (rule rune_width_le_length)
  with Rune show ?case
    by (simp add: utf8_valid_step [of "s @ t"] rune_width_append)
qed simp

lemma utf8_valid_ascii: "\<forall>c \<in> set s. byte c < 0x80 \<Longrightarrow> utf8_valid s"
proof (induction s)
  case (Cons a s)
  then show ?case by (simp add: utf8_valid_step)
qed simp

text \<open>Every cut of a well-formed string is at most three bytes past a well-formed prefix.\<close>

lemma utf8_valid_prefix_near:
  "utf8_valid s \<Longrightarrow> n \<le> length s \<Longrightarrow> \<exists>m \<le> n. n \<le> m + 3 \<and> utf8_valid (take m s)"
proof (induction s arbitrary: n rule: utf8_induct)
  case Nil
  then show ?case by simp
next
  case (Rune s)
  let ?w = "rune_width s"
  show ?case
  proof (cases "n < ?w")
    case True
    with rune_width_le_4 [of s] have "n \<le> 3" by linarith
    then show ?thesis by (intro exI [of _ 0]) simp
  next
    case False
    with Rune obtain m where m: "m \<le> n - ?w" "n - ?w \<le> m + 3"
      "utf8_valid (take m (drop ?w s))"
      by (metis diff_le_mono length_drop)
    have "rune_width (take (?w + m) s) = ?w"
      using Rune.hyps(1) by (intro rune_width_take) simp_all
    moreover have "drop ?w (take (?w + m) s) = take m (drop ?w s)"
      by (simp add: drop_take)
    ultimately have "utf8_valid (take (?w + m) s)"
      using utf8_valid_step [of "take (?w + m) s"] Rune.hyps(1) m(3) by simp
    with m False show ?thesis
      by (intro exI [of _ "?w + m"]) auto
  qed
qed

end
