(* ===== verification/Go_Json.thy ===== *)
theory Go_Json
  imports Go_Utf8
begin

text \<open>
  The part of \<^verbatim>\<open>encoding/json\<close> the program relies on: compact encoding with HTML-safe
  string escapes, and decoding of a document into a value. Numbers keep their literal.
  The round-trip lemma \<^verbatim>\<open>json_parse_print\<close> is what the components that store and reload JSON
  use. Struct fields are encoded and decoded in the theories that own the structs, with the
  field helpers at the end.
\<close>

section \<open>Values\<close>

datatype json =
    JNull
  | JBool bool
  | JNum string
  | JStr string
  | JArr "json list"
  | JObj "(string \<times> json) list"

section \<open>Encoding\<close>

definition backslash :: char where
  "backslash = CHR 0x5C"

definition hex_digit :: "nat \<Rightarrow> char" where
  "hex_digit n = (if n < 10 then char_of (48 + n) else char_of (87 + n))"

definition u_digits :: "nat \<Rightarrow> string" where
  "u_digits n = [hex_digit (n div 4096 mod 16), hex_digit (n div 256 mod 16),
     hex_digit (n div 16 mod 16), hex_digit (n mod 16)]"

definition u_escape :: "nat \<Rightarrow> string" where
  "u_escape n = backslash # CHR ''u'' # u_digits n"

text \<open>One ASCII byte: quote and backslash, the short control escapes, HTML characters.\<close>

definition esc_ascii :: "char \<Rightarrow> string" where
  "esc_ascii c =
     (if c = CHR 0x22 \<or> c = backslash then [backslash, c]
      else if c = CHR 0x08 then [backslash, CHR ''b'']
      else if c = CHR 0x0C then [backslash, CHR ''f'']
      else if c = CHR 0x0A then [backslash, CHR ''n'']
      else if c = CHR 0x0D then [backslash, CHR ''r'']
      else if c = CHR 0x09 then [backslash, CHR ''t'']
      else if byte c < 0x20 \<or> c = CHR ''<'' \<or> c = CHR ''>'' \<or> c = CHR ''&'' then u_escape (byte c)
      else [c])"

function esc_str :: "string \<Rightarrow> string" where
  "esc_str s =
     (case s of
        [] \<Rightarrow> []
      | a # t \<Rightarrow>
          if byte a < 0x80 then esc_ascii a @ esc_str t
          else if rune_width s = 0 then u_escape 0xFFFD @ esc_str t
          else if take 3 s = encode_rune 0x2028 then u_escape 0x2028 @ esc_str (drop 3 s)
          else if take 3 s = encode_rune 0x2029 then u_escape 0x2029 @ esc_str (drop 3 s)
          else take (rune_width s) s @ esc_str (drop (rune_width s) s))"
  by pat_completeness auto
termination
  by (relation "measure length") auto

declare esc_str.simps [simp del]

definition json_quote :: "string \<Rightarrow> string" where
  "json_quote s = CHR 0x22 # esc_str s @ [CHR 0x22]"

fun json_print :: "json \<Rightarrow> string"
  and print_elems :: "json list \<Rightarrow> string"
  and print_members :: "(string \<times> json) list \<Rightarrow> string" where
  "json_print JNull = ''null''"
| "json_print (JBool b) = (if b then ''true'' else ''false'')"
| "json_print (JNum l) = l"
| "json_print (JStr s) = json_quote s"
| "json_print (JArr vs) = ''['' @ print_elems vs @ '']''"
| "json_print (JObj ms) = ''{'' @ print_members ms @ ''}''"
| "print_elems [] = []"
| "print_elems [v] = json_print v"
| "print_elems (v # w # vs) = json_print v @ '','' @ print_elems (w # vs)"
| "print_members [] = []"
| "print_members [(k, v)] = json_quote k @ '':'' @ json_print v"
| "print_members ((k, v) # m # ms) = json_quote k @ '':'' @ json_print v @ '','' @ print_members (m # ms)"

section \<open>Decoding\<close>

fun skip_ws :: "string \<Rightarrow> string" where
  "skip_ws (c # s) =
     (if c = CHR 0x20 \<or> c = CHR 0x09 \<or> c = CHR 0x0A \<or> c = CHR 0x0D then skip_ws s else c # s)"
| "skip_ws [] = []"

lemma skip_ws_length: "length (skip_ws s) \<le> length s"
  by (induction s) auto

definition is_digit :: "char \<Rightarrow> bool" where
  "is_digit c \<longleftrightarrow> 48 \<le> byte c \<and> byte c \<le> 57"

definition hex_value :: "char \<Rightarrow> nat option" where
  "hex_value c =
     (if 48 \<le> byte c \<and> byte c \<le> 57 then Some (byte c - 48)
      else if 97 \<le> byte c \<and> byte c \<le> 102 then Some (byte c - 87)
      else if 65 \<le> byte c \<and> byte c \<le> 70 then Some (byte c - 55)
      else None)"

text \<open>Four hexadecimal digits.\<close>

fun hex4 :: "string \<Rightarrow> (nat \<times> string) option" where
  "hex4 (a # b # c # d # s) =
     (case (hex_value a, hex_value b, hex_value c, hex_value d) of
        (Some w, Some x, Some y, Some z) \<Rightarrow> Some (4096 * w + 256 * x + 16 * y + z, s)
      | _ \<Rightarrow> None)"
| "hex4 _ = None"

lemma hex4_length: "hex4 s = Some (n, t) \<Longrightarrow> length t < length s"
  by (induction s rule: hex4.induct) (auto split: option.splits)

definition is_surrogate :: "nat \<Rightarrow> bool" where
  "is_surrogate r \<longleftrightarrow> 0xD800 \<le> r \<and> r < 0xE000"

text \<open>
  A \<^verbatim>\<open>\u\<close> escape with its four digits already read: a surrogate takes the next escape with
  it when both form a pair, and is the replacement character otherwise.
\<close>

definition u_rune :: "nat \<Rightarrow> string \<Rightarrow> string \<times> string" where
  "u_rune r s =
     (if \<not> is_surrogate r then (encode_rune r, s)
      else
        (case s of
           b # u # t \<Rightarrow>
             (case (if b = backslash \<and> u = CHR ''u'' then hex4 t else None) of
                Some (r2, t') \<Rightarrow>
                  if r < 0xDC00 \<and> 0xDC00 \<le> r2 \<and> r2 < 0xE000
                  then (encode_rune ((r - 0xD800) * 1024 + (r2 - 0xDC00) + 0x10000), t')
                  else (encode_rune 0xFFFD, s)
              | None \<Rightarrow> (encode_rune 0xFFFD, s))
         | _ \<Rightarrow> (encode_rune 0xFFFD, s)))"

lemma u_rune_length: "u_rune r s = (x, t) \<Longrightarrow> length t \<le> length s"
  by (auto simp: u_rune_def split: if_splits list.splits option.splits dest!: hex4_length)

text \<open>One escape sequence after the backslash: the decoded bytes and the rest.\<close>

definition lex_escape :: "string \<Rightarrow> (string \<times> string) option" where
  "lex_escape s =
     (case s of
        [] \<Rightarrow> None
      | e # r \<Rightarrow>
          if e = CHR 0x22 \<or> e = backslash \<or> e = CHR ''/'' then Some ([e], r)
          else if e = CHR ''b'' then Some ([CHR 0x08], r)
          else if e = CHR ''f'' then Some ([CHR 0x0C], r)
          else if e = CHR ''n'' then Some ([CHR 0x0A], r)
          else if e = CHR ''r'' then Some ([CHR 0x0D], r)
          else if e = CHR ''t'' then Some ([CHR 0x09], r)
          else if e = CHR ''u'' then
            (case hex4 r of None \<Rightarrow> None | Some (n, t) \<Rightarrow> Some (u_rune n t))
          else None)"

lemma lex_escape_length: "lex_escape s = Some (x, t) \<Longrightarrow> length t < length s"
  by (auto simp: lex_escape_def split: list.splits if_splits option.splits
      dest!: hex4_length dest: u_rune_length)

definition cons_bytes :: "string \<Rightarrow> (string \<times> 'a) option \<Rightarrow> (string \<times> 'a) option" where
  "cons_bytes x r = map_option (\<lambda>(y, t). (x @ y, t)) r"

function lex_str :: "string \<Rightarrow> (string \<times> string) option" where
  "lex_str s =
     (case s of
        [] \<Rightarrow> None
      | c # r \<Rightarrow>
          if c = CHR 0x22 then Some ([], r)
          else if c = backslash then
            (case lex_escape r of None \<Rightarrow> None | Some (x, t) \<Rightarrow> cons_bytes x (lex_str t))
          else if byte c < 0x20 then None
          else if rune_width s = 0 then cons_bytes (encode_rune 0xFFFD) (lex_str r)
          else cons_bytes (take (rune_width s) s) (lex_str (drop (rune_width s) s)))"
  by pat_completeness auto
termination
  by (relation "measure length") (auto dest: lex_escape_length)

declare lex_str.simps [simp del]

lemma lex_str_length: "lex_str s = Some (x, t) \<Longrightarrow> length t < length s"
proof (induction s arbitrary: x rule: lex_str.induct)
  case (1 s)
  show ?case
  proof (cases s)
    case (Cons c r)
    note step = lex_str.simps [of s, unfolded Cons, simplified, folded Cons]
    show ?thesis
    proof (cases "c = backslash")
      case True
      then have nq: "c \<noteq> CHR 0x22" by (simp add: backslash_def)
      obtain y u where "lex_escape r = Some (y, u)" "cons_bytes y (lex_str u) = Some (x, t)"
        using "1.prems" step True nq by (auto split: option.splits)
      then show ?thesis
        using "1.IH"(1) [OF Cons nq True] lex_escape_length [of r y u] Cons
        by (fastforce simp: cons_bytes_def)
    next
      case False
      then show ?thesis
        using "1.prems" step "1.IH"(2,3) [OF Cons _ False] Cons
        by (fastforce simp: cons_bytes_def split: if_splits)
    qed
  qed (use "1.prems" in \<open>simp add: lex_str.simps\<close>)
qed

definition lex_exp :: "string \<Rightarrow> string \<Rightarrow> (string \<times> string) option" where
  "lex_exp acc s =
     (case s of
        [] \<Rightarrow> Some (acc, [])
      | c # r \<Rightarrow>
          if c = CHR ''e'' \<or> c = CHR ''E'' then
            (let sg = (case r of d # _ \<Rightarrow> if d = CHR ''+'' \<or> d = CHR ''-'' then [d] else [] | [] \<Rightarrow> []);
                 r1 = drop (length sg) r;
                 ds = takeWhile is_digit r1
             in if ds = [] then None else Some (acc @ [c] @ sg @ ds, dropWhile is_digit r1))
          else Some (acc, s))"

definition lex_frac :: "string \<Rightarrow> string \<Rightarrow> (string \<times> string) option" where
  "lex_frac acc s =
     (case s of
        c # r \<Rightarrow>
          if c = CHR ''.'' then
            (let ds = takeWhile is_digit r
             in if ds = [] then None else lex_exp (acc @ [c] @ ds) (dropWhile is_digit r))
          else lex_exp acc s
      | [] \<Rightarrow> lex_exp acc [])"

definition lex_int :: "string \<Rightarrow> string \<Rightarrow> (string \<times> string) option" where
  "lex_int sg s =
     (case s of
        [] \<Rightarrow> None
      | c # r \<Rightarrow>
          if c = CHR ''0'' then lex_frac (sg @ [c]) r
          else if is_digit c then
            lex_frac (sg @ [c] @ takeWhile is_digit r) (dropWhile is_digit r)
          else None)"

definition lex_num :: "string \<Rightarrow> (string \<times> string) option" where
  "lex_num s = (if take 1 s = ''-'' then lex_int ''-'' (drop 1 s) else lex_int [] s)"

lemma le_length_dropWhileD: "n \<le> length (dropWhile P xs) \<Longrightarrow> n \<le> length xs"
  using length_dropWhile_le [of P xs] by linarith

lemma lex_exp_length: "lex_exp acc s = Some (x, t) \<Longrightarrow> length t \<le> length s"
  using length_dropWhile_le [of is_digit "tl s"] length_dropWhile_le [of is_digit "tl (tl s)"]
  by (cases s; cases "tl s") (auto simp: lex_exp_def Let_def split: if_splits)

lemma lex_frac_length: "lex_frac acc s = Some (x, t) \<Longrightarrow> length t \<le> length s"
  by (cases s) (auto simp: lex_frac_def Let_def split: if_splits
      dest!: lex_exp_length le_length_dropWhileD)

lemma lex_int_length: "lex_int sg s = Some (x, t) \<Longrightarrow> length t < length s"
  by (cases s) (auto simp: lex_int_def split: if_splits
      dest!: lex_frac_length le_length_dropWhileD)

lemma lex_num_length: "lex_num s = Some (x, t) \<Longrightarrow> length t < length s"
  by (cases s) (auto simp: lex_num_def split: if_splits dest!: lex_int_length)

definition strip_lit :: "string \<Rightarrow> string \<Rightarrow> string option" where
  "strip_lit l s = (if prefix l s then Some (drop (length l) s) else None)"


text \<open>
  Values, array elements and object members. The first argument is the nesting budget, Go's
  \<^verbatim>\<open>maxNestingDepth\<close>. A successful call always consumes input, so the tests on lengths, which
  make the termination argument local, never fail (\<^verbatim>\<open>parse_shorter\<close>).
\<close>

function parse_value :: "nat \<Rightarrow> string \<Rightarrow> (json \<times> string) option"
  and parse_elems :: "nat \<Rightarrow> string \<Rightarrow> (json list \<times> string) option"
  and parse_members :: "nat \<Rightarrow> string \<Rightarrow> ((string \<times> json) list \<times> string) option" where
  "parse_value d s =
     (case skip_ws s of
        [] \<Rightarrow> None
      | c # r \<Rightarrow>
          if c = CHR ''{'' then
            (if d = 0 then None
             else if take 1 (skip_ws r) = ''}'' then Some (JObj [], drop 1 (skip_ws r))
             else if length r < length s
             then map_option (\<lambda>(ms, t). (JObj ms, t)) (parse_members (d - 1) r)
             else None)
          else if c = CHR ''['' then
            (if d = 0 then None
             else if take 1 (skip_ws r) = '']'' then Some (JArr [], drop 1 (skip_ws r))
             else if length r < length s
             then map_option (\<lambda>(vs, t). (JArr vs, t)) (parse_elems (d - 1) r)
             else None)
          else if c = CHR 0x22 then map_option (\<lambda>(x, t). (JStr x, t)) (lex_str r)
          else if c = CHR ''t'' then map_option (\<lambda>t. (JBool True, t)) (strip_lit ''true'' (c # r))
          else if c = CHR ''f'' then map_option (\<lambda>t. (JBool False, t)) (strip_lit ''false'' (c # r))
          else if c = CHR ''n'' then map_option (\<lambda>t. (JNull, t)) (strip_lit ''null'' (c # r))
          else map_option (\<lambda>(x, t). (JNum x, t)) (lex_num (c # r)))"
| "parse_elems d s =
     (case parse_value d s of
        None \<Rightarrow> None
      | Some (v, t) \<Rightarrow>
          (case skip_ws t of
             [] \<Rightarrow> None
           | c # r \<Rightarrow>
               if c = CHR '']'' then Some ([v], r)
               else if c = CHR '','' \<and> length r < length s
               then map_option (\<lambda>(vs, u). (v # vs, u)) (parse_elems d r)
               else None))"
| "parse_members d s =
     (case skip_ws s of
        [] \<Rightarrow> None
      | q # r \<Rightarrow>
          if q \<noteq> CHR 0x22 then None
          else
            (case lex_str r of
               None \<Rightarrow> None
             | Some (k, r1) \<Rightarrow>
                 (case skip_ws r1 of
                    [] \<Rightarrow> None
                  | e # r2 \<Rightarrow>
                      if e \<noteq> CHR '':'' \<or> \<not> length r2 < length s then None
                      else
                        (case parse_value d r2 of
                           None \<Rightarrow> None
                         | Some (v, t) \<Rightarrow>
                             (case skip_ws t of
                                [] \<Rightarrow> None
                              | c # u \<Rightarrow>
                                  if c = CHR ''}'' then Some ([(k, v)], u)
                                  else if c = CHR '','' \<and> length u < length s
                                  then map_option (\<lambda>(ms, w). ((k, v) # ms, w)) (parse_members d u)
                                  else None)))))"
  by pat_completeness auto
termination
  by (relation "measure (\<lambda>x. case x of
        Inl (d, s) \<Rightarrow> 2 * length s
      | Inr (Inl (d, s)) \<Rightarrow> 2 * length s + 1
      | Inr (Inr (d, s)) \<Rightarrow> 2 * length s + 1)") auto

declare parse_value.simps [simp del] parse_elems.simps [simp del] parse_members.simps [simp del]

definition maxNestingDepth :: nat where
  "maxNestingDepth = 10000"

definition json_parse :: "string \<Rightarrow> json option" where
  "json_parse s =
     (case parse_value maxNestingDepth s of
        None \<Rightarrow> None
      | Some (v, t) \<Rightarrow> if skip_ws t = [] then Some v else None)"

section \<open>Round trip\<close>

lemma hex_value_hex_digit [simp]: "n < 16 \<Longrightarrow> hex_value (hex_digit n) = Some n"
  by (auto simp: hex_value_def hex_digit_def of_char_of)

lemma hex_digits_value:
  fixes n :: nat
  assumes "n < 0x10000"
  shows "4096 * (n div 4096 mod 16) + 256 * (n div 256 mod 16) + 16 * (n div 16 mod 16) + n mod 16 = n"
proof -
  define a b c :: nat where "a = n div 16" and "b = n div 256" and "c = n div 4096"
  have "a div 16 = b" "b div 16 = c"
    by (simp_all add: a_def b_def c_def div_mult2_eq [symmetric])
  then have "n = 16 * a + n mod 16" "a = 16 * b + a mod 16" "b = 16 * c + b mod 16"
    using div_mult_mod_eq [of n 16] div_mult_mod_eq [of a 16] div_mult_mod_eq [of b 16]
    by (simp_all add: a_def)
  moreover have "c mod 16 = c"
    using assms by (simp add: c_def less_mult_imp_div_less)
  ultimately show ?thesis
    unfolding a_def [symmetric] b_def [symmetric] c_def [symmetric] by linarith
qed

lemma hex4_u_digits: "n < 0x10000 \<Longrightarrow> hex4 (u_digits n @ s) = Some (n, s)"
  using hex_digits_value [of n] by (simp add: u_digits_def)

lemma lex_escape_u:
  "n < 0x10000 \<Longrightarrow> \<not> is_surrogate n \<Longrightarrow>
     lex_escape (CHR ''u'' # u_digits n @ s) = Some (encode_rune n, s)"
  using hex4_u_digits [of n s]
  by (simp add: lex_escape_def u_rune_def backslash_def)

lemmas lex_str_Cons = lex_str.simps [of "c # r" for c r, simplified list.case]

lemma lex_str_escape:
  "lex_escape r = Some (x, t) \<Longrightarrow> lex_str (backslash # r) = cons_bytes x (lex_str t)"
  by (simp add: lex_str_Cons backslash_def)

lemma lex_str_u:
  "n < 0x10000 \<Longrightarrow> \<not> is_surrogate n \<Longrightarrow>
     lex_str (u_escape n @ s) = cons_bytes (encode_rune n) (lex_str s)"
  by (simp add: u_escape_def lex_str_escape [OF lex_escape_u])

lemma lex_str_plain:
  "byte c < 0x80 \<Longrightarrow> c \<noteq> CHR 0x22 \<Longrightarrow> c \<noteq> backslash \<Longrightarrow> \<not> byte c < 0x20 \<Longrightarrow>
     lex_str (c # s) = cons_bytes [c] (lex_str s)"
  by (simp add: lex_str_Cons)

lemma lex_str_short:
  "lex_str (backslash # CHR 0x22 # s) = cons_bytes [CHR 0x22] (lex_str s)"
  "lex_str (backslash # backslash # s) = cons_bytes [backslash] (lex_str s)"
  "lex_str (backslash # CHR ''b'' # s) = cons_bytes [CHR 0x08] (lex_str s)"
  "lex_str (backslash # CHR ''f'' # s) = cons_bytes [CHR 0x0C] (lex_str s)"
  "lex_str (backslash # CHR ''n'' # s) = cons_bytes [CHR 0x0A] (lex_str s)"
  "lex_str (backslash # CHR ''r'' # s) = cons_bytes [CHR 0x0D] (lex_str s)"
  "lex_str (backslash # CHR ''t'' # s) = cons_bytes [CHR 0x09] (lex_str s)"
  by (rule lex_str_escape, simp add: lex_escape_def backslash_def)+

lemma lex_str_ascii:
  assumes "byte c < 0x80"
  shows "lex_str (esc_ascii c @ s) = cons_bytes [c] (lex_str s)"
proof -
  have u: "lex_str (u_escape (byte c) @ s) = cons_bytes [c] (lex_str s)"
    using assms lex_str_u [of "byte c" s]
    by (simp add: is_surrogate_def encode_rune_def)
  show ?thesis
  proof (cases "c = CHR 0x22 \<or> c = backslash")
    case True
    then show ?thesis
      by (elim disjE) (simp_all add: esc_ascii_def lex_str_short)
  next
    case False
    then show ?thesis
      using u lex_str_plain [OF assms, of s] by (simp add: esc_ascii_def lex_str_short)
  qed
qed

lemma encode_separators:
  "encode_rune 0x2028 = [CHR 0xE2, CHR 0x80, CHR 0xA8]"
  "encode_rune 0x2029 = [CHR 0xE2, CHR 0x80, CHR 0xA9]"
  by (simp_all add: encode_rune_def char_of_def bit_0)

lemma separator_width:
  assumes "take 3 s = encode_rune n" "n = 0x2028 \<or> n = 0x2029"
  shows "rune_width s = 3"
proof -
  have "s = encode_rune n @ drop 3 s"
    using assms(1) by (metis append_take_drop_id)
  moreover have "rune_width (encode_rune n @ r) = 3" for r
    using assms(2) by (auto simp: encode_separators is_cont_def second_ok_def)
  ultimately show ?thesis by metis
qed

lemma cons_bytes_cons_bytes [simp]: "cons_bytes x (cons_bytes y r) = cons_bytes (x @ y) r"
  by (cases r) (auto simp: cons_bytes_def)

lemma esc_str_high:
  assumes "s = a # t" "\<not> byte a < 0x80" "0 < rune_width s"
  shows "esc_str s =
     (if take 3 s = encode_rune 0x2028 then u_escape 0x2028 @ esc_str (drop 3 s)
      else if take 3 s = encode_rune 0x2029 then u_escape 0x2029 @ esc_str (drop 3 s)
      else take (rune_width s) s @ esc_str (drop (rune_width s) s))"
  using assms(2,3) unfolding assms(1) by (subst esc_str.simps) (simp only: list.case if_False simp_thms not_gr_zero [symmetric] if_cancel split: if_split)

lemma esc_str_lex:
  "utf8_valid s \<Longrightarrow> lex_str (esc_str s @ CHR 0x22 # rest) = Some (s, rest)"
proof (induction s rule: utf8_induct)
  case Nil
  show ?case by (subst esc_str.simps, subst lex_str.simps) simp
next
  case (Rune s)
  then obtain a t where s: "s = a # t"
    by (cases s) auto
  let ?w = "rune_width s"
  let ?rest = "esc_str (drop ?w s) @ CHR 0x22 # rest"
  have IH: "lex_str ?rest = Some (drop ?w s, rest)" by (rule Rune.IH)
  have split: "cons_bytes (take ?w s) (lex_str ?rest) = Some (s, rest)"
    by (simp add: IH cons_bytes_def)
  show ?case
  proof (cases "byte a < 0x80")
    case True
    then have w: "?w = 1" by (simp add: s)
    then have "esc_str s = esc_ascii a @ esc_str (drop ?w s)"
      using True by (subst esc_str.simps) (simp add: s)
    then show ?thesis
      using lex_str_ascii [OF True, of ?rest] split w by (simp add: s)
  next
    case False
    consider (sep) n where "n = 0x2028 \<or> n = 0x2029" "take 3 s = encode_rune n"
        "esc_str s = u_escape n @ esc_str (drop 3 s)"
      | (copy) "esc_str s = take ?w s @ esc_str (drop ?w s)"
      using esc_str_high [OF s False Rune.hyps(1)] by metis
    then show ?thesis
    proof cases
      case sep
      then have w: "?w = 3"
        using separator_width by blast
      have "lex_str (u_escape n @ ?rest) = cons_bytes (encode_rune n) (lex_str ?rest)"
        using sep(1) by (intro lex_str_u) (auto simp: is_surrogate_def)
      then show ?thesis
        using split sep w by simp
    next
      case copy
      let ?u = "take ?w s @ ?rest"
      have uw: "rune_width ?u = ?w"
        using Rune.hyps(1) rune_width_take [of s ?w] rune_width_append [of "take ?w s"] by simp
      have wl: "?w \<le> length s" by (rule rune_width_le_length)
      obtain t' where u: "?u = a # t'"
        using Rune.hyps(1) by (cases "rune_width s") (auto simp: s)
      have "a \<noteq> CHR 0x22" "a \<noteq> backslash" "\<not> byte a < 0x20"
        using False by (auto simp: backslash_def)
      then have "lex_str ?u = cons_bytes (take ?w ?u) (lex_str (drop ?w ?u))"
        using uw Rune.hyps(1) by (subst lex_str.simps) (simp add: u)
      then show ?thesis
        using split copy wl by simp
    qed
  qed
qed


text \<open>
  Well-formed values: strings are valid UTF-8, numbers are JSON number literals, and the
  nesting is within the budget. After a value comes the end or a delimiter.
\<close>

definition num_ok :: "string \<Rightarrow> bool" where
  "num_ok l \<longleftrightarrow> lex_num l = Some (l, [])"

fun json_ok :: "nat \<Rightarrow> json \<Rightarrow> bool" where
  "json_ok d (JNum l) = num_ok l"
| "json_ok d (JStr s) = utf8_valid s"
| "json_ok d (JArr vs) = (0 < d \<and> (\<forall>v \<in> set vs. json_ok (d - 1) v))"
| "json_ok d (JObj ms) = (0 < d \<and> (\<forall>m \<in> set ms. utf8_valid (fst m) \<and> json_ok (d - 1) (snd m)))"
| "json_ok d _ = True"

definition sep_ok :: "string \<Rightarrow> bool" where
  "sep_ok r \<longleftrightarrow> r = [] \<or> hd r = CHR '','' \<or> hd r = CHR '']'' \<or> hd r = CHR ''}''"

lemma takeWhile_digits_append:
  "sep_ok r \<Longrightarrow> takeWhile is_digit (s @ r) = takeWhile is_digit s"
  "sep_ok r \<Longrightarrow> dropWhile is_digit (s @ r) = dropWhile is_digit s @ r"
  by (induction s) (cases r; auto simp: sep_ok_def is_digit_def)+

lemma lex_exp_append:
  assumes "lex_exp acc s = Some (x, [])" "sep_ok r"
  shows "lex_exp acc (s @ r) = Some (x, r)"
proof (cases s)
  case Nil
  with assms show ?thesis
    by (cases r) (auto simp: lex_exp_def sep_ok_def)
next
  case (Cons c t)
  then show ?thesis
    using assms takeWhile_digits_append [OF assms(2)]
    by (cases t) (auto simp: lex_exp_def Let_def split: if_splits)
qed

lemma lex_frac_append:
  assumes "lex_frac acc s = Some (x, [])" "sep_ok r"
  shows "lex_frac acc (s @ r) = Some (x, r)"
proof (cases s)
  case Nil
  with assms lex_exp_append [of acc "[]" x r] show ?thesis
    by (cases r) (auto simp: lex_frac_def sep_ok_def)
next
  case (Cons c t)
  then show ?thesis
    using assms lex_exp_append [of acc s x r]
      lex_exp_append [of "acc @ [c] @ takeWhile is_digit t" "dropWhile is_digit t" x r]
    by (auto simp: lex_frac_def Let_def takeWhile_digits_append split: if_splits)
qed

lemma lex_int_append:
  assumes "lex_int sg s = Some (x, [])" "sep_ok r"
  shows "lex_int sg (s @ r) = Some (x, r)"
proof (cases s)
  case Nil
  with assms show ?thesis by (simp add: lex_int_def)
next
  case (Cons c t)
  then show ?thesis
    using assms lex_frac_append [of "sg @ [c]" t x r]
      lex_frac_append [of "sg @ [c] @ takeWhile is_digit t" "dropWhile is_digit t" x r]
    by (auto simp: lex_int_def takeWhile_digits_append split: if_splits)
qed

lemma lex_num_append: "num_ok l \<Longrightarrow> sep_ok r \<Longrightarrow> lex_num (l @ r) = Some (l, r)"
  using lex_int_append [of "''-''" "drop 1 l" l r] lex_int_append [of "[]" l l r]
  by (cases l) (auto simp: num_ok_def lex_num_def lex_int_def split: if_splits)

text \<open>The first byte of an encoded value tells the decoder what follows.\<close>

definition starts_value :: "char \<Rightarrow> bool" where
  "starts_value c \<longleftrightarrow> c = CHR ''{'' \<or> c = CHR ''['' \<or> c = CHR 0x22 \<or> c = CHR ''t'' \<or> c = CHR ''f''
     \<or> c = CHR ''n'' \<or> c = CHR ''-'' \<or> is_digit c"

lemma num_ok_start: "num_ok l \<Longrightarrow> \<exists>c r. l = c # r \<and> (c = CHR ''-'' \<or> is_digit c)"
  by (cases l) (auto simp: num_ok_def lex_num_def lex_int_def is_digit_def split: if_splits)

lemma json_print_start: "json_ok d j \<Longrightarrow> \<exists>c r. json_print j = c # r \<and> starts_value c"
  by (cases j) (auto simp: starts_value_def json_quote_def dest: num_ok_start)

lemma starts_value_neq:
  "starts_value c \<Longrightarrow> c \<noteq> CHR 0x20 \<and> c \<noteq> CHR 0x09 \<and> c \<noteq> CHR 0x0A \<and> c \<noteq> CHR 0x0D
     \<and> c \<noteq> CHR '']'' \<and> c \<noteq> CHR ''}''"
  by (auto simp: starts_value_def is_digit_def)

lemma skip_ws_print:
  "json_ok d j \<Longrightarrow> skip_ws (json_print j @ r) = json_print j @ r"
  by (auto dest!: json_print_start starts_value_neq)

lemma skip_ws_sep: "skip_ws (c # r) = c # r"
  if "c = CHR '','' \<or> c = CHR '']'' \<or> c = CHR ''}'' \<or> c = CHR '':'' \<or> c = CHR 0x22"
  using that by auto


lemma parse_str: "utf8_valid x \<Longrightarrow> parse_value d (json_quote x @ r) = Some (JStr x, r)"
  by (subst parse_value.simps) (simp add: json_quote_def esc_str_lex)

lemma parse_num:
  assumes "num_ok l" "sep_ok r"
  shows "parse_value d (l @ r) = Some (JNum l, r)"
proof -
  obtain c t where l: "l = c # t" and c: "c = CHR ''-'' \<or> is_digit c"
    using num_ok_start [OF assms(1)] by blast
  then have "skip_ws (l @ r) = c # t @ r" and "lex_num (c # t @ r) = Some (l, r)"
    using skip_ws_print [of 0 "JNum l" r] assms lex_num_append [OF assms] by (simp_all add: l)
  moreover have "c \<noteq> CHR ''{'' \<and> c \<noteq> CHR ''['' \<and> c \<noteq> CHR 0x22 \<and> c \<noteq> CHR ''t'' \<and> c \<noteq> CHR ''f'' \<and> c \<noteq> CHR ''n''"
    using c by (auto simp: is_digit_def)
  ultimately show ?thesis
    by (subst parse_value.simps) simp
qed

lemma parse_elems_print:
  assumes "\<And>v r. v \<in> set vs \<Longrightarrow> sep_ok r \<Longrightarrow> parse_value d (json_print v @ r) = Some (v, r)"
    and "vs \<noteq> []"
  shows "parse_elems d (print_elems vs @ CHR '']'' # r) = Some (vs, r)"
  using assms
proof (induction vs rule: induct_list012)
  case (2 v)
  then show ?case
    by (subst parse_elems.simps) (simp add: sep_ok_def)
next
  case (3 v w vs)
  have "parse_value d (json_print v @ CHR '','' # print_elems (w # vs) @ CHR '']'' # r)
      = Some (v, CHR '','' # print_elems (w # vs) @ CHR '']'' # r)"
    using 3 by (simp add: sep_ok_def)
  moreover have "parse_elems d (print_elems (w # vs) @ CHR '']'' # r) = Some (w # vs, r)"
    using 3 by simp
  ultimately show ?case
    by (subst parse_elems.simps) simp
qed simp

lemma parse_members_step:
  assumes "utf8_valid k" "parse_value d t = Some (v, u)"
  shows "parse_members d (json_quote k @ CHR '':'' # t) =
     (case skip_ws u of
        [] \<Rightarrow> None
      | c # w \<Rightarrow>
          if c = CHR ''}'' then Some ([(k, v)], w)
          else if c = CHR '','' \<and> length w < length (json_quote k @ CHR '':'' # t)
          then map_option (\<lambda>(ms, x). ((k, v) # ms, x)) (parse_members d w)
          else None)"
  using assms
  by (subst parse_members.simps) (simp add: json_quote_def esc_str_lex)

lemma parse_members_print:
  assumes "\<And>m r. m \<in> set ms \<Longrightarrow> sep_ok r \<Longrightarrow>
        parse_value d (json_print (snd m) @ r) = Some (snd m, r) \<and> utf8_valid (fst m)"
    and "ms \<noteq> []"
  shows "parse_members d (print_members ms @ CHR ''}'' # r) = Some (ms, r)"
  using assms
proof (induction ms rule: induct_list012)
  case (2 m)
  obtain k v where m: "m = (k, v)" by (cases m)
  have "parse_value d (json_print v @ CHR ''}'' # r) = Some (v, CHR ''}'' # r)" "utf8_valid k"
    using "2.prems"(1) [of m "CHR ''}'' # r"] by (simp_all add: m sep_ok_def)
  then show ?case
    by (simp add: m parse_members_step)
next
  case (3 m m' ms)
  obtain k v where m: "m = (k, v)" by (cases m)
  let ?t = "print_members (m' # ms) @ CHR ''}'' # r"
  have "parse_value d (json_print v @ CHR '','' # ?t) = Some (v, CHR '','' # ?t)" "utf8_valid k"
    using "3.prems"(1) [of m "CHR '','' # ?t"] by (simp_all add: m sep_ok_def)
  moreover have "parse_members d ?t = Some (m' # ms, r)"
    using "3.IH"(2) "3.prems" by simp
  ultimately show ?case
    by (simp add: m parse_members_step)
qed simp

lemma print_members_start: "ms \<noteq> [] \<Longrightarrow> \<exists>r. print_members ms = CHR 0x22 # r"
  by (cases ms rule: print_members.cases) (auto simp: json_quote_def)

lemma print_elems_start:
  "vs \<noteq> [] \<Longrightarrow> json_ok d (hd vs) \<Longrightarrow> \<exists>c r. print_elems vs = c # r \<and> starts_value c"
  by (cases vs rule: print_elems.cases) (auto dest!: json_print_start)

theorem parse_value_print:
  "json_ok d j \<Longrightarrow> sep_ok r \<Longrightarrow> parse_value d (json_print j @ r) = Some (j, r)"
proof (induction j arbitrary: d r)
  case (JArr vs)
  show ?case
  proof (cases "vs = []")
    case True
    with JArr.prems show ?thesis
      by (subst parse_value.simps) simp
  next
    case False
    have "parse_elems (d - 1) (print_elems vs @ CHR '']'' # r) = Some (vs, r)"
      using JArr.IH JArr.prems False by (intro parse_elems_print) auto
    moreover obtain c t where "print_elems vs = c # t" "starts_value c"
      using print_elems_start [OF False, of "d - 1"] JArr.prems False by fastforce
    ultimately show ?thesis
      using JArr.prems starts_value_neq [of c] by (subst parse_value.simps) simp
  qed
next
  case (JObj ms)
  show ?case
  proof (cases "ms = []")
    case True
    with JObj.prems show ?thesis
      by (subst parse_value.simps) simp
  next
    case False
    have "parse_members (d - 1) (print_members ms @ CHR ''}'' # r) = Some (ms, r)"
    proof (rule parse_members_print [OF _ False])
      fix m r' assume m: "m \<in> set ms" "sep_ok r'"
      have "snd m \<in> Basic_BNFs.snds m" by (cases m) (simp add: prod_set_simps)
      with m JObj.IH [OF m(1)] JObj.prems(1)
      show "parse_value (d - 1) (json_print (snd m) @ r') = Some (snd m, r') \<and> utf8_valid (fst m)"
        by simp
    qed
    moreover obtain t where "print_members ms = CHR 0x22 # t"
      using print_members_start [OF False] by blast
    ultimately show ?thesis
      using JObj.prems by (subst parse_value.simps) simp
  qed
qed (simp_all add: parse_str parse_num, (subst parse_value.simps, simp add: strip_lit_def)+)

lemma json_parse_print: "json_ok maxNestingDepth j \<Longrightarrow> json_parse (json_print j) = Some j"
  using parse_value_print [of maxNestingDepth j "[]"] by (simp add: json_parse_def sep_ok_def)


section \<open>Integers\<close>

definition parse_dec :: "string \<Rightarrow> nat option" where
  "parse_dec s =
     (if s \<noteq> [] \<and> list_all is_digit s
      then Some (foldl (\<lambda>a c. 10 * a + (byte c - 48)) 0 s) else None)"

text \<open>An integer literal within the bounds of the target type; any other number is an error.\<close>

definition parse_int :: "int \<Rightarrow> int \<Rightarrow> string \<Rightarrow> int option" where
  "parse_int lo hi s =
     (case (if take 1 s = ''-'' then map_option (\<lambda>n. - int n) (parse_dec (drop 1 s))
            else map_option int (parse_dec s)) of
        None \<Rightarrow> None
      | Some i \<Rightarrow> if lo \<le> i \<and> i \<le> hi then Some i else None)"

lemma byte_digit_char: "d < 10 \<Longrightarrow> byte (digit_char d) = 48 + d"
  by (simp add: digit_char_def of_char_of)

lemma is_digit_digit_char [simp]: "d < 10 \<Longrightarrow> is_digit (digit_char d)"
  by (simp add: is_digit_def byte_digit_char)

lemma nat_dec_props:
  "nat_dec n \<noteq> [] \<and> list_all is_digit (nat_dec n)
   \<and> foldl (\<lambda>a c. 10 * a + (byte c - 48)) 0 (nat_dec n) = n
   \<and> (hd (nat_dec n) = CHR ''0'' \<longrightarrow> nat_dec n = ''0'')"
proof (induction n rule: nat_dec.induct)
  case (1 n)
  show ?case
  proof (cases "n < 10")
    case True
    have "digit_char n = CHR ''0'' \<longrightarrow> n = 0"
      using byte_digit_char [OF True] by auto
    then show ?thesis
      using True by (subst (1 2 3 4 5) nat_dec.simps) (auto simp: byte_digit_char)
  next
    case False
    then have eq: "nat_dec n = nat_dec (n div 10) @ [digit_char (n mod 10)]"
      by (simp add: nat_dec.simps [of n])
    note IH = "1.IH" [OF False]
    have "nat_dec (n div 10) \<noteq> ''0''"
    proof
      assume "nat_dec (n div 10) = ''0''"
      with IH have "n div 10 = 0" by simp
      with False show False by simp
    qed
    with IH show ?thesis
      unfolding eq by (simp add: byte_digit_char)
  qed
qed

lemma parse_dec_nat_dec [simp]: "parse_dec (nat_dec n) = Some n"
  using nat_dec_props [of n] by (simp add: parse_dec_def)

lemma nat_dec_no_minus: "take 1 (nat_dec n) \<noteq> ''-''"
  using nat_dec_props [of n] by (cases "nat_dec n") (auto simp: is_digit_def)

lemma parse_int_int_dec [simp]: "lo \<le> i \<Longrightarrow> i \<le> hi \<Longrightarrow> parse_int lo hi (int_dec i) = Some i"
  using nat_dec_no_minus [of "nat i"] by (auto simp: parse_int_def int_dec_def)

lemma lex_frac_Nil: "lex_frac acc [] = Some (acc, [])"
  by (simp add: lex_frac_def lex_exp_def)

lemma lex_int_nat_dec: "lex_int sg (nat_dec n) = Some (sg @ nat_dec n, [])"
proof -
  obtain c r where cr: "nat_dec n = c # r" "is_digit c" "list_all is_digit r" "c = CHR ''0'' \<longrightarrow> r = []"
    using nat_dec_props [of n] by (cases "nat_dec n") auto
  moreover from cr(3) have "takeWhile is_digit r = r" "dropWhile is_digit r = []"
    by (auto simp: takeWhile_eq_all_conv dropWhile_eq_Nil_conv list_all_iff)
  ultimately show ?thesis
    by (auto simp: lex_int_def lex_frac_Nil simp del: dropWhile_eq_Nil_conv takeWhile_eq_all_conv)
qed

lemma num_ok_int_dec [simp]: "num_ok (int_dec i)"
  using nat_dec_no_minus [of "nat i"]
  by (auto simp: num_ok_def lex_num_def int_dec_def lex_int_nat_dec)

section \<open>Struct fields\<close>

text \<open>
  A JSON key selects the struct field of that name, compared exactly and otherwise without
  regard to case; the field names of one struct differ after case folding, so the folded
  comparison alone decides. A null leaves a field as it is, and a value of the wrong kind is
  an error. Members are decoded in order, so a repeated key overwrites.
\<close>

fun decode_members :: "(string \<Rightarrow> json \<Rightarrow> 'r \<Rightarrow> 'r option) \<Rightarrow> (string \<times> json) list \<Rightarrow> 'r \<Rightarrow> 'r option" where
  "decode_members f [] r = Some r"
| "decode_members f ((k, v) # ms) r =
     (case f k v r of None \<Rightarrow> None | Some r' \<Rightarrow> decode_members f ms r')"

definition decode_struct :: "(string \<Rightarrow> json \<Rightarrow> 'r \<Rightarrow> 'r option) \<Rightarrow> json \<Rightarrow> 'r \<Rightarrow> 'r option" where
  "decode_struct f j r =
     (case j of JNull \<Rightarrow> Some r | JObj ms \<Rightarrow> decode_members f ms r | _ \<Rightarrow> None)"

fun dec_string :: "json \<Rightarrow> string \<Rightarrow> string option" where
  "dec_string JNull old = Some old"
| "dec_string (JStr s) old = Some s"
| "dec_string _ old = None"

fun dec_bool :: "json \<Rightarrow> bool \<Rightarrow> bool option" where
  "dec_bool JNull old = Some old"
| "dec_bool (JBool b) old = Some b"
| "dec_bool _ old = None"

fun dec_int :: "int \<Rightarrow> int \<Rightarrow> json \<Rightarrow> int \<Rightarrow> int option" where
  "dec_int lo hi JNull old = Some old"
| "dec_int lo hi (JNum l) old = parse_int lo hi l"
| "dec_int lo hi _ old = None"

fun dec_elems :: "'a \<Rightarrow> (json \<Rightarrow> 'a \<Rightarrow> 'a option) \<Rightarrow> json list \<Rightarrow> 'a list \<Rightarrow> 'a list option" where
  "dec_elems z f [] old = Some []"
| "dec_elems z f (v # vs) old =
     (case f v (case old of [] \<Rightarrow> z | x # _ \<Rightarrow> x) of
        None \<Rightarrow> None
      | Some x \<Rightarrow> map_option ((#) x) (dec_elems z f vs (tl old)))"

fun dec_list :: "'a \<Rightarrow> (json \<Rightarrow> 'a \<Rightarrow> 'a option) \<Rightarrow> json \<Rightarrow> 'a list \<Rightarrow> 'a list option" where
  "dec_list z f JNull old = Some []"
| "dec_list z f (JArr vs) old = dec_elems z f vs old"
| "dec_list z f _ old = None"

lemma dec_elems_map:
  "(\<And>x. x \<in> set xs \<Longrightarrow> f (enc x) z = Some x) \<Longrightarrow> dec_elems z f (map enc xs) [] = Some xs"
  by (induction xs) auto

abbreviation min_int32 :: int where "min_int32 \<equiv> - 2147483648"
abbreviation max_int32 :: int where "max_int32 \<equiv> 2147483647"
abbreviation min_int64 :: int where "min_int64 \<equiv> - 9223372036854775808"
abbreviation max_int64 :: int where "max_int64 \<equiv> 9223372036854775807"

text \<open>Members with \<^verbatim>\<open>omitempty\<close>, and the encodings of the field types.\<close>

definition opt_member :: "bool \<Rightarrow> string \<Rightarrow> json \<Rightarrow> (string \<times> json) list" where
  "opt_member present k v = (if present then [(k, v)] else [])"

definition enc_strings :: "string list \<Rightarrow> json" where
  "enc_strings xs = JArr (map JStr xs)"

text \<open>
  Go's \<^verbatim>\<open>float64\<close> is kept as its bit pattern; reading and writing the decimal literal is
  \<^verbatim>\<open>strconv\<close>'s float code, which the development takes as a parameter: \<^term>\<open>None\<close> when a
  literal is out of range, and when a value (a NaN or an infinity) has no JSON literal.
\<close>

datatype float64 = Float64 nat

record float_codec =
  fc_parse :: "string \<Rightarrow> float64 option"
  fc_format :: "float64 \<Rightarrow> string option"

fun dec_float :: "float_codec \<Rightarrow> json \<Rightarrow> float64 \<Rightarrow> float64 option" where
  "dec_float fc JNull old = Some old"
| "dec_float fc (JNum l) old = fc_parse fc l"
| "dec_float fc _ old = None"

text \<open>
  Texts that the program only passes on into error messages and that depend on library
  tables: \<^verbatim>\<open>strconv.Quote\<close> (the verb \<^verbatim>\<open>%q\<close>) and the message of a \<^verbatim>\<open>json.Unmarshal\<close> error for
  a target type and a document. They are parameters.
\<close>

record go_texts =
  gt_quote :: "string \<Rightarrow> string"
  gt_json_error :: "string \<Rightarrow> string \<Rightarrow> string"

definition unmarshal_error :: "go_texts \<Rightarrow> string \<Rightarrow> string \<Rightarrow> err" where
  "unmarshal_error gt target doc = errorf (gt_json_error gt target doc)"

end
