(* ===== verification/Go_Time.thy ===== *)
theory Go_Time
  imports Go_Json "HOL-Library.Char_ord" "HOL-Library.List_Lexorder"
begin

text \<open>
  Formatting and parsing of UTC times in the layouts \<^verbatim>\<open>time.RFC3339\<close> and
  \<^verbatim>\<open>time.RFC3339Nano\<close>, which the store writes into its text columns. The calendar is the
  proleptic Gregorian one. The main lemma, \<^verbatim>\<open>fmt_nano_less_iff\<close>, says how the byte order of
  the formatted texts, which is the order SQLite compares text columns by, relates to the
  order of times. Bytes are ordered by \<^verbatim>\<open>HOL-Library.Char_ord\<close> and texts lexicographically by
  \<^verbatim>\<open>HOL-Library.List_Lexorder\<close>.
\<close>

section \<open>Calendar\<close>

definition leap :: "int \<Rightarrow> bool" where
  "leap y \<longleftrightarrow> 4 dvd y \<and> (\<not> 100 dvd y \<or> 400 dvd y)"

text \<open>
  The number of multiples of \<open>n\<close> among the years from 0 to before \<open>y\<close>, and the days from the
  first day of year 0 to the first day of year \<open>y\<close>.
\<close>

definition multiples :: "int \<Rightarrow> int \<Rightarrow> int" where
  "multiples n y = (y + (n - 1)) div n"

definition year_start :: "int \<Rightarrow> int" where
  "year_start y = 365 * y + multiples 4 y - multiples 100 y + multiples 400 y"

lemma multiples_0 [simp]: "0 < n \<Longrightarrow> multiples n 0 = 0"
  by (simp add: multiples_def)

lemma multiples_Suc:
  assumes "0 < n"
  shows "multiples n (y + 1) = multiples n y + (if n dvd y then 1 else 0)"
proof -
  have top: "multiples n (y + 1) = y div n + 1"
    using assms div_add_self2 [of n y] by (simp add: multiples_def)
  have "y + (n - 1) = (y mod n + (n - 1)) + n * (y div n)"
    by simp
  then have "multiples n y = y div n + (y mod n + (n - 1)) div n"
    using assms unfolding multiples_def by (metis add.commute div_mult_self2 less_irrefl)
  moreover have "(y mod n + (n - 1)) div n = (if n dvd y then 0 else 1)"
  proof (cases "n dvd y")
    case False
    have "0 \<le> y mod n" "y mod n < n" using assms by simp_all
    moreover have "y mod n \<noteq> 0" using False by (simp add: dvd_eq_mod_eq_0)
    ultimately have "(y mod n - 1) div n = 0" by simp
    moreover have "(y mod n + (n - 1)) div n = (y mod n - 1 + n) div n"
      by (rule arg_cong [where f = "\<lambda>x. x div n"]) simp
    ultimately show ?thesis using False assms div_add_self2 [of n "y mod n - 1"] by simp
  qed (use assms in \<open>simp add: dvd_eq_mod_eq_0\<close>)
  ultimately show ?thesis using top by simp
qed

lemma year_start_Suc: "year_start (y + 1) = year_start y + (if leap y then 366 else 365)"
proof -
  define a b c where "a = ((4::int) dvd y)" and "b = ((100::int) dvd y)" and "c = ((400::int) dvd y)"
  have "c \<Longrightarrow> b" "b \<Longrightarrow> a"
    unfolding a_def b_def c_def by (rule dvd_trans [rotated], assumption, simp)+
  moreover have "leap y = (a \<and> (\<not> b \<or> c))"
    by (simp only: leap_def a_def b_def c_def)
  moreover have "multiples 4 (y + 1) = multiples 4 y + (if a then 1 else 0)"
    "multiples 100 (y + 1) = multiples 100 y + (if b then 1 else 0)"
    "multiples 400 (y + 1) = multiples 400 y + (if c then 1 else 0)"
    unfolding a_def b_def c_def by (rule multiples_Suc, simp)+
  ultimately show ?thesis
    unfolding year_start_def by (cases a; cases b; cases c) simp_all
qed

lemma year_start_mono: "y < z \<Longrightarrow> year_start y + 365 \<le> year_start z"
proof (induction z rule: int_gr_induct [where k = y])
  case base
  show ?case by (simp add: year_start_Suc)
next
  case (step i)
  then show ?case by (simp add: year_start_Suc)
qed

lemma year_start_le: "y \<le> z \<Longrightarrow> year_start y \<le> year_start z"
  using year_start_mono [of y z] by (cases "y = z") auto

lemma year_start_upper: "0 \<le> y \<Longrightarrow> year_start y \<le> 366 * y"
proof (induction y rule: int_ge_induct)
  case base
  show ?case by (simp add: year_start_def)
next
  case (step i)
  then show ?case by (simp add: year_start_Suc)
qed

lemma year_start_neg: "y \<le> 0 \<Longrightarrow> year_start y \<le> 365 * y"
proof (induction y rule: int_le_induct)
  case base
  show ?case by (simp add: year_start_def)
next
  case (step i)
  then show ?case using year_start_Suc [of "i - 1"] by (simp split: if_splits)
qed

function find_year :: "int \<Rightarrow> int \<Rightarrow> int" where
  "find_year d y = (if year_start (y + 1) \<le> d then find_year d (y + 1) else y)"
  by pat_completeness auto
termination
  by (relation "measure (\<lambda>(d, y). nat (d - year_start y))") (auto simp: year_start_Suc split: if_splits)

declare find_year.simps [simp del]

definition year_of :: "int \<Rightarrow> int" where
  "year_of d = find_year d (d div (if 0 \<le> d then 366 else 365))"

lemma find_year_bounds:
  "year_start y \<le> d \<Longrightarrow> year_start (find_year d y) \<le> d \<and> d < year_start (find_year d y + 1)"
proof (induction d y rule: find_year.induct)
  case (1 d y)
  then show ?case
    by (cases "year_start (y + 1) \<le> d") (simp_all add: find_year.simps [of d y])
qed

lemma year_of_bounds: "year_start (year_of d) \<le> d \<and> d < year_start (year_of d + 1)"
proof -
  have "year_start (d div (if 0 \<le> d then 366 else 365)) \<le> d"
  proof (cases "0 \<le> d")
    case True
    then have "year_start (d div 366) \<le> 366 * (d div 366)"
      by (intro year_start_upper) simp
    also have "\<dots> \<le> d" by simp
    finally show ?thesis using True by simp
  next
    case False
    then have "year_start (d div 365) \<le> 365 * (d div 365)"
      by (intro year_start_neg) (simp add: div_nonpos_pos_le0)
    also have "\<dots> \<le> d" by simp
    finally show ?thesis using False by simp
  qed
  then show ?thesis
    unfolding year_of_def by (rule find_year_bounds)
qed

lemma year_of_unique:
  assumes "year_start y \<le> d" "d < year_start (y + 1)"
  shows "year_of d = y"
proof -
  have "\<not> year_of d + 1 \<le> y" "\<not> y + 1 \<le> year_of d"
    using assms year_of_bounds [of d] year_start_le [of "year_of d + 1" y]
      year_start_le [of "y + 1" "year_of d"] by auto
  then show ?thesis by linarith
qed

text \<open>The lengths of the months of a year, and the month and day a day of the year falls on.\<close>

definition month_days :: "bool \<Rightarrow> int list" where
  "month_days lp = [31, if lp then 29 else 28, 31, 30, 31, 30, 31, 31, 30, 31, 30, 31]"

fun split_month :: "int list \<Rightarrow> int \<Rightarrow> nat \<times> int" where
  "split_month [] yd = (0, yd)"
| "split_month (l # ls) yd =
     (if ls = [] \<or> yd < l then (0, yd)
      else (let (m, d) = split_month ls (yd - l) in (Suc m, d)))"

lemma split_month_sum:
  "split_month ls yd = (m, k) \<Longrightarrow> sum_list (take m ls) + k = yd"
  by (induction ls yd arbitrary: m k rule: split_month.induct) (auto split: if_splits prod.splits)

lemma split_month_range:
  "split_month ls yd = (m, k) \<Longrightarrow> 0 \<le> yd \<Longrightarrow> yd < sum_list ls \<Longrightarrow> \<forall>l \<in> set ls. l \<le> b \<Longrightarrow>
     m < length ls \<and> 0 \<le> k \<and> k < b"
  by (induction ls yd arbitrary: m k rule: split_month.induct)
    (fastforce split: if_splits prod.splits)+

lemma split_month_mono:
  "yd < yd' \<Longrightarrow> split_month ls yd = (m, k) \<Longrightarrow> split_month ls yd' = (m', k') \<Longrightarrow>
     m < m' \<or> m = m' \<and> k < k'"
proof (induction ls yd arbitrary: yd' m k m' k' rule: split_month.induct)
  case (2 l ls yd)
  show ?case
  proof (cases "ls = [] \<or> yd < l")
    case True
    with "2.prems" show ?thesis by (auto split: if_splits prod.splits)
  next
    case False
    with "2.prems"(1) have "\<not> (ls = [] \<or> yd' < l)" by auto
    with False "2.prems" "2.IH" [OF False, of "yd' - l"] show ?thesis
      by (fastforce split: prod.splits)
  qed
qed simp

lemma month_days_sum: "sum_list (month_days lp) = (if lp then 366 else 365)"
  by (simp add: month_days_def)

lemma month_days_le: "\<forall>l \<in> set (month_days lp). l \<le> 31"
  by (simp add: month_days_def)

text \<open>
  Year, month (January is 1) and day of the month of a day number counted from the first
  day of year 0, and the day number back from the three fields.
\<close>

definition civil :: "int \<Rightarrow> int \<times> int \<times> int" where
  "civil d = (let y = year_of d; (m, k) = split_month (month_days (leap y)) (d - year_start y)
              in (y, int m + 1, k + 1))"

definition days_of_civil :: "int \<Rightarrow> int \<Rightarrow> int \<Rightarrow> int" where
  "days_of_civil y m k = year_start y + sum_list (take (nat (m - 1)) (month_days (leap y))) + (k - 1)"

lemma days_of_civil_civil: "civil d = (y, m, k) \<Longrightarrow> days_of_civil y m k = d"
  by (auto simp: civil_def days_of_civil_def Let_def dest: split_month_sum split: prod.splits)

lemma civil_ranges:
  assumes "civil d = (y, m, k)"
  shows "y = year_of d \<and> 1 \<le> m \<and> m \<le> 12 \<and> 1 \<le> k \<and> k \<le> 31"
proof -
  obtain i j where ij: "split_month (month_days (leap (year_of d))) (d - year_start (year_of d)) = (i, j)"
    by force
  have yd: "0 \<le> d - year_start (year_of d)"
    "d - year_start (year_of d) < sum_list (month_days (leap (year_of d)))"
    using year_of_bounds [of d] by (simp_all add: month_days_sum year_start_Suc split: if_splits)
  have "i < length (month_days (leap (year_of d))) \<and> 0 \<le> j \<and> j < 31"
    by (rule split_month_range [OF ij yd month_days_le])
  then show ?thesis
    using assms ij by (auto simp: civil_def Let_def month_days_def)
qed

lemma civil_mono:
  assumes "d < d'" "civil d = (y, m, k)" "civil d' = (y', m', k')"
  shows "y < y' \<or> y = y' \<and> (m < m' \<or> m = m' \<and> k < k')"
proof -
  have ys: "y = year_of d" "y' = year_of d'"
    using civil_ranges assms(2,3) by blast+
  have "\<not> y' + 1 \<le> y"
    using year_of_bounds [of d] year_of_bounds [of d'] assms(1) year_start_le [of "y' + 1" y] ys
    by auto
  moreover have "m < m' \<or> m = m' \<and> k < k'" if "y = y'"
    using assms ys that split_month_mono [of "d - year_start y" "d' - year_start y" "month_days (leap y)"]
    by (fastforce simp: civil_def Let_def split: prod.splits)
  ultimately show ?thesis by linarith
qed


section \<open>Byte order of fixed-width texts\<close>

lemma list_less_append_right:
  fixes a b :: "'a::order list"
  shows "length a = length b \<Longrightarrow> a < b \<Longrightarrow> a @ c < b @ d"
proof (induction a b rule: list_induct2)
  case (Cons x xs y ys)
  then show ?case by (auto simp: Cons_less_Cons)
qed simp

lemma list_less_append_left [simp]:
  fixes a :: "'a::order list"
  shows "a @ c < a @ d \<longleftrightarrow> c < d"
  by (induction a) (auto simp: Cons_less_Cons)

fun pad :: "nat \<Rightarrow> int \<Rightarrow> string" where
  "pad 0 n = []"
| "pad (Suc w) n = pad w (n div 10) @ [digit_char (nat (n mod 10))]"

lemma length_pad [simp]: "length (pad w n) = w"
  by (induction w arbitrary: n) auto

lemma digit_char_less: "m < n \<Longrightarrow> n < 10 \<Longrightarrow> digit_char m < digit_char n"
  by (simp add: less_char_def byte_digit_char)

lemma pad_less: "0 \<le> a \<Longrightarrow> a < b \<Longrightarrow> b < 10 ^ w \<Longrightarrow> pad w a < pad w b"
proof (induction w arbitrary: a b)
  case (Suc w)
  show ?case
  proof (cases "a div 10 < b div 10")
    case True
    have "b div 10 < 10 ^ w" using Suc.prems(3) by (simp add: div_less_iff_less_mult)
    then have "pad w (a div 10) < pad w (b div 10)"
      using Suc.IH Suc.prems(1) True by simp
    then show ?thesis by (simp add: list_less_append_right)
  next
    case False
    with Suc.prems(2) have eq: "a div 10 = b div 10"
      by (simp add: linorder_not_less order_antisym zdiv_mono1)
    then have "a mod 10 < b mod 10"
      using Suc.prems(2) div_mult_mod_eq [of a 10] div_mult_mod_eq [of b 10] by linarith
    then have "digit_char (nat (a mod 10)) < digit_char (nat (b mod 10))"
      by (intro digit_char_less) (simp_all add: nat_less_iff)
    then show ?thesis by (simp add: eq Cons_less_Cons)
  qed
qed simp

text \<open>A row of fixed-width numbers, each followed by a fixed text.\<close>

fun fmt_fields :: "(nat \<times> string) list \<Rightarrow> int list \<Rightarrow> string" where
  "fmt_fields ((w, sep) # ws) (v # vs) = pad w v @ sep @ fmt_fields ws vs"
| "fmt_fields _ _ = []"

fun fields_fit :: "(nat \<times> string) list \<Rightarrow> int list \<Rightarrow> bool" where
  "fields_fit ((w, sep) # ws) (v # vs) \<longleftrightarrow> 0 \<le> v \<and> v < 10 ^ w \<and> fields_fit ws vs"
| "fields_fit ws vs \<longleftrightarrow> ws = [] \<and> vs = []"

lemma fmt_fields_length:
  "fields_fit ws vs \<Longrightarrow> fields_fit ws vs' \<Longrightarrow> length (fmt_fields ws vs) = length (fmt_fields ws vs')"
proof (induction ws vs arbitrary: vs' rule: fields_fit.induct)
  case (1 w sep ws v vs)
  then show ?case by (cases vs') auto
qed (auto elim: fields_fit.elims)

lemma fmt_fields_less:
  "fields_fit ws vs \<Longrightarrow> fields_fit ws vs' \<Longrightarrow> vs < vs' \<Longrightarrow> fmt_fields ws vs < fmt_fields ws vs'"
proof (induction ws vs arbitrary: vs' rule: fields_fit.induct)
  case (1 w sep ws v vs)
  then obtain v' vs'' where vs': "vs' = v' # vs''" by (cases vs') auto
  show ?case
  proof (cases "v < v'")
    case True
    then have "pad w v < pad w v'" using 1 vs' by (intro pad_less) auto
    then show ?thesis by (simp add: vs' list_less_append_right)
  next
    case False
    with 1 vs' show ?thesis by (auto simp: Cons_less_Cons)
  qed
qed (auto elim: fields_fit.elims)

section \<open>RFC 3339\<close>

definition day_of_epoch :: int where
  "day_of_epoch = 719528"

text \<open>Year, month, day, hour, minute and second of a number of seconds since the epoch.\<close>

definition clock_fields :: "int \<Rightarrow> int list" where
  "clock_fields s =
     (let (y, m, k) = civil (s div 86400 + day_of_epoch); r = s mod 86400
      in [y, m, k, r div 3600, r div 60 mod 60, r mod 60])"

definition year_in_range :: "gotime \<Rightarrow> bool" where
  "year_in_range t \<longleftrightarrow>
     (let y = year_of (t div nanos_per_second div 86400 + day_of_epoch) in 0 \<le> y \<and> y \<le> 9999)"

definition rfc3339_layout :: "(nat \<times> string) list" where
  "rfc3339_layout = [(4, ''-''), (2, ''-''), (2, ''T''), (2, '':''), (2, '':''), (2, [])]"

text \<open>Years outside four digits are written with a sign or with more digits.\<close>

definition fmt_seconds :: "int \<Rightarrow> string" where
  "fmt_seconds s =
     (case clock_fields s of
        y # rest \<Rightarrow>
          if 0 \<le> y \<and> y \<le> 9999 then fmt_fields rfc3339_layout (y # rest)
          else (let ds = nat_dec (nat \<bar>y\<bar>)
                in (if y < 0 then ''-'' else []) @ replicate (4 - length ds) (CHR ''0'') @ ds
                   @ ''-'' @ fmt_fields (tl rfc3339_layout) rest)
      | [] \<Rightarrow> [])"

text \<open>The fraction drops its trailing zeros, and a zero fraction its point.\<close>

definition fmt_fraction :: "int \<Rightarrow> string" where
  "fmt_fraction n =
     (if n = 0 then [] else CHR ''.'' # rev (dropWhile (\<lambda>c. c = CHR ''0'') (rev (pad 9 n))))"

definition fmt_rfc3339 :: "gotime \<Rightarrow> string" where
  "fmt_rfc3339 t = fmt_seconds (t div nanos_per_second) @ ''Z''"

definition fmt_rfc3339nano :: "gotime \<Rightarrow> string" where
  "fmt_rfc3339nano t =
     fmt_seconds (t div nanos_per_second) @ fmt_fraction (t mod nanos_per_second) @ ''Z''"

lemma div_mod_less:
  fixes a b n :: int
  assumes "a < b" "0 < n"
  shows "a div n < b div n \<or> a div n = b div n \<and> a mod n < b mod n"
proof (cases "a div n = b div n")
  case True
  have "n * (a div n) + a mod n < n * (a div n) + b mod n"
    using assms(1) by (subst (2) True) (simp only: mult_div_mod_eq)
  then have "a mod n < b mod n" by (rule add_less_imp_less_left)
  with True show ?thesis by blast
next
  case False
  then show ?thesis
    using assms zdiv_mono1 [of a b n] by linarith
qed

lemma clock_fields_mono:
  assumes "s < s'"
  shows "clock_fields s < clock_fields s'"
proof -
  obtain y m k y' m' k' where c: "civil (s div 86400 + day_of_epoch) = (y, m, k)"
    "civil (s' div 86400 + day_of_epoch) = (y', m', k')" by (metis prod_cases3)
  show ?thesis
  proof (cases "s div 86400 < s' div 86400")
    case True
    then have "s div 86400 + day_of_epoch < s' div 86400 + day_of_epoch" by simp
    from civil_mono [OF this c] show ?thesis
      by (auto simp: clock_fields_def c Let_def Cons_less_Cons)
  next
    case False
    with assms have eq: "s div 86400 = s' div 86400"
      by (simp add: linorder_not_less order_antisym zdiv_mono1)
    define r r' where "r = s mod 86400" and "r' = s' mod 86400"
    have "r < r'"
      using assms eq div_mult_mod_eq [of s 86400] div_mult_mod_eq [of s' 86400]
      unfolding r_def r'_def by linarith
    then have "r div 60 < r' div 60 \<or> r div 60 = r' div 60 \<and> r mod 60 < r' mod 60"
      by (intro div_mod_less) simp_all
    moreover have "r div 60 < r' div 60 \<Longrightarrow>
        r div 60 div 60 < r' div 60 div 60
        \<or> r div 60 div 60 = r' div 60 div 60 \<and> r div 60 mod 60 < r' div 60 mod 60"
      by (intro div_mod_less) simp_all
    moreover have "r div 3600 = r div 60 div 60" "r' div 3600 = r' div 60 div 60"
      by (simp_all add: div_mult2_eq [symmetric])
    ultimately have "[r div 3600, r div 60 mod 60, r mod 60] < [r' div 3600, r' div 60 mod 60, r' mod 60]"
      by (auto simp: Cons_less_Cons)
    then show ?thesis
      using c unfolding clock_fields_def Let_def r_def r'_def by (simp add: eq Cons_less_Cons)
  qed
qed


lemma clock_fields_fit:
  assumes "year_in_range t"
  shows "fields_fit rfc3339_layout (clock_fields (t div nanos_per_second))
     \<and> fmt_seconds (t div nanos_per_second)
       = fmt_fields rfc3339_layout (clock_fields (t div nanos_per_second))"
proof -
  define s where "s = t div nanos_per_second"
  obtain y m k where c: "civil (s div 86400 + day_of_epoch) = (y, m, k)" by (metis prod_cases3)
  have "0 \<le> y" "y \<le> 9999"
    using assms civil_ranges [OF c] by (simp_all add: year_in_range_def Let_def s_def)
  moreover have "0 \<le> s mod 86400" "s mod 86400 < 86400" by simp_all
  then have "s mod 86400 div 3600 < 24" by simp
  ultimately show ?thesis
    unfolding s_def [symmetric]
    using civil_ranges [OF c]
    by (auto simp: clock_fields_def c Let_def rfc3339_layout_def fmt_seconds_def
        pos_imp_zdiv_nonneg_iff intro: less_trans [of _ 60 "100::int"])
qed

text \<open>
  Within years 0 to 9999, formatted texts of times in different seconds are ordered by bytes
  as the times are.
\<close>

theorem fmt_nano_less_iff:
  assumes "year_in_range t" "year_in_range u"
    and "t div nanos_per_second \<noteq> u div nanos_per_second"
  shows "fmt_rfc3339nano t < fmt_rfc3339nano u \<longleftrightarrow> t < u"
proof -
  have less: "fmt_rfc3339nano a < fmt_rfc3339nano b"
    if ab: "year_in_range a" "year_in_range b" "a div nanos_per_second < b div nanos_per_second" for a b
  proof -
    note fa = clock_fields_fit [OF ab(1)] and fb = clock_fields_fit [OF ab(2)]
    have "fmt_seconds (a div nanos_per_second) < fmt_seconds (b div nanos_per_second)"
      using fmt_fields_less clock_fields_mono [OF ab(3)] fa fb by metis
    moreover have "length (fmt_seconds (a div nanos_per_second)) = length (fmt_seconds (b div nanos_per_second))"
      using fmt_fields_length fa fb by metis
    ultimately show ?thesis
      unfolding fmt_rfc3339nano_def by (rule list_less_append_right [rotated])
  qed
  have mono: "t \<le> u \<Longrightarrow> t div nanos_per_second \<le> u div nanos_per_second"
    and mono': "u \<le> t \<Longrightarrow> u div nanos_per_second \<le> t div nanos_per_second"
    by (simp_all add: zdiv_mono1 nanos_per_second_def)
  show ?thesis
  proof (cases "t < u")
    case True
    then have "t div nanos_per_second < u div nanos_per_second" using mono assms(3) by simp
    with less assms(1,2) True show ?thesis by blast
  next
    case False
    then have "u div nanos_per_second < t div nanos_per_second" using mono' assms(3) by simp
    with less assms(1,2) have "fmt_rfc3339nano u < fmt_rfc3339nano t" by blast
    with False show ?thesis by (meson less_asym)
  qed
qed


section \<open>Parsing\<close>

text \<open>
  \<^verbatim>\<open>time.Parse\<close> on the texts the program writes: six fixed-width numbers with their
  separators, an optional fraction and the zone \<^verbatim>\<open>Z\<close>. Fields out of range are an error.
\<close>

fun parse_fields :: "(nat \<times> string) list \<Rightarrow> string \<Rightarrow> (int list \<times> string) option" where
  "parse_fields [] s = Some ([], s)"
| "parse_fields ((w, sep) # ws) s =
     (case parse_dec (take w s) of
        None \<Rightarrow> None
      | Some n \<Rightarrow>
          if length (take w s) = w \<and> prefix sep (drop w s)
          then map_option (\<lambda>(vs, t). (int n # vs, t)) (parse_fields ws (drop (w + length sep) s))
          else None)"

definition parse_fraction :: "string \<Rightarrow> int option" where
  "parse_fraction s =
     (if s = ''Z'' then Some 0
      else if take 1 s = ''.'' \<and> takeWhile is_digit (drop 1 s) \<noteq> []
           \<and> dropWhile is_digit (drop 1 s) = ''Z''
      then map_option int (parse_dec (take 9 (takeWhile is_digit (drop 1 s) @ ''000000000'')))
      else None)"

definition fields_valid :: "int list \<Rightarrow> bool" where
  "fields_valid vs =
     (case vs of
        [y, m, k, h, mi, sec] \<Rightarrow>
          1 \<le> m \<and> m \<le> 12 \<and> 1 \<le> k \<and> k \<le> month_days (leap y) ! nat (m - 1)
          \<and> h < 24 \<and> mi < 60 \<and> sec < 60
      | _ \<Rightarrow> False)"

definition seconds_of_fields :: "int list \<Rightarrow> int" where
  "seconds_of_fields vs =
     (case vs of
        [y, m, k, h, mi, sec] \<Rightarrow>
          (days_of_civil y m k - day_of_epoch) * 86400 + h * 3600 + mi * 60 + sec
      | _ \<Rightarrow> 0)"

definition parse_rfc3339 :: "string \<Rightarrow> gotime option" where
  "parse_rfc3339 s =
     (case parse_fields rfc3339_layout s of
        None \<Rightarrow> None
      | Some (vs, t) \<Rightarrow>
          if fields_valid vs
          then map_option (\<lambda>n. seconds_of_fields vs * nanos_per_second + n) (parse_fraction t)
          else None)"

lemma parse_dec_pad:
  "0 < w \<Longrightarrow> 0 \<le> n \<Longrightarrow> n < 10 ^ w \<Longrightarrow> parse_dec (pad w n) = Some (nat n)"
proof -
  assume w: "0 < w" and n: "0 \<le> n" "n < 10 ^ w"
  have "foldl (\<lambda>a c. 10 * a + (byte c - 48)) 0 (pad w n) = nat n \<and> list_all is_digit (pad w n)"
    using n
  proof (induction w arbitrary: n)
    case (Suc w)
    have "n div 10 < 10 ^ w" using Suc.prems(2) by (simp add: div_less_iff_less_mult)
    moreover have "nat (n mod 10) < 10" by (simp add: nat_less_iff)
    moreover have "10 * nat (n div 10) + nat (n mod 10) = nat n"
      using Suc.prems(1) by (metis mult_div_mod_eq nat_add_distrib nat_mult_distrib nat_numeral
          pos_imp_zdiv_nonneg_iff pos_mod_sign zero_le_mult_iff zero_le_numeral zero_less_numeral)
    ultimately show ?case
      using Suc.IH [of "n div 10"] Suc.prems(1) by (simp add: byte_digit_char)
  qed simp
  moreover have "pad w n \<noteq> []" using w by (metis length_pad less_numeral_extra(3) list.size(3))
  ultimately show ?thesis by (simp add: parse_dec_def)
qed

lemma parse_fields_fmt:
  "fields_fit ws vs \<Longrightarrow> \<forall>w \<in> set ws. 0 < fst w \<Longrightarrow>
     parse_fields ws (fmt_fields ws vs @ r) = Some (vs, r)"
proof (induction ws vs rule: fields_fit.induct)
  case (1 w sep ws v vs)
  then show ?case by (simp add: parse_dec_pad)
qed auto

lemma strip_zeros_repad:
  assumes "length ds \<le> length zs" "\<forall>z \<in> set zs. z = CHR ''0''"
  shows "take (length ds) (rev (dropWhile (\<lambda>c. c = CHR ''0'') (rev ds)) @ zs) = ds"
proof -
  let ?z = "takeWhile (\<lambda>c. c = CHR ''0'') (rev ds)"
  let ?d = "rev (dropWhile (\<lambda>c. c = CHR ''0'') (rev ds))"
  have ds: "ds = ?d @ rev ?z"
    by (metis rev_append rev_rev_ident takeWhile_dropWhile_id)
  have "rev ?z = replicate (length ?z) (CHR ''0'')"
    by (intro replicate_eqI) (auto dest: set_takeWhileD)
  moreover have "take (length ?z) zs = replicate (length ?z) (CHR ''0'')"
  proof (rule replicate_eqI [symmetric, THEN sym])
    show "length (take (length ?z) zs) = length ?z"
      using assms(1) length_takeWhile_le [of "\<lambda>c. c = CHR ''0''" "rev ds"] by simp
    show "y = CHR ''0''" if "y \<in> set (take (length ?z) zs)" for y
      using that assms(2) by (meson in_set_takeD)
  qed
  ultimately have "take (length ?z) zs = rev ?z" by simp
  moreover have len: "length ds = length ?d + length ?z"
    using arg_cong [OF ds, of length] by (simp only: length_append length_rev)
  ultimately show ?thesis
    unfolding take_append len using ds by (simp only: diff_add_inverse take_all_iff le_add1 take_all)
qed


lemma pad_digits: "list_all is_digit (pad w n)"
proof (induction w arbitrary: n)
  case (Suc w)
  have "nat (n mod 10) < 10" by (simp add: nat_less_iff)
  with Suc show ?case by simp
qed simp

lemma parse_fraction_fmt:
  assumes "0 \<le> n" "n < nanos_per_second"
  shows "parse_fraction (fmt_fraction n @ ''Z'') = Some n"
proof (cases "n = 0")
  case True
  then show ?thesis by (simp add: fmt_fraction_def parse_fraction_def)
next
  case False
  define ds where "ds = rev (dropWhile (\<lambda>c. c = CHR ''0'') (rev (pad 9 n)))"
  have repad: "take 9 (ds @ ''000000000'') = pad 9 n"
    using strip_zeros_repad [of "pad 9 n" "''000000000''"] by (simp add: ds_def)
  have val: "parse_dec (pad 9 n) = Some (nat n)"
    using assms by (intro parse_dec_pad) (simp_all add: nanos_per_second_def)
  have dig: "\<forall>c \<in> set ds. is_digit c"
    using pad_digits [of 9 n] set_dropWhileD by (fastforce simp: ds_def list_all_iff)
  have "ds \<noteq> []"
  proof
    assume "ds = []"
    with repad val have "parse_dec ''000000000'' = Some (nat n)" by simp
    then have "nat n = 0" by (simp add: parse_dec_def is_digit_def)
    with False assms(1) show False by simp
  qed
  moreover have "takeWhile is_digit (ds @ ''Z'') = ds" "dropWhile is_digit (ds @ ''Z'') = ''Z''"
    using dig by (simp_all add: is_digit_def)
  ultimately show ?thesis
    using False assms(1) repad val
    by (simp add: parse_fraction_def fmt_fraction_def ds_def [symmetric])
qed

lemma split_month_day:
  "split_month ls yd = (m, k) \<Longrightarrow> 0 \<le> yd \<Longrightarrow> yd < sum_list ls \<Longrightarrow> m < length ls \<and> k < ls ! m"
  by (induction ls yd arbitrary: m k rule: split_month.induct)
    (auto split: if_splits prod.splits)

lemma clock_fields_valid: "fields_valid (clock_fields s)"
proof -
  define d where "d = s div 86400 + day_of_epoch"
  obtain i j where ij: "split_month (month_days (leap (year_of d))) (d - year_start (year_of d)) = (i, j)"
    by force
  have yd: "0 \<le> d - year_start (year_of d)"
    "d - year_start (year_of d) < sum_list (month_days (leap (year_of d)))"
    using year_of_bounds [of d] by (simp_all add: month_days_sum year_start_Suc split: if_splits)
  have c: "civil d = (year_of d, int i + 1, j + 1)"
    using ij by (simp add: civil_def Let_def)
  define y where "y = year_of d"
  define r where "r = s mod 86400"
  have "clock_fields s = [y, int i + 1, j + 1, r div 3600, r div 60 mod 60, r mod 60]"
    using c by (simp add: clock_fields_def d_def [symmetric] y_def r_def Let_def)
  moreover have "j + 1 \<le> month_days (leap y) ! i"
    using split_month_day [OF ij yd] by (simp add: y_def)
  moreover have "r div 3600 < 24"
    using pos_mod_bound [of 86400 s] by (simp add: r_def)
  moreover have "int i + 1 \<le> 12" "1 \<le> j + 1" "1 \<le> int i + 1"
    using civil_ranges [OF c] by blast+
  moreover have "nat (int i + 1 - 1) = i" by simp
  ultimately show ?thesis
    by (simp add: fields_valid_def)
qed

lemma seconds_of_clock_fields: "seconds_of_fields (clock_fields s) = s"
proof -
  obtain y m k where c: "civil (s div 86400 + day_of_epoch) = (y, m, k)" by (metis prod_cases3)
  define r where "r = s mod 86400"
  have "r div 3600 = r div 60 div 60"
    using zdiv_zmult2_eq [of 60 r 60] by simp
  then have "r div 3600 * 3600 + r div 60 mod 60 * 60 + r mod 60 = r"
    using div_mult_mod_eq [of r 60] div_mult_mod_eq [of "r div 60" 60] by linarith
  moreover have "(s div 86400) * 86400 + r = s"
    unfolding r_def by (rule div_mult_mod_eq)
  moreover have "clock_fields s = [y, m, k, r div 3600, r div 60 mod 60, r mod 60]"
    unfolding clock_fields_def c Let_def r_def prod.case ..
  ultimately show ?thesis
    using days_of_civil_civil [OF c]
    by (simp only: seconds_of_fields_def list.case add_diff_cancel_right' add.assoc)
qed

lemma parse_fmt_seconds:
  assumes "year_in_range t"
  shows "parse_rfc3339 (fmt_seconds (t div nanos_per_second) @ u) =
     map_option (\<lambda>n. t div nanos_per_second * nanos_per_second + n) (parse_fraction u)"
proof -
  have "\<forall>w \<in> set rfc3339_layout. 0 < fst w" by (simp add: rfc3339_layout_def)
  then have "parse_fields rfc3339_layout (fmt_seconds (t div nanos_per_second) @ u)
      = Some (clock_fields (t div nanos_per_second), u)"
    using clock_fields_fit [OF assms] parse_fields_fmt by metis
  then show ?thesis
    by (simp add: parse_rfc3339_def clock_fields_valid seconds_of_clock_fields)
qed

theorem parse_fmt_rfc3339nano:
  assumes "year_in_range t"
  shows "parse_rfc3339 (fmt_rfc3339nano t) = Some t"
proof -
  have "0 \<le> t mod nanos_per_second" "t mod nanos_per_second < nanos_per_second"
    by (simp_all add: nanos_per_second_def)
  then have "parse_fraction (fmt_fraction (t mod nanos_per_second) @ ''Z'') = Some (t mod nanos_per_second)"
    by (rule parse_fraction_fmt)
  then show ?thesis
    unfolding fmt_rfc3339nano_def append_assoc parse_fmt_seconds [OF assms]
    by (simp only: option.map div_mult_mod_eq)
qed

theorem parse_fmt_rfc3339:
  "year_in_range t \<Longrightarrow>
     parse_rfc3339 (fmt_rfc3339 t) = Some (t div nanos_per_second * nanos_per_second)"
  by (simp add: fmt_rfc3339_def parse_fmt_seconds parse_fraction_def)

end
