(* ===== verification/Store.thy ===== *)
theory Store
  imports Go_Time "HOL-Library.Multiset"
begin

text \<open>
  The SQLite history mirror, \<^verbatim>\<open>src/internal/store/sqlite.go\<close>. A table is the list of its
  rows in row-id order, and each SQL statement of the source is one operation on it. Time
  columns hold text, written by \<^verbatim>\<open>Format\<close> and compared byte by byte, as SQLite compares
  them. The engine may fail any statement: its error is an \<^typ>\<open>err option\<close> argument, and a
  failed statement changes nothing. SQL leaves the order of rows with equal sort keys open,
  so the order an engine picks is the parameter \<^verbatim>\<open>sql_order\<close>. Foreign keys are declared in the
  schema but not enforced (SQLite's default), so no operation checks them.
\<close>

section \<open>Data\<close>

record Incident =
  inc_Namespace :: string
  inc_Name :: string
  inc_EventUID :: string
  inc_InvolvedObjectKind :: string
  inc_InvolvedObjectName :: string
  inc_InvolvedObjectNamespace :: string
  inc_Reason :: string
  inc_Message :: string
  inc_Phase :: string
  inc_StartedAt :: "gotime option"
  inc_CompletedAt :: "gotime option"
  inc_LLMProvider :: string
  inc_LLMModel :: string
  inc_TokensUsed :: int
  inc_PromptRedacted :: bool
  inc_Persisted :: bool
  inc_CreatedAt :: gotime
  inc_UpdatedAt :: gotime

record Diagnosis =
  dg_ID :: int
  dg_Namespace :: string
  dg_Name :: string
  dg_EventUID :: string
  dg_RCAJson :: string
  dg_Summary :: string
  dg_RootCause :: string
  dg_Remediation :: string
  dg_Confidence :: float64
  dg_CreatedAt :: gotime
  dg_ContextJSON :: string
  dg_Reasoning :: string
  dg_TraceJSON :: string

record IncidentFilter =
  flt_Phase :: string
  flt_Namespace :: string
  flt_Reason :: string
  flt_Query :: string

definition no_filter :: IncidentFilter where
  "no_filter = \<lparr>flt_Phase = [], flt_Namespace = [], flt_Reason = [], flt_Query = []\<rparr>"

record IncidentDetail =
  det_Incident :: Incident
  det_Diagnoses :: "Diagnosis list"

record ChatMessage =
  cm_ID :: int
  cm_Namespace :: string
  cm_Name :: string
  cm_Role :: string
  cm_Content :: string
  cm_CreatedAt :: gotime

text \<open>
  The rows of the three tables, with the columns of the migrations. The key of a row is
  its namespace and name.
\<close>

record IncidentRow =
  ir_namespace :: string
  ir_name :: string
  ir_event_uid :: string
  ir_involved_object_kind :: string
  ir_involved_object_name :: string
  ir_involved_object_namespace :: string
  ir_reason :: string
  ir_message :: string
  ir_phase :: string
  ir_started_at :: "string option"
  ir_completed_at :: "string option"
  ir_llm_provider :: string
  ir_llm_model :: string
  ir_tokens_used :: int
  ir_prompt_redacted :: bool
  ir_persisted :: bool
  ir_created_at :: string
  ir_updated_at :: string

record DiagnosisRow =
  dr_id :: int
  dr_namespace :: string
  dr_name :: string
  dr_event_uid :: string
  dr_rca_json :: string
  dr_summary :: string
  dr_root_cause :: string
  dr_remediation :: string
  dr_confidence :: float64
  dr_created_at :: string
  dr_context_json :: string
  dr_reasoning :: string
  dr_trace_json :: string

record ChatRow =
  cr_id :: int
  cr_namespace :: string
  cr_name :: string
  cr_role :: string
  cr_content :: string
  cr_created_at :: string

text \<open>The database behind a \<^verbatim>\<open>Store\<close>: the tables and the AUTOINCREMENT counters.\<close>

record Store =
  db_incidents :: "IncidentRow list"
  db_diagnoses :: "DiagnosisRow list"
  db_chat :: "ChatRow list"
  db_next_diagnosis :: int
  db_next_chat :: int

definition empty_store :: Store where
  "empty_store = \<lparr>db_incidents = [], db_diagnoses = [], db_chat = [],
     db_next_diagnosis = 1, db_next_chat = 1\<rparr>"

type_synonym row_key = "string \<times> string"

definition ir_key :: "IncidentRow \<Rightarrow> row_key" where
  "ir_key r = (ir_namespace r, ir_name r)"

definition dr_key :: "DiagnosisRow \<Rightarrow> row_key" where
  "dr_key r = (dr_namespace r, dr_name r)"

definition cr_key :: "ChatRow \<Rightarrow> row_key" where
  "cr_key r = (cr_namespace r, cr_name r)"

definition inc_key :: "Incident \<Rightarrow> row_key" where
  "inc_key i = (inc_Namespace i, inc_Name i)"

section \<open>Time columns\<close>

definition fmtTimePtr :: "gotime option \<Rightarrow> string option" where
  "fmtTimePtr t = (case t of None \<Rightarrow> None | Some x \<Rightarrow> Some (fmt_rfc3339 x))"

text \<open>
  \<^verbatim>\<open>time.Parse\<close> accepts a fraction after the seconds in both layouts, so the second attempt
  with \<^verbatim>\<open>time.RFC3339\<close> accepts the same texts; a text neither accepts gives the zero time.
\<close>

definition parseTime :: "string \<Rightarrow> gotime" where
  "parseTime s =
     (case parse_rfc3339 s of
        Some t \<Rightarrow> t
      | None \<Rightarrow> (case parse_rfc3339 s of Some t \<Rightarrow> t | None \<Rightarrow> zero_time))"

definition parseTimePtr :: "string option \<Rightarrow> gotime option" where
  "parseTimePtr s =
     (case s of
        None \<Rightarrow> None
      | Some x \<Rightarrow> (let t = parseTime x in if IsZero t then None else Some t))"

section \<open>The WHERE clause\<close>

definition buildWhere :: "IncidentFilter \<Rightarrow> bool \<Rightarrow> string \<times> string list" where
  "buildWhere f includePhase =
     (let (c1, a1) = (if includePhase \<and> flt_Phase f \<noteq> []
                      then ([''phase = ?''], [flt_Phase f]) else ([], []));
          (c2, a2) = (if flt_Namespace f \<noteq> []
                      then (c1 @ [''namespace = ?''], a1 @ [flt_Namespace f]) else (c1, a1));
          (c3, a3) = (if flt_Reason f \<noteq> []
                      then (c2 @ [''reason = ?''], a2 @ [flt_Reason f]) else (c2, a2));
          (c4, a4) = (if flt_Query f \<noteq> []
                      then (c3 @ [''(name LIKE ? OR message LIKE ? OR reason LIKE ?)''],
                            (let w = ''%'' @ flt_Query f @ ''%'' in a3 @ [w, w, w]))
                      else (c3, a3))
      in if c4 = [] then ([], []) else ('' WHERE '' @ join_sep '' AND '' c4, a4))"

text \<open>
  SQLite's \<^verbatim>\<open>LIKE\<close>: \<^verbatim>\<open>%\<close> matches any run of characters, \<^verbatim>\<open>_\<close> one character, anything
  else itself up to the case of ASCII letters. A character is a leading byte with its
  continuation bytes.
\<close>

definition skip_char :: "string \<Rightarrow> string" where
  "skip_char s =
     (case s of [] \<Rightarrow> []
      | c # r \<Rightarrow> if byte c \<ge> 0xC0 then dropWhile (\<lambda>d. 0x80 \<le> byte d \<and> byte d < 0xC0) r else r)"

lemma skip_char_length: "s \<noteq> [] \<Longrightarrow> length (skip_char s) < length s"
proof (cases s)
  case (Cons c r)
  then show ?thesis
    using length_dropWhile_le [of "\<lambda>d. 0x80 \<le> byte d \<and> byte d < 0xC0" r]
    by (simp add: skip_char_def less_Suc_eq_le)
qed simp

function sql_like :: "string \<Rightarrow> string \<Rightarrow> bool" where
  "sql_like [] s = (s = [])"
| "sql_like (p # ps) s =
     (if p = CHR ''%'' then sql_like ps s \<or> (if s = [] then False else sql_like (p # ps) (skip_char s))
      else if s = [] then False
      else if p = CHR ''_'' then sql_like ps (skip_char s)
      else lower_char p = lower_char (hd s) \<and> sql_like ps (tl s))"
  by pat_completeness auto
termination
  by (relation "measure (\<lambda>(p, s). length p + length s)")
    (auto dest: skip_char_length intro: less_trans)

declare sql_like.simps [simp del]

text \<open>
  Evaluation of the clause text with its bound parameters on a row: the text is split
  into its conditions, and each condition takes its parameters from the front of the list.
  A text that is not such a clause has no value.
\<close>

datatype condition = ColEq "IncidentRow \<Rightarrow> string" | LikeAny "(IncidentRow \<Rightarrow> string) list"

definition condition_texts :: "(string \<times> condition) list" where
  "condition_texts =
     [(''phase = ?'', ColEq ir_phase), (''namespace = ?'', ColEq ir_namespace),
      (''reason = ?'', ColEq ir_reason),
      (''(name LIKE ? OR message LIKE ? OR reason LIKE ?)'',
       LikeAny [ir_name, ir_message, ir_reason])]"

fun read_condition :: "(string \<times> condition) list \<Rightarrow> string \<Rightarrow> (condition \<times> string) option" where
  "read_condition [] s = None"
| "read_condition ((x, c) # xs) s =
     (case strip_lit x s of Some t \<Rightarrow> Some (c, t) | None \<Rightarrow> read_condition xs s)"

fun holds :: "condition \<Rightarrow> string list \<Rightarrow> IncidentRow \<Rightarrow> bool" where
  "holds (ColEq col) args r = (args \<noteq> [] \<and> col r = hd args)"
| "holds (LikeAny cols) args r = list_ex (\<lambda>(col, w). sql_like w (col r)) (zip cols args)"

fun arity :: "condition \<Rightarrow> nat" where
  "arity (ColEq col) = 1"
| "arity (LikeAny cols) = length cols"

text \<open>A clause has at most four conditions; the first argument bounds how many are read.\<close>

fun read_conditions :: "nat \<Rightarrow> string \<Rightarrow> condition list option" where
  "read_conditions 0 s = None"
| "read_conditions (Suc n) s =
     (case read_condition condition_texts s of
        None \<Rightarrow> None
      | Some (c, t) \<Rightarrow>
          if t = [] then Some [c]
          else (case strip_lit '' AND '' t of
                  None \<Rightarrow> None
                | Some u \<Rightarrow> map_option ((#) c) (read_conditions n u)))"

fun all_hold :: "condition list \<Rightarrow> string list \<Rightarrow> IncidentRow \<Rightarrow> bool" where
  "all_hold [] args r = True"
| "all_hold (c # cs) args r = (holds c args r \<and> all_hold cs (drop (arity c) args) r)"

definition sql_where :: "string \<times> string list \<Rightarrow> IncidentRow \<Rightarrow> bool option" where
  "sql_where w r =
     (let (txt, args) = w in
      if txt = [] then Some True
      else (case strip_lit '' WHERE '' txt of
              None \<Rightarrow> None
            | Some t \<Rightarrow> map_option (\<lambda>cs. all_hold cs args r) (read_conditions 4 t)))"

definition selected :: "string \<times> string list \<Rightarrow> IncidentRow list \<Rightarrow> IncidentRow list" where
  "selected w rs = filter (\<lambda>r. sql_where w r = Some True) rs"

section \<open>Row order and paging\<close>

record sql_order =
  so_incidents :: "IncidentRow list \<Rightarrow> IncidentRow list"
  so_diagnoses :: "DiagnosisRow list \<Rightarrow> DiagnosisRow list"

definition sql_order_ok :: "sql_order \<Rightarrow> bool" where
  "sql_order_ok so \<longleftrightarrow>
     (\<forall>rs. mset (so_incidents so rs) = mset rs
        \<and> sorted_wrt (\<lambda>a b. ir_updated_at b \<le> ir_updated_at a) (so_incidents so rs))
     \<and> (\<forall>ds. mset (so_diagnoses so ds) = mset ds
        \<and> sorted_wrt (\<lambda>a b. dr_created_at a \<le> dr_created_at b) (so_diagnoses so ds))"

text \<open>One admissible order: rows with equal keys in row-id order.\<close>

definition stable_order :: sql_order where
  "stable_order = \<lparr>so_incidents = (\<lambda>rs. rev (sort_key ir_updated_at (rev rs))),
     so_diagnoses = sort_key dr_created_at\<rparr>"

text \<open>A negative limit is no limit and a negative offset is none.\<close>

definition sql_limit :: "int \<Rightarrow> int \<Rightarrow> 'a list \<Rightarrow> 'a list" where
  "sql_limit limit offset xs =
     (let ys = drop (nat offset) xs in if limit < 0 then ys else take (nat limit) ys)"

section \<open>Operations\<close>

text \<open>\<^verbatim>\<open>COALESCE(NULLIF(new, ''), old)\<close>.\<close>

definition coalesce :: "string \<Rightarrow> string \<Rightarrow> string" where
  "coalesce new old = (if new = [] then old else new)"

definition incident_row :: "gotime \<Rightarrow> Incident \<Rightarrow> IncidentRow" where
  "incident_row now inc =
     \<lparr>ir_namespace = inc_Namespace inc, ir_name = inc_Name inc, ir_event_uid = inc_EventUID inc,
      ir_involved_object_kind = inc_InvolvedObjectKind inc,
      ir_involved_object_name = inc_InvolvedObjectName inc,
      ir_involved_object_namespace = inc_InvolvedObjectNamespace inc,
      ir_reason = inc_Reason inc, ir_message = inc_Message inc, ir_phase = inc_Phase inc,
      ir_started_at = fmtTimePtr (inc_StartedAt inc),
      ir_completed_at = fmtTimePtr (inc_CompletedAt inc),
      ir_llm_provider = inc_LLMProvider inc, ir_llm_model = inc_LLMModel inc,
      ir_tokens_used = inc_TokensUsed inc, ir_prompt_redacted = inc_PromptRedacted inc,
      ir_persisted = inc_Persisted inc,
      ir_created_at =
        fmt_rfc3339nano (if \<not> IsZero (inc_CreatedAt inc) then inc_CreatedAt inc else now),
      ir_updated_at =
        fmt_rfc3339nano (if \<not> IsZero (inc_UpdatedAt inc) then inc_UpdatedAt inc else now)\<rparr>"

definition do_update :: "IncidentRow \<Rightarrow> IncidentRow \<Rightarrow> IncidentRow" where
  "do_update excluded old = old\<lparr>
     ir_event_uid := coalesce (ir_event_uid excluded) (ir_event_uid old),
     ir_involved_object_kind :=
       coalesce (ir_involved_object_kind excluded) (ir_involved_object_kind old),
     ir_involved_object_name :=
       coalesce (ir_involved_object_name excluded) (ir_involved_object_name old),
     ir_involved_object_namespace :=
       coalesce (ir_involved_object_namespace excluded) (ir_involved_object_namespace old),
     ir_reason := coalesce (ir_reason excluded) (ir_reason old),
     ir_message := coalesce (ir_message excluded) (ir_message old),
     ir_phase := ir_phase excluded,
     ir_started_at := ir_started_at excluded,
     ir_completed_at := ir_completed_at excluded,
     ir_llm_provider := coalesce (ir_llm_provider excluded) (ir_llm_provider old),
     ir_llm_model := coalesce (ir_llm_model excluded) (ir_llm_model old),
     ir_tokens_used := ir_tokens_used excluded,
     ir_prompt_redacted := ir_prompt_redacted excluded,
     ir_persisted := ir_persisted excluded,
     ir_updated_at := ir_updated_at excluded\<rparr>"

text \<open>\<^verbatim>\<open>INSERT ... ON CONFLICT(namespace, name) DO UPDATE\<close>.\<close>

fun upsert_row :: "IncidentRow \<Rightarrow> IncidentRow list \<Rightarrow> IncidentRow list" where
  "upsert_row x [] = [x]"
| "upsert_row x (r # rs) =
     (if ir_key r = ir_key x then do_update x r # rs else r # upsert_row x rs)"

definition UpsertIncident ::
  "gotime \<Rightarrow> err option \<Rightarrow> Incident \<Rightarrow> Store \<Rightarrow> err option \<times> Store" where
  "UpsertIncident now fault inc db =
     (case fault of
        Some e \<Rightarrow> (Some e, db)
      | None \<Rightarrow> (None, db\<lparr>db_incidents := upsert_row (incident_row now inc) (db_incidents db)\<rparr>))"

text \<open>\<open>payload\<close> is what \<^verbatim>\<open>json.Marshal\<close> makes of the RCA payload.\<close>

definition InsertDiagnosis ::
  "gotime \<Rightarrow> err option \<Rightarrow> Diagnosis \<Rightarrow> err + string \<Rightarrow> Store \<Rightarrow> err option \<times> Store" where
  "InsertDiagnosis now fault d payload db =
     (case payload of
        Inl e \<Rightarrow> (Some (errorf_w ''marshal rca payload: '' e), db)
      | Inr rcaJSON \<Rightarrow>
          (let ctxJSON = (if dg_ContextJSON d = [] then ''{}'' else dg_ContextJSON d);
               traceJSON = (if dg_TraceJSON d = [] then ''[]'' else dg_TraceJSON d)
           in case fault of
                Some e \<Rightarrow> (Some e, db)
              | None \<Rightarrow>
                  (None, db\<lparr>
                     db_diagnoses := db_diagnoses db @
                       [\<lparr>dr_id = db_next_diagnosis db, dr_namespace = dg_Namespace d,
                         dr_name = dg_Name d, dr_event_uid = dg_EventUID d,
                         dr_rca_json = rcaJSON, dr_summary = dg_Summary d,
                         dr_root_cause = dg_RootCause d, dr_remediation = dg_Remediation d,
                         dr_confidence = dg_Confidence d, dr_created_at = fmt_rfc3339nano now,
                         dr_context_json = ctxJSON, dr_reasoning = dg_Reasoning d,
                         dr_trace_json = traceJSON\<rparr>],
                     db_next_diagnosis := db_next_diagnosis db + 1\<rparr>)))"

text \<open>
  \<^verbatim>\<open>Prune\<close> runs three deletes in one transaction; a failing step rolls back. The first
  two deletes select the keys from the incidents table, which the last one shortens. The
  faults are those of \<^verbatim>\<open>BeginTx\<close>, the three statements and \<^verbatim>\<open>Commit\<close>.
\<close>

record prune_faults =
  pf_begin :: "err option"
  pf_chat :: "err option"
  pf_diagnoses :: "err option"
  pf_incidents :: "err option"
  pf_commit :: "err option"

definition match_old :: "string \<Rightarrow> IncidentRow list \<Rightarrow> row_key list" where
  "match_old cutoff rs = map ir_key (filter (\<lambda>r. ir_updated_at r < cutoff) rs)"

definition Prune :: "prune_faults \<Rightarrow> gotime \<Rightarrow> Store \<Rightarrow> (err + int) \<times> Store" where
  "Prune f olderThan db =
     (let cutoff = fmt_rfc3339nano olderThan in
      case pf_begin f of Some e \<Rightarrow> (Inl (errorf_w ''begin prune tx: '' e), db)
      | None \<Rightarrow>
     (case pf_chat f of Some e \<Rightarrow> (Inl (errorf_w ''prune children: '' e), db)
      | None \<Rightarrow>
          (let tx1 = db\<lparr>db_chat :=
                 filter (\<lambda>c. cr_key c \<notin> set (match_old cutoff (db_incidents db))) (db_chat db)\<rparr> in
      case pf_diagnoses f of Some e \<Rightarrow> (Inl (errorf_w ''prune children: '' e), db)
      | None \<Rightarrow>
          (let tx2 = tx1\<lparr>db_diagnoses :=
                 filter (\<lambda>d. dr_key d \<notin> set (match_old cutoff (db_incidents tx1)))
                   (db_diagnoses tx1)\<rparr> in
      case pf_incidents f of Some e \<Rightarrow> (Inl (errorf_w ''prune incidents: '' e), db)
      | None \<Rightarrow>
          (let tx3 = tx2\<lparr>db_incidents :=
                 filter (\<lambda>r. \<not> ir_updated_at r < cutoff) (db_incidents tx2)\<rparr>;
               n = int (length (filter (\<lambda>r. ir_updated_at r < cutoff) (db_incidents tx2))) in
      case pf_commit f of Some e \<Rightarrow> (Inl (errorf_w ''commit prune tx: '' e), db)
      | None \<Rightarrow> (Inr n, tx3))))))"

definition scanIncident :: "IncidentRow \<Rightarrow> Incident" where
  "scanIncident r =
     \<lparr>inc_Namespace = ir_namespace r, inc_Name = ir_name r, inc_EventUID = ir_event_uid r,
      inc_InvolvedObjectKind = ir_involved_object_kind r,
      inc_InvolvedObjectName = ir_involved_object_name r,
      inc_InvolvedObjectNamespace = ir_involved_object_namespace r,
      inc_Reason = ir_reason r, inc_Message = ir_message r, inc_Phase = ir_phase r,
      inc_StartedAt = parseTimePtr (ir_started_at r),
      inc_CompletedAt = parseTimePtr (ir_completed_at r),
      inc_LLMProvider = ir_llm_provider r, inc_LLMModel = ir_llm_model r,
      inc_TokensUsed = ir_tokens_used r, inc_PromptRedacted = ir_prompt_redacted r,
      inc_Persisted = ir_persisted r,
      inc_CreatedAt = parseTime (ir_created_at r), inc_UpdatedAt = parseTime (ir_updated_at r)\<rparr>"

definition ListIncidentsPage ::
  "sql_order \<Rightarrow> err option \<Rightarrow> IncidentFilter \<Rightarrow> int \<Rightarrow> int \<Rightarrow> Store \<Rightarrow> err + Incident list" where
  "ListIncidentsPage so fault flt limit offset db =
     (case fault of
        Some e \<Rightarrow> Inl e
      | None \<Rightarrow>
          Inr (map scanIncident
            (sql_limit limit offset
              (so_incidents so (selected (buildWhere flt True) (db_incidents db))))))"

definition ListIncidents :: "sql_order \<Rightarrow> err option \<Rightarrow> int \<Rightarrow> Store \<Rightarrow> err + Incident list" where
  "ListIncidents so fault limit db = ListIncidentsPage so fault no_filter limit 0 db"

definition CountIncidents :: "err option \<Rightarrow> IncidentFilter \<Rightarrow> Store \<Rightarrow> err + int" where
  "CountIncidents fault flt db =
     (case fault of
        Some e \<Rightarrow> Inl e
      | None \<Rightarrow> Inr (int (length (selected (buildWhere flt True) (db_incidents db)))))"

text \<open>\<^verbatim>\<open>GROUP BY phase\<close>: one row per phase that occurs, with its count.\<close>

definition CountIncidentsByPhase ::
  "err option \<Rightarrow> IncidentFilter \<Rightarrow> Store \<Rightarrow> err + (string, int) gomap" where
  "CountIncidentsByPhase fault flt db =
     (case fault of
        Some e \<Rightarrow> Inl e
      | None \<Rightarrow>
          (let rs = selected (buildWhere flt False) (db_incidents db);
               phases = remdups (map ir_phase rs)
           in Inr (fold (\<lambda>p out. gm_put p (int (count_list (map ir_phase rs) p)) out) phases [])))"

definition ErrNoRows :: err where
  "ErrNoRows = errorf ''sql: no rows in result set''"

definition scanDiagnosis :: "DiagnosisRow \<Rightarrow> Diagnosis" where
  "scanDiagnosis r =
     \<lparr>dg_ID = dr_id r, dg_Namespace = dr_namespace r, dg_Name = dr_name r,
      dg_EventUID = dr_event_uid r, dg_RCAJson = dr_rca_json r, dg_Summary = dr_summary r,
      dg_RootCause = dr_root_cause r, dg_Remediation = dr_remediation r,
      dg_Confidence = dr_confidence r, dg_CreatedAt = parseTime (dr_created_at r),
      dg_ContextJSON = dr_context_json r, dg_Reasoning = dr_reasoning r,
      dg_TraceJSON = dr_trace_json r\<rparr>"

text \<open>\<^verbatim>\<open>QueryRow\<close> reads the first row of its result; the two faults are of the two queries.\<close>

definition GetIncident ::
  "sql_order \<Rightarrow> err option \<Rightarrow> err option \<Rightarrow> string \<Rightarrow> string \<Rightarrow> Store \<Rightarrow> err + IncidentDetail" where
  "GetIncident so fault1 fault2 namespace name db =
     (case fault1 of
        Some e \<Rightarrow> Inl e
      | None \<Rightarrow>
          (case filter (\<lambda>r. ir_namespace r = namespace \<and> ir_name r = name) (db_incidents db) of
             [] \<Rightarrow> Inl ErrNoRows
           | r # _ \<Rightarrow>
               (case fault2 of
                  Some e \<Rightarrow> Inl e
                | None \<Rightarrow>
                    Inr \<lparr>det_Incident = scanIncident r,
                      det_Diagnoses = map scanDiagnosis
                        (so_diagnoses so
                          (filter (\<lambda>d. dr_namespace d = namespace \<and> dr_name d = name)
                            (db_diagnoses db)))\<rparr>)))"

definition AppendChatMessage ::
  "gotime \<Rightarrow> err option \<Rightarrow> string \<Rightarrow> string \<Rightarrow> string \<Rightarrow> string \<Rightarrow> Store \<Rightarrow> err option \<times> Store" where
  "AppendChatMessage now fault namespace name role content db =
     (case fault of
        Some e \<Rightarrow> (Some e, db)
      | None \<Rightarrow>
          (None, db\<lparr>
             db_chat := db_chat db @
               [\<lparr>cr_id = db_next_chat db, cr_namespace = namespace, cr_name = name,
                 cr_role = role, cr_content = content, cr_created_at = fmt_rfc3339nano now\<rparr>],
             db_next_chat := db_next_chat db + 1\<rparr>))"

definition scanChat :: "ChatRow \<Rightarrow> ChatMessage" where
  "scanChat r =
     \<lparr>cm_ID = cr_id r, cm_Namespace = cr_namespace r, cm_Name = cr_name r, cm_Role = cr_role r,
      cm_Content = cr_content r, cm_CreatedAt = parseTime (cr_created_at r)\<rparr>"

definition ListChatMessages ::
  "err option \<Rightarrow> string \<Rightarrow> string \<Rightarrow> Store \<Rightarrow> err + ChatMessage list" where
  "ListChatMessages fault namespace name db =
     (case fault of
        Some e \<Rightarrow> Inl e
      | None \<Rightarrow>
          Inr (map scanChat
            (sort_key cr_id
              (filter (\<lambda>c. cr_namespace c = namespace \<and> cr_name c = name) (db_chat db)))))"

end
