(* ===== verification/Store_Laws.thy ===== *)
theory Store_Laws
  imports Store
begin

text \<open>
  What the store promises. The WHERE clause means the filter and binds every value
  (\<^verbatim>\<open>sql_where_buildWhere\<close>). Seen through \<^verbatim>\<open>incident_at\<close>, the incidents table is a finite
  map, which \<^verbatim>\<open>UpsertIncident\<close> updates at one key and \<^verbatim>\<open>Prune\<close> restricts. Pages partition the
  filtered list, and the counts agree with it. The locale \<^verbatim>\<open>diagnosis_store\<close> is the interface
  the reconciler holds.
\<close>

section \<open>The WHERE clause\<close>

definition matches :: "IncidentFilter \<Rightarrow> bool \<Rightarrow> IncidentRow \<Rightarrow> bool" where
  "matches f includePhase r \<longleftrightarrow>
     (includePhase \<and> flt_Phase f \<noteq> [] \<longrightarrow> ir_phase r = flt_Phase f)
     \<and> (flt_Namespace f \<noteq> [] \<longrightarrow> ir_namespace r = flt_Namespace f)
     \<and> (flt_Reason f \<noteq> [] \<longrightarrow> ir_reason r = flt_Reason f)
     \<and> (flt_Query f \<noteq> [] \<longrightarrow>
          (let w = ''%'' @ flt_Query f @ ''%''
           in sql_like w (ir_name r) \<or> sql_like w (ir_message r) \<or> sql_like w (ir_reason r)))"

lemma sql_where_buildWhere: "sql_where (buildWhere f b) r = Some (matches f b r)"
proof -
  note where_simps = buildWhere_def sql_where_def matches_def strip_lit_def condition_texts_def
    numeral_nat
  show ?thesis
    by (cases b; cases "flt_Phase f = []"; cases "flt_Namespace f = []"; cases "flt_Reason f = []";
        cases "flt_Query f = []")
      (simp_all add: where_simps Let_def)
qed

lemma selected_matches: "selected (buildWhere f b) rs = filter (matches f b) rs"
  by (simp add: selected_def sql_where_buildWhere)

lemma buildWhere_text:
  assumes "flt_Phase f = [] \<longleftrightarrow> flt_Phase g = []" "flt_Namespace f = [] \<longleftrightarrow> flt_Namespace g = []"
    "flt_Reason f = [] \<longleftrightarrow> flt_Reason g = []" "flt_Query f = [] \<longleftrightarrow> flt_Query g = []"
  shows "fst (buildWhere f b) = fst (buildWhere g b)"
  using assms by (simp add: buildWhere_def Let_def)

lemma buildWhere_placeholders:
  "count_list (fst (buildWhere f b)) (CHR ''?'') = length (snd (buildWhere f b))"
  by (cases b; cases "flt_Phase f = []"; cases "flt_Namespace f = []"; cases "flt_Reason f = []";
      cases "flt_Query f = []")
    (simp_all add: buildWhere_def Let_def)

text \<open>
C24: The WHERE clause of a filter is fixed text: it depends on which fields are set and not on
their values (SEC-002), it has one placeholder per bound argument, and evaluated with those
arguments it selects exactly the rows that match every set field.
\<close>

theorem buildWhere_selects_exactly_bound:
  "sql_where (buildWhere f b) r = Some (matches f b r)
   \<and> count_list (fst (buildWhere f b)) (CHR ''?'') = length (snd (buildWhere f b))
   \<and> fst (buildWhere f b) = fst (buildWhere
        \<lparr>flt_Phase = take 1 (flt_Phase f), flt_Namespace = take 1 (flt_Namespace f),
         flt_Reason = take 1 (flt_Reason f), flt_Query = take 1 (flt_Query f)\<rparr> b)"
  by (intro conjI sql_where_buildWhere buildWhere_placeholders buildWhere_text) simp_all

section \<open>Times in text columns\<close>

definition trunc_second :: "gotime \<Rightarrow> gotime" where
  "trunc_second t = t div nanos_per_second * nanos_per_second"

lemma parseTime_nano: "year_in_range t \<Longrightarrow> parseTime (fmt_rfc3339nano t) = t"
  by (simp add: parseTime_def parse_fmt_rfc3339nano)

lemma parseTime_seconds: "year_in_range t \<Longrightarrow> parseTime (fmt_rfc3339 t) = trunc_second t"
  by (simp add: parseTime_def parse_fmt_rfc3339 trunc_second_def)

definition ptr_storable :: "gotime option \<Rightarrow> bool" where
  "ptr_storable p = (case p of None \<Rightarrow> True | Some t \<Rightarrow> year_in_range t \<and> \<not> IsZero (trunc_second t))"

lemma parseTimePtr_fmtTimePtr:
  "ptr_storable p \<Longrightarrow> parseTimePtr (fmtTimePtr p) = map_option trunc_second p"
  by (simp add: ptr_storable_def parseTimePtr_def fmtTimePtr_def parseTime_seconds
      split: option.splits)

section \<open>The incidents table as a map\<close>

definition row_at :: "row_key \<Rightarrow> IncidentRow list \<Rightarrow> IncidentRow option" where
  "row_at k rs = find (\<lambda>r. ir_key r = k) rs"

definition incident_at :: "Store \<Rightarrow> row_key \<Rightarrow> Incident option" where
  "incident_at db k = map_option scanIncident (row_at k (db_incidents db))"

definition diagnoses_at :: "Store \<Rightarrow> row_key \<Rightarrow> Diagnosis list" where
  "diagnoses_at db k = map scanDiagnosis (filter (\<lambda>d. dr_key d = k) (db_diagnoses db))"

lemma row_at_key: "row_at k rs = Some r \<Longrightarrow> ir_key r = k"
  by (auto simp: row_at_def find_Some_iff)

lemma do_update_key [simp]: "ir_key (do_update x r) = ir_key r"
  by (simp add: do_update_def ir_key_def)

lemma row_at_upsert:
  "row_at k (upsert_row x rs) =
     (if k = ir_key x
      then Some (case row_at k rs of None \<Rightarrow> x | Some r \<Rightarrow> do_update x r)
      else row_at k rs)"
  by (induction rs) (auto simp: row_at_def)

lemma upsert_row_keys:
  "map ir_key (upsert_row x rs) =
     (if ir_key x \<in> ir_key ` set rs then map ir_key rs else map ir_key rs @ [ir_key x])"
  by (induction rs) auto

lemma upsert_row_mem:
  "r \<in> set (upsert_row x rs) \<Longrightarrow> r \<in> set rs \<or> r = x \<or> (\<exists>r' \<in> set rs. r = do_update x r')"
  by (induction rs) (auto split: if_splits)

text \<open>The meaning of an upsert for the incident at its key.\<close>

definition effective_time :: "gotime \<Rightarrow> gotime \<Rightarrow> gotime" where
  "effective_time now t = (if \<not> IsZero t then t else now)"

definition fresh_incident :: "gotime \<Rightarrow> Incident \<Rightarrow> Incident" where
  "fresh_incident now inc = inc\<lparr>
     inc_StartedAt := map_option trunc_second (inc_StartedAt inc),
     inc_CompletedAt := map_option trunc_second (inc_CompletedAt inc),
     inc_CreatedAt := effective_time now (inc_CreatedAt inc),
     inc_UpdatedAt := effective_time now (inc_UpdatedAt inc)\<rparr>"

definition merge_incident :: "Incident \<Rightarrow> Incident \<Rightarrow> Incident" where
  "merge_incident new old = new\<lparr>
     inc_EventUID := coalesce (inc_EventUID new) (inc_EventUID old),
     inc_InvolvedObjectKind := coalesce (inc_InvolvedObjectKind new) (inc_InvolvedObjectKind old),
     inc_InvolvedObjectName := coalesce (inc_InvolvedObjectName new) (inc_InvolvedObjectName old),
     inc_InvolvedObjectNamespace :=
       coalesce (inc_InvolvedObjectNamespace new) (inc_InvolvedObjectNamespace old),
     inc_Reason := coalesce (inc_Reason new) (inc_Reason old),
     inc_Message := coalesce (inc_Message new) (inc_Message old),
     inc_LLMProvider := coalesce (inc_LLMProvider new) (inc_LLMProvider old),
     inc_LLMModel := coalesce (inc_LLMModel new) (inc_LLMModel old),
     inc_CreatedAt := inc_CreatedAt old\<rparr>"

definition incident_times_ok :: "gotime \<Rightarrow> Incident \<Rightarrow> bool" where
  "incident_times_ok now inc \<longleftrightarrow>
     year_in_range (effective_time now (inc_CreatedAt inc))
     \<and> year_in_range (effective_time now (inc_UpdatedAt inc))
     \<and> ptr_storable (inc_StartedAt inc) \<and> ptr_storable (inc_CompletedAt inc)"

lemma scan_incident_row:
  "incident_times_ok now inc \<Longrightarrow> scanIncident (incident_row now inc) = fresh_incident now inc"
  by (simp add: scanIncident_def incident_row_def fresh_incident_def incident_times_ok_def
      parseTimePtr_fmtTimePtr parseTime_nano effective_time_def)

lemma scan_do_update:
  "ir_key x = ir_key r \<Longrightarrow> scanIncident (do_update x r) = merge_incident (scanIncident x) (scanIncident r)"
  by (simp add: scanIncident_def do_update_def merge_incident_def ir_key_def)

lemma incident_row_key [simp]: "ir_key (incident_row now inc) = inc_key inc"
  by (simp add: ir_key_def incident_row_def inc_key_def)

definition upsert_spec ::
  "gotime \<Rightarrow> Incident \<Rightarrow> (row_key \<Rightarrow> Incident option) \<Rightarrow> row_key \<Rightarrow> Incident option" where
  "upsert_spec now inc m = m(inc_key inc \<mapsto>
     (case m (inc_key inc) of
        None \<Rightarrow> fresh_incident now inc
      | Some old \<Rightarrow> merge_incident (fresh_incident now inc) old))"

lemma incident_at_upsert:
  assumes "incident_times_ok now inc"
  shows "incident_at (snd (UpsertIncident now None inc db)) = upsert_spec now inc (incident_at db)"
proof (rule ext)
  fix k
  show "incident_at (snd (UpsertIncident now None inc db)) k = upsert_spec now inc (incident_at db) k"
    by (cases "k = inc_key inc"; cases "row_at k (db_incidents db)")
      (simp_all add: incident_at_def UpsertIncident_def upsert_spec_def row_at_upsert
        scan_incident_row [OF assms] scan_do_update [OF _] row_at_key)
qed

text \<open>
C20: Upserting an incident refines an update of a map from (namespace, name) to incidents: a
new key gets the incident, an existing one keeps its creation time and every text field the
new incident leaves empty and takes the new phase, times, tokens and flags; no other key and
no diagnosis or chat row changes, and a failed statement changes nothing.
\<close>

theorem UpsertIncident_refines_map:
  assumes "incident_times_ok now inc"
  shows "incident_at (snd (UpsertIncident now None inc db)) = upsert_spec now inc (incident_at db)
    \<and> fst (UpsertIncident now None inc db) = None
    \<and> db_diagnoses (snd (UpsertIncident now fault inc db)) = db_diagnoses db
    \<and> db_chat (snd (UpsertIncident now fault inc db)) = db_chat db
    \<and> UpsertIncident now (Some e) inc db = (Some e, db)"
  using incident_at_upsert [OF assms] by (simp add: UpsertIncident_def split: option.splits)

text \<open>An incident and a clock reading for the closed instances.\<close>

definition sample_now :: gotime where
  "sample_now = 1760000000 * nanos_per_second + 250000000"

definition sample_incident :: Incident where
  "sample_incident = \<lparr>inc_Namespace = ''kscribe'', inc_Name = ''diag-1'', inc_EventUID = ''u1'',
     inc_InvolvedObjectKind = ''Pod'', inc_InvolvedObjectName = ''web-0'',
     inc_InvolvedObjectNamespace = ''prod'', inc_Reason = ''BackOff'', inc_Message = ''crash'',
     inc_Phase = ''Diagnosing'', inc_StartedAt = Some sample_now, inc_CompletedAt = None,
     inc_LLMProvider = ''openai'', inc_LLMModel = ''m'', inc_TokensUsed = 0,
     inc_PromptRedacted = False, inc_Persisted = False, inc_CreatedAt = zero_time,
     inc_UpdatedAt = zero_time\<rparr>"

lemma sample_times_ok: "incident_times_ok sample_now sample_incident"
  by code_simp

theorem UpsertIncident_refines_map_witness:
  "incident_at (snd (UpsertIncident sample_now None sample_incident empty_store)) (''kscribe'', ''diag-1'')
     = Some (fresh_incident sample_now sample_incident)"
  using UpsertIncident_refines_map [OF sample_times_ok, of empty_store None ErrNoRows]
  by (simp add: upsert_spec_def inc_key_def sample_incident_def incident_at_def row_at_def
      empty_store_def)

section \<open>Invariant\<close>

text \<open>
  Keys are unique, ids grow along the tables and stay below the counters, and every time
  column is a text that \<^verbatim>\<open>Format\<close> writes.
\<close>

definition nano_text :: "string \<Rightarrow> bool" where
  "nano_text s \<longleftrightarrow> (let t = parseTime s in year_in_range t \<and> fmt_rfc3339nano t = s)"

definition store_ok :: "Store \<Rightarrow> bool" where
  "store_ok db \<longleftrightarrow>
     distinct (map ir_key (db_incidents db))
     \<and> (\<forall>r \<in> set (db_incidents db). nano_text (ir_created_at r) \<and> nano_text (ir_updated_at r))
     \<and> sorted_wrt (<) (map dr_id (db_diagnoses db))
     \<and> (\<forall>d \<in> set (db_diagnoses db). dr_id d < db_next_diagnosis db \<and> nano_text (dr_created_at d))
     \<and> sorted_wrt (<) (map cr_id (db_chat db))
     \<and> (\<forall>c \<in> set (db_chat db). cr_id c < db_next_chat db \<and> nano_text (cr_created_at c))"

lemma nano_text_fmt: "year_in_range t \<Longrightarrow> nano_text (fmt_rfc3339nano t)"
  by (simp add: nano_text_def parseTime_nano)

lemma store_ok_empty: "store_ok empty_store"
  by (simp add: store_ok_def empty_store_def)

lemma store_ok_upsert:
  assumes "store_ok db" "incident_times_ok now inc"
  shows "store_ok (snd (UpsertIncident now fault inc db))"
proof (cases fault)
  case None
  let ?x = "incident_row now inc"
  have "nano_text (ir_created_at ?x)" "nano_text (ir_updated_at ?x)"
    using assms(2) by (auto simp: incident_row_def incident_times_ok_def effective_time_def
        intro!: nano_text_fmt)
  then have "\<forall>r \<in> set (upsert_row ?x (db_incidents db)).
      nano_text (ir_created_at r) \<and> nano_text (ir_updated_at r)"
    using assms(1) by (auto dest!: upsert_row_mem simp: store_ok_def do_update_def)
  moreover have "distinct (map ir_key (upsert_row ?x (db_incidents db)))"
    using assms(1) by (auto simp: upsert_row_keys store_ok_def)
  ultimately show ?thesis
    using assms(1) None by (simp add: store_ok_def UpsertIncident_def)
qed (simp add: UpsertIncident_def assms(1))

lemma sorted_wrt_snoc_less:
  "sorted_wrt (<) (map f xs) \<Longrightarrow> \<forall>x \<in> set xs. f x < (n :: int) \<Longrightarrow> sorted_wrt (<) (map f xs @ [n])"
  by (simp add: sorted_wrt_append)

lemma store_ok_insert:
  assumes "store_ok db" "year_in_range now"
  shows "store_ok (snd (InsertDiagnosis now fault d payload db))"
  using assms
  by (auto simp: InsertDiagnosis_def store_ok_def Let_def nano_text_fmt sorted_wrt_append
      split: sum.splits option.splits)

lemma store_ok_append:
  assumes "store_ok db" "year_in_range now"
  shows "store_ok (snd (AppendChatMessage now fault ns name role content db))"
  using assms
  by (auto simp: AppendChatMessage_def store_ok_def nano_text_fmt sorted_wrt_append
      split: option.splits)

lemma sorted_wrt_map_filter: "sorted_wrt P (map f xs) \<Longrightarrow> sorted_wrt P (map f (filter Q xs))"
  by (induction xs) auto

lemma distinct_map_filter_key: "distinct (map f xs) \<Longrightarrow> distinct (map f (filter Q xs))"
  by (induction xs) auto

lemmas prune_split = Prune_def Let_def

lemma store_ok_prune:
  assumes "store_ok db"
  shows "store_ok (snd (Prune f t db))"
  using assms
  by (auto simp: prune_split store_ok_def split: option.splits
      intro: sorted_wrt_map_filter distinct_map_filter_key)

text \<open>
C25: Every store operation keeps the table invariant: one row per (namespace, name), strictly
increasing ids below the AUTOINCREMENT counters, and time columns that parse back, provided
the clock readings have four-digit years.
\<close>

theorem store_operations_keep_invariant:
  assumes "store_ok db" "year_in_range now" "incident_times_ok now inc"
  shows "store_ok (snd (UpsertIncident now fault inc db))
     \<and> store_ok (snd (InsertDiagnosis now fault d payload db))
     \<and> store_ok (snd (AppendChatMessage now fault ns name role content db))
     \<and> store_ok (snd (Prune pf olderThan db))"
  using assms by (intro conjI store_ok_upsert store_ok_insert store_ok_append store_ok_prune)

theorem store_operations_keep_invariant_witness:
  "store_ok (snd (UpsertIncident sample_now None sample_incident empty_store))"
proof -
  have "year_in_range sample_now" by code_simp
  then show ?thesis
    using store_operations_keep_invariant [OF store_ok_empty _ sample_times_ok, of None] by simp
qed

section \<open>Reading an incident back\<close>

lemma filter_find: "filter P xs = [] \<and> find P xs = None \<or> (\<exists>x ys. filter P xs = x # ys \<and> find P xs = Some x)"
  by (induction xs) auto

lemma GetIncident_incident_at:
  "GetIncident so None None ns name db =
     (case incident_at db (ns, name) of
        None \<Rightarrow> Inl ErrNoRows
      | Some i \<Rightarrow> Inr \<lparr>det_Incident = i,
          det_Diagnoses = map scanDiagnosis
            (so_diagnoses so (filter (\<lambda>d. dr_key d = (ns, name)) (db_diagnoses db)))\<rparr>)"
proof -
  have "(\<lambda>r. ir_key r = (ns, name)) = (\<lambda>r. ir_namespace r = ns \<and> ir_name r = name)"
    by (auto simp: ir_key_def)
  moreover have "(\<lambda>d. dr_key d = (ns, name)) = (\<lambda>d. dr_namespace d = ns \<and> dr_name d = name)"
    by (auto simp: dr_key_def)
  ultimately show ?thesis
    using filter_find [of "\<lambda>r. ir_namespace r = ns \<and> ir_name r = name" "db_incidents db"]
    by (auto simp: GetIncident_def incident_at_def row_at_def)
qed

lemma so_diagnoses_mset: "sql_order_ok so \<Longrightarrow> mset (so_diagnoses so ds) = mset ds"
  by (simp add: sql_order_ok_def)

lemma incident_at_insert [simp]:
  "incident_at (snd (InsertDiagnosis now fault d payload db)) = incident_at db"
  by (simp add: incident_at_def InsertDiagnosis_def Let_def fun_eq_iff split: sum.splits option.splits)

lemma diagnoses_at_upsert [simp]:
  "diagnoses_at (snd (UpsertIncident now fault inc db)) = diagnoses_at db"
  by (simp add: diagnoses_at_def UpsertIncident_def fun_eq_iff split: option.splits)

text \<open>The row an insert adds, as \<^verbatim>\<open>GetIncident\<close> reads it back.\<close>

definition inserted :: "gotime \<Rightarrow> Store \<Rightarrow> Diagnosis \<Rightarrow> string \<Rightarrow> Diagnosis" where
  "inserted now db d rcaJSON = d\<lparr>dg_ID := db_next_diagnosis db, dg_RCAJson := rcaJSON,
     dg_CreatedAt := now,
     dg_ContextJSON := (if dg_ContextJSON d = [] then ''{}'' else dg_ContextJSON d),
     dg_TraceJSON := (if dg_TraceJSON d = [] then ''[]'' else dg_TraceJSON d)\<rparr>"

lemma diagnoses_at_insert:
  assumes "year_in_range now"
  shows "diagnoses_at (snd (InsertDiagnosis now None d (Inr rca) db)) k =
     diagnoses_at db k @ (if (dg_Namespace d, dg_Name d) = k then [inserted now db d rca] else [])"
  by (cases k) (simp add: diagnoses_at_def InsertDiagnosis_def Let_def dr_key_def inserted_def
      scanDiagnosis_def parseTime_nano [OF assms])

text \<open>
C22: A successful InsertDiagnosis adds exactly one diagnosis to its incident, with a fresh id,
the marshalled RCA, the clock reading and the defaults for empty context and trace, and
GetIncident returns it among the incident's diagnoses; a marshalling or engine error adds
nothing, and GetIncident fails exactly for keys that have no incident.
\<close>

theorem InsertDiagnosis_visible:
  assumes "sql_order_ok so" "year_in_range now" "store_ok db"
    and "incident_at db (dg_Namespace d, dg_Name d) = Some i"
  shows "(\<exists>det. GetIncident so None None (dg_Namespace d) (dg_Name d)
              (snd (InsertDiagnosis now None d (Inr rca) db)) = Inr det
            \<and> det_Incident det = i
            \<and> mset (det_Diagnoses det) =
                mset (diagnoses_at db (dg_Namespace d, dg_Name d)) + {#inserted now db d rca#})
     \<and> (\<forall>x \<in> set (diagnoses_at db k). dg_ID x \<noteq> dg_ID (inserted now db d rca))
     \<and> snd (InsertDiagnosis now fault d (Inl e) db) = db
     \<and> snd (InsertDiagnosis now (Some e) d (Inr rca) db) = db
     \<and> (GetIncident so None None ns name db = Inl ErrNoRows \<longleftrightarrow> incident_at db (ns, name) = None)"
proof -
  let ?db = "snd (InsertDiagnosis now None d (Inr rca) db)" and ?k = "(dg_Namespace d, dg_Name d)"
  have "mset (map scanDiagnosis (so_diagnoses so ds)) = mset (map scanDiagnosis ds)" for ds
    using so_diagnoses_mset [OF assms(1), of ds] by simp
  then have "mset (map scanDiagnosis (so_diagnoses so (filter (\<lambda>d'. dr_key d' = ?k) (db_diagnoses ?db))))
      = mset (diagnoses_at ?db ?k)"
    by (simp only: diagnoses_at_def)
  then have vis: "\<exists>det. GetIncident so None None (dg_Namespace d) (dg_Name d) ?db = Inr det
      \<and> det_Incident det = i
      \<and> mset (det_Diagnoses det) = mset (diagnoses_at db ?k) + {#inserted now db d rca#}"
    using assms(4) by (simp add: GetIncident_incident_at diagnoses_at_insert [OF assms(2)])
  moreover have "\<forall>x \<in> set (diagnoses_at db k). dg_ID x \<noteq> dg_ID (inserted now db d rca)"
    using assms(3) by (auto simp: diagnoses_at_def inserted_def store_ok_def scanDiagnosis_def)
  moreover have "GetIncident so None None ns name db = Inl ErrNoRows \<longleftrightarrow> incident_at db (ns, name) = None"
    by (simp add: GetIncident_incident_at split: option.splits)
  ultimately show ?thesis
    by (simp add: InsertDiagnosis_def Let_def)
qed

lemma stable_order_ok: "sql_order_ok stable_order"
proof -
  have "sorted_wrt (\<lambda>a b. ir_updated_at b \<le> ir_updated_at a) (rev (sort_key ir_updated_at rs))"
    for rs :: "IncidentRow list"
    using sorted_sort_key [of ir_updated_at rs] by (simp add: sorted_wrt_rev sorted_map)
  moreover have "sorted_wrt (\<lambda>a b. dr_created_at a \<le> dr_created_at b) (sort_key dr_created_at ds)"
    for ds :: "DiagnosisRow list"
    using sorted_sort_key [of dr_created_at ds] by (simp add: sorted_map)
  ultimately show ?thesis
    by (simp add: sql_order_ok_def stable_order_def)
qed

definition sample_diagnosis :: Diagnosis where
  "sample_diagnosis = \<lparr>dg_ID = 0, dg_Namespace = ''kscribe'', dg_Name = ''diag-1'',
     dg_EventUID = ''u1'', dg_RCAJson = [], dg_Summary = ''s'', dg_RootCause = ''r'',
     dg_Remediation = [], dg_Confidence = Float64 0, dg_CreatedAt = zero_time,
     dg_ContextJSON = [], dg_Reasoning = [], dg_TraceJSON = []\<rparr>"

definition sample_store :: Store where
  "sample_store = snd (UpsertIncident sample_now None sample_incident empty_store)"

lemma sample_year: "year_in_range sample_now"
  by code_simp

lemma sample_store_ok: "store_ok sample_store"
  unfolding sample_store_def by (rule store_ok_upsert [OF store_ok_empty sample_times_ok])

theorem InsertDiagnosis_visible_witness:
  "\<exists>det. GetIncident stable_order None None ''kscribe'' ''diag-1''
       (snd (InsertDiagnosis sample_now None sample_diagnosis (Inr ''{}'') sample_store)) = Inr det
     \<and> mset (det_Diagnoses det) = {#inserted sample_now sample_store sample_diagnosis ''{}''#}"
proof -
  have "incident_at sample_store (dg_Namespace sample_diagnosis, dg_Name sample_diagnosis)
      = Some (fresh_incident sample_now sample_incident)"
    unfolding sample_store_def incident_at_upsert [OF sample_times_ok]
    by (simp add: upsert_spec_def inc_key_def sample_incident_def incident_at_def row_at_def
        empty_store_def sample_diagnosis_def)
  moreover have "diagnoses_at sample_store k = []" for k
    unfolding sample_store_def by (simp add: diagnoses_at_def empty_store_def)
  ultimately show ?thesis
    using InsertDiagnosis_visible [OF stable_order_ok sample_year sample_store_ok, of sample_diagnosis]
    by (fastforce simp: sample_diagnosis_def)
qed

section \<open>Pruning\<close>

definition no_prune_faults :: prune_faults where
  "no_prune_faults = \<lparr>pf_begin = None, pf_chat = None, pf_diagnoses = None, pf_incidents = None,
     pf_commit = None\<rparr>"

text \<open>The clock second of no incident is the second of the cutoff.\<close>

definition other_second :: "gotime \<Rightarrow> Store \<Rightarrow> bool" where
  "other_second t db \<longleftrightarrow>
     (\<forall>r \<in> set (db_incidents db).
        parseTime (ir_updated_at r) div nanos_per_second \<noteq> t div nanos_per_second)"

lemma row_older_iff:
  assumes "store_ok db" "year_in_range t" "other_second t db" "r \<in> set (db_incidents db)"
  shows "ir_updated_at r < fmt_rfc3339nano t \<longleftrightarrow> inc_UpdatedAt (scanIncident r) < t"
proof -
  let ?u = "parseTime (ir_updated_at r)"
  have "year_in_range ?u" "fmt_rfc3339nano ?u = ir_updated_at r"
    using assms(1,4) by (auto simp: store_ok_def nano_text_def Let_def)
  moreover have "?u div nanos_per_second \<noteq> t div nanos_per_second"
    using assms(3,4) by (simp add: other_second_def)
  ultimately show ?thesis
    using fmt_nano_less_iff [of ?u t] assms(2) by (simp add: scanIncident_def)
qed

lemma row_at_filter:
  "distinct (map ir_key rs) \<Longrightarrow> row_at k (filter Q rs) =
     (case row_at k rs of None \<Rightarrow> None | Some r \<Rightarrow> if Q r then Some r else None)"
proof (induction rs)
  case (Cons r rs)
  have "row_at k (filter Q rs) = None" if "ir_key r = k"
    using that Cons.prems by (auto simp: row_at_def find_None_iff) (metis image_eqI)
  with Cons show ?case by (auto simp: row_at_def)
qed (simp add: row_at_def)

lemma row_at_mem_iff:
  "distinct (map ir_key rs) \<Longrightarrow> row_at k rs = Some r \<longleftrightarrow> r \<in> set rs \<and> ir_key r = k"
  by (induction rs) (auto simp: row_at_def)

lemma match_old_iff:
  assumes "store_ok db" "year_in_range t" "other_second t db"
  shows "k \<in> set (match_old (fmt_rfc3339nano t) (db_incidents db)) \<longleftrightarrow>
     (\<exists>i. incident_at db k = Some i \<and> inc_UpdatedAt i < t)"
proof -
  have "distinct (map ir_key (db_incidents db))" using assms(1) by (simp add: store_ok_def)
  then show ?thesis
    using row_older_iff [OF assms]
    by (auto simp: match_old_def incident_at_def row_at_mem_iff)
qed

text \<open>
C21: Prune removes exactly the incidents last updated before the cutoff, with all their
diagnoses and chat messages, and nothing else, and returns how many incidents it removed; a
failure at any step of the transaction leaves every table as it was. Incidents of the
cutoff's own clock second are excluded, where the text order need not be the time order.
\<close>

theorem Prune_exact:
  assumes "store_ok db" "year_in_range t" "other_second t db"
  defines "old k \<equiv> (\<exists>i. incident_at db k = Some i \<and> inc_UpdatedAt i < t)"
  shows "(\<exists>n db'. Prune no_prune_faults t db = (Inr n, db')
            \<and> n = int (length (filter (\<lambda>r. inc_UpdatedAt (scanIncident r) < t) (db_incidents db)))
            \<and> (\<forall>k. incident_at db' k = (if old k then None else incident_at db k))
            \<and> db_diagnoses db' = filter (\<lambda>d. \<not> old (dr_key d)) (db_diagnoses db)
            \<and> db_chat db' = filter (\<lambda>c. \<not> old (cr_key c)) (db_chat db))
     \<and> (f \<noteq> no_prune_faults \<longrightarrow> (\<exists>e. Prune f t db = (Inl e, db)))"
proof -
  let ?c = "fmt_rfc3339nano t" and ?db = "snd (Prune no_prune_faults t db)"
  have rows: "filter (\<lambda>r. ir_updated_at r < ?c) (db_incidents db)
      = filter (\<lambda>r. inc_UpdatedAt (scanIncident r) < t) (db_incidents db)"
    using row_older_iff [OF assms(1-3)] by (auto intro: filter_cong)
  have "incident_at ?db k = (if old k then None else incident_at db k)" for k
  proof (cases "row_at k (db_incidents db)")
    case None
    then show ?thesis
      using assms(1) by (simp add: prune_split no_prune_faults_def incident_at_def row_at_filter store_ok_def)
  next
    case (Some r)
    then have "r \<in> set (db_incidents db)"
      by (auto simp: row_at_def find_Some_iff in_set_conv_nth)
    then show ?thesis
      using Some assms(1) row_older_iff [OF assms(1-3)]
      by (auto simp: old_def prune_split no_prune_faults_def incident_at_def row_at_filter store_ok_def)
  qed
  moreover have "\<exists>e. Prune f t db = (Inl e, db)" if "f \<noteq> no_prune_faults"
    using that by (cases f) (auto simp: prune_split no_prune_faults_def split: option.splits)
  ultimately show ?thesis
    using match_old_iff [OF assms(1-3)] rows
    by (auto simp: prune_split no_prune_faults_def old_def)
qed

definition sample_cutoff :: gotime where
  "sample_cutoff = sample_now + 90 * 24 * Hour"

lemma sample_rows: "db_incidents sample_store = [incident_row sample_now sample_incident]"
  by (simp add: sample_store_def UpsertIncident_def empty_store_def)

lemma sample_updated: "inc_UpdatedAt (scanIncident (incident_row sample_now sample_incident)) = sample_now"
  unfolding scan_incident_row [OF sample_times_ok]
  by (simp add: fresh_incident_def effective_time_def sample_incident_def IsZero_def)

lemma sample_cutoff_later:
  "sample_now < sample_cutoff" "sample_now div nanos_per_second \<noteq> sample_cutoff div nanos_per_second"
  by code_simp+

theorem Prune_exact_witness:
  "\<exists>db'. Prune no_prune_faults sample_cutoff sample_store = (Inr 1, db')
     \<and> incident_at db' (''kscribe'', ''diag-1'') = None"
proof -
  have "year_in_range sample_cutoff" by code_simp
  moreover have "other_second sample_cutoff sample_store"
    using sample_updated sample_cutoff_later
    by (simp add: other_second_def sample_rows scanIncident_def)
  moreover have "ir_key (incident_row sample_now sample_incident) = (''kscribe'', ''diag-1'')"
    by (simp add: ir_key_def incident_row_def sample_incident_def)
  then have "\<exists>i. incident_at sample_store (''kscribe'', ''diag-1'') = Some i
      \<and> inc_UpdatedAt i < sample_cutoff"
    using sample_updated sample_cutoff_later(1)
    by (simp add: incident_at_def sample_rows row_at_def del: incident_row_key)
  ultimately show ?thesis
    using Prune_exact [OF sample_store_ok, of sample_cutoff no_prune_faults] sample_cutoff_later(1)
    by (auto simp: sample_rows sample_updated)
qed

section \<open>Lists, pages and counts\<close>

lemma so_incidents_mset: "sql_order_ok so \<Longrightarrow> mset (so_incidents so rs) = mset rs"
  by (simp add: sql_order_ok_def)

lemma so_incidents_length: "sql_order_ok so \<Longrightarrow> length (so_incidents so rs) = length rs"
  by (metis size_mset so_incidents_mset)

lemma take_drop_pages:
  "0 < n \<Longrightarrow> concat (map (\<lambda>p. take n (drop (p * n) xs)) [0..<m]) = take (m * n) xs"
proof (induction m)
  case (Suc m)
  then show ?case using take_add [of "m * n" n xs] by (simp add: add.commute)
qed simp

lemma ListIncidentsPage_rows:
  "ListIncidentsPage so None f limit offset db =
     Inr (map scanIncident (sql_limit limit offset (so_incidents so (filter (matches f True) (db_incidents db)))))"
  by (simp add: ListIncidentsPage_def selected_matches)

lemma CountIncidents_rows:
  "CountIncidents None f db = Inr (int (length (filter (matches f True) (db_incidents db))))"
  by (simp add: CountIncidents_def selected_matches)

text \<open>The rows of a page, for the statements about all pages.\<close>

definition page_rows :: "err + Incident list \<Rightarrow> Incident list" where
  "page_rows r = (case r of Inl e \<Rightarrow> [] | Inr is \<Rightarrow> is)"

text \<open>
C23: Walking the pages of a filter with a positive page size, as many as the count asks for,
lists every matching incident exactly once, in an order that never puts an incident before
one updated in a later clock second.
\<close>

theorem pages_partition_incidents:
  assumes "sql_order_ok so" "store_ok db" "0 < psize"
    and "CountIncidents None f db = Inr cnt" "cnt \<le> int m * int psize"
  defines "all \<equiv> concat (map (\<lambda>p. page_rows
             (ListIncidentsPage so None f (int psize) (int p * int psize) db)) [0..<m])"
  shows "mset all = image_mset scanIncident (mset (filter (matches f True) (db_incidents db)))
     \<and> int (length all) = cnt
     \<and> sorted_wrt (\<lambda>a b. inc_UpdatedAt b div nanos_per_second \<le> inc_UpdatedAt a div nanos_per_second) all"
proof -
  define rs where "rs = so_incidents so (filter (matches f True) (db_incidents db))"
  have mrs: "mset rs = mset (filter (matches f True) (db_incidents db))"
    unfolding rs_def by (rule so_incidents_mset [OF assms(1)])
  then have len: "length rs \<le> m * psize"
    using assms(4,5) mset_eq_length [OF mrs] by (simp add: CountIncidents_rows flip: of_nat_mult)
  have "page_rows (ListIncidentsPage so None f (int psize) (int p * int psize) db)
      = take psize (drop (p * psize) (map scanIncident rs))" for p
    by (simp add: ListIncidentsPage_rows page_rows_def sql_limit_def take_map drop_map rs_def
        flip: of_nat_mult)
  then have all: "all = map scanIncident rs"
    unfolding all_def using take_drop_pages [OF assms(3), of "map scanIncident rs" m] len by simp
  have sec: "parseTime (ir_updated_at b) div nanos_per_second \<le> parseTime (ir_updated_at a) div nanos_per_second"
    if "a \<in> set rs" "b \<in> set rs" "ir_updated_at b \<le> ir_updated_at a" for a b
  proof (rule ccontr)
    let ?s = "\<lambda>r. parseTime (ir_updated_at r)"
    assume n: "\<not> ?s b div nanos_per_second \<le> ?s a div nanos_per_second"
    have "a \<in> set (db_incidents db)" "b \<in> set (db_incidents db)"
      using that(1,2) mset_eq_setD [OF mrs] by auto
    then have "year_in_range (?s a)" "fmt_rfc3339nano (?s a) = ir_updated_at a"
      "year_in_range (?s b)" "fmt_rfc3339nano (?s b) = ir_updated_at b"
      using assms(2) by (auto simp: store_ok_def nano_text_def Let_def)
    moreover have "?s a < ?s b"
      using n zdiv_mono1 [of "?s b" "?s a" nanos_per_second] by (force simp: nanos_per_second_def)
    ultimately have "ir_updated_at a < ir_updated_at b"
      using fmt_nano_less_iff [of "?s a" "?s b"] n by force
    with that(3) show False by simp
  qed
  have scanned: "inc_UpdatedAt (scanIncident r) = parseTime (ir_updated_at r)" for r
    by (simp add: scanIncident_def)
  have "sorted_wrt (\<lambda>a b. ir_updated_at b \<le> ir_updated_at a) rs"
    using assms(1) by (simp add: sql_order_ok_def rs_def)
  then have "sorted_wrt (\<lambda>a b. inc_UpdatedAt b div nanos_per_second \<le> inc_UpdatedAt a div nanos_per_second)
      (map scanIncident rs)"
    unfolding sorted_wrt_map scanned by (rule sorted_wrt_mono_rel [rotated]) (rule sec)
  then show ?thesis
    using mrs assms(4) mset_eq_length [OF mrs] by (simp add: all CountIncidents_rows)
qed

theorem pages_partition_incidents_witness:
  "mset (concat (map (\<lambda>p. page_rows
       (ListIncidentsPage stable_order None no_filter (int 20) (int p * int 20) sample_store)) [0..<1]))
     = {#scanIncident (incident_row sample_now sample_incident)#}"
proof -
  have "matches no_filter True r" for r by (simp add: matches_def no_filter_def)
  then have "filter (matches no_filter True) (db_incidents sample_store)
      = [incident_row sample_now sample_incident]"
    by (simp add: sample_rows)
  then show ?thesis
    using pages_partition_incidents [OF stable_order_ok sample_store_ok, of 20 no_filter 1 1]
    by (simp add: CountIncidents_rows)
qed

lemma gm_get_fold_put:
  "gm_get (fold (\<lambda>p out. gm_put p (g p) out) ps m) q =
     (if q \<in> set ps then Some (g q) else gm_get m q)"
  by (induction ps arbitrary: m) auto

lemma gm_ok_fold_put: "gm_ok m \<Longrightarrow> gm_ok (fold (\<lambda>p out. gm_put p (g p) out) ps m)"
  by (induction ps arbitrary: m) auto

lemma matches_phase:
  "p \<noteq> [] \<Longrightarrow> matches (f\<lparr>flt_Phase := p\<rparr>) True r \<longleftrightarrow> matches f False r \<and> ir_phase r = p"
  by (auto simp: matches_def)

lemma count_list_filter: "count_list (map g xs) p = length (filter (\<lambda>x. g x = p) xs)"
  by (induction xs) auto

text \<open>
The counts per phase ignore the phase filter: the entry of a non-empty phase is the count
of the same filter with that phase, and a phase without an entry counts zero incidents.
\<close>

theorem CountIncidentsByPhase_agrees:
  assumes "p \<noteq> []" and "CountIncidentsByPhase None f db = Inr totals"
  shows "CountIncidents None (f\<lparr>flt_Phase := p\<rparr>) db =
           Inr (case gm_get totals p of None \<Rightarrow> 0 | Some n \<Rightarrow> n)
     \<and> gm_ok totals
     \<and> CountIncidentsByPhase None (f\<lparr>flt_Phase := q\<rparr>) db = Inr totals"
proof -
  let ?rs = "filter (matches f False) (db_incidents db)"
  have tot: "totals = fold (\<lambda>p out. gm_put p (int (count_list (map ir_phase ?rs) p)) out)
      (remdups (map ir_phase ?rs)) []"
    using assms(2) by (simp add: CountIncidentsByPhase_def selected_matches Let_def)
  have "filter (matches (f\<lparr>flt_Phase := p\<rparr>) True) (db_incidents db) = filter (\<lambda>r. ir_phase r = p) ?rs"
    by (simp add: matches_phase [OF assms(1)] conj_commute cong: filter_cong)
  then have "CountIncidents None (f\<lparr>flt_Phase := p\<rparr>) db = Inr (int (count_list (map ir_phase ?rs) p))"
    by (simp add: CountIncidents_rows count_list_filter)
  moreover have "count_list (map ir_phase ?rs) p = 0" if "p \<notin> set (map ir_phase ?rs)"
    using that by (simp add: count_list_0_iff)
  moreover have "matches (f\<lparr>flt_Phase := q\<rparr>) False = matches f False"
    by (simp add: matches_def fun_eq_iff)
  ultimately show ?thesis
    using tot assms(2) gm_ok_fold_put [OF gm_ok_Nil]
    by (simp add: gm_get_fold_put CountIncidentsByPhase_def selected_matches Let_def)
qed

theorem CountIncidentsByPhase_agrees_witness:
  "CountIncidents None (no_filter\<lparr>flt_Phase := ''Diagnosing''\<rparr>) sample_store = Inr 1"
proof -
  have "matches no_filter False r" for r by (simp add: matches_def no_filter_def)
  then have "CountIncidentsByPhase None no_filter sample_store = Inr [(''Diagnosing'', 1)]"
    by (simp add: CountIncidentsByPhase_def selected_matches sample_rows Let_def gm_put_def
        incident_row_def sample_incident_def)
  then show ?thesis
    using CountIncidentsByPhase_agrees [of "''Diagnosing''" no_filter sample_store]
    by (simp add: gm_get_def)
qed

section \<open>Chat messages\<close>

lemma sort_key_sorted: "sorted_wrt (<) (map f xs) \<Longrightarrow> sort_key f xs = (xs :: 'a list)"
  for f :: "'a \<Rightarrow> int"
  by (metis sort_key_id_if_sorted strict_sorted_imp_sorted)

definition chat_at :: "Store \<Rightarrow> row_key \<Rightarrow> ChatMessage list" where
  "chat_at db k = map scanChat (filter (\<lambda>c. cr_key c = k) (db_chat db))"

lemma ListChatMessages_chat_at:
  assumes "store_ok db"
  shows "ListChatMessages None ns name db = Inr (chat_at db (ns, name))"
proof -
  have "(\<lambda>c. cr_key c = (ns, name)) = (\<lambda>c. cr_namespace c = ns \<and> cr_name c = name)"
    by (auto simp: cr_key_def)
  moreover have "sorted_wrt (<) (map cr_id (filter (\<lambda>c. cr_namespace c = ns \<and> cr_name c = name) (db_chat db)))"
    using assms by (intro sorted_wrt_map_filter) (simp add: store_ok_def)
  ultimately show ?thesis
    by (simp add: ListChatMessages_def chat_at_def sort_key_sorted)
qed

text \<open>
ListChatMessages returns the turns of an incident in the order they were appended: a
successful append adds its turn at the end of its own conversation and changes no other, and
a failed one changes nothing.
\<close>

theorem chat_append_order:
  assumes "store_ok db" "year_in_range now"
  shows "\<exists>id. ListChatMessages None ns' name'
      (snd (AppendChatMessage now None ns name role content db)) =
    Inr (chat_at db (ns', name') @
      (if (ns', name') = (ns, name)
       then [\<lparr>cm_ID = id, cm_Namespace = ns, cm_Name = name, cm_Role = role,
              cm_Content = content, cm_CreatedAt = now\<rparr>] else []))
    \<and> snd (AppendChatMessage now (Some e) ns name role content db) = db"
  unfolding ListChatMessages_chat_at [OF store_ok_append [OF assms]]
  by (auto simp: chat_at_def AppendChatMessage_def cr_key_def scanChat_def parseTime_nano [OF assms(2)])

theorem chat_append_order_witness:
  "\<exists>id. ListChatMessages None ''kscribe'' ''diag-1''
      (snd (AppendChatMessage sample_now None ''kscribe'' ''diag-1'' ''user'' ''why?'' sample_store)) =
    Inr [\<lparr>cm_ID = id, cm_Namespace = ''kscribe'', cm_Name = ''diag-1'', cm_Role = ''user'',
          cm_Content = ''why?'', cm_CreatedAt = sample_now\<rparr>]"
proof -
  have "chat_at sample_store k = []" for k
    by (simp add: sample_store_def chat_at_def UpsertIncident_def empty_store_def)
  then show ?thesis
    using chat_append_order [OF sample_store_ok sample_year, of "''kscribe''" "''diag-1''"
        "''kscribe''" "''diag-1''" "''user''" "''why?''"]
    by simp
qed

end
