(* ===== verification/Migrations.thy ===== *)
theory Migrations
  imports Go_Time
begin

text \<open>
  The migration runner, \<^verbatim>\<open>src/internal/store/migrations.go\<close>, and \<^verbatim>\<open>openWithFS\<close> of
  \<^verbatim>\<open>sqlite.go\<close>. The embedded file system is a list of directory entries, the engine's
  execution of a script is the parameter \<open>exec\<close> on the rest of the database (of any type), and
  every call that may fail has its error in the environment. A transaction that is rolled
  back leaves the database as it was.
\<close>

section \<open>Model\<close>

record DirEntry =
  de_Name :: string
  de_IsDir :: bool
  de_Content :: "err + string"

datatype mig_call =
    OpenDb | PragmaJournal | PragmaBusy
  | Bootstrap | ReadDir | CheckApplied int | BeginTx int | RecordVersion int | CommitTx int

record 'd mig_env =
  me_entries :: "DirEntry list"
  me_exec :: "string \<Rightarrow> 'd \<Rightarrow> err + 'd"
  me_fault :: "mig_call \<Rightarrow> err option"
  me_now :: gotime
  me_quote :: "string \<Rightarrow> string"

text \<open>The database: the tracking table (absent before the bootstrap) and everything else.\<close>

record 'd MigDb =
  mg_table :: "(int \<times> string) list option"
  mg_data :: 'd

definition applied :: "'d MigDb \<Rightarrow> (int \<times> string) list" where
  "applied db = (case mg_table db of None \<Rightarrow> [] | Some vs \<Rightarrow> vs)"

text \<open>\<^verbatim>\<open>strconv.Atoi\<close>: an optional sign and decimal digits, within the range of an \<^verbatim>\<open>int\<close>.\<close>

definition Atoi :: "string \<Rightarrow> int option" where
  "Atoi s =
     (case s of
        [] \<Rightarrow> None
      | c # r \<Rightarrow>
          if c = CHR ''-'' \<or> c = CHR ''+'' then
            (case parse_dec r of
               None \<Rightarrow> None
             | Some n \<Rightarrow>
                 (let i = (if c = CHR ''-'' then - int n else int n)
                  in if min_int64 \<le> i \<and> i \<le> max_int64 then Some i else None))
          else
            (case parse_dec s of
               None \<Rightarrow> None
             | Some n \<Rightarrow> if int n \<le> max_int64 then Some (int n) else None))"

definition atoi_error :: "(string \<Rightarrow> string) \<Rightarrow> string \<Rightarrow> err" where
  "atoi_error quote s =
     (let digits = (if take 1 s = ''-'' \<or> take 1 s = ''+'' then drop 1 s else s)
      in errorf (''strconv.Atoi: parsing '' @ quote s @
           (if parse_dec digits = None then '': invalid syntax'' else '': value out of range'')))"

definition is_migration :: "DirEntry \<Rightarrow> bool" where
  "is_migration e \<longleftrightarrow> \<not> (de_IsDir e \<or> \<not> suffix ''.sql'' (de_Name e))"

definition version_of :: "DirEntry \<Rightarrow> int option" where
  "version_of e = Atoi (takeWhile (\<lambda>c. c \<noteq> CHR ''_'') (de_Name e))"

text \<open>The body of the loop for a pending migration: one transaction.\<close>

definition apply_migration ::
  "'d mig_env \<Rightarrow> DirEntry \<Rightarrow> int \<Rightarrow> 'd MigDb \<Rightarrow> err option \<times> 'd MigDb" where
  "apply_migration env e version db =
     (case de_Content e of
        Inl x \<Rightarrow> (Some (errorf_w (''read migration '' @ me_quote env (de_Name e) @ '': '') x), db)
      | Inr content \<Rightarrow>
     (case me_fault env (BeginTx version) of
        Some x \<Rightarrow> (Some (errorf_w (''begin tx for migration '' @ int_dec version @ '': '') x), db)
      | None \<Rightarrow>
     (case me_exec env content (mg_data db) of
        Inl x \<Rightarrow> (Some (errorf_w (''migration '' @ int_dec version @ '' ('' @ de_Name e @ '') failed: '') x), db)
      | Inr data \<Rightarrow>
     (case me_fault env (RecordVersion version) of
        Some x \<Rightarrow> (Some (errorf_w (''record migration '' @ int_dec version @ '': '') x), db)
      | None \<Rightarrow>
     (case me_fault env (CommitTx version) of
        Some x \<Rightarrow> (Some (errorf_w (''commit migration '' @ int_dec version @ '': '') x), db)
      | None \<Rightarrow>
          (None, \<lparr>mg_table = Some (applied db @ [(version, fmt_rfc3339 (me_now env))]),
                  mg_data = data\<rparr>))))))"

text \<open>The body of the loop over the directory, and the loop.\<close>

definition migrate_entry :: "'d mig_env \<Rightarrow> DirEntry \<Rightarrow> 'd MigDb \<Rightarrow> err option \<times> 'd MigDb" where
  "migrate_entry env e db =
     (if \<not> is_migration e then (None, db)
      else
        (case version_of e of
           None \<Rightarrow> (Some (errorf_w (''migration '' @ me_quote env (de_Name e) @ '': non-numeric prefix: '')
                       (atoi_error (me_quote env) (takeWhile (\<lambda>c. c \<noteq> CHR ''_'') (de_Name e)))), db)
         | Some version \<Rightarrow>
             (case me_fault env (CheckApplied version) of
                Some x \<Rightarrow> (Some (errorf_w (''check applied migration '' @ int_dec version @ '': '') x), db)
              | None \<Rightarrow>
                  if version \<in> fst ` set (applied db) then (None, db)
                  else apply_migration env e version db)))"

fun migrate_entries ::
  "'d mig_env \<Rightarrow> DirEntry list \<Rightarrow> 'd MigDb \<Rightarrow> err option \<times> 'd MigDb" where
  "migrate_entries env [] db = (None, db)"
| "migrate_entries env (e # es) db =
     (case migrate_entry env e db of
        (Some x, db') \<Rightarrow> (Some x, db')
      | (None, db') \<Rightarrow> migrate_entries env es db')"

definition runMigrations :: "'d mig_env \<Rightarrow> 'd MigDb \<Rightarrow> err option \<times> 'd MigDb" where
  "runMigrations env db =
     (case me_fault env Bootstrap of
        Some x \<Rightarrow> (Some (errorf_w ''bootstrap schema_migrations: '' x), db)
      | None \<Rightarrow>
          (let db1 = db\<lparr>mg_table := Some (applied db)\<rparr> in
           case me_fault env ReadDir of
             Some x \<Rightarrow> (Some (errorf_w ''read migrations dir: '' x), db1)
           | None \<Rightarrow> migrate_entries env (sort_key de_Name (me_entries env)) db1))"

text \<open>
  \<^verbatim>\<open>openWithFS\<close>: the result is the handle (here a unit) or an error; the database file keeps
  what was committed.
\<close>

definition openWithFS :: "string \<Rightarrow> 'd mig_env \<Rightarrow> 'd MigDb \<Rightarrow> (err + unit) \<times> 'd MigDb" where
  "openWithFS dbPath env db =
     (case me_fault env OpenDb of
        Some x \<Rightarrow> (Inl (errorf_w (''open sqlite '' @ me_quote env dbPath @ '': '') x), db)
      | None \<Rightarrow>
     (case me_fault env PragmaJournal of
        Some x \<Rightarrow> (Inl (errorf_w ''pragma journal_mode: '' x), db)
      | None \<Rightarrow>
     (case me_fault env PragmaBusy of
        Some x \<Rightarrow> (Inl (errorf_w ''pragma busy_timeout: '' x), db)
      | None \<Rightarrow>
     (case runMigrations env db of
        (Some x, db') \<Rightarrow> (Inl x, db')
      | (None, db') \<Rightarrow> (Inr (), db')))))"

section \<open>Specification\<close>

text \<open>
  A database is reached from another by running whole migrations: each one adds its
  version, executed its script on the data before it, and was not applied before.
\<close>

inductive migrated :: "'d mig_env \<Rightarrow> 'd MigDb \<Rightarrow> (DirEntry \<times> int) list \<Rightarrow> 'd MigDb \<Rightarrow> bool"
  for env :: "'d mig_env" where
  migrated_none: "migrated env db [] db"
| migrated_step:
    "\<lbrakk>migrated env db ms db1; is_migration e; version_of e = Some v; v \<notin> fst ` set (applied db1);
      de_Content e = Inr script; me_exec env script (mg_data db1) = Inr data;
      mg_table db2 = Some (applied db1 @ [(v, fmt_rfc3339 (me_now env))]); mg_data db2 = data\<rbrakk>
     \<Longrightarrow> migrated env db (ms @ [(e, v)]) db2"

inductive_cases migrated_NilE: "migrated env db [] db'"

lemma migrated_applied:
  "migrated env db ms db' \<Longrightarrow>
     applied db' = applied db @ map (\<lambda>(e, v). (v, fmt_rfc3339 (me_now env))) ms"
  by (induction rule: migrated.induct) (simp_all add: applied_def)

lemma migrated_distinct:
  "migrated env db ms db' \<Longrightarrow> distinct (map snd ms) \<and> (\<forall>m \<in> set ms. snd m \<notin> fst ` set (applied db))"
proof (induction rule: migrated.induct)
  case (migrated_step db ms db1 e v script data db2)
  have "fst ` set (applied db1) = fst ` set (applied db) \<union> snd ` set ms"
    using migrated_applied [OF migrated_step.hyps(1)]
    by (auto simp: image_Un image_image split_beta)
  with migrated_step show ?case by auto
qed simp

lemma apply_migration_ok:
  assumes "apply_migration env e v db = (None, db')"
  obtains script data where "de_Content e = Inr script" "me_exec env script (mg_data db) = Inr data"
    "mg_table db' = Some (applied db @ [(v, fmt_rfc3339 (me_now env))])" "mg_data db' = data"
  using assms by (auto simp: apply_migration_def split: sum.splits option.splits)

lemma apply_migration_err: "apply_migration env e v db = (Some x, db') \<Longrightarrow> db' = db"
  by (auto simp: apply_migration_def split: sum.splits option.splits)

text \<open>
  One entry runs at most its own migration, and only whole; when it succeeds, its version
  is applied.
\<close>

definition entry_done :: "DirEntry \<Rightarrow> 'd MigDb \<Rightarrow> bool" where
  "entry_done e db \<longleftrightarrow>
     (is_migration e \<longrightarrow> (\<exists>v. version_of e = Some v \<and> v \<in> fst ` set (applied db)))"

lemma migrate_entry_migrated:
  assumes "migrate_entry env e db1 = (r, db2)" "migrated env db0 ms db1"
  shows "(db2 = db1 \<or> (\<exists>v. migrated env db0 (ms @ [(e, v)]) db2)) \<and> (r = None \<longrightarrow> entry_done e db2)"
proof (cases "\<exists>v. is_migration e \<and> version_of e = Some v \<and> me_fault env (CheckApplied v) = None
    \<and> v \<notin> fst ` set (applied db1)")
  case True
  then obtain v where v: "is_migration e" "version_of e = Some v" "v \<notin> fst ` set (applied db1)"
    and app: "apply_migration env e v db1 = (r, db2)"
    using assms(1) by (auto simp: migrate_entry_def)
  show ?thesis
  proof (cases r)
    case None
    with app have ok: "apply_migration env e v db1 = (None, db2)" by simp
    then have "migrated env db0 (ms @ [(e, v)]) db2"
      by (rule apply_migration_ok) (rule migrated_step [OF assms(2) v])
    moreover from ok have "v \<in> fst ` set (applied db2)"
      by (rule apply_migration_ok) (simp add: applied_def)
    ultimately show ?thesis using v(2) by (auto simp: entry_done_def)
  next
    case (Some x)
    with app show ?thesis by (auto dest: apply_migration_err)
  qed
next
  case False
  then show ?thesis
    using assms(1) by (auto simp: migrate_entry_def entry_done_def split: if_splits option.splits)
qed

lemma entry_done_mono:
  "entry_done e db1 \<Longrightarrow> set (applied db1) \<subseteq> set (applied db2) \<Longrightarrow> entry_done e db2"
  by (auto simp: entry_done_def)

lemma migrate_entries_migrated:
  assumes "migrate_entries env es db1 = (r, db2)" "migrated env db0 ms0 db1"
  shows "\<exists>ms. migrated env db0 (ms0 @ ms) db2 \<and> subseq (map fst ms) es
     \<and> (r = None \<longrightarrow> (\<forall>e \<in> set es. entry_done e db2))"
  using assms
proof (induction es arbitrary: db1 ms0)
  case Nil
  then show ?case by (auto intro!: exI [of _ "[]"])
next
  case (Cons e es)
  obtain x db' where body: "migrate_entry env e db1 = (x, db')" by force
  note step = migrate_entry_migrated [OF body Cons.prems(2)]
  show ?case
  proof (cases x)
    case (Some y)
    with body Cons.prems(1) have "r = Some y" "db2 = db'" by simp_all
    with step Cons.prems(2) Some show ?thesis
      by (auto intro: exI [of _ "[]"] exI [of _ "[(e, v)]" for v])
  next
    case None
    with body Cons.prems(1) have rest: "migrate_entries env es db' = (r, db2)" by simp
    from step consider "db' = db1" | v where "migrated env db0 (ms0 @ [(e, v)]) db'" by blast
    then obtain ms1 where ms1: "migrated env db0 (ms0 @ ms1) db'" "subseq (map fst ms1) [e]"
      by cases (use Cons.prems(2) in \<open>force intro: that [of "[]"]\<close>, force intro: that)
    from Cons.IH [OF rest ms1(1)] obtain ms where
      ms: "migrated env db0 (ms0 @ ms1 @ ms) db2" "subseq (map fst ms) es"
      "r = None \<longrightarrow> (\<forall>e \<in> set es. entry_done e db2)"
      by auto
    have "set (applied db') \<subseteq> set (applied db2)"
      using migrated_applied [OF ms(1)] migrated_applied [OF ms1(1)] by auto
    then have "entry_done e db2" using step None entry_done_mono by blast
    moreover have "subseq (map fst (ms1 @ ms)) (e # es)"
      using list_emb_append_mono [OF ms1(2) ms(2)] by simp
    ultimately show ?thesis using ms by (intro exI [of _ "ms1 @ ms"]) simp
  qed
qed

lemma migrate_entries_done:
  assumes "\<forall>e \<in> set es. entry_done e db" "\<forall>v. me_fault env (CheckApplied v) = None"
  shows "migrate_entries env es db = (None, db)"
  using assms(1)
proof (induction es)
  case (Cons e es)
  then have "entry_done e db" by simp
  then have "migrate_entry env e db = (None, db)"
    unfolding entry_done_def migrate_entry_def
    using assms(2) by (cases "version_of e") (simp_all split: if_splits)
  with Cons show ?case by simp
qed simp

lemma runMigrations_migrated:
  assumes "runMigrations env db = (r, db')"
  shows "\<exists>ms. migrated env (db\<lparr>mg_table := Some (applied db)\<rparr>) ms (db'\<lparr>mg_table := Some (applied db')\<rparr>)
     \<and> subseq (map fst ms) (sort_key de_Name (me_entries env))
     \<and> (r = None \<longrightarrow> (\<forall>e \<in> set (me_entries env). entry_done e db'))"
proof (cases "me_fault env Bootstrap = None \<and> me_fault env ReadDir = None")
  case True
  let ?db = "db\<lparr>mg_table := Some (applied db)\<rparr>"
  have "migrate_entries env (sort_key de_Name (me_entries env)) ?db = (r, db')"
    using assms True by (simp add: runMigrations_def Let_def)
  from migrate_entries_migrated [OF this migrated_none] obtain ms where
    ms: "migrated env ?db ms db'" "subseq (map fst ms) (sort_key de_Name (me_entries env))"
    "r = None \<longrightarrow> (\<forall>e \<in> set (me_entries env). entry_done e db')"
    by auto
  from ms(1) have "mg_table db' = Some (applied db')"
    by (cases rule: migrated.cases) (simp_all add: applied_def)
  then have "db'\<lparr>mg_table := Some (applied db')\<rparr> = db'" by (cases db') simp
  with ms show ?thesis by auto
next
  case False
  have "applied (db\<lparr>mg_table := Some (applied db)\<rparr>) = applied db" by (simp add: applied_def)
  with False show ?thesis
    using assms by (auto simp: runMigrations_def Let_def split: option.splits
        intro!: exI [of _ "[]"] intro: migrated_none)
qed

text \<open>
C19: The migration runner fails closed: whatever fails, the database is the one before plus
whole migrations, each recorded once and run on the data the earlier ones left, in file name
order; openWithFS returns a store only when every migration file is applied.
\<close>

theorem openWithFS_fails_closed:
  assumes "openWithFS path env db = (r, db')"
  shows "\<exists>ms. migrated env (db\<lparr>mg_table := Some (applied db)\<rparr>) ms (db'\<lparr>mg_table := Some (applied db')\<rparr>)
     \<and> subseq (map fst ms) (sort_key de_Name (me_entries env))
     \<and> applied db' = applied db @ map (\<lambda>(e, v). (v, fmt_rfc3339 (me_now env))) ms
     \<and> distinct (map snd ms) \<and> snd ` set ms \<inter> fst ` set (applied db) = {}
     \<and> (r = Inr () \<longrightarrow> (\<forall>e \<in> set (me_entries env). entry_done e db'))"
proof (cases "me_fault env OpenDb = None \<and> me_fault env PragmaJournal = None \<and> me_fault env PragmaBusy = None")
  case True
  obtain x db1 where run: "runMigrations env db = (x, db1)" by force
  have res: "db' = db1" "r = Inr () \<longrightarrow> x = None"
    using assms True run by (auto simp: openWithFS_def split: option.splits)
  from runMigrations_migrated [OF run] obtain ms where
    ms: "migrated env (db\<lparr>mg_table := Some (applied db)\<rparr>) ms (db1\<lparr>mg_table := Some (applied db1)\<rparr>)"
    "subseq (map fst ms) (sort_key de_Name (me_entries env))"
    "x = None \<longrightarrow> (\<forall>e \<in> set (me_entries env). entry_done e db1)"
    by auto
  then show ?thesis
    using migrated_applied [OF ms(1)] migrated_distinct [OF ms(1)] res
    by (intro exI [of _ ms]) (auto simp: applied_def)
next
  case False
  then have "db' = db" "r \<noteq> Inr ()"
    using assms by (auto simp: openWithFS_def split: option.splits)
  then show ?thesis by (intro exI [of _ "[]"]) (auto intro: migrated_none)
qed

text \<open>
Opening an already migrated database is a no-op: once openWithFS succeeded, opening the
same database again with the same files succeeds and changes nothing.
\<close>

theorem openWithFS_idempotent:
  assumes "openWithFS path env db = (Inr (), db')" "\<forall>c. me_fault env c = None"
  shows "openWithFS path env db' = (Inr (), db')"
proof -
  have run: "runMigrations env db = (None, db')"
    using assms by (auto simp: openWithFS_def split: option.splits prod.splits)
  from runMigrations_migrated [OF run] have "\<forall>e \<in> set (me_entries env). entry_done e db'"
    by auto
  moreover have "mg_table db' = Some (applied db')"
  proof -
    have "migrate_entries env (sort_key de_Name (me_entries env)) (db\<lparr>mg_table := Some (applied db)\<rparr>)
        = (None, db')"
      using run assms(2) by (simp add: runMigrations_def Let_def)
    from migrate_entries_migrated [OF this migrated_none] obtain ms where
      "migrated env (db\<lparr>mg_table := Some (applied db)\<rparr>) ms db'" by auto
    then show ?thesis by (cases rule: migrated.cases) (simp_all add: applied_def)
  qed
  then have "db'\<lparr>mg_table := Some (applied db')\<rparr> = db'" by (cases db') simp
  ultimately have "runMigrations env db' = (None, db')"
    using assms(2) migrate_entries_done [of "sort_key de_Name (me_entries env)" db' env]
    by (simp add: runMigrations_def)
  then show ?thesis using assms(2) by (simp add: openWithFS_def)
qed

text \<open>
  Closed instance: the three migration files of the repository, with an engine that
  appends the script to a log.
\<close>

definition sample_env :: "string list mig_env" where
  "sample_env =
     \<lparr>me_entries =
        [\<lparr>de_Name = ''0002_context_reasoning.sql'', de_IsDir = False, de_Content = Inr ''b''\<rparr>,
         \<lparr>de_Name = ''README'', de_IsDir = False, de_Content = Inr ''x''\<rparr>,
         \<lparr>de_Name = ''0001_init.sql'', de_IsDir = False, de_Content = Inr ''a''\<rparr>,
         \<lparr>de_Name = ''0003_chat.sql'', de_IsDir = False, de_Content = Inr ''c''\<rparr>],
      me_exec = (\<lambda>s l. Inr (l @ [s])), me_fault = (\<lambda>c. None), me_now = 0, me_quote = id\<rparr>"

definition fresh_db :: "string list MigDb" where
  "fresh_db = \<lparr>mg_table = None, mg_data = []\<rparr>"

lemma sample_open:
  "map_prod id mg_data (openWithFS ''kscribe.db'' sample_env fresh_db) = (Inr (), [''a'', ''b'', ''c''])"
  by code_simp

theorem openWithFS_fails_closed_witness:
  "\<exists>db'. mg_data db' = [''a'', ''b'', ''c'']
     \<and> (\<forall>e \<in> set (me_entries sample_env). entry_done e db')"
  using openWithFS_fails_closed [of "''kscribe.db''" sample_env fresh_db] sample_open
  by (cases "openWithFS ''kscribe.db'' sample_env fresh_db") auto

theorem openWithFS_idempotent_witness:
  "\<exists>db'. mg_data db' = [''a'', ''b'', ''c''] \<and> openWithFS ''kscribe.db'' sample_env db' = (Inr (), db')"
  using openWithFS_idempotent [of "''kscribe.db''" sample_env fresh_db] sample_open
  by (cases "openWithFS ''kscribe.db'' sample_env fresh_db") (auto simp: sample_env_def)

end
