(* ===== verification/Agent_Laws.thy ===== *)
theory Agent_Laws
  imports Agent
begin

text \<open>
  What a diagnosis run promises for every provider and every tool executor. The exchanges
  with the provider are recorded in a ghost log (\<^verbatim>\<open>log_agent\<close>), which changes no result
  (\<^verbatim>\<open>run_loop_log\<close>); the properties are statements about that log and the outcome.
\<close>

section \<open>The ghost log\<close>

type_synonym exchange = "Request \<times> (err + Response)"
type_synonym 'w logged = "exchange list \<times> 'w"

definition log_complete ::
  "(Request \<Rightarrow> 'w \<Rightarrow> (err + Response) \<times> 'w) \<Rightarrow> Request \<Rightarrow> 'w logged \<Rightarrow> (err + Response) \<times> 'w logged" where
  "log_complete f req lw = (let (r, w') = f req (snd lw) in (r, (fst lw @ [(req, r)], w')))"

definition log_executor :: "'w ToolExecutor \<Rightarrow> 'w logged ToolExecutor" where
  "log_executor ex name args lw = (let (r, w') = ex name args (snd lw) in (r, (fst lw, w')))"

definition log_agent :: "'w DiagnosisAgent \<Rightarrow> 'w logged DiagnosisAgent" where
  "log_agent a = \<lparr>ag_Provider = \<lparr>pr_Complete = log_complete (pr_Complete (ag_Provider a)),
       pr_CompleteStream = None\<rparr>,
     ag_Executor = map_option log_executor (ag_Executor a), ag_Tools = ag_Tools a,
     ag_MaxIter = ag_MaxIter a\<rparr>"

lemma log_agent_simps [simp]:
  "pr_Complete (ag_Provider (log_agent a)) = log_complete (pr_Complete (ag_Provider a))"
  "ag_Tools (log_agent a) = ag_Tools a" "ag_MaxIter (log_agent a) = ag_MaxIter a"
  "max_iterations (log_agent a) = max_iterations a"
  by (simp_all add: log_agent_def max_iterations_def)

lemma callTool_log:
  "callTool gt (log_agent a) tc (l, w) = (case callTool gt a tc w of (r, w') \<Rightarrow> (r, (l, w')))"
  by (simp add: callTool_def log_agent_def log_executor_def Let_def
      split: option.splits prod.splits sum.splits)

lemma run_tools_log:
  "run_tools gt (log_agent a) tcs ms tr (l, w) =
     (case run_tools gt a tcs ms tr w of (ms', tr', w') \<Rightarrow> (ms', tr', (l, w')))"
  by (induction tcs arbitrary: ms tr w) (simp_all add: callTool_log split: prod.splits)

lemma run_tools_appends:
  "run_tools gt a tcs ms tr w = (ms', tr', w') \<Longrightarrow>
     \<exists>rs. length rs = length tcs \<and> ms' = ms @ map2 tool_message tcs rs \<and> tr' = tr @ map2 trace_step tcs rs"
proof (induction tcs arbitrary: ms tr w)
  case (Cons tc tcs)
  obtain r w1 where "callTool gt a tc w = (r, w1)" by force
  with Cons obtain rs where "length rs = length tcs"
    "ms' = (ms @ [tool_message tc r]) @ map2 tool_message tcs rs"
    "tr' = (tr @ [trace_step tc r]) @ map2 trace_step tcs rs"
    by fastforce
  then show ?case by (intro exI [of _ "r # rs"]) simp
qed simp

lemma trace_step_bound: "length (ts_Result (trace_step tc r)) \<le> 200"
  by (simp add: trace_step_def)

section \<open>Conversations\<close>

text \<open>
  The messages of a run: a start, and rounds in which a reply with tool calls is followed by
  exactly one tool message per call, in order and with the id of the call.
\<close>

inductive conversation :: "Message list \<Rightarrow> Message list \<Rightarrow> bool" for start where
  conv_start: "conversation start start"
| conv_round: "conversation start ms \<Longrightarrow> msg_ToolCalls m \<noteq> [] \<Longrightarrow> length rs = length (msg_ToolCalls m)
    \<Longrightarrow> conversation start (ms @ m # map2 tool_message (msg_ToolCalls m) rs)"

text \<open>The two shapes of a request: a turn of the loop and the repair turn.\<close>

definition loop_request :: "ToolDefinition list \<Rightarrow> Message list \<Rightarrow> Request \<Rightarrow> bool" where
  "loop_request tools start req \<longleftrightarrow>
     conversation start (req_Messages req) \<and> req_Tools req = tools \<and> req_MaxTokens req = DiagnosisMaxTokens"

definition repair_request :: "Message list \<Rightarrow> Request \<Rightarrow> bool" where
  "repair_request start req \<longleftrightarrow>
     (\<exists>ms m. conversation start ms \<and> msg_ToolCalls m = []
        \<and> req_Messages req = ms @ [m, text_message ''user'' repairPrompt])
     \<and> req_Tools req = [] \<and> req_MaxTokens req = DiagnosisRepairMaxTokens"

definition exchange_tokens :: "exchange \<Rightarrow> int" where
  "exchange_tokens x = (case snd x of Inl e \<Rightarrow> 0 | Inr resp \<Rightarrow> us_TotalTokens (rsp_Usage resp))"

text \<open>A reply without a usable message: an error or no choices.\<close>

definition unusable :: "err + Response \<Rightarrow> bool" where
  "unusable r = (case r of Inl e \<Rightarrow> True | Inr resp \<Rightarrow> rsp_Choices resp = [])"

definition reply_rca :: "go_texts \<Rightarrow> float_codec \<Rightarrow> err + Response \<Rightarrow> RCAResult option" where
  "reply_rca gt fc r =
     (case r of
        Inl e \<Rightarrow> None
      | Inr resp \<Rightarrow>
          (case rsp_Choices resp of
             [] \<Rightarrow> None
           | c # _ \<Rightarrow> (case parseRCA gt fc (msg_Content (ch_Message c)) of Inl e \<Rightarrow> None | Inr rca \<Rightarrow> Some rca)))"

text \<open>
  How an outcome follows from the exchanges of a run: all but the last request are turns
  of the loop; the phase is decided by the last reply.
\<close>

definition explained ::
  "go_texts \<Rightarrow> float_codec \<Rightarrow> ToolDefinition list \<Rightarrow> Message list \<Rightarrow> exchange list \<Rightarrow> Outcome \<Rightarrow> bool" where
  "explained gt fc tools start es oc \<longleftrightarrow>
     (\<forall>x \<in> set (butlast es). loop_request tools start (fst x) \<and> \<not> unusable (snd x))
     \<and> (es \<noteq> [] \<longrightarrow> loop_request tools start (fst (last es)) \<or> repair_request start (fst (last es)))
     \<and> (oc_Phase oc = DiagnosisPhaseDone \<or> oc_Phase oc = DiagnosisPhasePartial
        \<or> oc_Phase oc = DiagnosisPhaseFailed)
     \<and> (oc_Phase oc = DiagnosisPhaseDone \<longleftrightarrow> oc_RCA oc \<noteq> None)
     \<and> (oc_RCA oc \<noteq> None \<longrightarrow> es \<noteq> [] \<and> reply_rca gt fc (snd (last es)) = oc_RCA oc)
     \<and> (oc_Phase oc = DiagnosisPhaseFailed \<longleftrightarrow>
          es \<noteq> [] \<and> loop_request tools start (fst (last es)) \<and> unusable (snd (last es)))"

lemma phases_distinct [simp]:
  "DiagnosisPhaseDone \<noteq> DiagnosisPhasePartial" "DiagnosisPhaseDone \<noteq> DiagnosisPhaseFailed"
  "DiagnosisPhasePartial \<noteq> DiagnosisPhaseFailed" "DiagnosisPhasePartial \<noteq> DiagnosisPhaseDone"
  "DiagnosisPhaseFailed \<noteq> DiagnosisPhaseDone" "DiagnosisPhaseFailed \<noteq> DiagnosisPhasePartial"
  by (simp_all add: phase_defs)

lemma max_tokens_distinct: "DiagnosisRepairMaxTokens \<noteq> DiagnosisMaxTokens"
  by (simp add: DiagnosisMaxTokens_def DiagnosisRepairMaxTokens_def)

text \<open>The result of one run of the loop, seen from the log.\<close>

definition run_post ::
  "nat \<Rightarrow> go_texts \<Rightarrow> float_codec \<Rightarrow> 'w DiagnosisAgent \<Rightarrow> string \<Rightarrow> Message list \<Rightarrow> int
     \<Rightarrow> exchange list \<Rightarrow> Outcome \<Rightarrow> bool" where
  "run_post n gt fc a ctx start tokens es oc \<longleftrightarrow>
     length es \<le> (if n = 0 then 0 else Suc n)
     \<and> explained gt fc (ag_Tools a) start es oc
     \<and> oc_TokensUsed oc = wrap_signed 64 (tokens + sum_list (map exchange_tokens es))
     \<and> (\<forall>s \<in> set (oc_Trace oc). length (ts_Result s) \<le> 200)
     \<and> oc_ContextJSON oc = ctx
     \<and> oc_Reasoning oc = (case oc_RCA oc of None \<Rightarrow> [] | Some rca \<Rightarrow> rca_Reasoning rca)"

lemma parseRCA_complete:
  "parseRCA gt fc s = Inr rca \<Longrightarrow> rca_Summary rca \<noteq> [] \<and> rca_RootCause rca \<noteq> []"
  by (auto simp: parseRCA_def split: option.splits if_splits)

lemma reply_rca_complete:
  "reply_rca gt fc r = Some rca \<Longrightarrow> rca_Summary rca \<noteq> [] \<and> rca_RootCause rca \<noteq> []"
  by (auto simp: reply_rca_def dest: parseRCA_complete split: sum.splits list.splits)

text \<open>A further exchange in front of an explained run.\<close>

lemma explained_Cons:
  assumes "explained gt fc tools start es oc" "es \<noteq> []"
    and "loop_request tools start req" "\<not> unusable r"
  shows "explained gt fc tools start ((req, r) # es) oc"
  using assms by (auto simp: explained_def)

lemma explained_max:
  assumes "loop_request tools start req" "\<not> unusable r"
    "oc_Phase oc = DiagnosisPhasePartial" "oc_RCA oc = None"
  shows "explained gt fc tools start [(req, r)] oc"
  using assms by (simp add: explained_def)

lemma wrap_tokens:
  "wrap_signed 64 (wrap_signed 64 (t + u) + s) = wrap_signed 64 (t + (u + s))"
  using wrap_signed_add [of 64 "t + u" s] by (simp add: add.assoc)

lemma wrap_wrap [simp]: "wrap_signed w (wrap_signed w x) = wrap_signed w x"
  using wrap_signed_add [of w x 0] by simp


lemma final_answer_post:
  assumes "final_answer gt fc (log_agent a) ctx (ms @ [m]) t tr m (l, w) = (oc, (l', w'))"
    and "conversation start ms" "msg_ToolCalls m = []" "ch_Message c = m" "rsp_Choices resp = c # cs"
    and "\<forall>s \<in> set tr. length (ts_Result s) \<le> 200" "wrap_signed 64 t = t"
    and "loop_request (ag_Tools a) start req"
  shows "\<exists>es. l' = l @ es \<and> length es \<le> 1 \<and> explained gt fc (ag_Tools a) start ((req, Inr resp) # es) oc
     \<and> oc_TokensUsed oc = wrap_signed 64 (t + sum_list (map exchange_tokens es))
     \<and> (\<forall>s \<in> set (oc_Trace oc). length (ts_Result s) \<le> 200) \<and> oc_ContextJSON oc = ctx
     \<and> oc_Reasoning oc = (case oc_RCA oc of None \<Rightarrow> [] | Some rca \<Rightarrow> rca_Reasoning rca)"
proof (cases "parseRCA gt fc (msg_Content m)")
  case (Inr rca)
  then have "reply_rca gt fc (Inr resp) = Some rca"
    using assms(4,5) by (simp add: reply_rca_def)
  with Inr assms show ?thesis
    by (auto simp: final_answer_def explained_def unusable_def)
next
  case (Inl e)
  define rreq where "rreq = repair_req (ms @ [m])"
  obtain r w1 where r: "pr_Complete (ag_Provider a) rreq w = (r, w1)" by force
  have rep: "repair_request start rreq"
    unfolding repair_request_def rreq_def repair_req_def using assms(2,3) by auto
  then have noloop: "\<not> loop_request (ag_Tools a) start rreq"
    by (simp add: loop_request_def repair_request_def max_tokens_distinct)
  have es: "l' = l @ [(rreq, r)]"
    using assms(1) Inl r by (auto simp: final_answer_def repairRCA_def log_complete_def Let_def rreq_def [symmetric]
        split: sum.splits list.splits)
  have expl: "explained gt fc (ag_Tools a) start [(req, Inr resp), (rreq, r)] oc"
    using assms(1) Inl r rep noloop assms(5,8)
    by (auto simp: final_answer_def repairRCA_def log_complete_def Let_def rreq_def [symmetric]
        explained_def unusable_def reply_rca_def split: sum.splits list.splits)
  have "oc_TokensUsed oc = wrap_signed 64 (t + exchange_tokens (rreq, r)) \<and> oc_Trace oc = tr
      \<and> oc_ContextJSON oc = ctx
      \<and> oc_Reasoning oc = (case oc_RCA oc of None \<Rightarrow> [] | Some rca \<Rightarrow> rca_Reasoning rca)"
    using assms(1,7) Inl r
    by (auto simp: final_answer_def repairRCA_def log_complete_def Let_def rreq_def [symmetric]
        exchange_tokens_def split: sum.splits list.splits)
  with es expl assms(6) show ?thesis
    by (intro exI [of _ "[(rreq, r)]"]) simp
qed

lemma run_loop_post:
  assumes "run_loop n gt fc (log_agent a) ctx ms t tr (l, w) = (oc, (l', w'))"
    and "conversation start ms" "\<forall>s \<in> set tr. length (ts_Result s) \<le> 200" "wrap_signed 64 t = t"
  shows "\<exists>es. l' = l @ es \<and> run_post n gt fc a ctx start t es oc \<and> (0 < n \<longrightarrow> es \<noteq> [])"
  using assms
proof (induction n arbitrary: ms t tr l w)
  case 0
  then show ?case by (auto simp: run_post_def explained_def)
next
  case (Suc n)
  define req where "req = loop_req (ag_Tools a) ms"
  have lreq: "loop_request (ag_Tools a) start req"
    using Suc.prems(2) by (simp add: loop_request_def req_def loop_req_def)
  obtain r w1 where r: "pr_Complete (ag_Provider a) req w = (r, w1)" by force
  show ?case
  proof (cases "unusable r")
    case True
    then have "l' = l @ [(req, r)] \<and> run_post (Suc n) gt fc a ctx start t [(req, r)] oc"
      using Suc.prems r lreq
      by (cases r) (auto simp: log_complete_def Let_def req_def [symmetric] unusable_def run_post_def
          explained_def exchange_tokens_def)
    then show ?thesis by blast
  next
    case False
    then obtain resp c cs where resp: "r = Inr resp" "rsp_Choices resp = c # cs"
      by (cases r) (auto simp: unusable_def neq_Nil_conv)
    define m where "m = ch_Message c"
    define t1 where "t1 = wrap_signed 64 (t + us_TotalTokens (rsp_Usage resp))"
    have t1: "wrap_signed 64 t1 = t1" by (simp add: t1_def)
    have tok: "exchange_tokens (req, Inr resp) = us_TotalTokens (rsp_Usage resp)"
      by (simp add: exchange_tokens_def)
    show ?thesis
    proof (cases "msg_ToolCalls m = []")
      case True
      then have "final_answer gt fc (log_agent a) ctx (ms @ [m]) t1 tr m (l @ [(req, r)], w1) = (oc, (l', w'))"
        using Suc.prems(1) r resp by (simp add: log_complete_def req_def [symmetric] m_def t1_def Let_def)
      from final_answer_post [OF this Suc.prems(2) True m_def [symmetric] resp(2) Suc.prems(3) t1 lreq]
      obtain es where "l' = (l @ [(req, r)]) @ es" "run_post (Suc n) gt fc a ctx start t ((req, r) # es) oc"
        by (auto simp: run_post_def tok t1_def wrap_tokens resp(1))
      then show ?thesis by auto
    next
      case tools: False
      obtain ms2 tr2 w2 where rt: "run_tools gt a (msg_ToolCalls m) (ms @ [m]) tr w1 = (ms2, tr2, w2)"
        by (metis prod_cases3)
      then have loop: "run_loop n gt fc (log_agent a) ctx ms2 t1 tr2 (l @ [(req, r)], w2) = (oc, (l', w'))"
        using Suc.prems(1) r resp tools
        by (simp add: log_complete_def req_def [symmetric] m_def t1_def Let_def run_tools_log)
      from run_tools_appends [OF rt] obtain rs where rs: "length rs = length (msg_ToolCalls m)"
        "ms2 = (ms @ [m]) @ map2 tool_message (msg_ToolCalls m) rs"
        "tr2 = tr @ map2 trace_step (msg_ToolCalls m) rs"
        by blast
      have "conversation start ms2"
        using conv_round [OF Suc.prems(2) tools rs(1)] rs(2) by simp
      moreover have "\<forall>s \<in> set tr2. length (ts_Result s) \<le> 200"
        using Suc.prems(3) rs(3) by (auto simp: trace_step_bound split_beta)
      ultimately obtain es where es: "l' = (l @ [(req, r)]) @ es" "run_post n gt fc a ctx start t1 es oc"
        "0 < n \<longrightarrow> es \<noteq> []"
        using Suc.IH [OF loop _ _ t1] by blast
      have "explained gt fc (ag_Tools a) start ((req, r) # es) oc"
      proof (cases n)
        case 0
        with es loop lreq False show ?thesis by (auto simp: run_post_def intro!: explained_max)
      next
        case (Suc k)
        with es lreq False show ?thesis by (auto simp: run_post_def intro!: explained_Cons)
      qed
      with es have "run_post (Suc n) gt fc a ctx start t ((req, r) # es) oc"
        by (auto simp: run_post_def tok resp(1) t1_def wrap_tokens split: if_splits)
      with es(1) show ?thesis by auto
    qed
  qed
qed

section \<open>The log is ghost state\<close>

lemma repairRCA_log:
  "(case repairRCA gt fc (log_agent a) ms t (l, w) of (r, t', (l', w')) \<Rightarrow> (r, t', w')) = repairRCA gt fc a ms t w"
  by (simp add: repairRCA_def log_complete_def Let_def split: prod.splits sum.splits list.splits)

lemma final_answer_log:
  "(case final_answer gt fc (log_agent a) ctx ms t tr m (l, w) of (oc, (l', w')) \<Rightarrow> (oc, w'))
     = final_answer gt fc a ctx ms t tr m w"
  using repairRCA_log [of gt fc a ms t l w]
  by (auto simp: final_answer_def split: prod.splits sum.splits)

lemma run_loop_log:
  "(case run_loop n gt fc (log_agent a) ctx ms t tr (l, w) of (oc, (l', w')) \<Rightarrow> (oc, w'))
     = run_loop n gt fc a ctx ms t tr w"
proof (induction n arbitrary: ms t tr l w)
  case (Suc n)
  obtain r w1 where r: "pr_Complete (ag_Provider a) (loop_req (ag_Tools a) ms) w = (r, w1)" by force
  show ?case
  proof (cases r)
    case (Inr resp)
    then show ?thesis
      using r Suc final_answer_log [of gt fc a ctx]
      by (cases "rsp_Choices resp")
        (auto simp: log_complete_def Let_def run_tools_log split: prod.splits)
  qed (simp add: r log_complete_def)
qed simp

lemma Run_log:
  assumes "Run gt fc (log_agent a) snap ([], w) = (oc, (es, w'))"
  shows "Run gt fc a snap w = (oc, w')"
    and "run_post (nat (max_iterations a)) gt fc a snap (initial_messages snap) 0 es oc" "es \<noteq> []"
proof -
  show "Run gt fc a snap w = (oc, w')"
    using assms run_loop_log [of "nat (max_iterations a)" gt fc a snap "initial_messages snap" 0 "[]" "[]" w]
    by (simp add: Run_def)
  have "0 < nat (max_iterations a)" by (simp add: max_iterations_def)
  moreover have "wrap_signed 64 0 = 0" by (simp add: wrap_signed_def)
  ultimately show "run_post (nat (max_iterations a)) gt fc a snap (initial_messages snap) 0 es oc" "es \<noteq> []"
    using assms run_loop_post [of "nat (max_iterations a)" gt fc a snap "initial_messages snap" 0 "[]" "[]" w
        oc es w' "initial_messages snap"] conv_start
    by (auto simp: Run_def)
qed

section \<open>Properties\<close>

text \<open>
C15: A diagnosis run always returns after at most MaxIter + 1 provider calls (MaxIter turns,
with 5 for a non-positive setting, and at most one repair call, which is then the last), and
at least one; recording the calls changes nothing.
\<close>

theorem Run_calls_bounded:
  "\<exists>oc es w'. Run gt fc (log_agent a) snap ([], w) = (oc, (es, w'))
     \<and> Run gt fc a snap w = (oc, w')
     \<and> 1 \<le> length es \<and> int (length es) \<le> (if ag_MaxIter a \<le> 0 then 5 else ag_MaxIter a) + 1
     \<and> length (filter (\<lambda>x. req_MaxTokens (fst x) = DiagnosisRepairMaxTokens) es) \<le> 1"
proof -
  obtain oc es w' where run: "Run gt fc (log_agent a) snap ([], w) = (oc, (es, w'))"
    by (metis prod_cases3)
  note post = Run_log [OF run]
  have pos: "0 < max_iterations a" by (simp add: max_iterations_def)
  with post(2) have "length es \<le> Suc (nat (max_iterations a))" by (simp add: run_post_def)
  with pos have "int (length es) \<le> max_iterations a + 1" by linarith
  moreover have "\<forall>x \<in> set (butlast es). loop_request (ag_Tools a) (initial_messages snap) (fst x)"
    using post(2) by (simp add: run_post_def explained_def)
  then have "filter (\<lambda>x. req_MaxTokens (fst x) = DiagnosisRepairMaxTokens) (butlast es) = []"
    by (simp add: filter_empty_conv loop_request_def max_tokens_distinct [symmetric])
  then have "filter (\<lambda>x. req_MaxTokens (fst x) = DiagnosisRepairMaxTokens) es
      = filter (\<lambda>x. req_MaxTokens (fst x) = DiagnosisRepairMaxTokens) [last es]"
    using append_butlast_last_id [OF post(3)] by (metis append_Nil filter_append)
  ultimately show ?thesis
    using run post(1,3) by (auto simp: max_iterations_def Suc_le_eq)
qed


text \<open>
The tokens of an outcome are the sum of the usage of every reply received, as an int64;
every traced tool result is at most 200 bytes, the snapshot is handed on unchanged, and the
reasoning is the RCA's.
\<close>

theorem Run_accounting:
  assumes "Run gt fc (log_agent a) snap ([], w) = (oc, (es, w'))"
  shows "oc_TokensUsed oc = wrap_signed 64 (sum_list (map exchange_tokens es))
     \<and> (\<forall>s \<in> set (oc_Trace oc). length (ts_Result s) \<le> 200)
     \<and> oc_ContextJSON oc = snap
     \<and> oc_Reasoning oc = (case oc_RCA oc of None \<Rightarrow> [] | Some rca \<Rightarrow> rca_Reasoning rca)"
  using Run_log(2) [OF assms] by (simp add: run_post_def)


text \<open>
  Closed instance: a provider that asks for a tool, then answers with prose, and fails the
  repair call. The world counts the calls.
\<close>

definition sample_texts :: go_texts where
  "sample_texts = \<lparr>gt_quote = (\<lambda>s. dquote @ s @ dquote), gt_json_error = (\<lambda>t s. ''invalid'')\<rparr>"

definition sample_codec :: float_codec where
  "sample_codec = \<lparr>fc_parse = (\<lambda>s. Some (Float64 (length s))), fc_format = (\<lambda>f. Some ''0'')\<rparr>"

definition sample_reply :: "Message \<Rightarrow> int \<Rightarrow> Response" where
  "sample_reply m n = \<lparr>rsp_Choices = [\<lparr>ch_Message = m, ch_FinishReason = []\<rparr>],
     rsp_Usage = \<lparr>us_TotalTokens = n\<rparr>\<rparr>"

definition sample_agent :: "nat DiagnosisAgent" where
  "sample_agent = \<lparr>ag_Provider = \<lparr>pr_Complete = (\<lambda>req n.
       (if n = 0 then Inr ((sample_reply (text_message ''assistant'' []) 0)\<lparr>rsp_Choices :=
            [\<lparr>ch_Message = (text_message ''assistant'' [])\<lparr>msg_ToolCalls :=
               [\<lparr>tc_ID = ''c1'', tc_Type = ''function'',
                 tc_Function = \<lparr>fn_Name = ''get_node'', fn_Arguments = ''{}''\<rparr>\<rparr>]\<rparr>,
               ch_FinishReason = ''tool_calls''\<rparr>]\<rparr>)
        else if n = 1 then Inr (sample_reply (text_message ''assistant'' ''It crashed.'') 7)
        else Inl (errorf ''timeout''), Suc n)), pr_CompleteStream = None\<rparr>,
     ag_Executor = Some (\<lambda>name args n. (Inr ''Ready=True'', n)), ag_Tools = KubeTools, ag_MaxIter = 3\<rparr>"

lemma sample_run:
  "case Run sample_texts sample_codec (log_agent sample_agent) ''{}'' ([], 0) of (oc, (es, n)) \<Rightarrow>
     length es = 3 \<and> oc_Phase oc = DiagnosisPhasePartial \<and> oc_TokensUsed oc = 7"
  by code_simp


theorem Run_accounting_witness:
  "\<exists>oc es n. Run sample_texts sample_codec (log_agent sample_agent) ''{}'' ([], 0) = (oc, (es, n))
     \<and> oc_TokensUsed oc = 7 \<and> wrap_signed 64 (sum_list (map exchange_tokens es)) = 7"
proof -
  obtain oc es n where run: "Run sample_texts sample_codec (log_agent sample_agent) ''{}'' ([], 0) = (oc, (es, n))"
    by (metis prod_cases3)
  then show ?thesis using Run_accounting [OF run] sample_run by auto
qed

end
