(* ===== verification/Redactor.thy ===== *)
theory Redactor
  imports Go_Utf8
begin

text \<open>
  Secret redaction, \<^verbatim>\<open>src/internal/enricher/redactor.go\<close>. The rules are regular expressions
  of Go's \<^verbatim>\<open>regexp\<close> package, kept here as syntax trees over bytes with its leftmost-first
  matching: \<^verbatim>\<open>rx_ends\<close> lists what is left after each match at a position, most preferred first.
  All literals and classes of the rules are ASCII, so matching bytes agrees with matching
  characters; under \<^verbatim>\<open>(?i)\<close> the letters s and k also match U+017F and U+212A, which are written
  out. The reference semantics is the language of an expression (\<^verbatim>\<open>rx_lang\<close>).
\<close>

section \<open>Regular expressions\<close>

datatype rx =
    Eps
  | Cls bool "(nat \<times> nat) list"
  | Seq rx rx
  | Alt rx rx
  | Star bool rx

definition in_class :: "bool \<Rightarrow> (nat \<times> nat) list \<Rightarrow> char \<Rightarrow> bool" where
  "in_class neg ranges c = (list_ex (\<lambda>(lo, hi). lo \<le> byte c \<and> byte c \<le> hi) ranges \<noteq> neg)"

text \<open>
  \<^verbatim>\<open>Star True\<close> is greedy and \<^verbatim>\<open>Star False\<close> lazy. An iteration that consumes nothing is not
  repeated.
\<close>

function rx_ends :: "rx \<Rightarrow> string \<Rightarrow> string list" where
  "rx_ends Eps s = [s]"
| "rx_ends (Cls neg rs) s = (case s of [] \<Rightarrow> [] | c # t \<Rightarrow> if in_class neg rs c then [t] else [])"
| "rx_ends (Seq a b) s = concat (map (rx_ends b) (rx_ends a s))"
| "rx_ends (Alt a b) s = rx_ends a s @ rx_ends b s"
| "rx_ends (Star greedy a) s =
     (let more = concat (map (\<lambda>t. if length t < length s then rx_ends (Star greedy a) t else []) (rx_ends a s))
      in if greedy then more @ [s] else s # more)"
  by pat_completeness auto
termination
  by (relation "measures [\<lambda>(r, s). size r, \<lambda>(r, s). length s]") auto

declare rx_ends.simps(5) [simp del]

text \<open>
  \<^verbatim>\<open>ReplaceAllLiteralString\<close>: the leftmost match is replaced and the scan goes on behind
  it. No rule matches the empty string (\<^verbatim>\<open>rules_not_empty\<close>), so an empty match is not a match.
\<close>

function replace_all :: "rx \<Rightarrow> string \<Rightarrow> string \<Rightarrow> string" where
  "replace_all r p s =
     (case s of
        [] \<Rightarrow> []
      | c # s' \<Rightarrow>
          (case rx_ends r s of
             [] \<Rightarrow> c # replace_all r p s'
           | t # _ \<Rightarrow> if length t < length s then p @ replace_all r p t else c # replace_all r p s'))"
  by pat_completeness auto
termination
  by (relation "measure (\<lambda>(r, p, s). length s)") auto

declare replace_all.simps [simp del]

text \<open>\<^verbatim>\<open>MatchString\<close>: some position of the text has a match.\<close>

fun match_string :: "rx \<Rightarrow> string \<Rightarrow> bool" where
  "match_string r [] = (rx_ends r [] \<noteq> [])"
| "match_string r (c # s) = (rx_ends r (c # s) \<noteq> [] \<or> match_string r s)"

subsection \<open>Building blocks\<close>

definition chr1 :: "nat \<Rightarrow> rx" where
  "chr1 n = Cls False [(n, n)]"

fun seqs :: "rx list \<Rightarrow> rx" where
  "seqs [] = Eps"
| "seqs [r] = r"
| "seqs (r # rs) = Seq r (seqs rs)"

fun alts :: "rx list \<Rightarrow> rx" where
  "alts [] = Cls False []"
| "alts [r] = r"
| "alts (r # rs) = Alt r (alts rs)"

definition lit :: "string \<Rightarrow> rx" where
  "lit w = seqs (map (\<lambda>c. chr1 (byte c)) w)"

definition plus :: "rx \<Rightarrow> rx" where
  "plus r = Seq r (Star True r)"

definition opt :: "rx \<Rightarrow> rx" where
  "opt r = Alt r Eps"

definition rep :: "nat \<Rightarrow> rx \<Rightarrow> rx" where
  "rep n r = seqs (replicate n r)"

definition rep_from :: "nat \<Rightarrow> rx \<Rightarrow> rx" where
  "rep_from n r = Seq (rep n r) (Star True r)"

definition long_s :: rx where
  "long_s = seqs [chr1 0xC5, chr1 0xBF]"

definition kelvin :: rx where
  "kelvin = seqs [chr1 0xE2, chr1 0x84, chr1 0xAA]"

text \<open>One character and a literal under \<^verbatim>\<open>(?i)\<close>.\<close>

definition chr_ci :: "char \<Rightarrow> rx" where
  "chr_ci c =
     (let n = byte (lower_char c) in
      if 97 \<le> n \<and> n \<le> 122 then
        (let both = Cls False [(n, n), (n - 32, n - 32)] in
         if n = 115 then Alt both long_s else if n = 107 then Alt both kelvin else both)
      else chr1 n)"

definition lit_ci :: "string \<Rightarrow> rx" where
  "lit_ci w = seqs (map chr_ci w)"

text \<open>A class under \<^verbatim>\<open>(?i)\<close> that contains all letters.\<close>

definition cls_ci :: "(nat \<times> nat) list \<Rightarrow> rx" where
  "cls_ci rs = alts [Cls False rs, long_s, kelvin]"

definition space :: rx where
  "space = Cls False [(9, 10), (12, 13), (32, 32)]"

definition non_space :: rx where
  "non_space = Cls True [(9, 10), (12, 13), (32, 32)]"

definition upper_range :: "nat \<times> nat" where "upper_range = (65, 90)"
definition lower_range :: "nat \<times> nat" where "lower_range = (97, 122)"
definition digit_range :: "nat \<times> nat" where "digit_range = (48, 57)"

definition any_of :: "string \<Rightarrow> (nat \<times> nat) list" where
  "any_of w = map (\<lambda>c. (byte c, byte c)) w"

definition alnum :: "(nat \<times> nat) list" where
  "alnum = [upper_range, lower_range, digit_range]"

section \<open>The rules\<close>

definition RedactedPlaceholder :: string where
  "RedactedPlaceholder = ''***REDACTED***''"

definition secret_names :: rx where
  "secret_names = alts
     [seqs [lit_ci ''api'', opt (Cls False (any_of ''-_'')), lit_ci ''key''],
      lit_ci ''secret'', lit_ci ''token'', lit_ci ''password'', lit_ci ''passwd'',
      lit_ci ''credential'',
      seqs [lit_ci ''auth'', opt (Cls False (any_of ''-_'')), lit_ci ''token'']]"

definition quotes_and_spaces :: "(nat \<times> nat) list" where
  "quotes_and_spaces = [(9, 10), (12, 13), (32, 32), (0x2F, 0x2F), (0x22, 0x22), (0x27, 0x27)]"

definition rule_bearer :: rx where
  "rule_bearer = seqs [lit_ci ''bearer'', plus space,
     plus (cls_ci (alnum @ any_of ''-._~+/'')), Star True (chr1 0x3D)]"

definition rule_aws_id :: rx where
  "rule_aws_id = Seq (alts [lit ''AKIA'', lit ''ASIA'', lit ''AROA'', lit ''AIDA''])
     (rep 16 (Cls False [upper_range, digit_range]))"

definition rule_pem :: rx where
  "rule_pem = seqs [lit ''-----BEGIN '', Star True (Cls False [upper_range, (32, 32)]),
     lit ''PRIVATE KEY-----'', Star False (Cls True []), lit ''-----END '',
     Star True (Cls False [upper_range, (32, 32)]), lit ''PRIVATE KEY-----'']"

definition rule_dsn :: rx where
  "rule_dsn = seqs
     [alts [lit_ci ''postgres'', lit_ci ''postgresql'', lit_ci ''mysql'', lit_ci ''mongodb'', lit_ci ''redis''],
      lit ''://'', plus (Cls True (any_of '':'')), lit '':'', plus (Cls True (any_of ''@'')),
      lit ''@'', plus non_space]"

definition rule_basic_auth :: rx where
  "rule_basic_auth = seqs
     [cls_ci [lower_range, upper_range],
      Star True (cls_ci ([lower_range, upper_range, digit_range] @ any_of ''+-.'')),
      lit ''://'', plus (Cls True (any_of '':@'' @ quotes_and_spaces)), lit '':'',
      plus (Cls True (any_of ''@'' @ quotes_and_spaces)), lit ''@'', plus non_space]"

definition rule_key_value :: rx where
  "rule_key_value = seqs [secret_names, Star True space, Cls False (any_of ''=:''), Star True space,
     plus non_space]"

definition rule_json_value :: rx where
  "rule_json_value = seqs [chr1 0x22, secret_names, chr1 0x22, Star True space, lit '':'',
     Star True space, chr1 0x22, Star True (Cls True [(0x22, 0x22)]), chr1 0x22]"

definition rule_jwt :: rx where
  "rule_jwt = seqs [lit ''eyJ'', rep_from 8 (Cls False (alnum @ any_of ''_-'')), lit ''.'',
     rep_from 8 (Cls False (alnum @ any_of ''_-'')), lit ''.'',
     plus (Cls False (alnum @ any_of ''_-''))]"

definition rule_github :: rx where
  "rule_github = Alt
     (seqs [lit ''gh'', Cls False (any_of ''pousr''), lit ''_'', rep_from 36 (Cls False alnum)])
     (Seq (lit ''github_pat_'') (rep_from 22 (Cls False (alnum @ any_of ''_''))))"

definition rule_google :: rx where
  "rule_google = Seq (lit ''AIza'') (rep 35 (Cls False (alnum @ any_of ''_-'')))"

definition rule_slack :: rx where
  "rule_slack = seqs [lit ''xox'', Cls False (any_of ''baprs''), lit ''-'',
     rep_from 10 (Cls False (alnum @ any_of ''-''))]"

definition rule_aws_secret :: rx where
  "rule_aws_secret = seqs [lit_ci ''aws'', opt (Cls False (any_of ''-_'')), lit_ci ''secret'',
     opt (Cls False (any_of ''-_'')), lit_ci ''access'', opt (Cls False (any_of ''-_'')),
     lit_ci ''key'', Star True space, Cls False (any_of ''=:''), Star True space, plus non_space]"

definition rules :: "rx list" where
  "rules = [rule_bearer, rule_aws_id, rule_pem, rule_dsn, rule_basic_auth, rule_key_value,
     rule_json_value, rule_jwt, rule_github, rule_google, rule_slack, rule_aws_secret]"

definition sensitiveEnvKey :: rx where
  "sensitiveEnvKey = alts (map lit_ci [''PASSWORD'', ''PASSWD'', ''SECRET'', ''TOKEN'', ''KEY'',
     ''CREDENTIAL'', ''AUTH'', ''APIKEY'', ''API_KEY''])"

definition Redact :: "string \<Rightarrow> string" where
  "Redact s = fold (\<lambda>r t. replace_all r RedactedPlaceholder t) rules s"

definition redactEnvValue :: "string \<Rightarrow> string \<Rightarrow> string" where
  "redactEnvValue name value =
     (if match_string sensitiveEnvKey name then RedactedPlaceholder else Redact value)"

section \<open>Reference semantics\<close>

inductive rx_lang :: "rx \<Rightarrow> string \<Rightarrow> bool" where
  lang_eps: "rx_lang Eps []"
| lang_cls: "in_class neg rs c \<Longrightarrow> rx_lang (Cls neg rs) [c]"
| lang_seq: "rx_lang a u \<Longrightarrow> rx_lang b v \<Longrightarrow> rx_lang (Seq a b) (u @ v)"
| lang_alt1: "rx_lang a u \<Longrightarrow> rx_lang (Alt a b) u"
| lang_alt2: "rx_lang b u \<Longrightarrow> rx_lang (Alt a b) u"
| lang_star_nil: "rx_lang (Star g a) []"
| lang_star_step: "rx_lang a u \<Longrightarrow> u \<noteq> [] \<Longrightarrow> rx_lang (Star g a) v \<Longrightarrow> rx_lang (Star g a) (u @ v)"

inductive_simps rx_lang_eps [simp]: "rx_lang Eps u"
inductive_simps rx_lang_cls: "rx_lang (Cls neg rs) u"
inductive_simps rx_lang_seq: "rx_lang (Seq a b) u"
inductive_simps rx_lang_alt: "rx_lang (Alt a b) u"
inductive_cases rx_lang_starE: "rx_lang (Star g a) u"

lemma star_ends:
  "t \<in> set (rx_ends (Star g a) s) \<longleftrightarrow>
     t = s \<or> (\<exists>m \<in> set (rx_ends a s). length m < length s \<and> t \<in> set (rx_ends (Star g a) m))"
  by (subst rx_ends.simps) (auto simp: Let_def split: if_splits)

lemma rx_ends_sound: "t \<in> set (rx_ends r s) \<Longrightarrow> \<exists>u. s = u @ t \<and> rx_lang r u"
proof (induction r s arbitrary: t rule: rx_ends.induct)
  case (2 neg rs s)
  then show ?case by (auto simp: rx_lang_cls split: list.splits if_splits)
next
  case (3 a b s)
  then obtain m where "m \<in> set (rx_ends a s)" "t \<in> set (rx_ends b m)" by auto
  with 3 show ?case by (metis append_assoc lang_seq)
next
  case (4 a b s)
  then show ?case by (fastforce intro: lang_alt1 lang_alt2)
next
  case (5 g a s)
  from "5.prems" consider "t = s"
    | m where "m \<in> set (rx_ends a s)" "length m < length s" "t \<in> set (rx_ends (Star g a) m)"
    unfolding star_ends [of t g a s] by blast
  then show ?case
  proof cases
    case 1
    then show ?thesis by (auto intro: lang_star_nil)
  next
    case 2
    from "5.IH"(1) [OF 2(1)] obtain u where u: "s = u @ m" "rx_lang a u" by blast
    from "5.IH"(2) [OF 2] obtain v where v: "m = v @ t" "rx_lang (Star g a) v" by blast
    have "u \<noteq> []" using u(1) 2(2) by auto
    with u v have "rx_lang (Star g a) (u @ v)" by (auto intro: lang_star_step)
    with u(1) v(1) show ?thesis by auto
  qed
qed simp

lemma rx_ends_complete: "rx_lang r u \<Longrightarrow> t \<in> set (rx_ends r (u @ t))"
proof (induction r u arbitrary: t rule: rx_lang.induct)
  case (lang_star_step a u g v)
  have "v @ t \<in> set (rx_ends a (u @ v @ t))" by (rule lang_star_step.IH(1))
  moreover have "t \<in> set (rx_ends (Star g a) (v @ t))" by (rule lang_star_step.IH(2))
  ultimately show ?case
    unfolding append_assoc star_ends [of t g a "u @ v @ t"]
    using lang_star_step.hyps(2) by (intro disjI2 bexI [of _ "v @ t"]) simp_all
next
  case (lang_seq a u b v)
  then show ?case by auto
next
  case (lang_star_nil g a)
  show ?case by (subst star_ends) simp
qed auto

lemma rx_ends_empty_iff: "rx_ends r s = [] \<longleftrightarrow> (\<forall>u t. s = u @ t \<longrightarrow> \<not> rx_lang r u)"
  using rx_ends_sound rx_ends_complete by (metis all_not_in_conv set_empty)

section \<open>Replacement\<close>

text \<open>
  A text cut into gaps and matches, with a last gap; positions inside the matches.
\<close>

fun join_segs :: "(string \<times> string) list \<Rightarrow> string \<Rightarrow> string" where
  "join_segs [] z = z"
| "join_segs ((g, m) # xs) z = g @ m @ join_segs xs z"

fun in_match :: "(string \<times> string) list \<Rightarrow> nat \<Rightarrow> bool" where
  "in_match [] p = False"
| "in_match ((g, m) # xs) p =
     (length g \<le> p \<and> (p < length g + length m \<or> in_match xs (p - length g - length m)))"

definition redaction :: "rx \<Rightarrow> string \<Rightarrow> string \<Rightarrow> string \<Rightarrow> bool" where
  "redaction r p s out \<longleftrightarrow>
     (\<exists>xs z. s = join_segs xs z \<and> out = join_segs (map (\<lambda>(g, m). (g, p)) xs) z
        \<and> (\<forall>x \<in> set xs. rx_lang r (snd x) \<and> snd x \<noteq> [])
        \<and> (\<forall>pre u post. s = pre @ u @ post \<longrightarrow> rx_lang r u \<longrightarrow> in_match xs (length pre)))"

lemma redaction_gap:
  assumes "redaction r p s out" "\<not> (\<exists>u t. c # s = u @ t \<and> rx_lang r u)"
  shows "redaction r p (c # s) (c # out)"
proof -
  obtain xs z where xs: "s = join_segs xs z" "out = join_segs (map (\<lambda>(g, m). (g, p)) xs) z"
    "\<forall>x \<in> set xs. rx_lang r (snd x) \<and> snd x \<noteq> []"
    and cov: "\<And>pre u post. s = pre @ u @ post \<Longrightarrow> rx_lang r u \<Longrightarrow> in_match xs (length pre)"
    using assms(1) unfolding redaction_def by blast
  define ys where "ys = (case xs of [] \<Rightarrow> [] | (g, m) # xs' \<Rightarrow> (c # g, m) # xs')"
  define z' where "z' = (case xs of [] \<Rightarrow> c # z | _ \<Rightarrow> z)"
  have shift: "in_match ys (Suc n) = in_match xs n" for n
    by (auto simp: ys_def split: list.splits)
  have "in_match ys (length pre)" if "c # s = pre @ u @ post" "rx_lang r u" for pre u post
  proof (cases pre)
    case Nil
    with that assms(2) show ?thesis by auto
  next
    case (Cons d pre')
    with that cov [of pre' u post] show ?thesis by (simp add: shift)
  qed
  moreover have "c # s = join_segs ys z'" "c # out = join_segs (map (\<lambda>(g, m). (g, p)) ys) z'"
    "\<forall>x \<in> set ys. rx_lang r (snd x) \<and> snd x \<noteq> []"
  proof -
    show "c # s = join_segs ys z'"
      unfolding xs(1) by (cases xs) (auto simp: ys_def z'_def)
    show "c # out = join_segs (map (\<lambda>(g, m). (g, p)) ys) z'"
      unfolding xs(2) by (cases xs) (auto simp: ys_def z'_def)
    show "\<forall>x \<in> set ys. rx_lang r (snd x) \<and> snd x \<noteq> []"
      using xs(3) by (cases xs) (simp_all add: ys_def split_beta)
  qed
  ultimately show ?thesis unfolding redaction_def by blast
qed

lemma redaction_hit:
  assumes "redaction r p t out" "s = m @ t" "rx_lang r m" "m \<noteq> []"
  shows "redaction r p s (p @ out)"
proof -
  obtain xs z where xs: "t = join_segs xs z" "out = join_segs (map (\<lambda>(g, m). (g, p)) xs) z"
    "\<forall>x \<in> set xs. rx_lang r (snd x) \<and> snd x \<noteq> []"
    and cov: "\<And>pre u post. t = pre @ u @ post \<Longrightarrow> rx_lang r u \<Longrightarrow> in_match xs (length pre)"
    using assms(1) unfolding redaction_def by blast
  have "in_match (([], m) # xs) (length pre)" if "s = pre @ u @ post" "rx_lang r u" for pre u post
  proof (cases "length pre < length m")
    case False
    then have "t = drop (length m) pre @ u @ post"
      using that(1) assms(2) by (auto simp: append_eq_append_conv_if)
    with cov that(2) False show ?thesis by fastforce
  qed simp
  with xs assms(2-4) show ?thesis
    unfolding redaction_def by (intro exI [of _ "([], m) # xs"] exI [of _ z]) auto
qed

lemma replace_all_redaction:
  assumes "\<not> rx_lang r []"
  shows "redaction r p s (replace_all r p s)"
  using assms
proof (induction r p s rule: replace_all.induct)
  case (1 r p s)
  show ?case
  proof (cases s)
    case Nil
    then have "replace_all r p s = []" by (simp add: replace_all.simps)
    with Nil "1.prems" show ?thesis
      by (auto simp: redaction_def intro!: exI [of _ "[]"])
  next
    case (Cons c s')
    show ?thesis
    proof (cases "rx_ends r s")
      case Nil
      with Cons have "replace_all r p s = c # replace_all r p s'"
        by (subst replace_all.simps) simp
      moreover have "\<not> (\<exists>u t. c # s' = u @ t \<and> rx_lang r u)"
        using Nil Cons rx_ends_empty_iff [of r s] by blast
      ultimately show ?thesis
        using redaction_gap "1.IH"(1) [OF Cons Nil "1.prems"] Cons by simp
    next
      case hit: (Cons t ts)
      obtain m where m: "s = m @ t" "rx_lang r m"
        using rx_ends_sound [of t r s] hit by auto
      then have "m \<noteq> []" using "1.prems" by auto
      with m have shorter: "length t < length s" by simp
      then have "replace_all r p s = p @ replace_all r p t"
        using Cons hit by (subst replace_all.simps) simp
      then show ?thesis
        using redaction_hit [OF "1.IH"(2) [OF Cons hit shorter "1.prems"] m \<open>m \<noteq> []\<close>] by simp
    qed
  qed
qed

fun nullable :: "rx \<Rightarrow> bool" where
  "nullable Eps = True"
| "nullable (Cls neg rs) = False"
| "nullable (Seq a b) = (nullable a \<and> nullable b)"
| "nullable (Alt a b) = (nullable a \<or> nullable b)"
| "nullable (Star g a) = True"

lemma rx_lang_nullable: "rx_lang r u \<Longrightarrow> u = [] \<Longrightarrow> nullable r"
  by (induction rule: rx_lang.induct) auto

lemma rules_not_empty: "r \<in> set rules \<Longrightarrow> \<not> rx_lang r []"
proof -
  have "list_all (\<lambda>r. \<not> nullable r) rules" by code_simp
  then show "r \<in> set rules \<Longrightarrow> \<not> rx_lang r []"
    using rx_lang_nullable by (auto simp: list_all_iff)
qed



section \<open>Texts and environment variables\<close>

lemma replace_all_id:
  assumes "\<And>pre u post. s = pre @ u @ post \<Longrightarrow> \<not> rx_lang r u" "\<not> rx_lang r []"
  shows "replace_all r p s = s"
proof -
  obtain xs z where xs: "s = join_segs xs z" "replace_all r p s = join_segs (map (\<lambda>(g, m). (g, p)) xs) z"
    "\<forall>x \<in> set xs. rx_lang r (snd x) \<and> snd x \<noteq> []"
    using replace_all_redaction [OF assms(2), of p s] by (auto simp: redaction_def)
  show ?thesis
  proof (cases xs)
    case Nil
    with xs show ?thesis by simp
  next
    case (Cons x xs')
    obtain g m where "x = (g, m)" by (cases x)
    with xs Cons have "s = g @ m @ join_segs xs' z" "rx_lang r m" by auto
    with assms(1) show ?thesis by blast
  qed
qed

text \<open>A text none of whose parts a rule matches.\<close>

definition harmless :: "string \<Rightarrow> bool" where
  "harmless s \<longleftrightarrow> (\<forall>r \<in> set rules. \<forall>pre u post. s = pre @ u @ post \<longrightarrow> \<not> rx_lang r u)"

lemma fold_replace_id: "(\<And>r. r \<in> set rs \<Longrightarrow> replace_all r p s = s) \<Longrightarrow> fold (\<lambda>r t. replace_all r p t) rs s = s"
  by (induction rs) auto

lemma Redact_harmless: "harmless s \<Longrightarrow> Redact s = s"
  unfolding Redact_def harmless_def
  by (intro fold_replace_id replace_all_id rules_not_empty) blast

lemma match_string_iff: "match_string r s \<longleftrightarrow> (\<exists>pre u post. s = pre @ u @ post \<and> rx_lang r u)"
proof (induction s)
  case Nil
  then show ?case by (auto simp: rx_ends_empty_iff)
next
  case (Cons c s)
  have "(\<exists>pre u post. c # s = pre @ u @ post \<and> rx_lang r u) \<longleftrightarrow>
      (\<exists>u t. c # s = u @ t \<and> rx_lang r u) \<or> (\<exists>pre u post. s = pre @ u @ post \<and> rx_lang r u)"
    by (metis (no_types, opaque_lifting) append_Cons append_Nil list.sel(3) neq_Nil_conv)
  with Cons show ?case by (simp add: rx_ends_empty_iff)
qed

lemma alts_lang: "r \<in> set rs \<Longrightarrow> rx_lang r u \<Longrightarrow> rx_lang (alts rs) u"
proof (induction rs rule: alts.induct)
  case (3 r1 r2 rs)
  then show ?case by (auto simp: rx_lang_alt)
qed auto

lemma seqs_Cons_lang: "rx_lang r u \<Longrightarrow> rx_lang (seqs rs) v \<Longrightarrow> rx_lang (seqs (r # rs)) (u @ v)"
  by (cases rs) (auto simp: rx_lang_seq)

lemma byte_lower_char:
  "byte (lower_char d) = (if 65 \<le> byte d \<and> byte d \<le> 90 then byte d + 32 else byte d)"
  by (simp add: lower_char_def Let_def)

lemma chr_ci_lang:
  assumes "lower_char d = lower_char c"
  shows "rx_lang (chr_ci c) [d]"
proof -
  define n where "n = byte (lower_char c)"
  have d: "n = (if 65 \<le> byte d \<and> byte d \<le> 90 then byte d + 32 else byte d)"
    using byte_lower_char [of d] by (simp add: n_def assms)
  have "in_class False [(n, n), (n - 32, n - 32)] d" if "97 \<le> n" "n \<le> 122"
    using d that by (auto simp: in_class_def split: if_splits)
  moreover have "in_class False [(n, n)] d" if "\<not> (97 \<le> n \<and> n \<le> 122)"
    using d that by (auto simp: in_class_def split: if_splits)
  ultimately show ?thesis
    by (auto simp: chr_ci_def Let_def n_def [symmetric] chr1_def rx_lang_alt rx_lang_cls)
qed

lemma lit_ci_lang: "map lower_char u = map lower_char w \<Longrightarrow> rx_lang (lit_ci w) u"
proof (induction w arbitrary: u)
  case (Cons c w)
  then obtain d u' where u: "u = d # u'" "lower_char d = lower_char c" "map lower_char u' = map lower_char w"
    by (cases u) auto
  then have "rx_lang (seqs (map chr_ci w)) u'" using Cons.IH by (simp add: lit_ci_def)
  from seqs_Cons_lang [OF chr_ci_lang [OF u(2)] this] show ?case
    by (simp add: lit_ci_def u(1))
qed (simp add: lit_ci_def)

definition sensitive_words :: "string list" where
  "sensitive_words = [''password'', ''passwd'', ''secret'', ''token'', ''key'', ''credential'', ''auth'']"

text \<open>
The value of an environment variable is replaced as a whole, whatever it is, when its
name contains, in any letter case, one of the words password, passwd, secret, token, key,
credential or auth; every other value goes through the redaction rules, which leave a text
that no rule matches as it is.
\<close>

theorem redactEnvValue_sensitive:
  assumes "w \<in> set sensitive_words" "map lower_char u = w"
  shows "redactEnvValue (pre @ u @ post) value = RedactedPlaceholder
     \<and> (harmless s \<longrightarrow> Redact s = s)
     \<and> (\<not> match_string sensitiveEnvKey name \<longrightarrow> redactEnvValue name value = Redact value)"
proof -
  have "sensitive_words = map (map lower_char)
      [''PASSWORD'', ''PASSWD'', ''SECRET'', ''TOKEN'', ''KEY'', ''CREDENTIAL'', ''AUTH'']"
    by code_simp
  then have "w \<in> map lower_char ` set [''PASSWORD'', ''PASSWD'', ''SECRET'', ''TOKEN'', ''KEY'',
      ''CREDENTIAL'', ''AUTH'']"
    using assms(1) by (metis set_map)
  then obtain k where k: "k \<in> set [''PASSWORD'', ''PASSWD'', ''SECRET'', ''TOKEN'', ''KEY'',
      ''CREDENTIAL'', ''AUTH'']" and w: "w = map lower_char k"
    by blast
  have "set [''PASSWORD'', ''PASSWD'', ''SECRET'', ''TOKEN'', ''KEY'', ''CREDENTIAL'', ''AUTH'']
      \<subseteq> set [''PASSWORD'', ''PASSWD'', ''SECRET'', ''TOKEN'', ''KEY'', ''CREDENTIAL'', ''AUTH'',
         ''APIKEY'', ''API_KEY'']"
    by simp
  with k have "lit_ci k \<in> set (map lit_ci [''PASSWORD'', ''PASSWD'', ''SECRET'', ''TOKEN'', ''KEY'',
      ''CREDENTIAL'', ''AUTH'', ''APIKEY'', ''API_KEY''])"
    unfolding set_map by blast
  moreover have "rx_lang (lit_ci k) u"
    using assms(2) w by (intro lit_ci_lang) simp
  ultimately have "rx_lang sensitiveEnvKey u"
    unfolding sensitiveEnvKey_def by (rule alts_lang)
  then have "match_string sensitiveEnvKey (pre @ u @ post)"
    unfolding match_string_iff by blast
  then show ?thesis
    using Redact_harmless by (simp add: redactEnvValue_def)
qed

theorem redactEnvValue_sensitive_witness:
  "redactEnvValue ''DB_PassWord_FILE'' ''hunter2'' = RedactedPlaceholder"
proof -
  have "map lower_char ''PassWord'' = ''password''" by code_simp
  moreover have "''password'' \<in> set sensitive_words" by (simp add: sensitive_words_def)
  ultimately show ?thesis
    using redactEnvValue_sensitive [of "''password''" "''PassWord''" "''DB_''" "''_FILE''" "''hunter2''"]
    by simp
qed

end
