(* ===== verification/Enricher.thy ===== *)
theory Enricher
  imports Api_Types Go_Json Redactor "HOL-Library.Char_ord" "HOL-Library.List_Lexorder"
begin

text \<open>
  Context collection, \<^verbatim>\<open>src/internal/enricher\<close>: the snapshot types and their JSON form
  (\<^verbatim>\<open>payload.go\<close>), redaction of a snapshot (\<^verbatim>\<open>redactor.go\<close>) and the collector
  (\<^verbatim>\<open>context_builder.go\<close>). Reads of the cluster go through the record \<^verbatim>\<open>kube\<close> of functions on a
  world, one per API call of the source. A Go map is an association list with distinct keys.
\<close>

section \<open>Snapshot\<close>

record EnvVar =
  env_Name :: string
  env_Value :: string

record PodLog =
  pl_ContainerName :: string
  pl_Lines :: string

record PodContext =
  pc_PodName :: string
  pc_NodeName :: string
  pc_Phase :: string
  pc_Annotations :: "(string, string) gomap"
  pc_EnvVars :: "EnvVar list"
  pc_Logs :: "PodLog list"

record EventSummary =
  es_Name :: string
  es_Reason :: string
  es_Message :: string
  es_Count :: int

record NodeCondition =
  nc_NodeName :: string
  nc_Type :: string
  nc_Status :: string
  nc_Message :: string

record DeploymentStatus =
  ds_Name :: string
  ds_Replicas :: int
  ds_ReadyReplicas :: int
  ds_AvailableReplicas :: int
  ds_Conditions :: "string list"

record ReplicaSetStatus =
  rs_Name :: string
  rs_Replicas :: int
  rs_ReadyReplicas :: int
  rs_Conditions :: "string list"

record Snapshot =
  sn_EventUID :: string
  sn_Reason :: string
  sn_Message :: string
  sn_Namespace :: string
  sn_ObjectKind :: string
  sn_ObjectName :: string
  sn_PodContexts :: "PodContext list"
  sn_RelatedEvents :: "EventSummary list"
  sn_NodeConditions :: "NodeCondition list"
  sn_DeploymentStatus :: "DeploymentStatus option"
  sn_ReplicaSetStatus :: "ReplicaSetStatus option"
  sn_Partial :: "string list"

section \<open>Redaction of a snapshot\<close>

definition redact_pod :: "PodContext \<Rightarrow> PodContext" where
  "redact_pod pc = pc\<lparr>
     pc_Annotations := map (\<lambda>(k, v). (k, Redact v)) (pc_Annotations pc),
     pc_EnvVars := map (\<lambda>e. e\<lparr>env_Value := redactEnvValue (env_Name e) (env_Value e)\<rparr>) (pc_EnvVars pc),
     pc_Logs := map (\<lambda>l. l\<lparr>pl_Lines := Redact (pl_Lines l)\<rparr>) (pc_Logs pc)\<rparr>"

definition RedactSnapshot :: "Snapshot \<Rightarrow> Snapshot" where
  "RedactSnapshot s = s\<lparr>
     sn_Message := Redact (sn_Message s),
     sn_PodContexts := map redact_pod (sn_PodContexts s),
     sn_RelatedEvents := map (\<lambda>e. e\<lparr>es_Message := Redact (es_Message e)\<rparr>) (sn_RelatedEvents s),
     sn_NodeConditions := map (\<lambda>c. c\<lparr>nc_Message := Redact (nc_Message c)\<rparr>) (sn_NodeConditions s),
     sn_DeploymentStatus := map_option (\<lambda>d. d\<lparr>ds_Conditions := map Redact (ds_Conditions d)\<rparr>)
       (sn_DeploymentStatus s),
     sn_ReplicaSetStatus := map_option (\<lambda>d. d\<lparr>rs_Conditions := map Redact (rs_Conditions d)\<rparr>)
       (sn_ReplicaSetStatus s)\<rparr>"

section \<open>JSON\<close>

definition enc_int :: "int \<Rightarrow> json" where
  "enc_int i = JNum (int_dec i)"

definition enc_env :: "EnvVar \<Rightarrow> json" where
  "enc_env e = JObj [(''name'', JStr (env_Name e)), (''value'', JStr (env_Value e))]"

definition enc_log :: "PodLog \<Rightarrow> json" where
  "enc_log l = JObj [(''containerName'', JStr (pl_ContainerName l)), (''lines'', JStr (pl_Lines l))]"

text \<open>A Go map is encoded with its keys in byte order.\<close>

definition enc_map :: "(string, string) gomap \<Rightarrow> json" where
  "enc_map m = JObj (map (\<lambda>(k, v). (k, JStr v)) (sort_key fst m))"

definition enc_pod :: "PodContext \<Rightarrow> json" where
  "enc_pod p = JObj
     ([(''podName'', JStr (pc_PodName p)), (''nodeName'', JStr (pc_NodeName p)),
       (''phase'', JStr (pc_Phase p))]
      @ opt_member (pc_Annotations p \<noteq> []) ''annotations'' (enc_map (pc_Annotations p))
      @ opt_member (pc_EnvVars p \<noteq> []) ''envVars'' (JArr (map enc_env (pc_EnvVars p)))
      @ opt_member (pc_Logs p \<noteq> []) ''logs'' (JArr (map enc_log (pc_Logs p))))"

definition enc_event :: "EventSummary \<Rightarrow> json" where
  "enc_event e = JObj [(''name'', JStr (es_Name e)), (''reason'', JStr (es_Reason e)),
     (''message'', JStr (es_Message e)), (''count'', enc_int (es_Count e))]"

definition enc_node :: "NodeCondition \<Rightarrow> json" where
  "enc_node c = JObj [(''nodeName'', JStr (nc_NodeName c)), (''type'', JStr (nc_Type c)),
     (''status'', JStr (nc_Status c)), (''message'', JStr (nc_Message c))]"

definition enc_deployment :: "DeploymentStatus \<Rightarrow> json" where
  "enc_deployment d = JObj
     ([(''name'', JStr (ds_Name d)), (''replicas'', enc_int (ds_Replicas d)),
       (''readyReplicas'', enc_int (ds_ReadyReplicas d)),
       (''availableReplicas'', enc_int (ds_AvailableReplicas d))]
      @ opt_member (ds_Conditions d \<noteq> []) ''conditions'' (enc_strings (ds_Conditions d)))"

definition enc_replicaset :: "ReplicaSetStatus \<Rightarrow> json" where
  "enc_replicaset d = JObj
     ([(''name'', JStr (rs_Name d)), (''replicas'', enc_int (rs_Replicas d)),
       (''readyReplicas'', enc_int (rs_ReadyReplicas d))]
      @ opt_member (rs_Conditions d \<noteq> []) ''conditions'' (enc_strings (rs_Conditions d)))"

definition enc_snapshot :: "Snapshot \<Rightarrow> json" where
  "enc_snapshot s = JObj
     ([(''eventUID'', JStr (sn_EventUID s)), (''reason'', JStr (sn_Reason s)),
       (''message'', JStr (sn_Message s)), (''namespace'', JStr (sn_Namespace s)),
       (''objectKind'', JStr (sn_ObjectKind s)), (''objectName'', JStr (sn_ObjectName s))]
      @ opt_member (sn_PodContexts s \<noteq> []) ''podContexts'' (JArr (map enc_pod (sn_PodContexts s)))
      @ opt_member (sn_RelatedEvents s \<noteq> []) ''relatedEvents'' (JArr (map enc_event (sn_RelatedEvents s)))
      @ opt_member (sn_NodeConditions s \<noteq> []) ''nodeConditions'' (JArr (map enc_node (sn_NodeConditions s)))
      @ (case sn_DeploymentStatus s of None \<Rightarrow> [] | Some d \<Rightarrow> [(''deploymentStatus'', enc_deployment d)])
      @ (case sn_ReplicaSetStatus s of None \<Rightarrow> [] | Some d \<Rightarrow> [(''replicaSetStatus'', enc_replicaset d)])
      @ opt_member (sn_Partial s \<noteq> []) ''partial'' (enc_strings (sn_Partial s)))"

text \<open>\<^verbatim>\<open>EncodeSnapshot\<close> redacts its argument in place; marshalling these types does not fail.\<close>

definition EncodeSnapshot :: "Snapshot \<Rightarrow> (err + string) \<times> Snapshot" where
  "EncodeSnapshot s = (let s' = RedactSnapshot s in (Inr (json_print (enc_snapshot s')), s'))"

definition dec_ptr :: "'a \<Rightarrow> (json \<Rightarrow> 'a \<Rightarrow> 'a option) \<Rightarrow> json \<Rightarrow> 'a option \<Rightarrow> 'a option option" where
  "dec_ptr z f j old =
     (case j of JNull \<Rightarrow> Some None
      | _ \<Rightarrow> map_option Some (f j (case old of None \<Rightarrow> z | Some x \<Rightarrow> x)))"

fun dec_map_members :: "(string \<times> json) list \<Rightarrow> (string, string) gomap \<Rightarrow> (string, string) gomap option" where
  "dec_map_members [] m = Some m"
| "dec_map_members ((k, v) # ms) m =
     (case dec_string v [] of None \<Rightarrow> None | Some x \<Rightarrow> dec_map_members ms (gm_put k x m))"

definition dec_map :: "json \<Rightarrow> (string, string) gomap \<Rightarrow> (string, string) gomap option" where
  "dec_map j old =
     (case j of JNull \<Rightarrow> Some [] | JObj ms \<Rightarrow> dec_map_members ms old | _ \<Rightarrow> None)"

abbreviation dec_strings :: "json \<Rightarrow> string list \<Rightarrow> string list option" where
  "dec_strings \<equiv> dec_list [] dec_string"

abbreviation dec_int32 :: "json \<Rightarrow> int \<Rightarrow> int option" where
  "dec_int32 \<equiv> dec_int min_int32 max_int32"

definition zero_env :: EnvVar where
  "zero_env = \<lparr>env_Name = [], env_Value = []\<rparr>"

definition env_field :: "string \<Rightarrow> json \<Rightarrow> EnvVar \<Rightarrow> EnvVar option" where
  "env_field k v r =
     (if EqualFold k ''name'' then map_option (\<lambda>x. r\<lparr>env_Name := x\<rparr>) (dec_string v (env_Name r))
      else if EqualFold k ''value'' then map_option (\<lambda>x. r\<lparr>env_Value := x\<rparr>) (dec_string v (env_Value r))
      else Some r)"

definition zero_log :: PodLog where
  "zero_log = \<lparr>pl_ContainerName = [], pl_Lines = []\<rparr>"

definition log_field :: "string \<Rightarrow> json \<Rightarrow> PodLog \<Rightarrow> PodLog option" where
  "log_field k v r =
     (if EqualFold k ''containerName'' then
        map_option (\<lambda>x. r\<lparr>pl_ContainerName := x\<rparr>) (dec_string v (pl_ContainerName r))
      else if EqualFold k ''lines'' then map_option (\<lambda>x. r\<lparr>pl_Lines := x\<rparr>) (dec_string v (pl_Lines r))
      else Some r)"

definition zero_pod :: PodContext where
  "zero_pod = \<lparr>pc_PodName = [], pc_NodeName = [], pc_Phase = [], pc_Annotations = [],
     pc_EnvVars = [], pc_Logs = []\<rparr>"

definition pod_field :: "string \<Rightarrow> json \<Rightarrow> PodContext \<Rightarrow> PodContext option" where
  "pod_field k v r =
     (if EqualFold k ''podName'' then map_option (\<lambda>x. r\<lparr>pc_PodName := x\<rparr>) (dec_string v (pc_PodName r))
      else if EqualFold k ''nodeName'' then map_option (\<lambda>x. r\<lparr>pc_NodeName := x\<rparr>) (dec_string v (pc_NodeName r))
      else if EqualFold k ''phase'' then map_option (\<lambda>x. r\<lparr>pc_Phase := x\<rparr>) (dec_string v (pc_Phase r))
      else if EqualFold k ''annotations'' then
        map_option (\<lambda>x. r\<lparr>pc_Annotations := x\<rparr>) (dec_map v (pc_Annotations r))
      else if EqualFold k ''envVars'' then
        map_option (\<lambda>x. r\<lparr>pc_EnvVars := x\<rparr>) (dec_list zero_env (decode_struct env_field) v (pc_EnvVars r))
      else if EqualFold k ''logs'' then
        map_option (\<lambda>x. r\<lparr>pc_Logs := x\<rparr>) (dec_list zero_log (decode_struct log_field) v (pc_Logs r))
      else Some r)"

definition zero_event :: EventSummary where
  "zero_event = \<lparr>es_Name = [], es_Reason = [], es_Message = [], es_Count = 0\<rparr>"

definition event_field :: "string \<Rightarrow> json \<Rightarrow> EventSummary \<Rightarrow> EventSummary option" where
  "event_field k v r =
     (if EqualFold k ''name'' then map_option (\<lambda>x. r\<lparr>es_Name := x\<rparr>) (dec_string v (es_Name r))
      else if EqualFold k ''reason'' then map_option (\<lambda>x. r\<lparr>es_Reason := x\<rparr>) (dec_string v (es_Reason r))
      else if EqualFold k ''message'' then map_option (\<lambda>x. r\<lparr>es_Message := x\<rparr>) (dec_string v (es_Message r))
      else if EqualFold k ''count'' then map_option (\<lambda>x. r\<lparr>es_Count := x\<rparr>) (dec_int32 v (es_Count r))
      else Some r)"

definition zero_node :: NodeCondition where
  "zero_node = \<lparr>nc_NodeName = [], nc_Type = [], nc_Status = [], nc_Message = []\<rparr>"

definition node_field :: "string \<Rightarrow> json \<Rightarrow> NodeCondition \<Rightarrow> NodeCondition option" where
  "node_field k v r =
     (if EqualFold k ''nodeName'' then map_option (\<lambda>x. r\<lparr>nc_NodeName := x\<rparr>) (dec_string v (nc_NodeName r))
      else if EqualFold k ''type'' then map_option (\<lambda>x. r\<lparr>nc_Type := x\<rparr>) (dec_string v (nc_Type r))
      else if EqualFold k ''status'' then map_option (\<lambda>x. r\<lparr>nc_Status := x\<rparr>) (dec_string v (nc_Status r))
      else if EqualFold k ''message'' then map_option (\<lambda>x. r\<lparr>nc_Message := x\<rparr>) (dec_string v (nc_Message r))
      else Some r)"

definition zero_deployment :: DeploymentStatus where
  "zero_deployment = \<lparr>ds_Name = [], ds_Replicas = 0, ds_ReadyReplicas = 0, ds_AvailableReplicas = 0,
     ds_Conditions = []\<rparr>"

definition deployment_field :: "string \<Rightarrow> json \<Rightarrow> DeploymentStatus \<Rightarrow> DeploymentStatus option" where
  "deployment_field k v r =
     (if EqualFold k ''name'' then map_option (\<lambda>x. r\<lparr>ds_Name := x\<rparr>) (dec_string v (ds_Name r))
      else if EqualFold k ''replicas'' then map_option (\<lambda>x. r\<lparr>ds_Replicas := x\<rparr>) (dec_int32 v (ds_Replicas r))
      else if EqualFold k ''readyReplicas'' then
        map_option (\<lambda>x. r\<lparr>ds_ReadyReplicas := x\<rparr>) (dec_int32 v (ds_ReadyReplicas r))
      else if EqualFold k ''availableReplicas'' then
        map_option (\<lambda>x. r\<lparr>ds_AvailableReplicas := x\<rparr>) (dec_int32 v (ds_AvailableReplicas r))
      else if EqualFold k ''conditions'' then
        map_option (\<lambda>x. r\<lparr>ds_Conditions := x\<rparr>) (dec_strings v (ds_Conditions r))
      else Some r)"

definition zero_replicaset :: ReplicaSetStatus where
  "zero_replicaset = \<lparr>rs_Name = [], rs_Replicas = 0, rs_ReadyReplicas = 0, rs_Conditions = []\<rparr>"

definition replicaset_field :: "string \<Rightarrow> json \<Rightarrow> ReplicaSetStatus \<Rightarrow> ReplicaSetStatus option" where
  "replicaset_field k v r =
     (if EqualFold k ''name'' then map_option (\<lambda>x. r\<lparr>rs_Name := x\<rparr>) (dec_string v (rs_Name r))
      else if EqualFold k ''replicas'' then map_option (\<lambda>x. r\<lparr>rs_Replicas := x\<rparr>) (dec_int32 v (rs_Replicas r))
      else if EqualFold k ''readyReplicas'' then
        map_option (\<lambda>x. r\<lparr>rs_ReadyReplicas := x\<rparr>) (dec_int32 v (rs_ReadyReplicas r))
      else if EqualFold k ''conditions'' then
        map_option (\<lambda>x. r\<lparr>rs_Conditions := x\<rparr>) (dec_strings v (rs_Conditions r))
      else Some r)"

definition empty_snapshot :: Snapshot where
  "empty_snapshot = \<lparr>sn_EventUID = [], sn_Reason = [], sn_Message = [], sn_Namespace = [],
     sn_ObjectKind = [], sn_ObjectName = [], sn_PodContexts = [], sn_RelatedEvents = [],
     sn_NodeConditions = [], sn_DeploymentStatus = None, sn_ReplicaSetStatus = None, sn_Partial = []\<rparr>"

definition snapshot_field :: "string \<Rightarrow> json \<Rightarrow> Snapshot \<Rightarrow> Snapshot option" where
  "snapshot_field k v r =
     (if EqualFold k ''eventUID'' then map_option (\<lambda>x. r\<lparr>sn_EventUID := x\<rparr>) (dec_string v (sn_EventUID r))
      else if EqualFold k ''reason'' then map_option (\<lambda>x. r\<lparr>sn_Reason := x\<rparr>) (dec_string v (sn_Reason r))
      else if EqualFold k ''message'' then map_option (\<lambda>x. r\<lparr>sn_Message := x\<rparr>) (dec_string v (sn_Message r))
      else if EqualFold k ''namespace'' then map_option (\<lambda>x. r\<lparr>sn_Namespace := x\<rparr>) (dec_string v (sn_Namespace r))
      else if EqualFold k ''objectKind'' then map_option (\<lambda>x. r\<lparr>sn_ObjectKind := x\<rparr>) (dec_string v (sn_ObjectKind r))
      else if EqualFold k ''objectName'' then map_option (\<lambda>x. r\<lparr>sn_ObjectName := x\<rparr>) (dec_string v (sn_ObjectName r))
      else if EqualFold k ''podContexts'' then
        map_option (\<lambda>x. r\<lparr>sn_PodContexts := x\<rparr>) (dec_list zero_pod (decode_struct pod_field) v (sn_PodContexts r))
      else if EqualFold k ''relatedEvents'' then
        map_option (\<lambda>x. r\<lparr>sn_RelatedEvents := x\<rparr>) (dec_list zero_event (decode_struct event_field) v (sn_RelatedEvents r))
      else if EqualFold k ''nodeConditions'' then
        map_option (\<lambda>x. r\<lparr>sn_NodeConditions := x\<rparr>) (dec_list zero_node (decode_struct node_field) v (sn_NodeConditions r))
      else if EqualFold k ''deploymentStatus'' then
        map_option (\<lambda>x. r\<lparr>sn_DeploymentStatus := x\<rparr>)
          (dec_ptr zero_deployment (decode_struct deployment_field) v (sn_DeploymentStatus r))
      else if EqualFold k ''replicaSetStatus'' then
        map_option (\<lambda>x. r\<lparr>sn_ReplicaSetStatus := x\<rparr>)
          (dec_ptr zero_replicaset (decode_struct replicaset_field) v (sn_ReplicaSetStatus r))
      else if EqualFold k ''partial'' then map_option (\<lambda>x. r\<lparr>sn_Partial := x\<rparr>) (dec_strings v (sn_Partial r))
      else Some r)"

definition DecodeSnapshot :: "go_texts \<Rightarrow> string \<Rightarrow> err + Snapshot" where
  "DecodeSnapshot gt b =
     (case Option.bind (json_parse b) (\<lambda>j. decode_struct snapshot_field j empty_snapshot) of
        None \<Rightarrow> Inl (unmarshal_error gt ''enricher.Snapshot'' b)
      | Some s \<Rightarrow> Inr s)"

end
