(* ===== verification/Enricher_Laws.thy ===== *)
theory Enricher_Laws
  imports Enricher
begin

text \<open>
  The JSON form of a snapshot loses nothing: decoding what \<^verbatim>\<open>EncodeSnapshot\<close> wrote gives the
  redacted snapshot back, and what is written depends only on the redacted snapshot.
\<close>

definition snapshot_keys :: "string list" where
  "snapshot_keys = [''name'', ''value'', ''containerName'', ''lines'', ''podName'', ''nodeName'',
     ''phase'', ''annotations'', ''envVars'', ''logs'', ''reason'', ''message'', ''count'', ''type'',
     ''status'', ''replicas'', ''readyReplicas'', ''availableReplicas'', ''conditions'', ''eventUID'',
     ''namespace'', ''objectKind'', ''objectName'', ''podContexts'', ''relatedEvents'',
     ''nodeConditions'', ''deploymentStatus'', ''replicaSetStatus'', ''partial'']"

lemma keys_fold_distinct: "distinct (map fold_case snapshot_keys)"
  by code_simp

lemma EqualFold_keys:
  "a \<in> set snapshot_keys \<Longrightarrow> b \<in> set snapshot_keys \<Longrightarrow> EqualFold a b \<longleftrightarrow> a = b"
  using keys_fold_distinct by (auto simp: EqualFold_def distinct_map inj_on_def)

lemmas field_simps = EqualFold_keys snapshot_keys_def decode_struct_def opt_member_def enc_int_def

lemma dec_strings_enc: "dec_strings (enc_strings xs) [] = Some xs"
  unfolding enc_strings_def by (simp add: dec_elems_map)

lemma dec_struct_list:
  "(\<And>x. x \<in> set xs \<Longrightarrow> f (enc x) z = Some x) \<Longrightarrow> dec_list z f (JArr (map enc xs)) [] = Some xs"
  by (simp add: dec_elems_map)

lemma dec_env: "decode_struct env_field (enc_env e) zero_env = Some e"
  by (cases e) (simp add: field_simps env_field_def enc_env_def zero_env_def)

lemma dec_log: "decode_struct log_field (enc_log l) zero_log = Some l"
  by (cases l) (simp add: field_simps log_field_def enc_log_def zero_log_def)

definition int32_ok :: "int \<Rightarrow> bool" where
  "int32_ok i \<longleftrightarrow> min_int32 \<le> i \<and> i \<le> max_int32"

lemma dec_event: "int32_ok (es_Count e) \<Longrightarrow> decode_struct event_field (enc_event e) zero_event = Some e"
  by (cases e) (simp add: field_simps event_field_def enc_event_def zero_event_def int32_ok_def)

lemma dec_node: "decode_struct node_field (enc_node c) zero_node = Some c"
  by (cases c) (simp add: field_simps node_field_def enc_node_def zero_node_def)

text \<open>
  A Go map has no order; its representative here is the list sorted by key, which is the one
  a decoded document yields.
\<close>

definition map_canonical :: "(string, string) gomap \<Rightarrow> bool" where
  "map_canonical m \<longleftrightarrow> gm_ok m \<and> sorted (map fst m)"

lemma gm_put_fresh: "k \<notin> fst ` set m \<Longrightarrow> gm_put k v m = m @ [(k, v)]"
  unfolding gm_put_def by (induction m) auto

lemma dec_map_members_fresh:
  "distinct (map fst (m @ xs)) \<Longrightarrow> dec_map_members (map (\<lambda>(k, v). (k, JStr v)) xs) m = Some (m @ xs)"
proof (induction xs arbitrary: m)
  case (Cons x xs)
  obtain k v where x: "x = (k, v)" by (cases x)
  have "gm_put k v m = m @ [(k, v)]"
    using Cons.prems by (intro gm_put_fresh) (auto simp: x)
  with Cons show ?case by (simp add: x)
qed simp

lemma dec_map_enc: "map_canonical m \<Longrightarrow> dec_map (enc_map m) [] = Some m"
  using dec_map_members_fresh [of "[]" m]
  by (simp add: map_canonical_def gm_ok_def dec_map_def enc_map_def sort_key_id_if_sorted)

lemma dec_envs: "dec_list zero_env (decode_struct env_field) (JArr (map enc_env es)) [] = Some es"
  by (rule dec_struct_list) (rule dec_env)

lemma dec_logs: "dec_list zero_log (decode_struct log_field) (JArr (map enc_log ls)) [] = Some ls"
  by (rule dec_struct_list) (rule dec_log)

lemma dec_pod:
  "map_canonical (pc_Annotations p) \<Longrightarrow> decode_struct pod_field (enc_pod p) zero_pod = Some p"
  using dec_map_enc [of "pc_Annotations p"] dec_envs [of "pc_EnvVars p"] dec_logs [of "pc_Logs p"]
  by (cases p) (auto simp: field_simps pod_field_def enc_pod_def zero_pod_def)

lemma dec_deployment:
  "int32_ok (ds_Replicas d) \<Longrightarrow> int32_ok (ds_ReadyReplicas d) \<Longrightarrow> int32_ok (ds_AvailableReplicas d) \<Longrightarrow>
     decode_struct deployment_field (enc_deployment d) zero_deployment = Some d"
  using dec_strings_enc [of "ds_Conditions d"]
  by (cases d) (auto simp: field_simps deployment_field_def enc_deployment_def zero_deployment_def int32_ok_def)

lemma dec_replicaset:
  "int32_ok (rs_Replicas d) \<Longrightarrow> int32_ok (rs_ReadyReplicas d) \<Longrightarrow>
     decode_struct replicaset_field (enc_replicaset d) zero_replicaset = Some d"
  using dec_strings_enc [of "rs_Conditions d"]
  by (cases d) (auto simp: field_simps replicaset_field_def enc_replicaset_def zero_replicaset_def int32_ok_def)

text \<open>The counts fit their Go type and the maps are Go maps.\<close>

definition deployment_ok :: "DeploymentStatus \<Rightarrow> bool" where
  "deployment_ok d \<longleftrightarrow>
     int32_ok (ds_Replicas d) \<and> int32_ok (ds_ReadyReplicas d) \<and> int32_ok (ds_AvailableReplicas d)"

definition replicaset_ok :: "ReplicaSetStatus \<Rightarrow> bool" where
  "replicaset_ok d \<longleftrightarrow> int32_ok (rs_Replicas d) \<and> int32_ok (rs_ReadyReplicas d)"

definition snapshot_typed :: "Snapshot \<Rightarrow> bool" where
  "snapshot_typed s \<longleftrightarrow>
     (\<forall>p \<in> set (sn_PodContexts s). map_canonical (pc_Annotations p))
     \<and> (\<forall>e \<in> set (sn_RelatedEvents s). int32_ok (es_Count e))
     \<and> (case sn_DeploymentStatus s of None \<Rightarrow> True | Some d \<Rightarrow> deployment_ok d)
     \<and> (case sn_ReplicaSetStatus s of None \<Rightarrow> True | Some d \<Rightarrow> replicaset_ok d)"

lemma decode_members_append:
  "decode_members f (xs @ ys) r = Option.bind (decode_members f xs r) (decode_members f ys)"
  by (induction f xs r rule: decode_members.induct) (auto split: option.splits)

text \<open>The optional members of a snapshot, one by one.\<close>

lemma dec_podContexts:
  assumes "\<forall>p \<in> set ps. map_canonical (pc_Annotations p)" "sn_PodContexts r = []"
  shows "decode_members snapshot_field (opt_member (ps \<noteq> []) ''podContexts'' (JArr (map enc_pod ps))) r
    = Some (r\<lparr>sn_PodContexts := ps\<rparr>)"
proof -
  have "dec_list zero_pod (decode_struct pod_field) (JArr (map enc_pod ps)) [] = Some ps"
    using assms(1) by (intro dec_struct_list dec_pod) blast
  then show ?thesis
    using assms(2) by (cases "ps = []") (simp_all add: field_simps snapshot_field_def)
qed

lemma dec_relatedEvents:
  assumes "\<forall>e \<in> set es. int32_ok (es_Count e)" "sn_RelatedEvents r = []"
  shows "decode_members snapshot_field (opt_member (es \<noteq> []) ''relatedEvents'' (JArr (map enc_event es))) r
    = Some (r\<lparr>sn_RelatedEvents := es\<rparr>)"
proof -
  have "dec_list zero_event (decode_struct event_field) (JArr (map enc_event es)) [] = Some es"
    using assms(1) by (intro dec_struct_list dec_event) blast
  then show ?thesis
    using assms(2) by (cases "es = []") (simp_all add: field_simps snapshot_field_def)
qed

lemma dec_nodeConditions:
  assumes "sn_NodeConditions r = []"
  shows "decode_members snapshot_field (opt_member (cs \<noteq> []) ''nodeConditions'' (JArr (map enc_node cs))) r
    = Some (r\<lparr>sn_NodeConditions := cs\<rparr>)"
proof -
  have "dec_list zero_node (decode_struct node_field) (JArr (map enc_node cs)) [] = Some cs"
    by (intro dec_struct_list dec_node)
  then show ?thesis
    using assms by (cases "cs = []") (simp_all add: field_simps snapshot_field_def)
qed

lemma dec_deploymentStatus:
  assumes "case d of None \<Rightarrow> True | Some x \<Rightarrow> deployment_ok x" "sn_DeploymentStatus r = None"
  shows "decode_members snapshot_field
      (case d of None \<Rightarrow> [] | Some x \<Rightarrow> [(''deploymentStatus'', enc_deployment x)]) r
    = Some (r\<lparr>sn_DeploymentStatus := d\<rparr>)"
proof (cases d)
  case (Some x)
  have "decode_struct deployment_field (enc_deployment x) zero_deployment = Some x"
    using assms(1) Some by (intro dec_deployment) (simp_all add: deployment_ok_def)
  then have "dec_ptr zero_deployment (decode_struct deployment_field) (enc_deployment x) None = Some (Some x)"
    by (simp add: dec_ptr_def enc_deployment_def)
  then show ?thesis
    using assms(2) Some by (simp add: snapshot_field_def EqualFold_keys snapshot_keys_def)
qed (use assms(2) in simp)

lemma dec_replicaSetStatus:
  assumes "case d of None \<Rightarrow> True | Some x \<Rightarrow> replicaset_ok x" "sn_ReplicaSetStatus r = None"
  shows "decode_members snapshot_field
      (case d of None \<Rightarrow> [] | Some x \<Rightarrow> [(''replicaSetStatus'', enc_replicaset x)]) r
    = Some (r\<lparr>sn_ReplicaSetStatus := d\<rparr>)"
proof (cases d)
  case (Some x)
  have "decode_struct replicaset_field (enc_replicaset x) zero_replicaset = Some x"
    using assms(1) Some by (intro dec_replicaset) (simp_all add: replicaset_ok_def)
  then have "dec_ptr zero_replicaset (decode_struct replicaset_field) (enc_replicaset x) None = Some (Some x)"
    by (simp add: dec_ptr_def enc_replicaset_def)
  then show ?thesis
    using assms(2) Some by (simp add: snapshot_field_def EqualFold_keys snapshot_keys_def)
qed (use assms(2) in simp)

lemma dec_partial:
  assumes "sn_Partial r = []"
  shows "decode_members snapshot_field (opt_member (xs \<noteq> []) ''partial'' (enc_strings xs)) r
    = Some (r\<lparr>sn_Partial := xs\<rparr>)"
  using assms dec_strings_enc [of xs]
  by (cases "xs = []") (simp_all add: snapshot_field_def EqualFold_keys snapshot_keys_def opt_member_def)

lemma dec_header:
  "decode_members snapshot_field
     [(''eventUID'', JStr a), (''reason'', JStr b), (''message'', JStr c), (''namespace'', JStr d),
      (''objectKind'', JStr e), (''objectName'', JStr f)] r =
   Some (r\<lparr>sn_EventUID := a, sn_Reason := b, sn_Message := c, sn_Namespace := d, sn_ObjectKind := e,
     sn_ObjectName := f\<rparr>)"
  by (simp add: field_simps snapshot_field_def)

lemma decode_enc_snapshot:
  assumes "snapshot_typed s"
  shows "decode_struct snapshot_field (enc_snapshot s) empty_snapshot = Some s"
  using assms unfolding snapshot_typed_def decode_struct_def enc_snapshot_def json.case
  by (simp only: decode_members_append dec_header bind.bind_lunit)
    (cases s, simp add: decode_members_append dec_podContexts dec_relatedEvents dec_nodeConditions dec_deploymentStatus
      dec_replicaSetStatus dec_partial empty_snapshot_def)

section \<open>Round trip\<close>

text \<open>Every string of the snapshot is well-formed UTF-8.\<close>

definition pod_utf8 :: "PodContext \<Rightarrow> bool" where
  "pod_utf8 p \<longleftrightarrow> utf8_valid (pc_PodName p) \<and> utf8_valid (pc_NodeName p) \<and> utf8_valid (pc_Phase p)
     \<and> (\<forall>x \<in> set (pc_Annotations p). utf8_valid (fst x) \<and> utf8_valid (snd x))
     \<and> (\<forall>e \<in> set (pc_EnvVars p). utf8_valid (env_Name e) \<and> utf8_valid (env_Value e))
     \<and> (\<forall>l \<in> set (pc_Logs p). utf8_valid (pl_ContainerName l) \<and> utf8_valid (pl_Lines l))"

definition snapshot_utf8 :: "Snapshot \<Rightarrow> bool" where
  "snapshot_utf8 s \<longleftrightarrow>
     (\<forall>x \<in> set [sn_EventUID s, sn_Reason s, sn_Message s, sn_Namespace s, sn_ObjectKind s, sn_ObjectName s].
        utf8_valid x)
     \<and> (\<forall>p \<in> set (sn_PodContexts s). pod_utf8 p)
     \<and> (\<forall>e \<in> set (sn_RelatedEvents s).
          utf8_valid (es_Name e) \<and> utf8_valid (es_Reason e) \<and> utf8_valid (es_Message e))
     \<and> (\<forall>c \<in> set (sn_NodeConditions s). utf8_valid (nc_NodeName c) \<and> utf8_valid (nc_Type c)
          \<and> utf8_valid (nc_Status c) \<and> utf8_valid (nc_Message c))
     \<and> (\<forall>d \<in> set_option (sn_DeploymentStatus s). utf8_valid (ds_Name d) \<and> (\<forall>x \<in> set (ds_Conditions d). utf8_valid x))
     \<and> (\<forall>d \<in> set_option (sn_ReplicaSetStatus s). utf8_valid (rs_Name d) \<and> (\<forall>x \<in> set (rs_Conditions d). utf8_valid x))
     \<and> (\<forall>x \<in> set (sn_Partial s). utf8_valid x)"

lemma keys_utf8: "k \<in> set snapshot_keys \<Longrightarrow> utf8_valid k"
proof -
  have "list_all utf8_valid snapshot_keys" by code_simp
  then show "k \<in> set snapshot_keys \<Longrightarrow> utf8_valid k" by (simp add: list_all_iff)
qed

definition members_ok :: "nat \<Rightarrow> (string \<times> json) list \<Rightarrow> bool" where
  "members_ok d ms \<longleftrightarrow> (\<forall>m \<in> set ms. utf8_valid (fst m) \<and> json_ok d (snd m))"

lemma members_ok_simps [simp]:
  "members_ok d []"
  "members_ok d ((k, v) # ms) \<longleftrightarrow> utf8_valid k \<and> json_ok d v \<and> members_ok d ms"
  "members_ok d (xs @ ys) \<longleftrightarrow> members_ok d xs \<and> members_ok d ys"
  "members_ok d (opt_member b k v) \<longleftrightarrow> (b \<longrightarrow> utf8_valid k \<and> json_ok d v)"
  by (auto simp: members_ok_def opt_member_def)

lemma json_ok_JObj: "json_ok (Suc d) (JObj ms) \<longleftrightarrow> members_ok d ms"
  by (simp add: members_ok_def)

lemma json_ok_JArr: "json_ok (Suc d) (JArr (map f xs)) \<longleftrightarrow> (\<forall>x \<in> set xs. json_ok d (f x))"
  by simp

lemma json_ok_strings: "json_ok (Suc d) (enc_strings xs) \<longleftrightarrow> (\<forall>x \<in> set xs. utf8_valid x)"
  by (simp add: enc_strings_def)

lemmas json_ok_field = keys_utf8 snapshot_keys_def enc_int_def json_ok_JObj json_ok_strings

lemma json_ok_env: "utf8_valid (env_Name e) \<Longrightarrow> utf8_valid (env_Value e) \<Longrightarrow> json_ok (Suc d) (enc_env e)"
  by (simp add: enc_env_def json_ok_field)

lemma json_ok_log: "utf8_valid (pl_ContainerName l) \<Longrightarrow> utf8_valid (pl_Lines l) \<Longrightarrow> json_ok (Suc d) (enc_log l)"
  by (simp add: enc_log_def json_ok_field)

lemma json_ok_map: "\<forall>x \<in> set m. utf8_valid (fst x) \<and> utf8_valid (snd x) \<Longrightarrow> json_ok (Suc d) (enc_map m)"
  by (simp add: enc_map_def split_beta)

lemma json_ok_pod: "pod_utf8 p \<Longrightarrow> json_ok (Suc (Suc (Suc d))) (enc_pod p)"
  unfolding enc_pod_def json_ok_JObj
  by (simp add: json_ok_field pod_utf8_def json_ok_JArr json_ok_env json_ok_log json_ok_map split_beta
      del: json_ok.simps(3,4))

lemma json_ok_event:
  "utf8_valid (es_Name e) \<Longrightarrow> utf8_valid (es_Reason e) \<Longrightarrow> utf8_valid (es_Message e) \<Longrightarrow>
     json_ok (Suc d) (enc_event e)"
  by (simp add: enc_event_def json_ok_field)

lemma json_ok_node:
  "utf8_valid (nc_NodeName c) \<Longrightarrow> utf8_valid (nc_Type c) \<Longrightarrow> utf8_valid (nc_Status c) \<Longrightarrow>
     utf8_valid (nc_Message c) \<Longrightarrow> json_ok (Suc d) (enc_node c)"
  by (simp add: enc_node_def json_ok_field)

lemma json_ok_deployment:
  "utf8_valid (ds_Name c) \<Longrightarrow> \<forall>x \<in> set (ds_Conditions c). utf8_valid x \<Longrightarrow>
     json_ok (Suc (Suc d)) (enc_deployment c)"
  unfolding enc_deployment_def json_ok_JObj by (simp add: json_ok_field del: json_ok.simps(3,4))

lemma json_ok_replicaset:
  "utf8_valid (rs_Name c) \<Longrightarrow> \<forall>x \<in> set (rs_Conditions c). utf8_valid x \<Longrightarrow>
     json_ok (Suc (Suc d)) (enc_replicaset c)"
  unfolding enc_replicaset_def json_ok_JObj by (simp add: json_ok_field del: json_ok.simps(3,4))

lemma json_ok_snapshot:
  assumes "snapshot_utf8 s"
  shows "json_ok (Suc (Suc (Suc (Suc (Suc d))))) (enc_snapshot s)"
  using assms unfolding enc_snapshot_def json_ok_JObj snapshot_utf8_def
  by (simp add: json_ok_field json_ok_JArr json_ok_pod json_ok_event json_ok_node
      json_ok_deployment json_ok_replicaset del: json_ok.simps(3,4) split: option.split)

lemma EncodeSnapshot_decodes:
  assumes "snapshot_typed (RedactSnapshot s)" "snapshot_utf8 (RedactSnapshot s)"
  shows "EncodeSnapshot s = (Inr (json_print (enc_snapshot (RedactSnapshot s))), RedactSnapshot s)"
    "DecodeSnapshot gt (json_print (enc_snapshot (RedactSnapshot s))) = Inr (RedactSnapshot s)"
proof -
  have "json_ok maxNestingDepth (enc_snapshot (RedactSnapshot s))"
    using json_ok_snapshot [OF assms(2), of 9995] by (simp add: maxNestingDepth_def eval_nat_numeral)
  then have "json_parse (json_print (enc_snapshot (RedactSnapshot s))) = Some (enc_snapshot (RedactSnapshot s))"
    by (rule json_parse_print)
  then show "DecodeSnapshot gt (json_print (enc_snapshot (RedactSnapshot s))) = Inr (RedactSnapshot s)"
    using decode_enc_snapshot [OF assms(1)] by (simp add: DecodeSnapshot_def)
  show "EncodeSnapshot s = (Inr (json_print (enc_snapshot (RedactSnapshot s))), RedactSnapshot s)"
    by (simp add: EncodeSnapshot_def Let_def)
qed

text \<open>
C17: Decoding the bytes that EncodeSnapshot produces gives exactly the redacted snapshot, for
well-typed snapshots whose strings are valid UTF-8 after redaction; the bytes are a function
of the redacted snapshot alone, so no unredacted field value can reach them.
\<close>

theorem EncodeSnapshot_round_trip:
  assumes "snapshot_typed (RedactSnapshot s)" "snapshot_utf8 (RedactSnapshot s)"
  shows "\<exists>b. EncodeSnapshot s = (Inr b, RedactSnapshot s) \<and> DecodeSnapshot gt b = Inr (RedactSnapshot s)
     \<and> (\<forall>s'. RedactSnapshot s' = RedactSnapshot s \<longrightarrow> fst (EncodeSnapshot s') = Inr b)"
  using EncodeSnapshot_decodes [OF assms] by (simp add: EncodeSnapshot_def Let_def)

lemma Redact_Nil [simp]: "Redact [] = []"
proof -
  have "fold (\<lambda>r t. replace_all r RedactedPlaceholder t) rs [] = []" for rs
    by (induction rs) (simp_all add: replace_all.simps)
  then show ?thesis by (simp add: Redact_def)
qed

lemma sensitive_KEY: "match_string sensitiveEnvKey ''KEY''"
  by code_simp

lemma redact_KEY: "redactEnvValue ''KEY'' v = RedactedPlaceholder"
  unfolding redactEnvValue_def using sensitive_KEY by (simp only: if_True)

definition sample_snapshot :: Snapshot where
  "sample_snapshot = empty_snapshot\<lparr>sn_EventUID := ''u1'', sn_Reason := ''BackOff'',
     sn_PodContexts := [zero_pod\<lparr>pc_PodName := ''web-0'', pc_Annotations := [(''a'', [])],
       pc_EnvVars := [\<lparr>env_Name = ''KEY'', env_Value = ''hunter2''\<rparr>]\<rparr>],
     sn_RelatedEvents := [zero_event\<lparr>es_Name := ''e'', es_Count := 3\<rparr>],
     sn_DeploymentStatus := Some (zero_deployment\<lparr>ds_Replicas := 2\<rparr>)\<rparr>"

definition sample_redacted :: Snapshot where
  "sample_redacted = sample_snapshot\<lparr>
     sn_PodContexts := [zero_pod\<lparr>pc_PodName := ''web-0'', pc_Annotations := [(''a'', [])],
       pc_EnvVars := [\<lparr>env_Name = ''KEY'', env_Value = RedactedPlaceholder\<rparr>]\<rparr>]\<rparr>"

lemma sample_redacts: "RedactSnapshot sample_snapshot = sample_redacted"
  by (simp add: RedactSnapshot_def redact_pod_def sample_snapshot_def sample_redacted_def
      empty_snapshot_def zero_pod_def zero_event_def zero_deployment_def redact_KEY)

theorem EncodeSnapshot_round_trip_witness:
  "\<exists>b. EncodeSnapshot sample_snapshot = (Inr b, sample_redacted)
     \<and> DecodeSnapshot \<lparr>gt_quote = id, gt_json_error = (\<lambda>t. id)\<rparr> b = Inr sample_redacted"
proof -
  have "snapshot_typed sample_redacted" "snapshot_utf8 sample_redacted" by code_simp+
  then show ?thesis
    using EncodeSnapshot_round_trip [of sample_snapshot] sample_redacts by metis
qed

end
