(* ===== verification/Context_Builder.thy ===== *)
theory Context_Builder
  imports Enricher
begin

text \<open>
  The context collector, \<^verbatim>\<open>src/internal/enricher/context_builder.go\<close>. The cluster is a world
  of type \<^typ>\<open>'w\<close> read through the functions of \<^verbatim>\<open>kube\<close>; each is one API call. A label selector
  is an opaque handle. The collector never fails: a failing read is recorded in the snapshot's
  \<^verbatim>\<open>Partial\<close> list and collection goes on.
\<close>

section \<open>Cluster objects\<close>

datatype label_selector = LabelSelector string

record EnvSource =
  esrc_Name :: string
  esrc_Value :: string
  esrc_ValueFrom :: bool

record Container =
  ct_Name :: string
  ct_Env :: "EnvSource list"

record Pod =
  pod_Name :: string
  pod_NodeName :: string
  pod_Phase :: string
  pod_Annotations :: "(string, string) gomap"
  pod_Containers :: "Container list"

record ObjCondition =
  oc_Type :: string
  oc_Status :: string
  oc_Message :: string

record Deployment =
  dep_Name :: string
  dep_Replicas :: int
  dep_ReadyReplicas :: int
  dep_AvailableReplicas :: int
  dep_Conditions :: "ObjCondition list"
  dep_Selector :: "label_selector option"

record ReplicaSet =
  rset_Name :: string
  rset_Replicas :: int
  rset_ReadyReplicas :: int
  rset_Conditions :: "ObjCondition list"
  rset_Selector :: "label_selector option"

record Node =
  node_Conditions :: "ObjCondition list"
  node_Capacity :: "(string \<times> string) list"

text \<open>
  A log stream that was opened yields bytes and then ends, or fails after them; opening it may
  fail. \<^verbatim>\<open>k_LogPanic\<close> is the panic of a misbehaving log client, which \<^verbatim>\<open>streamPodLogs\<close> recovers.
\<close>

datatype log_stream = LogError err | LogStream string "err option"

record 'w kube =
  k_ListEvents :: "string \<Rightarrow> 'w \<Rightarrow> (err + Event list) \<times> 'w"
  k_GetPod :: "string \<Rightarrow> string \<Rightarrow> 'w \<Rightarrow> (err + Pod) \<times> 'w"
  k_GetDeployment :: "string \<Rightarrow> string \<Rightarrow> 'w \<Rightarrow> (err + Deployment) \<times> 'w"
  k_GetReplicaSet :: "string \<Rightarrow> string \<Rightarrow> 'w \<Rightarrow> (err + ReplicaSet) \<times> 'w"
  k_ListPods :: "string \<Rightarrow> label_selector \<Rightarrow> 'w \<Rightarrow> (err + Pod list) \<times> 'w"
  k_GetNode :: "string \<Rightarrow> 'w \<Rightarrow> (err + Node) \<times> 'w"
  k_AsSelector :: "label_selector \<Rightarrow> err + label_selector"
  k_PodLogs :: "string \<Rightarrow> string \<Rightarrow> string \<Rightarrow> int \<Rightarrow> 'w \<Rightarrow> log_stream \<times> 'w"
  k_LogPanic :: "string \<Rightarrow> string \<Rightarrow> string \<Rightarrow> 'w \<Rightarrow> string option"

record ObjectRef =
  ref_Kind :: string
  ref_Namespace :: string
  ref_Name :: string
  ref_EventUID :: string
  ref_Reason :: string
  ref_Message :: string

section \<open>Collection\<close>

definition defaultTailLines :: int where
  "defaultTailLines = 100"

definition defaultMaxPodsPerWorkload :: int where
  "defaultMaxPodsPerWorkload = 3"

definition add_partial :: "string \<Rightarrow> Snapshot \<Rightarrow> Snapshot" where
  "add_partial t s = s\<lparr>sn_Partial := sn_Partial s @ [t]\<rparr>"

definition collectRelatedEvents :: "'w kube \<Rightarrow> ObjectRef \<Rightarrow> Snapshot \<Rightarrow> 'w \<Rightarrow> Snapshot \<times> 'w" where
  "collectRelatedEvents c ref s w =
     (case k_ListEvents c (ref_Namespace ref) w of
        (Inl e, w1) \<Rightarrow> (add_partial (''related events: '' @ msg_of e) s, w1)
      | (Inr items, w1) \<Rightarrow>
          (s\<lparr>sn_RelatedEvents := sn_RelatedEvents s @
              map (\<lambda>ev. \<lparr>es_Name = ev_Name ev, es_Reason = ev_Reason ev, es_Message = ev_Message ev,
                         es_Count = ev_Count ev\<rparr>)
                (filter (\<lambda>ev. \<not> or_Name (ev_InvolvedObject ev) \<noteq> ref_Name ref) items)\<rparr>, w1))"

definition streamPodLogs ::
  "'w kube \<Rightarrow> string \<Rightarrow> string \<Rightarrow> string \<Rightarrow> int \<Rightarrow> 'w \<Rightarrow> (err + string) \<times> 'w" where
  "streamPodLogs kcs ns podName container tail w =
     (case k_LogPanic kcs ns podName container w of
        Some r \<Rightarrow> (Inl (errorf (''log stream panic: '' @ r)), w)
      | None \<Rightarrow>
          (case k_PodLogs kcs ns podName container tail w of
             (LogError e, w1) \<Rightarrow> (Inl e, w1)
           | (LogStream data fail, w1) \<Rightarrow>
               (case fail of Some e \<Rightarrow> (Inl e, w1) | None \<Rightarrow> (Inr data, w1))))"

fun fetchLogsIntoPodContext ::
  "'w kube \<Rightarrow> string \<Rightarrow> string \<Rightarrow> int \<Rightarrow> Container list \<Rightarrow> Snapshot \<Rightarrow> PodContext \<Rightarrow> 'w
     \<Rightarrow> Snapshot \<times> PodContext \<times> 'w" where
  "fetchLogsIntoPodContext kcs ns podName tail [] s pc w = (s, pc, w)"
| "fetchLogsIntoPodContext kcs ns podName tail (c # cs) s pc w =
     (case streamPodLogs kcs ns podName (ct_Name c) tail w of
        (Inl e, w1) \<Rightarrow>
          fetchLogsIntoPodContext kcs ns podName tail cs
            (add_partial (''logs '' @ ns @ ''/'' @ podName @ ''['' @ ct_Name c @ '']: '' @ msg_of e) s) pc w1
      | (Inr data, w1) \<Rightarrow>
          fetchLogsIntoPodContext kcs ns podName tail cs s
            (pc\<lparr>pc_Logs := pc_Logs pc @ [\<lparr>pl_ContainerName = ct_Name c, pl_Lines = data\<rparr>]\<rparr>) w1)"

definition podContextFrom :: "Pod \<Rightarrow> PodContext" where
  "podContextFrom pod =
     \<lparr>pc_PodName = pod_Name pod, pc_NodeName = pod_NodeName pod, pc_Phase = pod_Phase pod,
      pc_Annotations = pod_Annotations pod,
      pc_EnvVars = concat (map (\<lambda>c. map (\<lambda>e.
        \<lparr>env_Name = esrc_Name e,
         env_Value = (if esrc_ValueFrom e then RedactedPlaceholder @ '' (from valueFrom)'' else esrc_Value e)\<rparr>)
        (ct_Env c)) (pod_Containers pod)),
      pc_Logs = []\<rparr>"

definition collectNodeConditions :: "'w kube \<Rightarrow> string \<Rightarrow> Snapshot \<Rightarrow> 'w \<Rightarrow> Snapshot \<times> 'w" where
  "collectNodeConditions c nodeName s w =
     (case k_GetNode c nodeName w of
        (Inl e, w1) \<Rightarrow> (add_partial (''node '' @ nodeName @ '': '' @ msg_of e) s, w1)
      | (Inr node, w1) \<Rightarrow>
          (s\<lparr>sn_NodeConditions := sn_NodeConditions s @
              map (\<lambda>cond. \<lparr>nc_NodeName = nodeName, nc_Type = oc_Type cond, nc_Status = oc_Status cond,
                           nc_Message = oc_Message cond\<rparr>) (node_Conditions node)\<rparr>, w1))"

text \<open>The steps for one pod, shared by \<^verbatim>\<open>collectSinglePod\<close> and \<^verbatim>\<open>collectPodsForSelector\<close>.\<close>

definition collect_pod :: "'w kube \<Rightarrow> string \<Rightarrow> int \<Rightarrow> Pod \<Rightarrow> Snapshot \<Rightarrow> 'w \<Rightarrow> Snapshot \<times> 'w" where
  "collect_pod c ns tail pod s w =
     (let (s1, pc, w1) = fetchLogsIntoPodContext c ns (pod_Name pod) tail (pod_Containers pod) s
            (podContextFrom pod) w;
          s2 = s1\<lparr>sn_PodContexts := sn_PodContexts s1 @ [pc]\<rparr>
      in if pod_NodeName pod \<noteq> [] then collectNodeConditions c (pod_NodeName pod) s2 w1 else (s2, w1))"

definition collectSinglePod ::
  "'w kube \<Rightarrow> string \<Rightarrow> string \<Rightarrow> int \<Rightarrow> Snapshot \<Rightarrow> 'w \<Rightarrow> Snapshot \<times> 'w" where
  "collectSinglePod c ns name tail s w =
     (case k_GetPod c ns name w of
        (Inl e, w1) \<Rightarrow> (add_partial (''pod '' @ ns @ ''/'' @ name @ '': '' @ msg_of e) s, w1)
      | (Inr pod, w1) \<Rightarrow> collect_pod c ns tail pod s w1)"

fun collect_pods :: "'w kube \<Rightarrow> string \<Rightarrow> int \<Rightarrow> Pod list \<Rightarrow> Snapshot \<Rightarrow> 'w \<Rightarrow> Snapshot \<times> 'w" where
  "collect_pods c ns tail [] s w = (s, w)"
| "collect_pods c ns tail (p # ps) s w =
     (let (s1, w1) = collect_pod c ns tail p s w in collect_pods c ns tail ps s1 w1)"

text \<open>The loop stops at index \<open>maxPods\<close>, so it visits the first \<open>maxPods\<close> pods.\<close>

definition collectPodsForSelector ::
  "'w kube \<Rightarrow> string \<Rightarrow> label_selector \<Rightarrow> int \<Rightarrow> int \<Rightarrow> Snapshot \<Rightarrow> 'w \<Rightarrow> Snapshot \<times> 'w" where
  "collectPodsForSelector c ns sel tail maxPods s w =
     (case k_AsSelector c sel of
        Inl e \<Rightarrow> (add_partial (''label selector: '' @ msg_of e) s, w)
      | Inr selector \<Rightarrow>
          (case k_ListPods c ns selector w of
             (Inl e, w1) \<Rightarrow> (add_partial (''pods for selector: '' @ msg_of e) s, w1)
           | (Inr items, w1) \<Rightarrow> collect_pods c ns tail (take (nat maxPods) items) s w1))"

definition condition_text :: "ObjCondition \<Rightarrow> string" where
  "condition_text cond = oc_Type cond @ ''='' @ oc_Status cond @ '': '' @ oc_Message cond"

definition collectDeployment ::
  "'w kube \<Rightarrow> string \<Rightarrow> string \<Rightarrow> int \<Rightarrow> int \<Rightarrow> Snapshot \<Rightarrow> 'w \<Rightarrow> Snapshot \<times> 'w" where
  "collectDeployment c ns name tail maxPods s w =
     (case k_GetDeployment c ns name w of
        (Inl e, w1) \<Rightarrow> (add_partial (''deployment '' @ ns @ ''/'' @ name @ '': '' @ msg_of e) s, w1)
      | (Inr dep, w1) \<Rightarrow>
          (let s1 = s\<lparr>sn_DeploymentStatus := Some
                 \<lparr>ds_Name = dep_Name dep, ds_Replicas = dep_Replicas dep,
                  ds_ReadyReplicas = dep_ReadyReplicas dep,
                  ds_AvailableReplicas = dep_AvailableReplicas dep,
                  ds_Conditions = map condition_text (dep_Conditions dep)\<rparr>\<rparr>
           in case dep_Selector dep of
                None \<Rightarrow> (s1, w1)
              | Some sel \<Rightarrow> collectPodsForSelector c ns sel tail maxPods s1 w1))"

definition collectReplicaSet ::
  "'w kube \<Rightarrow> string \<Rightarrow> string \<Rightarrow> int \<Rightarrow> int \<Rightarrow> Snapshot \<Rightarrow> 'w \<Rightarrow> Snapshot \<times> 'w" where
  "collectReplicaSet c ns name tail maxPods s w =
     (case k_GetReplicaSet c ns name w of
        (Inl e, w1) \<Rightarrow> (add_partial (''replicaset '' @ ns @ ''/'' @ name @ '': '' @ msg_of e) s, w1)
      | (Inr rs, w1) \<Rightarrow>
          (let s1 = s\<lparr>sn_ReplicaSetStatus := Some
                 \<lparr>rs_Name = rset_Name rs, rs_Replicas = rset_Replicas rs,
                  rs_ReadyReplicas = rset_ReadyReplicas rs,
                  rs_Conditions = map condition_text (rset_Conditions rs)\<rparr>\<rparr>
           in case rset_Selector rs of
                None \<Rightarrow> (s1, w1)
              | Some sel \<Rightarrow> collectPodsForSelector c ns sel tail maxPods s1 w1))"

definition snapshot_of_ref :: "ObjectRef \<Rightarrow> Snapshot" where
  "snapshot_of_ref ref = empty_snapshot\<lparr>sn_EventUID := ref_EventUID ref, sn_Reason := ref_Reason ref,
     sn_Message := ref_Message ref, sn_Namespace := ref_Namespace ref, sn_ObjectKind := ref_Kind ref,
     sn_ObjectName := ref_Name ref\<rparr>"

text \<open>The switch on the kind of the object.\<close>

definition collect_object ::
  "go_texts \<Rightarrow> 'w kube \<Rightarrow> ObjectRef \<Rightarrow> int \<Rightarrow> int \<Rightarrow> Snapshot \<Rightarrow> 'w \<Rightarrow> Snapshot \<times> 'w" where
  "collect_object gt c ref tail maxPods s w =
     (if EqualFold (ref_Kind ref) ''Pod'' then
        collectSinglePod c (ref_Namespace ref) (ref_Name ref) tail s w
      else if EqualFold (ref_Kind ref) ''Deployment'' then
        collectDeployment c (ref_Namespace ref) (ref_Name ref) tail maxPods s w
      else if EqualFold (ref_Kind ref) ''ReplicaSet'' then
        collectReplicaSet c (ref_Namespace ref) (ref_Name ref) tail maxPods s w
      else (add_partial (''pod context: unsupported object kind '' @ gt_quote gt (ref_Kind ref)) s, w))"

definition BuildSnapshot ::
  "go_texts \<Rightarrow> 'w kube \<Rightarrow> ObjectRef \<Rightarrow> int \<Rightarrow> int \<Rightarrow> 'w \<Rightarrow> (err + Snapshot) \<times> 'w" where
  "BuildSnapshot gt c ref tailLines maxPods w =
     (let tail = (if tailLines \<le> 0 then defaultTailLines else tailLines);
          pods = (if maxPods \<le> 0 then defaultMaxPodsPerWorkload else maxPods);
          (s1, w1) = collectRelatedEvents c ref (snapshot_of_ref ref) w;
          (s2, w2) = collect_object gt c ref tail pods s1 w1
      in (Inr s2, w2))"

section \<open>Lemmas\<close>

text \<open>What a collection step may change: it only appends, and it keeps the event's own fields.\<close>

definition extends :: "Snapshot \<Rightarrow> Snapshot \<Rightarrow> bool" where
  "extends s s' \<longleftrightarrow>
     sn_EventUID s' = sn_EventUID s \<and> sn_Reason s' = sn_Reason s \<and> sn_Message s' = sn_Message s
     \<and> sn_Namespace s' = sn_Namespace s \<and> sn_ObjectKind s' = sn_ObjectKind s
     \<and> sn_ObjectName s' = sn_ObjectName s
     \<and> prefix (sn_PodContexts s) (sn_PodContexts s') \<and> prefix (sn_RelatedEvents s) (sn_RelatedEvents s')
     \<and> prefix (sn_NodeConditions s) (sn_NodeConditions s') \<and> prefix (sn_Partial s) (sn_Partial s')"

lemma extends_refl [simp, intro]: "extends s s"
  by (simp add: extends_def)

lemma extends_trans [trans]: "extends s t \<Longrightarrow> extends t u \<Longrightarrow> extends s u"
  by (auto simp: extends_def intro: prefix_order.trans)

lemma extends_steps [simp, intro]:
  "extends s (add_partial t s)" "extends s (s\<lparr>sn_PodContexts := sn_PodContexts s @ ps\<rparr>)"
  "extends s (s\<lparr>sn_RelatedEvents := sn_RelatedEvents s @ es\<rparr>)"
  "extends s (s\<lparr>sn_NodeConditions := sn_NodeConditions s @ cs\<rparr>)"
  "extends s (s\<lparr>sn_DeploymentStatus := d\<rparr>)" "extends s (s\<lparr>sn_ReplicaSetStatus := r\<rparr>)"
  by (simp_all add: extends_def add_partial_def)

lemma fetch_extends:
  "fetchLogsIntoPodContext kcs ns pn tail cs s pc w = (s', pc', w') \<Longrightarrow>
     extends s s' \<and> sn_PodContexts s' = sn_PodContexts s"
proof (induction cs arbitrary: s pc w)
  case (Cons c cs)
  obtain r w1 where r: "streamPodLogs kcs ns pn (ct_Name c) tail w = (r, w1)" by force
  show ?case
  proof (cases r)
    case (Inl e)
    let ?s = "add_partial (''logs '' @ ns @ ''/'' @ pn @ ''['' @ ct_Name c @ '']: '' @ msg_of e) s"
    have "extends ?s s' \<and> sn_PodContexts s' = sn_PodContexts ?s"
      using Cons r Inl by simp
    then show ?thesis using extends_trans [OF extends_steps(1)] by (auto simp: add_partial_def)
  next
    case (Inr d)
    then show ?thesis using Cons r by auto
  qed
qed simp

lemma collectNodeConditions_extends:
  "collectNodeConditions c n s w = (s', w') \<Longrightarrow> extends s s' \<and> sn_PodContexts s' = sn_PodContexts s"
  by (auto simp: collectNodeConditions_def add_partial_def extends_def split: prod.splits sum.splits)

lemma collect_pod_extends:
  assumes "collect_pod c ns tail pod s w = (s', w')"
  shows "extends s s' \<and> length (sn_PodContexts s') = Suc (length (sn_PodContexts s))"
proof -
  obtain s1 pc w1 where f: "fetchLogsIntoPodContext c ns (pod_Name pod) tail (pod_Containers pod) s
      (podContextFrom pod) w = (s1, pc, w1)"
    by (metis prod_cases3)
  let ?s2 = "s1\<lparr>sn_PodContexts := sn_PodContexts s1 @ [pc]\<rparr>"
  have "extends ?s2 s' \<and> sn_PodContexts s' = sn_PodContexts ?s2"
    using assms f collectNodeConditions_extends [of c "pod_NodeName pod" ?s2 w1 s' w']
    by (auto simp: collect_pod_def Let_def split: if_splits)
  moreover have "extends s s1" "sn_PodContexts s1 = sn_PodContexts s" using fetch_extends [OF f] by auto
  ultimately show ?thesis
    using extends_trans [OF \<open>extends s s1\<close> extends_steps(2)] extends_trans by auto
qed

lemma collect_pods_extends:
  "collect_pods c ns tail ps s w = (s', w') \<Longrightarrow>
     extends s s' \<and> length (sn_PodContexts s') = length (sn_PodContexts s) + length ps"
proof (induction ps arbitrary: s w)
  case (Cons p ps)
  obtain s1 w1 where p: "collect_pod c ns tail p s w = (s1, w1)" by force
  with Cons.prems have "collect_pods c ns tail ps s1 w1 = (s', w')" by simp
  from Cons.IH [OF this] collect_pod_extends [OF p] show ?case
    using extends_trans by auto
qed simp


lemma collectPodsForSelector_extends:
  assumes "collectPodsForSelector c ns sel tail mx s w = (s', w')"
  shows "extends s s' \<and> length (sn_PodContexts s') \<le> length (sn_PodContexts s) + nat mx"
proof (cases "\<exists>items w1 w2. collect_pods c ns tail (take (nat mx) items) s w1 = (s', w2)")
  case True
  then obtain items w1 w2 where "collect_pods c ns tail (take (nat mx) items) s w1 = (s', w2)" by blast
  from collect_pods_extends [OF this] show ?thesis by simp
next
  case False
  then obtain t where "s' = add_partial t s"
    using assms by (auto simp: collectPodsForSelector_def split: sum.splits prod.splits)
  then show ?thesis by (simp add: add_partial_def extends_def)
qed

lemma collectDeployment_extends:
  assumes "collectDeployment c ns name tail mx s w = (s', w')"
  shows "extends s s' \<and> length (sn_PodContexts s') \<le> length (sn_PodContexts s) + nat mx"
proof (cases "\<exists>d sel w1. collectPodsForSelector c ns sel tail mx (s\<lparr>sn_DeploymentStatus := d\<rparr>) w1 = (s', w')")
  case True
  then obtain d sel w1 where
    "collectPodsForSelector c ns sel tail mx (s\<lparr>sn_DeploymentStatus := d\<rparr>) w1 = (s', w')" by blast
  from collectPodsForSelector_extends [OF this] show ?thesis
    using extends_trans [OF extends_steps(5)] by auto
next
  case False
  then show ?thesis
    using assms by (auto simp: collectDeployment_def Let_def add_partial_def extends_def
        split: sum.splits prod.splits option.splits)
qed

lemma collectReplicaSet_extends:
  assumes "collectReplicaSet c ns name tail mx s w = (s', w')"
  shows "extends s s' \<and> length (sn_PodContexts s') \<le> length (sn_PodContexts s) + nat mx"
proof (cases "\<exists>d sel w1. collectPodsForSelector c ns sel tail mx (s\<lparr>sn_ReplicaSetStatus := d\<rparr>) w1 = (s', w')")
  case True
  then obtain d sel w1 where
    "collectPodsForSelector c ns sel tail mx (s\<lparr>sn_ReplicaSetStatus := d\<rparr>) w1 = (s', w')" by blast
  from collectPodsForSelector_extends [OF this] show ?thesis
    using extends_trans [OF extends_steps(6)] by auto
next
  case False
  then show ?thesis
    using assms by (auto simp: collectReplicaSet_def Let_def add_partial_def extends_def
        split: sum.splits prod.splits option.splits)
qed

lemma collectSinglePod_extends:
  assumes "collectSinglePod c ns name tail s w = (s', w')"
  shows "extends s s' \<and> length (sn_PodContexts s') \<le> Suc (length (sn_PodContexts s))"
  using assms collect_pod_extends
  by (fastforce simp: collectSinglePod_def add_partial_def extends_def split: sum.splits prod.splits)

lemma collectRelatedEvents_post:
  assumes "collectRelatedEvents c ref s w = (s', w')" "sn_RelatedEvents s = []"
  shows "extends s s' \<and> sn_PodContexts s' = sn_PodContexts s"
  using assms by (auto simp: collectRelatedEvents_def add_partial_def extends_def split: sum.splits prod.splits)

lemma collect_object_extends:
  assumes "collect_object gt c ref tail mx s w = (s', w')" "1 \<le> mx"
  shows "extends s s' \<and> int (length (sn_PodContexts s')) \<le> int (length (sn_PodContexts s)) + mx"
proof -
  consider "collectSinglePod c (ref_Namespace ref) (ref_Name ref) tail s w = (s', w')"
    | "collectDeployment c (ref_Namespace ref) (ref_Name ref) tail mx s w = (s', w')"
    | "collectReplicaSet c (ref_Namespace ref) (ref_Name ref) tail mx s w = (s', w')"
    | t where "s' = add_partial t s"
    using assms(1) by (auto simp: collect_object_def split: if_splits)
  then show ?thesis
  proof cases
    case 1
    from collectSinglePod_extends [OF this] assms(2) show ?thesis by auto
  next
    case 2
    from collectDeployment_extends [OF this] assms(2) show ?thesis by auto
  next
    case 3
    from collectReplicaSet_extends [OF this] assms(2) show ?thesis by auto
  next
    case 4
    with assms(2) show ?thesis by (simp add: add_partial_def extends_def)
  qed
qed


text \<open>
  Closed instance: a cluster in which every call fails.
\<close>

definition broken_kube :: "unit kube" where
  "broken_kube = (let e = errorf ''down'' in
     \<lparr>k_ListEvents = (\<lambda>_ w. (Inl e, w)), k_GetPod = (\<lambda>_ _ w. (Inl e, w)),
      k_GetDeployment = (\<lambda>_ _ w. (Inl e, w)), k_GetReplicaSet = (\<lambda>_ _ w. (Inl e, w)),
      k_ListPods = (\<lambda>_ _ w. (Inl e, w)), k_GetNode = (\<lambda>_ w. (Inl e, w)), k_AsSelector = Inr,
      k_PodLogs = (\<lambda>_ _ _ _ w. (LogError e, w)), k_LogPanic = (\<lambda>_ _ _ _. None)\<rparr>)"

definition job_ref :: ObjectRef where
  "job_ref = \<lparr>ref_Kind = ''Job'', ref_Namespace = ''prod'', ref_Name = ''j'', ref_EventUID = ''u'',
     ref_Reason = ''r'', ref_Message = ''m''\<rparr>"


end
