(* ===== verification/Tool_Executor.thy ===== *)
theory Tool_Executor
  imports Context_Builder Agent
begin

text \<open>
  The tools the model may call, \<^verbatim>\<open>src/internal/controller/tool_executor.go\<close>. Arguments are the
  JSON document the model wrote; every text that comes from the cluster is redacted before it
  is returned. The capacity of a node is a Go map, listed in the order of its iteration.
\<close>

section \<open>Model\<close>

definition maxTailLines :: int where
  "maxTailLines = 200"

definition defaultTail :: int where
  "defaultTail = 100"

definition maxLogBytes :: nat where
  "maxLogBytes = 8 * 1024"

definition maxEventCount :: nat where
  "maxEventCount = 30"

definition unmarshal_args ::
  "go_texts \<Rightarrow> (string \<Rightarrow> json \<Rightarrow> 'r \<Rightarrow> 'r option) \<Rightarrow> 'r \<Rightarrow> string \<Rightarrow> err + 'r" where
  "unmarshal_args gt f z argsJSON =
     (case Option.bind (json_parse argsJSON) (\<lambda>j. decode_struct f j z) of
        None \<Rightarrow> Inl (errorf_w ''parse args: '' (unmarshal_error gt ''struct'' argsJSON))
      | Some r \<Rightarrow> Inr r)"

record pod_logs_args =
  pla_Namespace :: string
  pla_Pod :: string
  pla_Container :: string
  pla_Tail :: int

definition pod_logs_field :: "string \<Rightarrow> json \<Rightarrow> pod_logs_args \<Rightarrow> pod_logs_args option" where
  "pod_logs_field k v r =
     (if EqualFold k ''namespace'' then map_option (\<lambda>x. r\<lparr>pla_Namespace := x\<rparr>) (dec_string v (pla_Namespace r))
      else if EqualFold k ''pod'' then map_option (\<lambda>x. r\<lparr>pla_Pod := x\<rparr>) (dec_string v (pla_Pod r))
      else if EqualFold k ''container'' then map_option (\<lambda>x. r\<lparr>pla_Container := x\<rparr>) (dec_string v (pla_Container r))
      else if EqualFold k ''tail'' then
        map_option (\<lambda>x. r\<lparr>pla_Tail := x\<rparr>) (dec_int min_int64 max_int64 v (pla_Tail r))
      else Some r)"

definition clamp_tail :: "int \<Rightarrow> int" where
  "clamp_tail t =
     (let tail = (if t \<le> 0 then defaultTail else t)
      in if tail > maxTailLines then maxTailLines else tail)"

text \<open>\<^verbatim>\<open>io.ReadAll(io.LimitReader(stream, n))\<close> stops after \<open>n\<close> bytes, before a later error.\<close>

definition read_limited :: "nat \<Rightarrow> string \<Rightarrow> err option \<Rightarrow> err + string" where
  "read_limited n data fail =
     (if n \<le> length data then Inr (take n data)
      else case fail of Some e \<Rightarrow> Inl e | None \<Rightarrow> Inr data)"

definition getPodLogs :: "go_texts \<Rightarrow> 'w kube \<Rightarrow> string \<Rightarrow> 'w \<Rightarrow> (err + string) \<times> 'w" where
  "getPodLogs gt e argsJSON w =
     (case unmarshal_args gt pod_logs_field
             \<lparr>pla_Namespace = [], pla_Pod = [], pla_Container = [], pla_Tail = 0\<rparr> argsJSON of
        Inl x \<Rightarrow> (Inl x, w)
      | Inr args \<Rightarrow>
          (case k_PodLogs e (pla_Namespace args) (pla_Pod args) (pla_Container args)
                  (clamp_tail (pla_Tail args)) w of
             (LogError x, w1) \<Rightarrow> (Inl (errorf_w ''stream logs: '' x), w1)
           | (LogStream data fail, w1) \<Rightarrow>
               (case read_limited maxLogBytes data fail of
                  Inl x \<Rightarrow> (Inl (errorf_w ''read logs: '' x), w1)
                | Inr d \<Rightarrow> (Inr (Redact d), w1))))"

record events_args =
  ega_Namespace :: string
  ega_ObjectName :: string

definition events_field :: "string \<Rightarrow> json \<Rightarrow> events_args \<Rightarrow> events_args option" where
  "events_field k v r =
     (if EqualFold k ''namespace'' then map_option (\<lambda>x. r\<lparr>ega_Namespace := x\<rparr>) (dec_string v (ega_Namespace r))
      else if EqualFold k ''object_name'' then
        map_option (\<lambda>x. r\<lparr>ega_ObjectName := x\<rparr>) (dec_string v (ega_ObjectName r))
      else Some r)"

definition event_line :: "Event \<Rightarrow> string" where
  "event_line ev = ''['' @ ev_Reason ev @ ''] '' @ or_Name (ev_InvolvedObject ev) @ '' (x'' @
     int_dec (ev_Count ev) @ ''): '' @ Redact (ev_Message ev) @ nl"

text \<open>The loop with its \<^verbatim>\<open>continue\<close> and \<^verbatim>\<open>break\<close>; \<open>count\<close> lines are written so far.\<close>

fun event_lines :: "string \<Rightarrow> nat \<Rightarrow> Event list \<Rightarrow> string" where
  "event_lines objectName count [] = []"
| "event_lines objectName count (ev # evs) =
     (if objectName \<noteq> [] \<and> or_Name (ev_InvolvedObject ev) \<noteq> objectName
      then event_lines objectName count evs
      else if count \<ge> maxEventCount then []
      else event_line ev @ event_lines objectName (Suc count) evs)"

definition getEvents :: "go_texts \<Rightarrow> 'w kube \<Rightarrow> string \<Rightarrow> 'w \<Rightarrow> (err + string) \<times> 'w" where
  "getEvents gt e argsJSON w =
     (case unmarshal_args gt events_field \<lparr>ega_Namespace = [], ega_ObjectName = []\<rparr> argsJSON of
        Inl x \<Rightarrow> (Inl x, w)
      | Inr args \<Rightarrow>
          (case k_ListEvents e (ega_Namespace args) w of
             (Inl x, w1) \<Rightarrow> (Inl (errorf_w ''list events: '' x), w1)
           | (Inr items, w1) \<Rightarrow> (Inr (event_lines (ega_ObjectName args) 0 items), w1)))"

definition node_name_field :: "string \<Rightarrow> json \<Rightarrow> string \<Rightarrow> string option" where
  "node_name_field k v r = (if EqualFold k ''node_name'' then dec_string v r else Some r)"

definition node_text :: "Node \<Rightarrow> string" where
  "node_text node =
     ''Conditions:'' @ nl
     @ concat (map (\<lambda>c. ''  '' @ oc_Type c @ ''='' @ oc_Status c @ '': '' @ Redact (oc_Message c) @ nl)
         (node_Conditions node))
     @ ''Capacity:'' @ nl
     @ concat (map (\<lambda>(r, q). ''  '' @ r @ '': '' @ q @ nl) (node_Capacity node))"

definition getNode :: "go_texts \<Rightarrow> 'w kube \<Rightarrow> string \<Rightarrow> 'w \<Rightarrow> (err + string) \<times> 'w" where
  "getNode gt e argsJSON w =
     (case unmarshal_args gt node_name_field [] argsJSON of
        Inl x \<Rightarrow> (Inl x, w)
      | Inr name \<Rightarrow>
          (case k_GetNode e name w of
             (Inl x, w1) \<Rightarrow> (Inl (errorf_w ''get node: '' x), w1)
           | (Inr node, w1) \<Rightarrow> (Inr (node_text node), w1)))"

definition Execute :: "go_texts \<Rightarrow> 'w kube \<Rightarrow> 'w ToolExecutor" where
  "Execute gt e name argsJSON w =
     (if name = ''get_pod_logs'' then getPodLogs gt e argsJSON w
      else if name = ''get_events'' then getEvents gt e argsJSON w
      else if name = ''get_node'' then getNode gt e argsJSON w
      else (Inl (errorf (''unknown tool: '' @ gt_quote gt name)), w))"

section \<open>Properties\<close>

lemma clamp_tail_bounds: "1 \<le> clamp_tail t \<and> clamp_tail t \<le> maxTailLines"
  by (simp add: clamp_tail_def maxTailLines_def defaultTail_def Let_def)

lemma read_limited_length: "read_limited n data fail = Inr d \<Longrightarrow> length d \<le> n \<and> prefix d data"
  by (auto simp: read_limited_def take_is_prefix split: if_splits option.splits)

lemma event_lines_spec:
  "event_lines obj n evs =
     concat (map event_line (take (maxEventCount - n)
       (filter (\<lambda>ev. obj = [] \<or> or_Name (ev_InvolvedObject ev) = obj) evs)))"
proof (induction obj n evs rule: event_lines.induct)
  case (2 obj n ev evs)
  then show ?case
    by (cases "n < maxEventCount") (auto simp: Suc_diff_Suc [symmetric] take_Cons')
qed simp

text \<open>
The tools bound what they ask for and what they return: logs are requested with a tail
between 1 and 200 lines, whatever number the model wrote, and what is returned is the
redaction of at most the first 8192 bytes of the stream.
\<close>

theorem getPodLogs_bounded:
  assumes "getPodLogs gt e args w = (Inr out, w')"
  shows "\<exists>ns pod cont tail data fail d.
     1 \<le> tail \<and> tail \<le> 200 \<and> k_PodLogs e ns pod cont tail w = (LogStream data fail, w')
     \<and> out = Redact d \<and> prefix d data \<and> length d \<le> 8192"
proof -
  obtain a where a: "unmarshal_args gt pod_logs_field
      \<lparr>pla_Namespace = [], pla_Pod = [], pla_Container = [], pla_Tail = 0\<rparr> args = Inr a"
    using assms by (auto simp: getPodLogs_def split: sum.splits)
  obtain data fail where k: "k_PodLogs e (pla_Namespace a) (pla_Pod a) (pla_Container a)
      (clamp_tail (pla_Tail a)) w = (LogStream data fail, w')"
    using assms a by (auto simp: getPodLogs_def split: prod.splits log_stream.splits sum.splits)
  obtain d where d: "read_limited maxLogBytes data fail = Inr d" "out = Redact d"
    using assms a k by (auto simp: getPodLogs_def split: sum.splits)
  have "1 \<le> clamp_tail (pla_Tail a)" "clamp_tail (pla_Tail a) \<le> 200" "prefix d data" "length d \<le> 8192"
    using clamp_tail_bounds [of "pla_Tail a"] read_limited_length [OF d(1)]
    by (simp_all add: maxTailLines_def maxLogBytes_def)
  with k d(2) show ?thesis by blast
qed

text \<open>
get_events lists the first thirty matching events, one redacted line each, in the order
the API returned them; a tool name outside the three defined ones is an error and touches
nothing, as is an argument document that does not parse.
\<close>

theorem getEvents_first_thirty:
  "(k_ListEvents e ns w = (Inr items, w') \<longrightarrow>
      unmarshal_args gt events_field \<lparr>ega_Namespace = [], ega_ObjectName = []\<rparr> args
        = Inr \<lparr>ega_Namespace = ns, ega_ObjectName = obj\<rparr> \<longrightarrow>
      Execute gt e ''get_events'' args w =
        (Inr (concat (map event_line (take 30
           (filter (\<lambda>ev. obj = [] \<or> or_Name (ev_InvolvedObject ev) = obj) items)))), w'))
   \<and> (name \<notin> set (map (\<lambda>t. fd_Name (td_Function t)) KubeTools) \<longrightarrow>
        Execute gt e name args w = (Inl (errorf (''unknown tool: '' @ gt_quote gt name)), w))
   \<and> (json_parse args = None \<longrightarrow> (\<exists>x. Execute gt e name args w = (Inl x, w)))"
  by (auto simp: Execute_def getEvents_def event_lines_spec maxEventCount_def KubeTools_def tool_def_def
      getPodLogs_def getNode_def unmarshal_args_def)

definition sample_kube :: "unit kube" where
  "sample_kube = broken_kube\<lparr>k_PodLogs := (\<lambda>ns pod cont tail w. (LogStream [] None, w)),
     k_ListEvents := (\<lambda>ns w. (Inr [], w))\<rparr>"

definition plain_texts :: go_texts where
  "plain_texts = \<lparr>gt_quote = id, gt_json_error = (\<lambda>t. id)\<rparr>"

theorem getPodLogs_bounded_witness:
  "\<exists>ns pod cont tail data fail d.
     1 \<le> tail \<and> tail \<le> (200 :: int) \<and> k_PodLogs sample_kube ns pod cont tail () = (LogStream data fail, ())
     \<and> getPodLogs plain_texts sample_kube ''{}'' () = (Inr (Redact d), ()) \<and> prefix d data"
proof -
  have "\<exists>out. getPodLogs plain_texts sample_kube ''{}'' () = (Inr out, ())"
  proof -
    have "unmarshal_args plain_texts pod_logs_field
        \<lparr>pla_Namespace = [], pla_Pod = [], pla_Container = [], pla_Tail = 0\<rparr> ''{}''
      = Inr \<lparr>pla_Namespace = [], pla_Pod = [], pla_Container = [], pla_Tail = 0\<rparr>"
      by code_simp
    then show ?thesis
      by (simp add: getPodLogs_def sample_kube_def read_limited_def maxLogBytes_def)
  qed
  then obtain out where out: "getPodLogs plain_texts sample_kube ''{}'' () = (Inr out, ())" by blast
  show ?thesis using getPodLogs_bounded [OF out] out by blast
qed

theorem getEvents_first_thirty_witness:
  "Execute plain_texts sample_kube ''rm'' ''{}'' () = (Inl (errorf ''unknown tool: rm''), ())"
  using getEvents_first_thirty [of sample_kube "[]" "()" "[]" "()" plain_texts "''{}''" "[]" "''rm''"]
  by (simp add: KubeTools_def tool_def_def plain_texts_def)

end
