(* ===== verification/Policy.thy ===== *)
theory Policy
  imports Api_Types
begin

text \<open>
  Configuration (\<^verbatim>\<open>src/internal/config/config.go\<close>) and policy resolution
  (\<^verbatim>\<open>src/internal/controller/diagnosispolicy_controller.go\<close>). Parsing the environment is the
  library \<^verbatim>\<open>env\<close>, a parameter of \<^verbatim>\<open>Load\<close>; \<^verbatim>\<open>default_config\<close> is what the struct tags declare.
\<close>

section \<open>Configuration\<close>

record Config =
  cfg_Addr :: string
  cfg_MetricsAddr :: string
  cfg_OperatorNamespace :: string
  cfg_LeaderElect :: bool
  cfg_LLMProvider :: string
  cfg_LLMModel :: string
  cfg_LLMBaseURL :: string
  cfg_LLMAPIKey :: string
  cfg_MaxIterations :: int
  cfg_DiagnosisConcurrency :: int
  cfg_MaxDiagnosesPerHour :: int
  cfg_EventReasonAllowlist :: "string list"
  cfg_RedactEnabled :: bool
  cfg_DBPath :: string
  cfg_RetentionPeriod :: duration
  cfg_DashboardToken :: string
  cfg_MaxPodsPerWorkload :: int
  cfg_ResendAPIKey :: string
  cfg_NotifyEmailFrom :: string
  cfg_NotifyEmailTo :: "string list"
  cfg_SlackWebhookURL :: string
  cfg_JiraBaseURL :: string
  cfg_JiraEmail :: string
  cfg_JiraAPIToken :: string
  cfg_JiraProjectKey :: string
  cfg_LinearAPIKey :: string
  cfg_LinearTeamID :: string
  cfg_ResyncPeriod :: duration

definition default_config :: Config where
  "default_config = \<lparr>cfg_Addr = '':8080'', cfg_MetricsAddr = '':9090'', cfg_OperatorNamespace = [],
     cfg_LeaderElect = False, cfg_LLMProvider = ''openai'', cfg_LLMModel = ''gpt-4o-mini'',
     cfg_LLMBaseURL = [], cfg_LLMAPIKey = [], cfg_MaxIterations = 5, cfg_DiagnosisConcurrency = 4,
     cfg_MaxDiagnosesPerHour = 30,
     cfg_EventReasonAllowlist = [''BackOff'', ''OOMKilling'', ''Failed'', ''FailedScheduling'',
       ''Unhealthy'', ''FailedMount'', ''FailedAttachVolume'', ''FailedCreate'',
       ''FailedCreatePodSandBox'', ''Evicted'', ''BackoffLimitExceeded''],
     cfg_RedactEnabled = True, cfg_DBPath = ''kscribe.db'', cfg_RetentionPeriod = 720 * Hour,
     cfg_DashboardToken = [], cfg_MaxPodsPerWorkload = 3, cfg_ResendAPIKey = [],
     cfg_NotifyEmailFrom = ''kscribe@notifications.local'', cfg_NotifyEmailTo = [],
     cfg_SlackWebhookURL = [], cfg_JiraBaseURL = [], cfg_JiraEmail = [], cfg_JiraAPIToken = [],
     cfg_JiraProjectKey = [], cfg_LinearAPIKey = [], cfg_LinearTeamID = [], cfg_ResyncPeriod = 10 * Minute\<rparr>"

definition Load :: "('e \<Rightarrow> err + Config) \<Rightarrow> 'e \<Rightarrow> err + Config" where
  "Load env_Parse environ = (case env_Parse environ of Inl e \<Rightarrow> Inl e | Inr cfg \<Rightarrow> Inr cfg)"

record FlagOverrides =
  fo_Addr :: string
  fo_LeaderElect :: "bool option"
  fo_OperatorNamespace :: string

definition ApplyFlags :: "FlagOverrides \<Rightarrow> Config \<Rightarrow> Config" where
  "ApplyFlags f c =
     (let c1 = (if fo_Addr f \<noteq> [] then c\<lparr>cfg_Addr := fo_Addr f\<rparr> else c);
          c2 = (case fo_LeaderElect f of Some b \<Rightarrow> c1\<lparr>cfg_LeaderElect := b\<rparr> | None \<Rightarrow> c1)
      in if fo_OperatorNamespace f \<noteq> [] then c2\<lparr>cfg_OperatorNamespace := fo_OperatorNamespace f\<rparr> else c2)"

section \<open>Policy resolution\<close>

record ResolvedPolicy =
  rp_Enabled :: bool
  rp_EventReasons :: "string list"
  rp_LLMProvider :: string
  rp_LLMModel :: string
  rp_LLMBaseURL :: string
  rp_MaxIterations :: "int option"
  rp_Redact :: "bool option"
  rp_PolicyRef :: string

text \<open>The two reads of the policy API.\<close>

record 'w policy_client =
  pcl_List :: "string \<Rightarrow> 'w \<Rightarrow> (err + DiagnosisPolicy list) \<times> 'w"
  pcl_Get :: "string \<Rightarrow> string \<Rightarrow> 'w \<Rightarrow> (err + DiagnosisPolicy) \<times> 'w"

definition findAnyPolicy ::
  "'w policy_client \<Rightarrow> string \<Rightarrow> 'w \<Rightarrow> (err + DiagnosisPolicy option) \<times> 'w" where
  "findAnyPolicy c namespace w =
     (case pcl_List c namespace w of
        (Inl e, w1) \<Rightarrow> (Inl e, w1)
      | (Inr items, w1) \<Rightarrow> (Inr (case items of [] \<Rightarrow> None | p # _ \<Rightarrow> Some p), w1))"

definition findNamedPolicy ::
  "'w policy_client \<Rightarrow> string \<Rightarrow> string \<Rightarrow> 'w \<Rightarrow> (err + DiagnosisPolicy option) \<times> 'w" where
  "findNamedPolicy c namespace name w =
     (case pcl_Get c namespace name w of
        (Inl e, w1) \<Rightarrow> (case IgnoreNotFound e of None \<Rightarrow> (Inr None, w1) | Some _ \<Rightarrow> (Inl e, w1))
      | (Inr p, w1) \<Rightarrow> (Inr (Some p), w1))"

definition fromConfig :: "Config \<Rightarrow> ResolvedPolicy" where
  "fromConfig cfg = \<lparr>rp_Enabled = True, rp_EventReasons = cfg_EventReasonAllowlist cfg,
     rp_LLMProvider = cfg_LLMProvider cfg, rp_LLMModel = cfg_LLMModel cfg,
     rp_LLMBaseURL = cfg_LLMBaseURL cfg, rp_MaxIterations = Some (to_int32 (cfg_MaxIterations cfg)),
     rp_Redact = Some (cfg_RedactEnabled cfg), rp_PolicyRef = []\<rparr>"

definition mergeWithConfig :: "DiagnosisPolicy \<Rightarrow> Config \<Rightarrow> ResolvedPolicy" where
  "mergeWithConfig p cfg =
     (let sp = dp_Spec p;
          r0 = (fromConfig cfg)\<lparr>rp_PolicyRef := dp_Name p\<rparr>;
          r1 = (case dps_Enabled sp of Some b \<Rightarrow> r0\<lparr>rp_Enabled := b\<rparr> | None \<Rightarrow> r0);
          r2 = (if dps_EventReasons sp \<noteq> [] then r1\<lparr>rp_EventReasons := dps_EventReasons sp\<rparr> else r1);
          r3 = (if dps_LLMProvider sp \<noteq> [] then r2\<lparr>rp_LLMProvider := dps_LLMProvider sp\<rparr> else r2);
          r4 = (if dps_LLMModel sp \<noteq> [] then r3\<lparr>rp_LLMModel := dps_LLMModel sp\<rparr> else r3);
          r5 = (if dps_LLMBaseURL sp \<noteq> [] then r4\<lparr>rp_LLMBaseURL := dps_LLMBaseURL sp\<rparr> else r4);
          r6 = (case dps_MaxIterations sp of Some n \<Rightarrow> r5\<lparr>rp_MaxIterations := Some n\<rparr> | None \<Rightarrow> r5)
      in case dps_Redact sp of Some b \<Rightarrow> r6\<lparr>rp_Redact := Some b\<rparr> | None \<Rightarrow> r6)"

definition ResolvePolicy ::
  "'w policy_client \<Rightarrow> string \<Rightarrow> string \<Rightarrow> Config \<Rightarrow> 'w \<Rightarrow> (err + ResolvedPolicy) \<times> 'w" where
  "ResolvePolicy c eventNamespace operatorNamespace cfg w =
     (case findAnyPolicy c eventNamespace w of
        (Inl e, w1) \<Rightarrow> (Inl (errorf_w (''lookup policy in '' @ eventNamespace @ '': '') e), w1)
      | (Inr (Some p), w1) \<Rightarrow> (Inr (mergeWithConfig p cfg), w1)
      | (Inr None, w1) \<Rightarrow>
          if operatorNamespace \<noteq> [] \<and> operatorNamespace \<noteq> eventNamespace then
            (case findNamedPolicy c operatorNamespace ''default'' w1 of
               (Inl e, w2) \<Rightarrow> (Inl (errorf_w (''lookup default policy in '' @ operatorNamespace @ '': '') e), w2)
             | (Inr (Some p), w2) \<Rightarrow> (Inr (mergeWithConfig p cfg), w2)
             | (Inr None, w2) \<Rightarrow> (Inr (fromConfig cfg), w2))
          else (Inr (fromConfig cfg), w1))"

section \<open>Properties\<close>

definition policy_or :: "'a option \<Rightarrow> 'a option \<Rightarrow> 'a option" where
  "policy_or a b = (case a of None \<Rightarrow> b | Some x \<Rightarrow> Some x)"

lemma mergeWithConfig_fields:
  "rp_Enabled (mergeWithConfig p cfg) = (case dps_Enabled (dp_Spec p) of None \<Rightarrow> True | Some b \<Rightarrow> b)"
  "rp_EventReasons (mergeWithConfig p cfg) =
     (if dps_EventReasons (dp_Spec p) = [] then cfg_EventReasonAllowlist cfg else dps_EventReasons (dp_Spec p))"
  "rp_LLMProvider (mergeWithConfig p cfg) =
     (if dps_LLMProvider (dp_Spec p) = [] then cfg_LLMProvider cfg else dps_LLMProvider (dp_Spec p))"
  "rp_LLMModel (mergeWithConfig p cfg) =
     (if dps_LLMModel (dp_Spec p) = [] then cfg_LLMModel cfg else dps_LLMModel (dp_Spec p))"
  "rp_LLMBaseURL (mergeWithConfig p cfg) =
     (if dps_LLMBaseURL (dp_Spec p) = [] then cfg_LLMBaseURL cfg else dps_LLMBaseURL (dp_Spec p))"
  "rp_MaxIterations (mergeWithConfig p cfg) =
     policy_or (dps_MaxIterations (dp_Spec p)) (Some (to_int32 (cfg_MaxIterations cfg)))"
  "rp_Redact (mergeWithConfig p cfg) = policy_or (dps_Redact (dp_Spec p)) (Some (cfg_RedactEnabled cfg))"
  "rp_PolicyRef (mergeWithConfig p cfg) = dp_Name p"
  by (simp_all add: mergeWithConfig_def fromConfig_def Let_def policy_or_def split: option.splits)

text \<open>
C12: Policy resolution follows ADR-002: the first policy of the event's namespace wins; without
one, the policy named default of a different, non-empty operator namespace; without that, the
configuration. Every field a policy leaves unset comes from the configuration, an absent
default policy is not an error, and any other lookup error is returned.
\<close>

theorem ResolvePolicy_precedence:
  assumes "pcl_List c ns w = (Inr ps, w1)"
  shows "(ps \<noteq> [] \<longrightarrow> ResolvePolicy c ns opns cfg w = (Inr (mergeWithConfig (hd ps) cfg), w1))
     \<and> (ps = [] \<and> (opns = [] \<or> opns = ns) \<longrightarrow> ResolvePolicy c ns opns cfg w = (Inr (fromConfig cfg), w1))
     \<and> (ps = [] \<and> opns \<noteq> [] \<and> opns \<noteq> ns \<and> pcl_Get c opns ''default'' w1 = (Inr p, w2) \<longrightarrow>
          ResolvePolicy c ns opns cfg w = (Inr (mergeWithConfig p cfg), w2))
     \<and> (ps = [] \<and> opns \<noteq> [] \<and> opns \<noteq> ns \<and> pcl_Get c opns ''default'' w1 = (Inl e, w2) \<longrightarrow>
          ResolvePolicy c ns opns cfg w =
            (if IsNotFound e then Inr (fromConfig cfg)
             else Inl (errorf_w (''lookup default policy in '' @ opns @ '': '') e), w2))
     \<and> rp_Enabled (mergeWithConfig q cfg) = (dps_Enabled (dp_Spec q) \<noteq> Some False)
     \<and> rp_PolicyRef (mergeWithConfig q cfg) = dp_Name q
     \<and> rp_LLMModel (mergeWithConfig q cfg) =
         (if dps_LLMModel (dp_Spec q) = [] then cfg_LLMModel cfg else dps_LLMModel (dp_Spec q))"
  using assms
  by (auto simp: ResolvePolicy_def findAnyPolicy_def findNamedPolicy_def IgnoreNotFound_def
      mergeWithConfig_fields neq_Nil_conv split: option.splits)

definition sample_policy :: DiagnosisPolicy where
  "sample_policy = \<lparr>dp_Name = ''default'', dp_Namespace = ''kscribe'', dp_Spec =
     \<lparr>dps_Enabled = None, dps_EventReasons = [''Failed''], dps_LLMProvider = [], dps_LLMModel = ''m2'',
      dps_LLMBaseURL = [], dps_MaxIterations = Some 7, dps_Redact = None\<rparr>\<rparr>"

definition sample_policies :: "unit policy_client" where
  "sample_policies = \<lparr>pcl_List = (\<lambda>ns w. (Inr [], w)), pcl_Get = (\<lambda>ns name w. (Inr sample_policy, w))\<rparr>"

theorem ResolvePolicy_precedence_witness:
  "ResolvePolicy sample_policies ''prod'' ''kscribe'' default_config ()
     = (Inr (mergeWithConfig sample_policy default_config), ())
   \<and> rp_LLMModel (mergeWithConfig sample_policy default_config) = ''m2''"
  using ResolvePolicy_precedence [of sample_policies "''prod''" "()" "[]" "()" "''kscribe''" default_config
      sample_policy "()" "errorf []" sample_policy]
  by (simp add: sample_policies_def) (simp add: sample_policy_def)

end
