(* ===== verification/Event_Watcher.thy ===== *)
theory Event_Watcher
  imports Dedup Policy "HOL-Library.Word"
begin

text \<open>
  The event watcher, \<^verbatim>\<open>src/internal/controller/event_watcher.go\<close>: one diagnosis object per
  accepted Warning event. The API calls it makes on diagnosis objects are the record
  \<^verbatim>\<open>diagnosis_client\<close>; the deduplication guard is its only state of its own.
\<close>

section \<open>Names\<close>

text \<open>\<^verbatim>\<open>fnv.New32a\<close>: 32-bit FNV-1a; products wrap.\<close>

definition fnv32a :: "string \<Rightarrow> 32 word" where
  "fnv32a s = fold (\<lambda>c h. (xor h (word_of_nat (of_char c))) * 16777619) s 2166136261"

definition hex_char :: "nat \<Rightarrow> char" where
  "hex_char n = (if n < 10 then char_of (48 + n) else char_of (87 + n))"

text \<open>\<^verbatim>\<open>%08x\<close>: eight lower-case hexadecimal digits.\<close>

fun hex_fixed :: "nat \<Rightarrow> nat \<Rightarrow> string" where
  "hex_fixed 0 n = []"
| "hex_fixed (Suc w) n = hex_fixed w (n div 16) @ [hex_char (n mod 16)]"

definition diagnosisName :: "Event \<Rightarrow> string" where
  "diagnosisName ev =
     (if ev_UID ev \<noteq> [] then
        (let uid = (if length (ev_UID ev) > 53 then take 53 (ev_UID ev) else ev_UID ev) in ''ksd-'' @ uid)
      else
        ''ksd-'' @ hex_fixed 8 (unat (fnv32a
          (ev_Namespace ev @ ''/'' @ or_Kind (ev_InvolvedObject ev) @ ''/''
           @ or_Name (ev_InvolvedObject ev) @ ''/'' @ ev_Reason ev))))"

definition reasonAllowed :: "string \<Rightarrow> string list \<Rightarrow> bool" where
  "reasonAllowed reason allowed \<longleftrightarrow> allowed = [] \<or> list_ex (\<lambda>a. a = reason) allowed"

text \<open>
  The predicate of the watch: create, update and generic events of Warning type pass,
  deletions do not. Only core events are watched, so the type assertion holds.
\<close>

datatype watch_event = CreateEvent Event | UpdateEvent Event Event | DeleteEvent Event | GenericEvent Event

fun warningEventPredicate :: "watch_event \<Rightarrow> bool" where
  "warningEventPredicate (CreateEvent e) = (ev_Type e = EventTypeWarning)"
| "warningEventPredicate (UpdateEvent old new) = (ev_Type new = EventTypeWarning)"
| "warningEventPredicate (DeleteEvent e) = False"
| "warningEventPredicate (GenericEvent e) = (ev_Type e = EventTypeWarning)"

section \<open>Creating diagnoses\<close>

record 'w diagnosis_client =
  dc_GetEvent :: "NamespacedName \<Rightarrow> 'w \<Rightarrow> (err + Event) \<times> 'w"
  dc_Get :: "string \<Rightarrow> string \<Rightarrow> 'w \<Rightarrow> (err + KscribeDiagnosis) \<times> 'w"
  dc_Create :: "KscribeDiagnosis \<Rightarrow> 'w \<Rightarrow> err option \<times> 'w"
  dc_Update :: "KscribeDiagnosis \<Rightarrow> 'w \<Rightarrow> err option \<times> 'w"
  dc_policies :: "'w policy_client"

record 'w EventWatcherDeps =
  ewd_Client :: "'w diagnosis_client"
  ewd_OperatorNamespace :: string
  ewd_Cfg :: Config

text \<open>One \<^verbatim>\<open>setString\<close> of the source, and the same step for an unset pointer or counter.\<close>

definition set_string ::
  "(KscribeDiagnosisSpec \<Rightarrow> string) \<Rightarrow> ((string \<Rightarrow> string) \<Rightarrow> KscribeDiagnosisSpec \<Rightarrow> KscribeDiagnosisSpec)
     \<Rightarrow> string \<Rightarrow> KscribeDiagnosisSpec \<times> bool \<Rightarrow> KscribeDiagnosisSpec \<times> bool" where
  "set_string field upd value sc =
     (if field (fst sc) = [] \<and> value \<noteq> [] then (upd (\<lambda>_. value) (fst sc), True) else sc)"

definition set_ptr ::
  "(KscribeDiagnosisSpec \<Rightarrow> 'a option) \<Rightarrow> (('a option \<Rightarrow> 'a option) \<Rightarrow> KscribeDiagnosisSpec \<Rightarrow> KscribeDiagnosisSpec)
     \<Rightarrow> 'a option \<Rightarrow> KscribeDiagnosisSpec \<times> bool \<Rightarrow> KscribeDiagnosisSpec \<times> bool" where
  "set_ptr field upd value sc =
     (if field (fst sc) = None \<and> value \<noteq> None then (upd (\<lambda>_. value) (fst sc), True) else sc)"

definition time_ptr :: "gotime \<Rightarrow> gotime option" where
  "time_ptr t = (if \<not> IsZero t then Some t else None)"

definition set_count :: "int \<Rightarrow> KscribeDiagnosisSpec \<times> bool \<Rightarrow> KscribeDiagnosisSpec \<times> bool" where
  "set_count n sc = (if spec_Count (fst sc) = 0 \<and> n \<noteq> 0 then ((fst sc)\<lparr>spec_Count := n\<rparr>, True) else sc)"

definition backfill_spec ::
  "Event \<Rightarrow> ResolvedPolicy \<Rightarrow> KscribeDiagnosisSpec \<Rightarrow> KscribeDiagnosisSpec \<times> bool" where
  "backfill_spec ev policy s =
     (set_ptr spec_Redact spec_Redact_update (rp_Redact policy)
     (set_ptr spec_MaxIterations spec_MaxIterations_update (rp_MaxIterations policy)
     (set_ptr spec_LastTimestamp spec_LastTimestamp_update (time_ptr (ev_LastTimestamp ev))
     (set_ptr spec_FirstTimestamp spec_FirstTimestamp_update (time_ptr (ev_FirstTimestamp ev))
     (set_count (ev_Count ev)
     (set_string spec_LLMBaseURL spec_LLMBaseURL_update (rp_LLMBaseURL policy)
     (set_string spec_LLMModel spec_LLMModel_update (rp_LLMModel policy)
     (set_string spec_LLMProvider spec_LLMProvider_update (rp_LLMProvider policy)
     (set_string spec_PolicyRef spec_PolicyRef_update (rp_PolicyRef policy)
     (set_string spec_EventUID spec_EventUID_update (ev_UID ev)
     (set_string spec_Message spec_Message_update (ev_Message ev)
     (set_string spec_Reason spec_Reason_update (ev_Reason ev)
     (set_string spec_InvolvedObjectKind spec_InvolvedObjectKind_update (or_Kind (ev_InvolvedObject ev))
     (set_string spec_InvolvedObjectNamespace spec_InvolvedObjectNamespace_update
        (or_Namespace (ev_InvolvedObject ev))
     (set_string spec_InvolvedObjectName spec_InvolvedObjectName_update (or_Name (ev_InvolvedObject ev))
       (s, False))))))))))))))))"

definition backfillExistingDiagnosis ::
  "'w diagnosis_client \<Rightarrow> string \<Rightarrow> string \<Rightarrow> Event \<Rightarrow> ResolvedPolicy \<Rightarrow> 'w \<Rightarrow> err option \<times> 'w" where
  "backfillExistingDiagnosis c namespace name ev policy w =
     (case dc_Get c namespace name w of
        (Inl e, w1) \<Rightarrow> (IgnoreNotFound e, w1)
      | (Inr existing, w1) \<Rightarrow>
          (case backfill_spec ev policy (kd_Spec existing) of
             (s, changed) \<Rightarrow>
               if \<not> changed then (None, w1) else dc_Update c (existing\<lparr>kd_Spec := s\<rparr>) w1))"

definition new_diagnosis :: "string \<Rightarrow> Event \<Rightarrow> ResolvedPolicy \<Rightarrow> KscribeDiagnosis" where
  "new_diagnosis ns ev policy =
     \<lparr>kd_Meta = \<lparr>om_Name = diagnosisName ev, om_Namespace = ns,
        om_Labels = [(''kscribe.amjadjibon.dev/event-namespace'', ev_Namespace ev),
                     (''kscribe.amjadjibon.dev/reason'', ev_Reason ev)],
        om_Generation = 0, om_ResourceVersion = [], om_CreationTimestamp = zero_time\<rparr>,
      kd_Spec = \<lparr>spec_InvolvedObjectName = or_Name (ev_InvolvedObject ev),
        spec_InvolvedObjectNamespace = or_Namespace (ev_InvolvedObject ev),
        spec_InvolvedObjectKind = or_Kind (ev_InvolvedObject ev),
        spec_Reason = ev_Reason ev, spec_Message = ev_Message ev, spec_EventUID = ev_UID ev,
        spec_Count = ev_Count ev,
        spec_FirstTimestamp = (if \<not> IsZero (ev_FirstTimestamp ev) then Some (ev_FirstTimestamp ev) else None),
        spec_LastTimestamp = (if \<not> IsZero (ev_LastTimestamp ev) then Some (ev_LastTimestamp ev) else None),
        spec_PolicyRef = rp_PolicyRef policy, spec_LLMProvider = rp_LLMProvider policy,
        spec_LLMModel = rp_LLMModel policy, spec_LLMBaseURL = rp_LLMBaseURL policy,
        spec_MaxIterations = rp_MaxIterations policy, spec_Redact = rp_Redact policy\<rparr>,
      kd_Status = zero_status\<lparr>st_Phase := DiagnosisPhasePending\<rparr>\<rparr>"

definition createDiagnosis ::
  "'w EventWatcherDeps \<Rightarrow> Event \<Rightarrow> ResolvedPolicy \<Rightarrow> 'w \<Rightarrow> err option \<times> 'w" where
  "createDiagnosis deps ev policy w =
     (let ns = (if ewd_OperatorNamespace deps = [] then ev_Namespace ev else ewd_OperatorNamespace deps);
          ksd = new_diagnosis ns ev policy
      in case dc_Create (ewd_Client deps) ksd w of
           (None, w1) \<Rightarrow> (None, w1)
         | (Some e, w1) \<Rightarrow>
             if \<not> IsAlreadyExists e then (Some e, w1)
             else backfillExistingDiagnosis (ewd_Client deps) ns (kd_Name ksd) ev policy w1)"

definition processEvent ::
  "'w EventWatcherDeps \<Rightarrow> gotime \<Rightarrow> Event \<Rightarrow> Deduper \<Rightarrow> 'w \<Rightarrow> err option \<times> Deduper \<times> 'w" where
  "processEvent deps now ev d w =
     (if ev_Type ev \<noteq> EventTypeWarning then (None, d, w)
      else
        (case ShouldProcess (EventKey ev) now d of
           (False, d1) \<Rightarrow> (None, d1, w)
         | (True, d1) \<Rightarrow>
             (case ResolvePolicy (dc_policies (ewd_Client deps)) (ev_Namespace ev)
                     (ewd_OperatorNamespace deps) (ewd_Cfg deps) w of
                (Inl e, w1) \<Rightarrow> (Some (errorf_w ''resolve policy: '' e), d1, w1)
              | (Inr policy, w1) \<Rightarrow>
                  if \<not> rp_Enabled policy then (None, d1, w1)
                  else if \<not> reasonAllowed (ev_Reason ev) (rp_EventReasons policy) then (None, d1, w1)
                  else (case createDiagnosis deps ev policy w1 of (e, w2) \<Rightarrow> (e, d1, w2)))))"

definition watcher_Reconcile ::
  "'w EventWatcherDeps \<Rightarrow> gotime \<Rightarrow> NamespacedName \<Rightarrow> Deduper \<Rightarrow> 'w \<Rightarrow> err option \<times> Deduper \<times> 'w" where
  "watcher_Reconcile deps now req d w =
     (case dc_GetEvent (ewd_Client deps) req w of
        (Inl e, w1) \<Rightarrow> (IgnoreNotFound e, d, w1)
      | (Inr ev, w1) \<Rightarrow> processEvent deps now ev d w1)"

section \<open>Lemmas\<close>

lemma hex_fixed_length [simp]: "length (hex_fixed w n) = w"
  by (induction w arbitrary: n) simp_all

definition lower_hex :: string where
  "lower_hex = ''0123456789abcdef''"

lemma hex_char_lower: "n < 16 \<Longrightarrow> hex_char n \<in> set lower_hex"
proof -
  have "\<forall>n \<in> set [0..<16]. hex_char n \<in> set lower_hex" by code_simp
  then show "n < 16 \<Longrightarrow> hex_char n \<in> set lower_hex" by simp
qed

lemma hex_fixed_lower: "set (hex_fixed w n) \<subseteq> set lower_hex"
proof (induction w arbitrary: n)
  case (Suc w)
  show ?case using Suc [of "n div 16"] hex_char_lower [of "n mod 16"] by simp
qed simp

text \<open>What one field step does to the spec and to the flag.\<close>

definition fill :: "string \<Rightarrow> string \<Rightarrow> string" where
  "fill v x = (if x = [] then v else x)"

definition fill_ptr :: "'a option \<Rightarrow> 'a option \<Rightarrow> 'a option" where
  "fill_ptr v x = (if x = None then v else x)"

definition fill_count :: "int \<Rightarrow> int \<Rightarrow> int" where
  "fill_count n x = (if x = 0 then n else x)"

lemma fill_facts [simp]:
  "fill v (fill v x) = fill v x" "fill v x = [] \<longleftrightarrow> x = [] \<and> v = []"
  "fill_ptr p (fill_ptr p q) = fill_ptr p q" "fill_ptr p q = None \<longleftrightarrow> q = None \<and> p = None"
  "fill_count n (fill_count n m) = fill_count n m" "fill_count n m = 0 \<longleftrightarrow> m = 0 \<and> n = 0"
  by (auto simp: fill_def fill_ptr_def fill_count_def)

lemma set_string_fst:
  "fst (set_string spec_InvolvedObjectName spec_InvolvedObjectName_update v sc) =
     spec_InvolvedObjectName_update (fill v) (fst sc)"
  "fst (set_string spec_InvolvedObjectNamespace spec_InvolvedObjectNamespace_update v sc) =
     spec_InvolvedObjectNamespace_update (fill v) (fst sc)"
  "fst (set_string spec_InvolvedObjectKind spec_InvolvedObjectKind_update v sc) =
     spec_InvolvedObjectKind_update (fill v) (fst sc)"
  "fst (set_string spec_Reason spec_Reason_update v sc) = spec_Reason_update (fill v) (fst sc)"
  "fst (set_string spec_Message spec_Message_update v sc) = spec_Message_update (fill v) (fst sc)"
  "fst (set_string spec_EventUID spec_EventUID_update v sc) = spec_EventUID_update (fill v) (fst sc)"
  "fst (set_string spec_PolicyRef spec_PolicyRef_update v sc) = spec_PolicyRef_update (fill v) (fst sc)"
  "fst (set_string spec_LLMProvider spec_LLMProvider_update v sc) = spec_LLMProvider_update (fill v) (fst sc)"
  "fst (set_string spec_LLMModel spec_LLMModel_update v sc) = spec_LLMModel_update (fill v) (fst sc)"
  "fst (set_string spec_LLMBaseURL spec_LLMBaseURL_update v sc) = spec_LLMBaseURL_update (fill v) (fst sc)"
  by (cases "fst sc"; simp add: set_string_def fill_def)+

lemma set_ptr_fst:
  "fst (set_ptr spec_FirstTimestamp spec_FirstTimestamp_update p sc) = spec_FirstTimestamp_update (fill_ptr p) (fst sc)"
  "fst (set_ptr spec_LastTimestamp spec_LastTimestamp_update p sc) = spec_LastTimestamp_update (fill_ptr p) (fst sc)"
  "fst (set_ptr spec_MaxIterations spec_MaxIterations_update q sc) = spec_MaxIterations_update (fill_ptr q) (fst sc)"
  "fst (set_ptr spec_Redact spec_Redact_update b sc) = spec_Redact_update (fill_ptr b) (fst sc)"
  by (cases "fst sc"; auto simp: set_ptr_def fill_ptr_def)+

lemma set_count_fst: "fst (set_count n sc) = spec_Count_update (fill_count n) (fst sc)"
  by (cases "fst sc"; simp add: set_count_def fill_count_def)

lemma set_snd:
  "snd (set_string f u v sc) \<longleftrightarrow> snd sc \<or> f (fst sc) = [] \<and> v \<noteq> []"
  "snd (set_ptr g u' p sc) \<longleftrightarrow> snd sc \<or> g (fst sc) = None \<and> p \<noteq> None"
  "snd (set_count n sc) \<longleftrightarrow> snd sc \<or> spec_Count (fst sc) = 0 \<and> n \<noteq> 0"
  by (auto simp: set_string_def set_ptr_def set_count_def)

lemmas backfill_simps = set_string_fst set_ptr_fst set_count_fst set_snd

lemma backfill_fst:
  "fst (backfill_spec ev p s) = s\<lparr>
     spec_InvolvedObjectName := fill (or_Name (ev_InvolvedObject ev)) (spec_InvolvedObjectName s),
     spec_InvolvedObjectNamespace := fill (or_Namespace (ev_InvolvedObject ev)) (spec_InvolvedObjectNamespace s),
     spec_InvolvedObjectKind := fill (or_Kind (ev_InvolvedObject ev)) (spec_InvolvedObjectKind s),
     spec_Reason := fill (ev_Reason ev) (spec_Reason s), spec_Message := fill (ev_Message ev) (spec_Message s),
     spec_EventUID := fill (ev_UID ev) (spec_EventUID s), spec_PolicyRef := fill (rp_PolicyRef p) (spec_PolicyRef s),
     spec_LLMProvider := fill (rp_LLMProvider p) (spec_LLMProvider s),
     spec_LLMModel := fill (rp_LLMModel p) (spec_LLMModel s),
     spec_LLMBaseURL := fill (rp_LLMBaseURL p) (spec_LLMBaseURL s),
     spec_Count := fill_count (ev_Count ev) (spec_Count s),
     spec_FirstTimestamp := fill_ptr (time_ptr (ev_FirstTimestamp ev)) (spec_FirstTimestamp s),
     spec_LastTimestamp := fill_ptr (time_ptr (ev_LastTimestamp ev)) (spec_LastTimestamp s),
     spec_MaxIterations := fill_ptr (rp_MaxIterations p) (spec_MaxIterations s),
     spec_Redact := fill_ptr (rp_Redact p) (spec_Redact s)\<rparr>"
  by (cases s) (simp add: backfill_spec_def backfill_simps)

lemma fill_id_iff:
  "fill v x = x \<longleftrightarrow> (x = [] \<longrightarrow> v = [])" "fill_ptr p q = q \<longleftrightarrow> (q = None \<longrightarrow> p = None)"
  "fill_count n m = m \<longleftrightarrow> (m = 0 \<longrightarrow> n = 0)"
  by (auto simp: fill_def fill_ptr_def fill_count_def)

lemma backfill_idle:
  assumes "\<not> snd (backfill_spec ev p s)"
  shows "fst (backfill_spec ev p s) = s"
proof -
  have "fill (or_Name (ev_InvolvedObject ev)) (spec_InvolvedObjectName s) = spec_InvolvedObjectName s"
    "fill (or_Namespace (ev_InvolvedObject ev)) (spec_InvolvedObjectNamespace s) = spec_InvolvedObjectNamespace s"
    "fill (or_Kind (ev_InvolvedObject ev)) (spec_InvolvedObjectKind s) = spec_InvolvedObjectKind s"
    "fill (ev_Reason ev) (spec_Reason s) = spec_Reason s" "fill (ev_Message ev) (spec_Message s) = spec_Message s"
    "fill (ev_UID ev) (spec_EventUID s) = spec_EventUID s" "fill (rp_PolicyRef p) (spec_PolicyRef s) = spec_PolicyRef s"
    "fill (rp_LLMProvider p) (spec_LLMProvider s) = spec_LLMProvider s"
    "fill (rp_LLMModel p) (spec_LLMModel s) = spec_LLMModel s"
    "fill (rp_LLMBaseURL p) (spec_LLMBaseURL s) = spec_LLMBaseURL s"
    "fill_count (ev_Count ev) (spec_Count s) = spec_Count s"
    "fill_ptr (time_ptr (ev_FirstTimestamp ev)) (spec_FirstTimestamp s) = spec_FirstTimestamp s"
    "fill_ptr (time_ptr (ev_LastTimestamp ev)) (spec_LastTimestamp s) = spec_LastTimestamp s"
    "fill_ptr (rp_MaxIterations p) (spec_MaxIterations s) = spec_MaxIterations s"
    "fill_ptr (rp_Redact p) (spec_Redact s) = spec_Redact s"
    using assms by (simp_all add: backfill_spec_def backfill_simps fill_id_iff del: not_None_eq)
  then show ?thesis by (simp add: backfill_fst)
qed

lemma backfill_again: "backfill_spec ev p (fst (backfill_spec ev p s)) = (fst (backfill_spec ev p s), False)"
proof -
  let ?s = "fst (backfill_spec ev p s)"
  have "\<not> snd (backfill_spec ev p ?s)"
    by (simp add: backfill_fst) (simp add: backfill_spec_def backfill_simps del: not_None_eq)
  with backfill_idle [of ev p ?s] show ?thesis by (simp add: prod_eq_iff)
qed

section \<open>Writes\<close>

text \<open>
  A client that also records the writes it is asked for, and the watcher run over a sequence
  of events with the clock reading at which each is processed; the third part of an entry is
  the list of writes requested for that event.
\<close>

datatype api_write = Created KscribeDiagnosis | Updated KscribeDiagnosis

definition recording :: "'w diagnosis_client \<Rightarrow> ('w \<times> api_write list) diagnosis_client" where
  "recording c = \<lparr>
     dc_GetEvent = (\<lambda>k (w, l). case dc_GetEvent c k w of (r, w1) \<Rightarrow> (r, w1, l)),
     dc_Get = (\<lambda>ns n (w, l). case dc_Get c ns n w of (r, w1) \<Rightarrow> (r, w1, l)),
     dc_Create = (\<lambda>k (w, l). case dc_Create c k w of (r, w1) \<Rightarrow> (r, w1, l @ [Created k])),
     dc_Update = (\<lambda>k (w, l). case dc_Update c k w of (r, w1) \<Rightarrow> (r, w1, l @ [Updated k])),
     dc_policies = \<lparr>pcl_List = (\<lambda>ns (w, l). case pcl_List (dc_policies c) ns w of (r, w1) \<Rightarrow> (r, w1, l)),
       pcl_Get = (\<lambda>ns n (w, l). case pcl_Get (dc_policies c) ns n w of (r, w1) \<Rightarrow> (r, w1, l))\<rparr>\<rparr>"

definition recording_deps :: "'w EventWatcherDeps \<Rightarrow> ('w \<times> api_write list) EventWatcherDeps" where
  "recording_deps deps = \<lparr>ewd_Client = recording (ewd_Client deps),
     ewd_OperatorNamespace = ewd_OperatorNamespace deps, ewd_Cfg = ewd_Cfg deps\<rparr>"

fun watch_run ::
  "'w EventWatcherDeps \<Rightarrow> Deduper \<Rightarrow> 'w \<Rightarrow> (gotime \<times> Event) list \<Rightarrow> (gotime \<times> Event \<times> api_write list) list" where
  "watch_run deps d w [] = []"
| "watch_run deps d w ((t, ev) # evs) =
     (case processEvent (recording_deps deps) t ev d (w, []) of
        (e, d1, w1, l) \<Rightarrow> (t, ev, l) # watch_run deps d1 w1 evs)"

definition target_namespace :: "'w EventWatcherDeps \<Rightarrow> Event \<Rightarrow> string" where
  "target_namespace deps ev =
     (if ewd_OperatorNamespace deps = [] then ev_Namespace ev else ewd_OperatorNamespace deps)"

lemma ResolvePolicy_recording:
  "ResolvePolicy (dc_policies (recording c)) ns opns cfg (w, l) =
     (case ResolvePolicy (dc_policies c) ns opns cfg w of (r, w1) \<Rightarrow> (r, w1, l))"
  by (auto simp: ResolvePolicy_def findAnyPolicy_def findNamedPolicy_def recording_def
      split: prod.splits sum.splits option.splits list.splits)

lemma backfill_recording:
  assumes "backfillExistingDiagnosis (recording c) ns name ev policy (w, l) = (e, w', l')"
  shows "l' = l \<or> (\<exists>k. l' = l @ [Updated (k\<lparr>kd_Spec := fst (backfill_spec ev policy (kd_Spec k))\<rparr>)]
            \<and> snd (backfill_spec ev policy (kd_Spec k)))"
  using assms
  by (auto simp: backfillExistingDiagnosis_def recording_def split: prod.splits sum.splits if_splits)
    (metis fst_conv snd_conv)

lemma recording_deps_simps [simp]:
  "ewd_Client (recording_deps deps) = recording (ewd_Client deps)"
  "ewd_OperatorNamespace (recording_deps deps) = ewd_OperatorNamespace deps"
  "ewd_Cfg (recording_deps deps) = ewd_Cfg deps"
  "target_namespace (recording_deps deps) = target_namespace deps"
  by (simp_all add: recording_deps_def target_namespace_def fun_eq_iff)

lemma createDiagnosis_target:
  "createDiagnosis deps ev policy w =
     (let k = new_diagnosis (target_namespace deps ev) ev policy in
      case dc_Create (ewd_Client deps) k w of
        (None, w1) \<Rightarrow> (None, w1)
      | (Some e, w1) \<Rightarrow>
          if \<not> IsAlreadyExists e then (Some e, w1)
          else backfillExistingDiagnosis (ewd_Client deps) (target_namespace deps ev) (kd_Name k) ev policy w1)"
  unfolding createDiagnosis_def target_namespace_def Let_def by (rule refl)

lemma createDiagnosis_recording:
  assumes "createDiagnosis (recording_deps deps) ev policy (w, []) = (e, w', l)"
  shows "\<exists>rest. l = Created (new_diagnosis (target_namespace deps ev) ev policy) # rest
     \<and> (rest = [] \<or> (\<exists>k. rest = [Updated (k\<lparr>kd_Spec := fst (backfill_spec ev policy (kd_Spec k))\<rparr>)]
            \<and> snd (backfill_spec ev policy (kd_Spec k))))"
proof -
  let ?k = "new_diagnosis (target_namespace deps ev) ev policy"
  obtain r w1 where cr: "dc_Create (ewd_Client deps) ?k w = (r, w1)" by (cases "dc_Create (ewd_Client deps) ?k w")
  have rec: "dc_Create (recording (ewd_Client deps)) ?k (w, []) = (r, w1, [Created ?k])"
    by (simp add: recording_def cr)
  have "createDiagnosis (recording_deps deps) ev policy (w, []) =
     (case r of None \<Rightarrow> (None, w1, [Created ?k])
      | Some e \<Rightarrow> if \<not> IsAlreadyExists e then (Some e, w1, [Created ?k])
                  else backfillExistingDiagnosis (recording (ewd_Client deps)) (target_namespace deps ev)
                         (kd_Name ?k) ev policy (w1, [Created ?k]))"
    by (simp add: createDiagnosis_target Let_def rec split: option.splits)
  with assms show ?thesis
    by (auto split: option.splits if_splits dest!: backfill_recording)
qed

lemma processEvent_live:
  "dd_live d (EventKey ev) now \<Longrightarrow> processEvent deps now ev d w = (None, d, w)"
  by (simp add: processEvent_def ShouldProcess_cases)

lemma processEvent_guard:
  "fst (snd (processEvent deps now ev d w)) =
     (if ev_Type ev = EventTypeWarning then snd (ShouldProcess (EventKey ev) now d) else d)"
  by (auto simp: processEvent_def split: prod.splits sum.splits bool.splits)

lemma watch_run_accepted:
  "subseq (map (\<lambda>(t, ev, l). (t, EventKey ev)) (filter (\<lambda>(t, ev, l). l \<noteq> []) (watch_run deps d w evs)))
     (accepted (map (\<lambda>(t, ev). (t, EventKey ev)) (filter (\<lambda>(t, ev). ev_Type ev = EventTypeWarning) evs))
        (fst (guard_run ShouldProcess d
           (map (\<lambda>(t, ev). (t, EventKey ev)) (filter (\<lambda>(t, ev). ev_Type ev = EventTypeWarning) evs)))))"
proof (induction evs arbitrary: d w)
  case (Cons c evs)
  obtain t ev where c: "c = (t, ev)" by (cases c)
  obtain e d1 w1 l where p: "processEvent (recording_deps deps) t ev d (w, []) = (e, d1, w1, l)"
    by (metis prod.collapse)
  have d1: "d1 = (if ev_Type ev = EventTypeWarning then snd (ShouldProcess (EventKey ev) t d) else d)"
    using processEvent_guard [of "recording_deps deps" t ev d "(w, [])"] by (simp add: p)
  have none: "l = []" if "ev_Type ev \<noteq> EventTypeWarning \<or> \<not> fst (ShouldProcess (EventKey ev) t d)"
    using that p by (auto simp: processEvent_def split: prod.splits bool.splits if_splits)
  show ?case
  proof (cases "ev_Type ev = EventTypeWarning")
    case False
    then show ?thesis using Cons.IH [of d w1] none d1 by (simp add: c p)
  next
    case True
    obtain b d2 where sp: "ShouldProcess (EventKey ev) t d = (b, d2)"
      by (cases "ShouldProcess (EventKey ev) t d")
    have "d1 = d2" "\<not> b \<Longrightarrow> l = []" using True none d1 by (simp_all add: sp)
    then show ?thesis using True Cons.IH [of d2 w1]
      by (cases b; cases "l = []") (simp_all add: c p sp case_prod_beta list_emb_Cons)
  qed
qed simp

section \<open>Properties\<close>

text \<open>
The name of a diagnosis is a function of the event, starts with ksd- and has at most 57
bytes, within the 63 of a Kubernetes name: a short UID is kept whole, and without a UID the
rest is exactly eight lower-case hexadecimal digits.
\<close>

theorem diagnosisName_shape:
  "(\<exists>rest. diagnosisName ev = ''ksd-'' @ rest \<and> length rest \<le> 53
      \<and> (ev_UID ev \<noteq> [] \<and> length (ev_UID ev) \<le> 53 \<longrightarrow> rest = ev_UID ev)
      \<and> (ev_UID ev = [] \<longrightarrow> length rest = 8 \<and> set rest \<subseteq> set ''0123456789abcdef''))
   \<and> (EventKey ev = EventKey ev' \<and> ev_UID ev = ev_UID ev' \<longrightarrow> diagnosisName ev = diagnosisName ev')"
proof -
  have "\<exists>rest. diagnosisName ev = ''ksd-'' @ rest \<and> length rest \<le> 53
      \<and> (ev_UID ev \<noteq> [] \<and> length (ev_UID ev) \<le> 53 \<longrightarrow> rest = ev_UID ev)
      \<and> (ev_UID ev = [] \<longrightarrow> length rest = 8 \<and> set rest \<subseteq> set ''0123456789abcdef'')"
  proof (cases "ev_UID ev = []")
    case True
    then show ?thesis
      using hex_fixed_lower [of 8] unfolding lower_hex_def
      by (simp only: diagnosisName_def simp_thms if_False append_same_eq hex_fixed_length) auto
  next
    case False
    then show ?thesis by (simp add: diagnosisName_def Let_def)
  qed
  moreover have "EventKey ev = EventKey ev' \<and> ev_UID ev = ev_UID ev' \<longrightarrow> diagnosisName ev = diagnosisName ev'"
    by (simp add: diagnosisName_def EventKey_def)
  ultimately show ?thesis by blast
qed

theorem diagnosisName_shape_witness:
  "\<exists>rest. diagnosisName \<lparr>ev_Name = ''e'', ev_Namespace = ''prod'', ev_UID = ''abc'', ev_Type = ''Warning'',
      ev_InvolvedObject = \<lparr>or_Kind = ''Pod'', or_Namespace = ''prod'', or_Name = ''web''\<rparr>, ev_Reason = ''BackOff'',
      ev_Message = [], ev_Count = 1, ev_FirstTimestamp = 0, ev_LastTimestamp = 0\<rparr> = ''ksd-'' @ rest
     \<and> rest = ''abc''"
  using diagnosisName_shape [of "\<lparr>ev_Name = ''e'', ev_Namespace = ''prod'', ev_UID = ''abc'', ev_Type = ''Warning'',
      ev_InvolvedObject = \<lparr>or_Kind = ''Pod'', or_Namespace = ''prod'', or_Name = ''web''\<rparr>, ev_Reason = ''BackOff'',
      ev_Message = [], ev_Count = 1, ev_FirstTimestamp = 0, ev_LastTimestamp = 0\<rparr>"]
  by auto

text \<open>
Backfilling an existing diagnosis only fills what is missing: a field that has a value
keeps it, an empty one takes the event's or the policy's value; it reports a change exactly
when the spec changes, and repeating it reports none, so a repeated event makes no update.
\<close>

theorem backfill_only_fills_missing:
  "fst (backfill_spec ev p s) = s\<lparr>
     spec_InvolvedObjectName := fill (or_Name (ev_InvolvedObject ev)) (spec_InvolvedObjectName s),
     spec_InvolvedObjectNamespace := fill (or_Namespace (ev_InvolvedObject ev)) (spec_InvolvedObjectNamespace s),
     spec_InvolvedObjectKind := fill (or_Kind (ev_InvolvedObject ev)) (spec_InvolvedObjectKind s),
     spec_Reason := fill (ev_Reason ev) (spec_Reason s), spec_Message := fill (ev_Message ev) (spec_Message s),
     spec_EventUID := fill (ev_UID ev) (spec_EventUID s), spec_PolicyRef := fill (rp_PolicyRef p) (spec_PolicyRef s),
     spec_LLMProvider := fill (rp_LLMProvider p) (spec_LLMProvider s),
     spec_LLMModel := fill (rp_LLMModel p) (spec_LLMModel s),
     spec_LLMBaseURL := fill (rp_LLMBaseURL p) (spec_LLMBaseURL s),
     spec_Count := fill_count (ev_Count ev) (spec_Count s),
     spec_FirstTimestamp := fill_ptr (time_ptr (ev_FirstTimestamp ev)) (spec_FirstTimestamp s),
     spec_LastTimestamp := fill_ptr (time_ptr (ev_LastTimestamp ev)) (spec_LastTimestamp s),
     spec_MaxIterations := fill_ptr (rp_MaxIterations p) (spec_MaxIterations s),
     spec_Redact := fill_ptr (rp_Redact p) (spec_Redact s)\<rparr>
   \<and> (snd (backfill_spec ev p s) \<longleftrightarrow> fst (backfill_spec ev p s) \<noteq> s)
   \<and> backfill_spec ev p (fst (backfill_spec ev p s)) = (fst (backfill_spec ev p s), False)"
proof -
  have "snd (backfill_spec ev p s) \<longleftrightarrow> fst (backfill_spec ev p s) \<noteq> s"
    using backfill_idle [of ev p s] backfill_again [of ev p s] by (metis snd_conv)
  then show ?thesis using backfill_again [of ev p s] backfill_fst [of ev p s] by blast
qed

text \<open>
C9: The watcher asks for a write exactly when the event is a Warning event, its key is not
live in the guard, the policy resolves and is enabled, and its reason is allowed. It then asks
for exactly one creation, of the diagnosis built from the event and the policy in the
operator's namespace (or the event's when there is none), followed at most by one update that
fills missing fields of an existing diagnosis and changes nothing else of it.
\<close>

theorem processEvent_writes:
  assumes "processEvent (recording_deps deps) now ev d (w, []) = (e, d', w', ws)"
  shows "(ws \<noteq> [] \<longleftrightarrow> ev_Type ev = EventTypeWarning \<and> \<not> dd_live d (EventKey ev) now
            \<and> (\<exists>policy w1. ResolvePolicy (dc_policies (ewd_Client deps)) (ev_Namespace ev)
                  (ewd_OperatorNamespace deps) (ewd_Cfg deps) w = (Inr policy, w1)
                \<and> rp_Enabled policy \<and> reasonAllowed (ev_Reason ev) (rp_EventReasons policy)))
     \<and> (ws \<noteq> [] \<longrightarrow> (\<exists>policy w1 rest. ResolvePolicy (dc_policies (ewd_Client deps)) (ev_Namespace ev)
                  (ewd_OperatorNamespace deps) (ewd_Cfg deps) w = (Inr policy, w1)
          \<and> ws = Created (new_diagnosis (target_namespace deps ev) ev policy) # rest
          \<and> (rest = [] \<or> (\<exists>k. rest = [Updated (k\<lparr>kd_Spec := fst (backfill_spec ev policy (kd_Spec k))\<rparr>)]
                \<and> snd (backfill_spec ev policy (kd_Spec k))))))"
proof -
  obtain r w1 where rp: "ResolvePolicy (dc_policies (ewd_Client deps)) (ev_Namespace ev)
      (ewd_OperatorNamespace deps) (ewd_Cfg deps) w = (r, w1)"
    by (metis prod.collapse)
  then have rr: "ResolvePolicy (dc_policies (recording (ewd_Client deps))) (ev_Namespace ev)
      (ewd_OperatorNamespace deps) (ewd_Cfg deps) (w, []) = (r, w1, [])"
    by (simp add: ResolvePolicy_recording)
  show ?thesis
  proof (cases "ev_Type ev = EventTypeWarning \<and> \<not> dd_live d (EventKey ev) now
      \<and> (\<exists>policy. r = Inr policy \<and> rp_Enabled policy \<and> reasonAllowed (ev_Reason ev) (rp_EventReasons policy))")
    case True
    then obtain policy where pol: "r = Inr policy" by blast
    have "createDiagnosis (recording_deps deps) ev policy (w1, []) = (e, w', ws)"
      using assms True by (auto simp: processEvent_def ShouldProcess_cases rr pol split: prod.splits)
    from createDiagnosis_recording [OF this] True show ?thesis by (auto simp: rp pol)
  next
    case False
    have "ws = []"
      using assms False
      by (auto simp: processEvent_def ShouldProcess_cases rr split: prod.splits sum.splits if_splits)
    with False show ?thesis by (auto simp: rp)
  qed
qed

definition sample_event :: Event where
  "sample_event = \<lparr>ev_Name = ''e'', ev_Namespace = ''prod'', ev_UID = ''abc'', ev_Type = ''Warning'',
      ev_InvolvedObject = \<lparr>or_Kind = ''Pod'', or_Namespace = ''prod'', or_Name = ''web''\<rparr>, ev_Reason = ''BackOff'',
      ev_Message = [], ev_Count = 1, ev_FirstTimestamp = 0, ev_LastTimestamp = 0\<rparr>"

definition sample_deps :: "unit EventWatcherDeps" where
  "sample_deps = \<lparr>ewd_Client = \<lparr>dc_GetEvent = (\<lambda>k w. (Inr sample_event, w)),
      dc_Get = (\<lambda>ns n w. (Inl (Err NotFound ''gone''), w)), dc_Create = (\<lambda>k w. (None, w)),
      dc_Update = (\<lambda>k w. (None, w)), dc_policies = sample_policies\<rparr>,
    ewd_OperatorNamespace = [], ewd_Cfg = default_config\<rparr>"

lemma sample_processEvent:
  "processEvent (recording_deps sample_deps) 7 sample_event (NewDeduper 10) ((), []) =
     (None, snd (ShouldProcess ''abc'' 7 (NewDeduper 10)), (),
      [Created (new_diagnosis ''prod'' sample_event (fromConfig default_config))])"
  by (simp add: processEvent_def ShouldProcess_def sample_event_def NewDeduper_def EventKey_def EventTypeWarning_def
      recording_deps_def recording_def sample_deps_def ResolvePolicy_def findAnyPolicy_def sample_policies_def
      createDiagnosis_def Let_def) (simp add: fromConfig_def default_config_def reasonAllowed_def)

theorem processEvent_writes_witness:
  "\<exists>policy w1. ResolvePolicy (dc_policies (ewd_Client sample_deps)) ''prod'' [] default_config () = (Inr policy, w1)
     \<and> rp_Enabled policy"
  using processEvent_writes [OF sample_processEvent] by (auto simp: sample_deps_def sample_event_def)

text \<open>
C10: Over any sequence of events with non-decreasing clock readings, two events with the same
key for which the watcher asks for a creation are at least the TTL apart, whatever the API
server answers in between.
\<close>

theorem watch_run_creates_spaced:
  assumes "sorted (map fst evs)"
  shows "sorted_wrt (\<lambda>(t, ev, l) (t', ev', l'). EventKey ev = EventKey ev' \<longrightarrow>
             t + (if ttl \<le> 0 then Hour else ttl) \<le> t')
           (filter (\<lambda>(t, ev, l). l \<noteq> []) (watch_run deps (NewDeduper ttl) w evs))"
proof -
  let ?calls = "map (\<lambda>(t, ev). (t, EventKey ev)) (filter (\<lambda>(t, ev). ev_Type ev = EventTypeWarning) evs)"
  define T where "T = (if ttl \<le> 0 then Hour else ttl)"
  let ?P = "\<lambda>c c'. snd c = snd c' \<longrightarrow> fst c + T \<le> fst c'"
  have "map fst ?calls = map fst (filter (\<lambda>(t, ev). ev_Type ev = EventTypeWarning) evs)"
    by (simp add: case_prod_beta)
  then have "sorted (map fst ?calls)"
    using assms by (simp only: sorted_filter)
  then have "sorted_wrt ?P (accepted ?calls (fst (guard_run ShouldProcess (NewDeduper ttl) ?calls)))"
    by (simp only: dedup_run_spec spec_run_spaced T_def)
  from subseq_sorted_wrt [OF watch_run_accepted this]
  have "sorted_wrt (\<lambda>(t, ev, l) (t', ev', l'). EventKey ev = EventKey ev' \<longrightarrow> t + T \<le> t')
      (filter (\<lambda>(t, ev, l). l \<noteq> []) (watch_run deps (NewDeduper ttl) w evs))"
    unfolding sorted_wrt_map by (rule sorted_wrt_mono_rel [rotated]) auto
  then show ?thesis unfolding T_def .
qed

theorem watch_run_creates_spaced_witness:
  "sorted_wrt (\<lambda>(t, ev, l) (t', ev', l'). EventKey ev = EventKey ev' \<longrightarrow> t + 10 \<le> t')
     (filter (\<lambda>(t, ev, l). l \<noteq> []) (watch_run sample_deps (NewDeduper 10) ()
        [(7, sample_event), (8, sample_event), (17, sample_event)]))"
  using watch_run_creates_spaced [of "[(7, sample_event), (8, sample_event), (17, sample_event)]" 10 sample_deps "()"]
  by (simp del: watch_run.simps)

text \<open>
C11: An event is marked as seen before its diagnosis exists. When processing fails, because the
policy lookup or the API write fails, the error is returned and the work queue retries the
event, but every retry within the TTL is dropped without any API call and reports success.
\<close>

theorem processEvent_retry_dropped:
  assumes "processEvent deps now ev d w = (Some e, d', w')" "now \<le> t" "t < now + dd_ttl d"
  shows "processEvent deps t ev d' w'' = (None, d', w'')"
proof -
  have "ev_Type ev = EventTypeWarning" "\<not> dd_live d (EventKey ev) now"
    using assms(1) processEvent_live [of d ev now deps w] by (auto simp: processEvent_def split: if_splits)
  then have "d' = snd (ShouldProcess (EventKey ev) now d)" "fst (ShouldProcess (EventKey ev) now d)"
    using processEvent_guard [of deps now ev d w] assms(1) by (auto simp: ShouldProcess_cases)
  then have "dd_live d' (EventKey ev) t"
    using assms(3) \<open>\<not> dd_live d (EventKey ev) now\<close> by (simp add: ShouldProcess_cases dd_live_def)
  then show ?thesis by (rule processEvent_live)
qed

definition failing_deps :: "unit EventWatcherDeps" where
  "failing_deps = sample_deps\<lparr>ewd_Client := (ewd_Client sample_deps)\<lparr>dc_Create := (\<lambda>k w. (Some (errorf ''timeout''), w))\<rparr>\<rparr>"

theorem processEvent_retry_dropped_witness:
  "\<exists>d'. processEvent failing_deps 7 sample_event (NewDeduper 10) () = (Some (errorf ''timeout''), d', ())
      \<and> processEvent failing_deps 8 sample_event d' () = (None, d', ())"
proof -
  have "processEvent failing_deps 7 sample_event (NewDeduper 10) ()
      = (Some (errorf ''timeout''), snd (ShouldProcess ''abc'' 7 (NewDeduper 10)), ())"
    by (simp add: processEvent_def ShouldProcess_def sample_event_def NewDeduper_def EventKey_def EventTypeWarning_def
      failing_deps_def sample_deps_def ResolvePolicy_def findAnyPolicy_def sample_policies_def
      createDiagnosis_def Let_def IsAlreadyExists_def) (simp add: fromConfig_def default_config_def reasonAllowed_def)
  with processEvent_retry_dropped [OF this, of 8 "()"] show ?thesis
    by (simp add: NewDeduper_def)
qed

end
