(* ===== verification/Notify.thy ===== *)
theory Notify
  imports Go_Json
begin

text \<open>
  Notifications, \<^verbatim>\<open>src/internal/notify\<close>: the rendering of a finished diagnosis as an email,
  a Slack message, a Jira issue and a Linear issue, the HTTP call of each channel, and the
  fan-out to several channels. The HTTP client is a parameter: building a request may fail on
  its URL, sending it may fail, and a response has a status and a body.
\<close>

section \<open>HTTP\<close>

record http_request =
  hq_Method :: string
  hq_URL :: string
  hq_Header :: "(string \<times> string) list"
  hq_BasicAuth :: "(string \<times> string) option"
  hq_Body :: string

record http_response =
  hs_StatusCode :: int
  hs_Body :: string

type_synonym 'w http_client = "http_request \<Rightarrow> 'w \<Rightarrow> (err + http_response) \<times> 'w"

text \<open>What the standard library does with a URL, and the client used when none is set.\<close>

record 'w http_env =
  he_NewRequest :: "string \<Rightarrow> err option"
  he_DefaultClient :: "'w http_client"

record Notification =
  nt_Phase :: string
  nt_Reason :: string
  nt_Namespace :: string
  nt_Object :: string
  nt_Summary :: string
  nt_RootCause :: string
  nt_Remediation :: "string list"

type_synonym 'w Notifier = "Notification \<Rightarrow> 'w \<Rightarrow> err option \<times> 'w"

section \<open>Rendering\<close>

definition Subject :: "string \<Rightarrow> string \<Rightarrow> string \<Rightarrow> string \<Rightarrow> string" where
  "Subject phase reason namespace object =
     ''[kscribe] '' @ phase @ '': '' @ reason @ '' '' @ namespace @ ''/'' @ object"

text \<open>\<^verbatim>\<open>html.EscapeString\<close>.\<close>

definition html_escape_char :: "char \<Rightarrow> string" where
  "html_escape_char c =
     (if c = CHR ''&'' then ''&amp;'' else if c = CHR 0x27 then ''&#39;''
      else if c = CHR ''<'' then ''&lt;'' else if c = CHR ''>'' then ''&gt;''
      else if c = CHR 0x22 then ''&#34;'' else [c])"

definition html_EscapeString :: "string \<Rightarrow> string" where
  "html_EscapeString s = concat (map html_escape_char s)"

definition attr :: "string \<Rightarrow> string \<Rightarrow> string" where
  "attr name v = '' '' @ name @ ''='' @ dquote @ v @ dquote"

definition HTML ::
  "string \<Rightarrow> string \<Rightarrow> string \<Rightarrow> string \<Rightarrow> string \<Rightarrow> string \<Rightarrow> string list \<Rightarrow> string" where
  "HTML phase reason namespace object summary rootCause remediation =
     (let esc = html_EscapeString in
      ''<div'' @ attr ''style'' ''font-family:system-ui,sans-serif;max-width:640px'' @ ''>'' @
      ''<h2'' @ attr ''style'' ''margin:0 0 4px'' @ ''>'' @ esc reason @ '' '' @ em_dash @ '' '' @ esc phase @ ''</h2>'' @
      ''<p'' @ attr ''style'' ''color:#555;margin:0 0 16px'' @ ''>'' @ esc namespace @ ''/'' @ esc object @ ''</p>'' @
      (if summary \<noteq> [] then ''<p><strong>Summary:</strong> '' @ esc summary @ ''</p>'' else []) @
      (if rootCause \<noteq> [] then ''<p><strong>Root cause:</strong> '' @ esc rootCause @ ''</p>'' else []) @
      (if length remediation > 0 then
         ''<p><strong>Remediation:</strong></p><ol>'' @
         concat (map (\<lambda>step. ''<li>'' @ esc step @ ''</li>'') remediation) @ ''</ol>''
       else []) @
      ''<p'' @ attr ''style'' ''color:#888;font-size:12px;margin-top:24px'' @ ''>Sent by kscribe '' @ em_dash @
      '' see the dashboard for redacted context, trace, and chat.</p></div>'')"

text \<open>The numbered lines \<^verbatim>\<open>%d. %s\<close> of the remediation steps, from one.\<close>

fun numbered :: "(string \<Rightarrow> string) \<Rightarrow> nat \<Rightarrow> string list \<Rightarrow> string" where
  "numbered esc i [] = []"
| "numbered esc i (step # steps) = nat_dec (i + 1) @ ''. '' @ esc step @ nl @ numbered esc (Suc i) steps"

definition plainBody :: "Notification \<Rightarrow> string" where
  "plainBody n =
     (if nt_Summary n \<noteq> [] then ''Summary: '' @ nt_Summary n @ nl else []) @
     (if nt_RootCause n \<noteq> [] then ''Root cause: '' @ nt_RootCause n @ nl else []) @
     numbered id 0 (nt_Remediation n)"

text \<open>\<^verbatim>\<open>slackEscape\<close>: a replacer of single bytes.\<close>

definition slack_escape_char :: "char \<Rightarrow> string" where
  "slack_escape_char c =
     (if c = CHR ''&'' then ''&amp;'' else if c = CHR ''<'' then ''&lt;''
      else if c = CHR ''>'' then ''&gt;'' else [c])"

definition slackEscape :: "string \<Rightarrow> string" where
  "slackEscape s = concat (map slack_escape_char s)"

definition slack_text :: "Notification \<Rightarrow> string" where
  "slack_text n =
     (let esc = slackEscape in
      ''*[kscribe] '' @ esc (nt_Phase n) @ '': '' @ esc (nt_Reason n) @ '' '' @ esc (nt_Namespace n) @ ''/'' @
        esc (nt_Object n) @ ''*'' @ nl @
      (if nt_Summary n \<noteq> [] then ''*Summary:* '' @ esc (nt_Summary n) @ nl else []) @
      (if nt_RootCause n \<noteq> [] then ''*Root cause:* '' @ esc (nt_RootCause n) @ nl else []) @
      numbered esc 0 (nt_Remediation n))"

section \<open>Channels\<close>

text \<open>
  The tail of every channel: build the request, send it, and turn a status of 300 or more into
  an error that carries at most 512 bytes of the body. Marshalling the request bodies, which
  consist of strings, cannot fail.
\<close>

definition post ::
  "'w http_env \<Rightarrow> 'w http_client option \<Rightarrow> http_request \<Rightarrow> string \<Rightarrow> 'w \<Rightarrow> (err + http_response) \<times> 'w" where
  "post he client req doing w =
     (case he_NewRequest he (hq_URL req) of
        Some e \<Rightarrow> (Inl (errorf_w ''build request: '' e), w)
      | None \<Rightarrow>
          (let hc = (case client of None \<Rightarrow> he_DefaultClient he | Some c \<Rightarrow> c)
           in case hc req w of
                (Inl e, w1) \<Rightarrow> (Inl (errorf_w doing e), w1)
              | (Inr resp, w1) \<Rightarrow> (Inr resp, w1)))"

definition status_error :: "string \<Rightarrow> http_response \<Rightarrow> err" where
  "status_error who resp =
     errorf (who @ '' error '' @ int_dec (hs_StatusCode resp) @ '': '' @ take 512 (hs_Body resp))"

definition check_status ::
  "string \<Rightarrow> (err + http_response) \<times> 'w \<Rightarrow> err option \<times> 'w" where
  "check_status who rw =
     (case rw of
        (Inl e, w) \<Rightarrow> (Some e, w)
      | (Inr resp, w) \<Rightarrow>
          if hs_StatusCode resp \<ge> 300 then (Some (status_error who resp), w) else (None, w))"

definition json_header :: "string \<times> string" where
  "json_header = (''Content-Type'', ''application/json'')"

record 'w Resend =
  re_APIKey :: string
  re_From :: string
  re_To :: "string list"
  re_BaseURL :: string
  re_HTTPClient :: "'w http_client option"

definition resend_request :: "'w Resend \<Rightarrow> string \<Rightarrow> string \<Rightarrow> http_request" where
  "resend_request r subject html =
     \<lparr>hq_Method = ''POST'',
      hq_URL = (if re_BaseURL r = [] then ''https://api.resend.com'' else re_BaseURL r) @ ''/emails'',
      hq_Header = [json_header, (''Authorization'', ''Bearer '' @ re_APIKey r)], hq_BasicAuth = None,
      hq_Body = json_print (JObj [(''from'', JStr (re_From r)), (''to'', enc_strings (re_To r)),
        (''subject'', JStr subject), (''html'', JStr html)])\<rparr>"

definition Send :: "'w http_env \<Rightarrow> 'w Resend \<Rightarrow> string \<Rightarrow> string \<Rightarrow> 'w \<Rightarrow> err option \<times> 'w" where
  "Send he r subject html w =
     check_status ''resend'' (post he (re_HTTPClient r) (resend_request r subject html) ''send email: '' w)"

definition resend_Notify :: "'w http_env \<Rightarrow> 'w Resend \<Rightarrow> 'w Notifier" where
  "resend_Notify he r n w =
     (let subject = Subject (nt_Phase n) (nt_Reason n) (nt_Namespace n) (nt_Object n);
          html = HTML (nt_Phase n) (nt_Reason n) (nt_Namespace n) (nt_Object n) (nt_Summary n)
                   (nt_RootCause n) (nt_Remediation n)
      in Send he r subject html w)"

record 'w Slack =
  sk_WebhookURL :: string
  sk_HTTPClient :: "'w http_client option"

definition slack_Notify :: "'w http_env \<Rightarrow> 'w Slack \<Rightarrow> 'w Notifier" where
  "slack_Notify he s n w =
     check_status ''slack'' (post he (sk_HTTPClient s)
       \<lparr>hq_Method = ''POST'', hq_URL = sk_WebhookURL s, hq_Header = [json_header], hq_BasicAuth = None,
        hq_Body = json_print (JObj [(''text'', JStr (slack_text n))])\<rparr> ''post slack webhook: '' w)"

record 'w Jira =
  ji_BaseURL :: string
  ji_Email :: string
  ji_APIToken :: string
  ji_ProjectKey :: string
  ji_HTTPClient :: "'w http_client option"

text \<open>The request body: the issue fields with a one-paragraph document.\<close>

definition jira_issue :: "'w Jira \<Rightarrow> Notification \<Rightarrow> json" where
  "jira_issue j n = JObj [(''fields'', JObj
     [(''project'', JObj [(''key'', JStr (ji_ProjectKey j))]),
      (''summary'', JStr (Subject (nt_Phase n) (nt_Reason n) (nt_Namespace n) (nt_Object n))),
      (''description'', JObj [(''type'', JStr ''doc''), (''version'', JNum ''1''),
        (''content'', JArr [JObj [(''type'', JStr ''paragraph''),
          (''content'', JArr [JObj [(''type'', JStr ''text''), (''text'', JStr (plainBody n))]])]])]),
      (''issuetype'', JObj [(''name'', JStr ''Task'')])])]"

definition jira_Notify :: "'w http_env \<Rightarrow> 'w Jira \<Rightarrow> 'w Notifier" where
  "jira_Notify he j n w =
     check_status ''jira'' (post he (ji_HTTPClient j)
       \<lparr>hq_Method = ''POST'', hq_URL = ji_BaseURL j @ ''/rest/api/3/issue'', hq_Header = [json_header],
        hq_BasicAuth = Some (ji_Email j, ji_APIToken j), hq_Body = json_print (jira_issue j n)\<rparr>
       ''create jira issue: '' w)"

definition linearAPIURL :: string where
  "linearAPIURL = ''https://api.linear.app/graphql''"

definition linearIssueCreateMutation :: string where
  "linearIssueCreateMutation =
     ''mutation IssueCreate($input: IssueCreateInput!) { issueCreate(input: $input) { success } }''"

record 'w Linear =
  li_APIKey :: string
  li_TeamID :: string
  li_BaseURL :: string
  li_HTTPClient :: "'w http_client option"

definition linear_body :: "'w Linear \<Rightarrow> Notification \<Rightarrow> json" where
  "linear_body l n = JObj [(''query'', JStr linearIssueCreateMutation),
     (''variables'', JObj [(''input'', JObj
       [(''teamId'', JStr (li_TeamID l)),
        (''title'', JStr (Subject (nt_Phase n) (nt_Reason n) (nt_Namespace n) (nt_Object n))),
        (''description'', JStr (plainBody n))])])]"

text \<open>
  The error envelope: a struct with the list of errors, each a struct with its message. A body
  that does not decode is no error.
\<close>

definition linear_error_field :: "string \<Rightarrow> json \<Rightarrow> string \<Rightarrow> string option" where
  "linear_error_field k v m = (if EqualFold k ''message'' then dec_string v m else Some m)"

definition linear_field :: "string \<Rightarrow> json \<Rightarrow> string list \<Rightarrow> string list option" where
  "linear_field k v es =
     (if EqualFold k ''errors'' then dec_list [] (decode_struct linear_error_field) v es else Some es)"

definition linear_errors :: "string \<Rightarrow> string list" where
  "linear_errors rb =
     (case Option.bind (json_parse rb) (\<lambda>j. decode_struct linear_field j []) of
        None \<Rightarrow> [] | Some es \<Rightarrow> es)"

definition linear_Notify :: "'w http_env \<Rightarrow> 'w Linear \<Rightarrow> 'w Notifier" where
  "linear_Notify he l n w =
     (case post he (li_HTTPClient l)
        \<lparr>hq_Method = ''POST'', hq_URL = (if li_BaseURL l = [] then linearAPIURL else li_BaseURL l),
         hq_Header = [json_header, (''Authorization'', li_APIKey l)], hq_BasicAuth = None,
         hq_Body = json_print (linear_body l n)\<rparr> ''create linear issue: '' w of
        (Inl e, w1) \<Rightarrow> (Some e, w1)
      | (Inr resp, w1) \<Rightarrow>
          (let rb = take 8192 (hs_Body resp);
               truncated = (if length rb > 512 then take 512 rb else rb)
           in if hs_StatusCode resp \<ge> 300 then
                (Some (errorf (''linear error '' @ int_dec (hs_StatusCode resp) @ '': '' @ truncated)), w1)
              else if length (linear_errors rb) > 0 then
                (Some (errorf (''linear graphql error: '' @ truncated)), w1)
              else (None, w1)))"

section \<open>Fan-out\<close>

text \<open>
  \<^verbatim>\<open>errors.Join\<close>: no error for an empty list, otherwise the texts on a line each.
\<close>

definition errors_Join :: "err list \<Rightarrow> err option" where
  "errors_Join es = (if es = [] then None else Some (Err
     (case filter (\<lambda>e. class_of e \<noteq> OtherClass) es of [] \<Rightarrow> OtherClass | e # _ \<Rightarrow> class_of e)
     (join_sep nl (map msg_of es))))"

fun notify_all :: "'w Notifier list \<Rightarrow> Notification \<Rightarrow> err list \<Rightarrow> 'w \<Rightarrow> err list \<times> 'w" where
  "notify_all [] n errs w = (errs, w)"
| "notify_all (nf # nfs) n errs w =
     (case nf n w of
        (Some e, w1) \<Rightarrow> notify_all nfs n (errs @ [e]) w1
      | (None, w1) \<Rightarrow> notify_all nfs n errs w1)"

definition Multi :: "'w Notifier list \<Rightarrow> 'w Notifier" where
  "Multi notifiers n w = (case notify_all notifiers n [] w of (errs, w1) \<Rightarrow> (errors_Join errs, w1))"

section \<open>Lemmas\<close>

text \<open>The characters that open or close markup, and what an escaper leaves of them.\<close>

definition markup :: "char \<Rightarrow> bool" where
  "markup c \<longleftrightarrow> c \<in> {CHR ''<'', CHR ''>'', CHR 0x22, CHR 0x27}"

lemma html_escape_no_markup [simp]: "filter markup (html_EscapeString s) = []"
  by (induction s) (auto simp: html_EscapeString_def html_escape_char_def markup_def)

lemma slack_escape_no_angle: "set (slackEscape s) \<inter> {CHR ''<'', CHR ''>''} = {}"
  by (induction s) (auto simp: slackEscape_def slack_escape_char_def)

text \<open>A reader of the five entities, the inverse of the escaper.\<close>

fun html_unescape :: "string \<Rightarrow> string" where
  "html_unescape [] = []"
| "html_unescape (c # s) =
     (case s of
        a # b # d # e # t \<Rightarrow>
          if c = CHR ''&'' \<and> [a, b, d, e] = ''amp;'' then CHR ''&'' # html_unescape t
          else if c = CHR ''&'' \<and> [a, b, d, e] = ''#39;'' then CHR 0x27 # html_unescape t
          else if c = CHR ''&'' \<and> [a, b, d, e] = ''#34;'' then CHR 0x22 # html_unescape t
          else if c = CHR ''&'' \<and> [a, b, d] = ''lt;'' then CHR ''<'' # html_unescape (e # t)
          else if c = CHR ''&'' \<and> [a, b, d] = ''gt;'' then CHR ''>'' # html_unescape (e # t)
          else c # html_unescape s
      | [a, b, d] \<Rightarrow>
          if c = CHR ''&'' \<and> [a, b, d] = ''lt;'' then ''<''
          else if c = CHR ''&'' \<and> [a, b, d] = ''gt;'' then ''>''
          else c # html_unescape s
      | _ \<Rightarrow> c # html_unescape s)"

declare html_unescape.simps [simp del]

lemma html_unescape_plain: "c \<noteq> CHR ''&'' \<Longrightarrow> html_unescape (c # s) = c # html_unescape s"
  by (subst html_unescape.simps) (simp split: list.splits)

lemma html_unescape_entities:
  "html_unescape (''&amp;'' @ s) = CHR ''&'' # html_unescape s"
  "html_unescape (''&#39;'' @ s) = CHR 0x27 # html_unescape s"
  "html_unescape (''&#34;'' @ s) = CHR 0x22 # html_unescape s"
  "html_unescape (''&lt;'' @ s) = CHR ''<'' # html_unescape s"
  "html_unescape (''&gt;'' @ s) = CHR ''>'' # html_unescape s"
  by (cases s; simp add: html_unescape.simps(1) html_unescape.simps(2) [of "CHR ''&''"])+

lemma html_unescape_char: "html_unescape (html_escape_char c @ s) = c # html_unescape s"
proof -
  consider "c = CHR ''&''" | "c = CHR 0x27" | "c = CHR ''<''" | "c = CHR ''>''" | "c = CHR 0x22"
    | "c \<notin> {CHR ''&'', CHR 0x27, CHR ''<'', CHR ''>'', CHR 0x22}" by blast
  then show ?thesis
    by cases (use html_unescape_entities [of s] in \<open>simp_all add: html_escape_char_def html_unescape_plain\<close>)
qed

lemma notify_all_errors:
  "fst (notify_all nfs n errs w) = errs @ fst (notify_all nfs n [] w)"
  "snd (notify_all nfs n errs w) = snd (notify_all nfs n [] w)"
proof (induction nfs arbitrary: errs w)
  case (Cons nf nfs)
  {
    case 1
    show ?case by (cases "nf n w"; cases "fst (nf n w)") (simp_all add: Cons(1) [of errs] Cons(1) [of "errs @ _"] Cons(1) [of "[_]"])
  next
    case 2
    show ?case by (cases "nf n w"; cases "fst (nf n w)") (simp_all add: Cons(2) [of errs] Cons(2) [of "errs @ _"] Cons(2) [of "[_]"])
  }
qed simp_all

section \<open>Properties\<close>

text \<open>
C14: Untrusted text cannot add markup to a notification email. The angle brackets and quotes of
the body are those of a body with blank texts, in the same order: they depend only on which
sections are present and on the number of steps. Escaping loses nothing: reading the five
entities back gives the original text.
\<close>

theorem HTML_markup_fixed:
  "filter markup (HTML phase reason ns obj summary cause steps) =
     filter markup (HTML [] [] [] [] (if summary = [] then [] else '' '') (if cause = [] then [] else '' '')
       (map (\<lambda>_. []) steps))
   \<and> html_unescape (html_EscapeString s) = s"
proof -
  have steps: "filter markup (concat (map (\<lambda>step. ''<li>'' @ html_EscapeString step @ ''</li>'') steps)) =
     filter markup (concat (map (\<lambda>step. ''<li>'' @ html_EscapeString step @ ''</li>'') (map (\<lambda>_. []) steps)))"
    by (induction steps) simp_all
  have "html_unescape (html_EscapeString s) = s"
    by (induction s) (simp_all add: html_EscapeString_def html_unescape_char html_unescape.simps(1))
  then show ?thesis unfolding HTML_def Let_def filter_append html_escape_no_markup steps
    by (simp only: if_distrib [of "filter markup"] filter_append html_escape_no_markup steps) simp
qed

text \<open>
Several channels are all tried in order, each exactly once in the world the previous one
left; the fan-out succeeds iff every channel does, and otherwise its error has one line per
failed channel.
\<close>

theorem Multi_attempts_all:
  "Multi [] n w = (None, w)
   \<and> snd (Multi (nf # nfs) n w) = snd (Multi nfs n (snd (nf n w)))
   \<and> (fst (Multi (nf # nfs) n w) = None \<longleftrightarrow> fst (nf n w) = None \<and> fst (Multi nfs n (snd (nf n w))) = None)
   \<and> map_option msg_of (fst (Multi (nf # nfs) n w)) =
       (case (fst (nf n w), fst (Multi nfs n (snd (nf n w)))) of
          (None, r) \<Rightarrow> map_option msg_of r
        | (Some e, None) \<Rightarrow> Some (msg_of e)
        | (Some e, Some e') \<Rightarrow> Some (msg_of e @ nl @ msg_of e'))"
proof -
  obtain r w1 where r: "nf n w = (r, w1)" by force
  obtain es w2 where es: "notify_all nfs n [] w1 = (es, w2)" by force
  have "notify_all nfs n [e] w1 = ([e] @ es, w2)" for e
    using notify_all_errors [of nfs n "[e]" w1] by (simp add: es prod_eq_iff)
  then show ?thesis
    by (cases r; cases es) (simp_all add: Multi_def r es errors_Join_def)
qed

text \<open>
A channel reports success exactly when its request was built and sent and answered with a
status below 300, for Linear also with no GraphQL error in the answer; an answered failure
carries at most 512 bytes of the answer, and no angle bracket of a diagnosis reaches Slack
unescaped.
\<close>

theorem notify_outcome:
  "(fst (slack_Notify he s n w) = None \<longleftrightarrow>
      (\<exists>resp w1. post he (sk_HTTPClient s) \<lparr>hq_Method = ''POST'', hq_URL = sk_WebhookURL s,
          hq_Header = [json_header], hq_BasicAuth = None,
          hq_Body = json_print (JObj [(''text'', JStr (slack_text n))])\<rparr> ''post slack webhook: '' w
        = (Inr resp, w1) \<and> hs_StatusCode resp < 300))
   \<and> (fst (linear_Notify he l n w) = None \<longleftrightarrow>
      (\<exists>resp w1. post he (li_HTTPClient l) \<lparr>hq_Method = ''POST'',
          hq_URL = (if li_BaseURL l = [] then linearAPIURL else li_BaseURL l),
          hq_Header = [json_header, (''Authorization'', li_APIKey l)], hq_BasicAuth = None,
          hq_Body = json_print (linear_body l n)\<rparr> ''create linear issue: '' w
        = (Inr resp, w1) \<and> hs_StatusCode resp < 300 \<and> linear_errors (take 8192 (hs_Body resp)) = []))
   \<and> length (msg_of (status_error who resp)) \<le> length who + length (int_dec (hs_StatusCode resp)) + 521
   \<and> set (slackEscape t) \<inter> {CHR ''<'', CHR ''>''} = {}"
proof (intro conjI)
  show "length (msg_of (status_error who resp)) \<le> length who + length (int_dec (hs_StatusCode resp)) + 521"
    by (simp add: status_error_def errorf_def)
qed (auto simp: slack_escape_no_angle slack_Notify_def linear_Notify_def check_status_def Let_def
    split: prod.splits sum.splits if_splits)

end
