(* ===== verification/Reconciler.thy ===== *)
theory Reconciler
  imports Store Agent Context_Builder Rate_Limit Notify
begin

text \<open>
  The diagnosis reconciler, \<^verbatim>\<open>src/internal/controller/kscribediagnosis_controller.go\<close>. It
  drives a diagnosis object from Pending over Diagnosing to Done, Partial or Failed. What it
  calls is an interface on a world of type \<^typ>\<open>'w\<close>: the API client, the store, the language
  model, the cluster, the clock, the random source, goroutines and metrics. The rate limiter is
  the reconciler's own state. The handler is split where the source has its stages; each
  stage continues with the next.
\<close>

section \<open>Interfaces\<close>

text \<open>The payload of \<^verbatim>\<open>InsertDiagnosis\<close> and what \<^verbatim>\<open>json.Marshal\<close> makes of it.\<close>

datatype rca_payload = RCAPayload RCAResult | ErrorPayload string

definition marshal_payload :: "float_codec \<Rightarrow> rca_payload \<Rightarrow> err + string" where
  "marshal_payload fc p =
     (case p of
        RCAPayload rca \<Rightarrow> marshal_rca fc rca
      | ErrorPayload m \<Rightarrow> Inr (json_print (JObj [(''error'', JStr m)])))"

record 'w DiagnosisStore =
  dst_UpsertIncident :: "Incident \<Rightarrow> 'w \<Rightarrow> err option \<times> 'w"
  dst_InsertDiagnosis :: "Diagnosis \<Rightarrow> rca_payload \<Rightarrow> 'w \<Rightarrow> err option \<times> 'w"

record 'w cr_client =
  crc_Get :: "NamespacedName \<Rightarrow> 'w \<Rightarrow> (err + KscribeDiagnosis) \<times> 'w"
  crc_StatusUpdate :: "KscribeDiagnosis \<Rightarrow> 'w \<Rightarrow> err option \<times> 'w"

datatype metric = NotificationsTotal string | DiagnosesTotal string | DiagnosesThrottledTotal
  | LLMRequestSeconds string duration | LLMTokensTotal string string int

text \<open>
  Runtime and libraries: clock, random numbers, the \<^verbatim>\<open>go\<close> statement, metrics, the conflict
  retry of client-go, the condition setter of apimachinery, and the texts and float literals
  of the standard library.
\<close>

record 'w go_env =
  ge_Now :: "'w \<Rightarrow> gotime \<times> 'w"
  ge_Int64N :: "int \<Rightarrow> 'w \<Rightarrow> int \<times> 'w"
  ge_Go :: "('w \<Rightarrow> 'w) \<Rightarrow> 'w \<Rightarrow> 'w"
  ge_Metric :: "metric \<Rightarrow> 'w \<Rightarrow> 'w"
  ge_RetryOnConflict :: "('w \<Rightarrow> err option \<times> 'w) \<Rightarrow> 'w \<Rightarrow> err option \<times> 'w"
  ge_SetStatusCondition :: set_status_condition
  ge_texts :: go_texts
  ge_floats :: float_codec

record 'w KscribeDiagnosisReconciler =
  r_Client :: "'w cr_client"
  r_Store :: "'w DiagnosisStore"
  r_AgentProvider :: "'w Provider"
  r_Publisher :: "(string \<Rightarrow> string \<Rightarrow> 'w \<Rightarrow> 'w) option"
  r_LLMProvider :: string
  r_LLMModel :: string
  r_MaxIter :: int
  r_Concurrency :: int
  r_Tools :: "ToolDefinition list"
  r_ToolExecutor :: "'w ToolExecutor option"
  r_KubeClient :: "'w kube option"
  r_MaxPodsPerWorkload :: int
  r_Notifier :: "'w Notifier option"

text \<open>\<^verbatim>\<open>ctrl.Result\<close>: the delay after which to run again, 0 for none.\<close>

record Result =
  res_RequeueAfter :: duration

definition done_result :: Result where
  "done_result = \<lparr>res_RequeueAfter = 0\<rparr>"

definition diagnosingRecoveryAfter :: duration where
  "diagnosingRecoveryAfter = 10 * Minute"

section \<open>Helpers\<close>

definition notification_task :: "'w go_env \<Rightarrow> 'w Notifier \<Rightarrow> Notification \<Rightarrow> 'w \<Rightarrow> 'w" where
  "notification_task ge notify n w =
     (case notify n w of
        (Some e, w1) \<Rightarrow> ge_Metric ge (NotificationsTotal ''failed'') w1
      | (None, w1) \<Rightarrow> ge_Metric ge (NotificationsTotal ''sent'') w1)"

definition notifyTerminal ::
  "'w go_env \<Rightarrow> 'w KscribeDiagnosisReconciler \<Rightarrow> KscribeDiagnosis \<Rightarrow> DiagnosisPhase \<Rightarrow> string \<Rightarrow> string
     \<Rightarrow> string list \<Rightarrow> 'w \<Rightarrow> 'w" where
  "notifyTerminal ge r kd phase summary rootCause remediation w =
     (case r_Notifier r of
        None \<Rightarrow> w
      | Some notify \<Rightarrow>
          (let n = \<lparr>nt_Phase = phase, nt_Reason = spec_Reason (kd_Spec kd),
                    nt_Namespace = spec_InvolvedObjectNamespace (kd_Spec kd),
                    nt_Object = spec_InvolvedObjectName (kd_Spec kd), nt_Summary = summary,
                    nt_RootCause = rootCause, nt_Remediation = remediation\<rparr>
           in ge_Go ge (notification_task ge notify n) w))"

definition remediationSteps :: "Outcome \<Rightarrow> string list" where
  "remediationSteps o' = (case oc_RCA o' of None \<Rightarrow> [] | Some rca \<Rightarrow> rca_RemediationSteps rca)"

definition publish :: "'w KscribeDiagnosisReconciler \<Rightarrow> string \<Rightarrow> string \<Rightarrow> 'w \<Rightarrow> 'w" where
  "publish r id' html w = (case r_Publisher r of None \<Rightarrow> w | Some p \<Rightarrow> p id' html w)"

definition phase_span :: "DiagnosisPhase \<Rightarrow> string" where
  "phase_span phase = ''<span data-phase='' @ dquote @ phase @ dquote @ ''>'' @ phase @ ''</span>''"

definition sse_id :: "NamespacedName \<Rightarrow> string" where
  "sse_id req = nn_Namespace req @ ''/'' @ nn_Name req"

text \<open>Times are instants, so taking one in UTC changes nothing.\<close>

definition metaTimePtr :: "gotime option \<Rightarrow> gotime option" where
  "metaTimePtr t = (case t of None \<Rightarrow> None | Some x \<Rightarrow> Some x)"

definition incidentFromDiagnosis :: "KscribeDiagnosis \<Rightarrow> Incident" where
  "incidentFromDiagnosis kd =
     (let updatedAt = (case st_CompletedAt (kd_Status kd) of Some t \<Rightarrow> t | None \<Rightarrow> zero_time)
      in \<lparr>inc_Namespace = kd_Namespace kd, inc_Name = kd_Name kd,
          inc_EventUID = spec_EventUID (kd_Spec kd),
          inc_InvolvedObjectKind = spec_InvolvedObjectKind (kd_Spec kd),
          inc_InvolvedObjectName = spec_InvolvedObjectName (kd_Spec kd),
          inc_InvolvedObjectNamespace = spec_InvolvedObjectNamespace (kd_Spec kd),
          inc_Reason = spec_Reason (kd_Spec kd), inc_Message = spec_Message (kd_Spec kd),
          inc_Phase = kd_Phase kd, inc_StartedAt = metaTimePtr (st_StartedAt (kd_Status kd)),
          inc_CompletedAt = metaTimePtr (st_CompletedAt (kd_Status kd)),
          inc_LLMProvider = st_LLMProvider (kd_Status kd), inc_LLMModel = st_LLMModel (kd_Status kd),
          inc_TokensUsed = st_TokensUsed (kd_Status kd),
          inc_PromptRedacted = st_PromptRedacted (kd_Status kd),
          inc_Persisted = st_Persisted (kd_Status kd),
          inc_CreatedAt = zero_time, inc_UpdatedAt = updatedAt\<rparr>)"

text \<open>The three \<^verbatim>\<open>store.Incident\<close> literals of the handler; what they leave out is zero.\<close>

definition incident_of ::
  "KscribeDiagnosis \<Rightarrow> DiagnosisPhase \<Rightarrow> gotime \<Rightarrow> gotime option \<Rightarrow> string \<Rightarrow> string \<Rightarrow> int \<Rightarrow> bool \<Rightarrow> Incident" where
  "incident_of kd phase started completed provider model tokens persisted =
     \<lparr>inc_Namespace = kd_Namespace kd, inc_Name = kd_Name kd,
      inc_EventUID = spec_EventUID (kd_Spec kd),
      inc_InvolvedObjectKind = spec_InvolvedObjectKind (kd_Spec kd),
      inc_InvolvedObjectName = spec_InvolvedObjectName (kd_Spec kd),
      inc_InvolvedObjectNamespace = spec_InvolvedObjectNamespace (kd_Spec kd),
      inc_Reason = spec_Reason (kd_Spec kd), inc_Message = spec_Message (kd_Spec kd),
      inc_Phase = phase, inc_StartedAt = Some started, inc_CompletedAt = completed,
      inc_LLMProvider = provider, inc_LLMModel = model, inc_TokensUsed = tokens,
      inc_PromptRedacted = False, inc_Persisted = persisted,
      inc_CreatedAt = zero_time, inc_UpdatedAt = zero_time\<rparr>"

definition effectiveLLMProvider :: "'w KscribeDiagnosisReconciler \<Rightarrow> KscribeDiagnosis \<Rightarrow> string" where
  "effectiveLLMProvider r kd =
     (if spec_LLMProvider (kd_Spec kd) \<noteq> [] then spec_LLMProvider (kd_Spec kd) else r_LLMProvider r)"

definition effectiveLLMModel :: "'w KscribeDiagnosisReconciler \<Rightarrow> KscribeDiagnosis \<Rightarrow> string" where
  "effectiveLLMModel r kd =
     (if spec_LLMModel (kd_Spec kd) \<noteq> [] then spec_LLMModel (kd_Spec kd) else r_LLMModel r)"

definition hasStorageError :: "KscribeDiagnosis \<Rightarrow> bool" where
  "hasStorageError kd = list_ex (\<lambda>c. cond_Type c = ConditionPersisted \<and> cond_Status c = ConditionFalse
     \<and> cond_Reason c = ''StorageError'') (st_Conditions (kd_Status kd))"

definition diagnosisIsStale :: "KscribeDiagnosis \<Rightarrow> gotime \<Rightarrow> bool" where
  "diagnosisIsStale kd now =
     (case st_StartedAt (kd_Status kd) of
        None \<Rightarrow> True
      | Some t \<Rightarrow> time_Sub now t \<ge> diagnosingRecoveryAfter)"

text \<open>One attempt reads the object, changes it and writes its status.\<close>

definition patch_attempt ::
  "'w KscribeDiagnosisReconciler \<Rightarrow> NamespacedName \<Rightarrow> (KscribeDiagnosis \<Rightarrow> KscribeDiagnosis) \<Rightarrow> 'w
     \<Rightarrow> err option \<times> 'w" where
  "patch_attempt r key mutate w =
     (case crc_Get (r_Client r) key w of
        (Inl e, w1) \<Rightarrow> (Some e, w1)
      | (Inr cur, w1) \<Rightarrow> crc_StatusUpdate (r_Client r) (mutate cur) w1)"

definition patchStatus ::
  "'w go_env \<Rightarrow> 'w KscribeDiagnosisReconciler \<Rightarrow> NamespacedName
     \<Rightarrow> (KscribeDiagnosis \<Rightarrow> KscribeDiagnosis) \<Rightarrow> 'w \<Rightarrow> err option \<times> 'w" where
  "patchStatus ge r key mutate w = ge_RetryOnConflict ge (patch_attempt r key mutate) w"

definition new_condition :: "string \<Rightarrow> string \<Rightarrow> string \<Rightarrow> string \<Rightarrow> KscribeDiagnosis \<Rightarrow> Condition" where
  "new_condition ty status reason message kd =
     \<lparr>cond_Type = ty, cond_Status = status, cond_ObservedGeneration = om_Generation (kd_Meta kd),
      cond_LastTransitionTime = zero_time, cond_Reason = reason, cond_Message = message\<rparr>"

section \<open>Status changes\<close>

definition set_throttled :: "'w go_env \<Rightarrow> KscribeDiagnosis \<Rightarrow> KscribeDiagnosis" where
  "set_throttled ge kd = kd\<lparr>kd_Status :=
     SetCondition (ge_SetStatusCondition ge)
       (new_condition ConditionDiagnosed ConditionFalse ''RateLimited''
          ''diagnosis start rate limit reached; will retry'' kd)
       ((kd_Status kd)\<lparr>st_Phase := DiagnosisPhasePending\<rparr>)\<rparr>"

definition set_diagnosing ::
  "'w go_env \<Rightarrow> gotime \<Rightarrow> string \<Rightarrow> string \<Rightarrow> KscribeDiagnosis \<Rightarrow> KscribeDiagnosis" where
  "set_diagnosing ge now provider model kd = kd\<lparr>kd_Status :=
     SetCondition (ge_SetStatusCondition ge)
       (new_condition ConditionDiagnosing ConditionTrue ''DiagnosisStarted'' ''Diagnosis loop started'' kd)
       ((kd_Status kd)\<lparr>st_Phase := DiagnosisPhaseDiagnosing, st_StartedAt := Some now,
          st_LLMProvider := provider, st_LLMModel := model,
          st_ObservedGeneration := om_Generation (kd_Meta kd)\<rparr>)\<rparr>"

definition set_failed ::
  "'w go_env \<Rightarrow> gotime \<Rightarrow> string \<Rightarrow> string \<Rightarrow> Outcome \<Rightarrow> KscribeDiagnosis \<Rightarrow> KscribeDiagnosis" where
  "set_failed ge completedAt provider model outcome kd = kd\<lparr>kd_Status :=
     SetCondition (ge_SetStatusCondition ge)
       (new_condition ConditionDiagnosed ConditionFalse ''ProviderError'' (oc_RawError outcome) kd)
       ((kd_Status kd)\<lparr>st_Phase := DiagnosisPhaseFailed, st_CompletedAt := Some completedAt,
          st_LLMProvider := provider, st_LLMModel := model, st_TokensUsed := oc_TokensUsed outcome,
          st_ObservedGeneration := om_Generation (kd_Meta kd)\<rparr>)\<rparr>"

definition set_storage_error :: "'w go_env \<Rightarrow> err \<Rightarrow> KscribeDiagnosis \<Rightarrow> KscribeDiagnosis" where
  "set_storage_error ge e kd = kd\<lparr>kd_Status :=
     SetCondition (ge_SetStatusCondition ge)
       (new_condition ConditionPersisted ConditionFalse ''StorageError'' (msg_of e) kd)
       ((kd_Status kd)\<lparr>st_Persisted := False\<rparr>)\<rparr>"

definition set_done ::
  "'w go_env \<Rightarrow> gotime \<Rightarrow> string \<Rightarrow> string \<Rightarrow> Outcome \<Rightarrow> KscribeDiagnosis \<Rightarrow> KscribeDiagnosis" where
  "set_done ge completedAt provider model outcome kd =
     (let s1 = (kd_Status kd)\<lparr>st_Phase := oc_Phase outcome, st_CompletedAt := Some completedAt,
            st_LLMProvider := provider, st_LLMModel := model, st_TokensUsed := oc_TokensUsed outcome,
            st_Persisted := True, st_ObservedGeneration := om_Generation (kd_Meta kd)\<rparr>;
          s2 = (case oc_RCA outcome of
                  None \<Rightarrow> s1
                | Some rca \<Rightarrow> s1\<lparr>st_Summary := rca_Summary rca, st_RootCause := rca_RootCause rca\<rparr>);
          s3 = SetCondition (ge_SetStatusCondition ge)
                 (new_condition ConditionPersisted ConditionTrue ''Persisted'' ''RCA written to state DB'' kd) s2
      in kd\<lparr>kd_Status := SetCondition (ge_SetStatusCondition ge)
           (new_condition ConditionDiagnosed ConditionTrue ''Diagnosed'' ''Diagnosis complete'' kd) s3\<rparr>)"

section \<open>The handler\<close>

text \<open>What a run of the handler was started with, and what it found out about the object.\<close>

record job =
  jb_req :: NamespacedName
  jb_kd :: KscribeDiagnosis
  jb_started :: gotime
  jb_provider :: string
  jb_model :: string

definition ref_of :: "KscribeDiagnosis \<Rightarrow> ObjectRef" where
  "ref_of kd = \<lparr>ref_Kind = spec_InvolvedObjectKind (kd_Spec kd),
     ref_Namespace = spec_InvolvedObjectNamespace (kd_Spec kd),
     ref_Name = spec_InvolvedObjectName (kd_Spec kd), ref_EventUID = spec_EventUID (kd_Spec kd),
     ref_Reason = spec_Reason (kd_Spec kd), ref_Message = spec_Message (kd_Spec kd)\<rparr>"

text \<open>The fallback literal has the fields of the collector's initial snapshot.\<close>

definition minimal_snapshot :: "KscribeDiagnosis \<Rightarrow> Snapshot" where
  "minimal_snapshot kd = empty_snapshot\<lparr>sn_EventUID := spec_EventUID (kd_Spec kd),
     sn_Reason := spec_Reason (kd_Spec kd), sn_Message := spec_Message (kd_Spec kd),
     sn_Namespace := spec_InvolvedObjectNamespace (kd_Spec kd),
     sn_ObjectKind := spec_InvolvedObjectKind (kd_Spec kd),
     sn_ObjectName := spec_InvolvedObjectName (kd_Spec kd)\<rparr>"

definition build_context ::
  "'w go_env \<Rightarrow> 'w KscribeDiagnosisReconciler \<Rightarrow> KscribeDiagnosis \<Rightarrow> 'w \<Rightarrow> string \<times> 'w" where
  "build_context ge r kd w =
     (let (snap, w1) =
        (case r_KubeClient r of
           None \<Rightarrow> (minimal_snapshot kd, w)
         | Some kube \<Rightarrow>
             (case BuildSnapshot (ge_texts ge) kube (ref_of kd) 100 (r_MaxPodsPerWorkload r) w of
                (Inl e, w1) \<Rightarrow> (minimal_snapshot kd, w1)
              | (Inr s, w1) \<Rightarrow> (s, w1)))
      in (case fst (EncodeSnapshot snap) of Inl e \<Rightarrow> ''{}'' | Inr j \<Rightarrow> j, w1))"

definition agent_of ::
  "'w KscribeDiagnosisReconciler \<Rightarrow> KscribeDiagnosis \<Rightarrow> 'w DiagnosisAgent" where
  "agent_of r kd = \<lparr>ag_Provider = r_AgentProvider r, ag_Executor = r_ToolExecutor r, ag_Tools = r_Tools r,
     ag_MaxIter = (case spec_MaxIterations (kd_Spec kd) of None \<Rightarrow> r_MaxIter r | Some n \<Rightarrow> n)\<rparr>"

definition enc_trace :: "TraceStep list \<Rightarrow> json" where
  "enc_trace ts = JArr (map (\<lambda>t. JObj [(''tool'', JStr (ts_Tool t)), (''args'', JStr (ts_Args t)),
     (''result'', JStr (ts_Result t))]) ts)"

definition final_diagnosis :: "KscribeDiagnosis \<Rightarrow> string \<Rightarrow> Outcome \<Rightarrow> Diagnosis \<times> rca_payload" where
  "final_diagnosis kd snapshotJSON outcome =
     (let traceJSON = json_print (enc_trace (oc_Trace outcome));
          d = \<lparr>dg_ID = 0, dg_Namespace = kd_Namespace kd, dg_Name = kd_Name kd,
               dg_EventUID = spec_EventUID (kd_Spec kd), dg_RCAJson = [], dg_Summary = [],
               dg_RootCause = [], dg_Remediation = [], dg_Confidence = Float64 0,
               dg_CreatedAt = zero_time, dg_ContextJSON = snapshotJSON,
               dg_Reasoning = oc_Reasoning outcome,
               dg_TraceJSON = (if length traceJSON = 0 then ''[]'' else traceJSON)\<rparr>
      in case oc_RCA outcome of
           None \<Rightarrow> (d, ErrorPayload (oc_RawError outcome))
         | Some rca \<Rightarrow>
             (d\<lparr>dg_Summary := rca_Summary rca, dg_RootCause := rca_RootCause rca,
                dg_Remediation := join_sep ''; '' (rca_RemediationSteps rca),
                dg_Confidence := rca_Confidence rca\<rparr>, RCAPayload rca))"

definition finish_failed ::
  "'w go_env \<Rightarrow> 'w KscribeDiagnosisReconciler \<Rightarrow> job \<Rightarrow> Outcome \<Rightarrow> gotime \<Rightarrow> 'w \<Rightarrow> Result \<times> err option \<times> 'w" where
  "finish_failed ge r j outcome completedAt w =
     (let w1 = snd (dst_UpsertIncident (r_Store r)
            (incident_of (jb_kd j) DiagnosisPhaseFailed (jb_started j) (Some completedAt) (jb_provider j)
               (jb_model j) (oc_TokensUsed outcome) False) w);
          w2 = ge_Metric ge (DiagnosesTotal ''failed'') w1;
          w3 = notifyTerminal ge r (jb_kd j) DiagnosisPhaseFailed [] (oc_RawError outcome) [] w2;
          w4 = publish r (sse_id (jb_req j)) (phase_span DiagnosisPhaseFailed) w3;
          (e, w5) = patchStatus ge r (jb_req j)
            (set_failed ge completedAt (jb_provider j) (jb_model j) outcome) w4
      in (done_result, e, w5))"

definition finish_done ::
  "'w go_env \<Rightarrow> 'w KscribeDiagnosisReconciler \<Rightarrow> job \<Rightarrow> Outcome \<Rightarrow> gotime \<Rightarrow> Diagnosis \<Rightarrow> 'w
     \<Rightarrow> Result \<times> err option \<times> 'w" where
  "finish_done ge r j outcome completedAt d w =
     (let w1 = snd (dst_UpsertIncident (r_Store r)
            (incident_of (jb_kd j) (oc_Phase outcome) (jb_started j) (Some completedAt) (jb_provider j)
               (jb_model j) (oc_TokensUsed outcome) True) w);
          w2 = ge_Metric ge (DiagnosesTotal (ToLower (oc_Phase outcome))) w1;
          w3 = notifyTerminal ge r (jb_kd j) (oc_Phase outcome) (dg_Summary d) (dg_RootCause d)
                 (remediationSteps outcome) w2;
          w4 = publish r (sse_id (jb_req j)) (phase_span (oc_Phase outcome)) w3;
          (e, w5) = patchStatus ge r (jb_req j)
            (set_done ge completedAt (jb_provider j) (jb_model j) outcome) w4
      in (done_result, e, w5))"

text \<open>The RCA is written to the store before the object's phase changes (ADR-003).\<close>

definition persist ::
  "'w go_env \<Rightarrow> 'w KscribeDiagnosisReconciler \<Rightarrow> job \<Rightarrow> string \<Rightarrow> Outcome \<Rightarrow> gotime \<Rightarrow> 'w
     \<Rightarrow> Result \<times> err option \<times> 'w" where
  "persist ge r j snapshotJSON outcome completedAt w =
     (let (d, payload) = final_diagnosis (jb_kd j) snapshotJSON outcome
      in case dst_InsertDiagnosis (r_Store r) d payload w of
           (Some e, w1) \<Rightarrow>
             (let w2 = snd (patchStatus ge r (jb_req j) (set_storage_error ge e) w1)
              in (\<lparr>res_RequeueAfter = 30 * Second\<rparr>, Some e, w2))
         | (None, w1) \<Rightarrow> finish_done ge r j outcome completedAt d w1)"

definition diagnose ::
  "'w go_env \<Rightarrow> 'w KscribeDiagnosisReconciler \<Rightarrow> job \<Rightarrow> 'w \<Rightarrow> Result \<times> err option \<times> 'w" where
  "diagnose ge r j w =
     (let (snapshotJSON, w1) = build_context ge r (jb_kd j) w;
          (runStart, w2) = ge_Now ge w1;
          (outcome, w3) = Run (ge_texts ge) (ge_floats ge) (agent_of r (jb_kd j)) snapshotJSON w2;
          (runEnd, w4) = ge_Now ge w3;
          w5 = ge_Metric ge (LLMRequestSeconds (jb_provider j) (time_Sub runEnd runStart)) w4;
          w6 = ge_Metric ge (LLMTokensTotal (jb_provider j) (jb_model j) (oc_TokensUsed outcome)) w5;
          (completedAt, w7) = ge_Now ge w6
      in if oc_Phase outcome = DiagnosisPhaseFailed then finish_failed ge r j outcome completedAt w7
         else persist ge r j snapshotJSON outcome completedAt w7)"

text \<open>Mirror the object as Diagnosing, set its phase, and read it again.\<close>

definition begin_diagnosis ::
  "'w go_env \<Rightarrow> 'w KscribeDiagnosisReconciler \<Rightarrow> NamespacedName \<Rightarrow> KscribeDiagnosis \<Rightarrow> 'w
     \<Rightarrow> Result \<times> err option \<times> 'w" where
  "begin_diagnosis ge r req kd w =
     (let (now, w1) = ge_Now ge w;
          provider = effectiveLLMProvider r kd; model = effectiveLLMModel r kd
      in case dst_UpsertIncident (r_Store r)
             (incident_of kd DiagnosisPhaseDiagnosing now None provider model 0 False) w1 of
           (Some e, w2) \<Rightarrow> (done_result, Some (errorf_w ''upsert incident (diagnosing): '' e), w2)
         | (None, w2) \<Rightarrow>
             (case patchStatus ge r req (set_diagnosing ge now provider model) w2 of
                (Some e, w3) \<Rightarrow> (done_result, Some (errorf_w ''update status (diagnosing): '' e), w3)
              | (None, w3) \<Rightarrow>
                  (let w4 = publish r (sse_id req) (phase_span DiagnosisPhaseDiagnosing) w3
                   in case crc_Get (r_Client r) req w4 of
                        (Inl e, w5) \<Rightarrow> (done_result, IgnoreNotFound e, w5)
                      | (Inr kd', w5) \<Rightarrow>
                          diagnose ge r \<lparr>jb_req = req, jb_kd = kd', jb_started = now,
                            jb_provider = provider, jb_model = model\<rparr> w5)))"

definition throttle ::
  "'w go_env \<Rightarrow> 'w KscribeDiagnosisReconciler \<Rightarrow> NamespacedName \<Rightarrow> 'w \<Rightarrow> Result \<times> err option \<times> 'w" where
  "throttle ge r req w =
     (let w1 = ge_Metric ge DiagnosesThrottledTotal w;
          w2 = snd (patchStatus ge r req (set_throttled ge) w1);
          (jitter, w3) = ge_Int64N ge (3 * Minute) w2
      in (\<lparr>res_RequeueAfter = 2 * Minute + jitter\<rparr>, None, w3))"

text \<open>A limiter that is absent or unlimited answers without reading the clock.\<close>

definition allow_start ::
  "'w go_env \<Rightarrow> RateLimiter option \<Rightarrow> 'w \<Rightarrow> (bool \<times> RateLimiter option) \<times> 'w" where
  "allow_start ge lim w =
     (case lim of
        None \<Rightarrow> (Allow 0 None, w)
      | Some l \<Rightarrow>
          if rl_limit l \<le> 0 then (Allow 0 (Some l), w)
          else (case ge_Now ge w of (now, w1) \<Rightarrow> (Allow now (Some l), w1)))"

definition start_diagnosis ::
  "'w go_env \<Rightarrow> 'w KscribeDiagnosisReconciler \<Rightarrow> NamespacedName \<Rightarrow> KscribeDiagnosis \<Rightarrow> RateLimiter option \<Rightarrow> 'w
     \<Rightarrow> (Result \<times> err option \<times> 'w) \<times> RateLimiter option" where
  "start_diagnosis ge r req kd lim w =
     (let ((ok, lim1), w1) = allow_start ge lim w
      in if \<not> ok then (throttle ge r req w1, lim1) else (begin_diagnosis ge r req kd w1, lim1))"

definition mirror_terminal ::
  "'w KscribeDiagnosisReconciler \<Rightarrow> KscribeDiagnosis \<Rightarrow> 'w \<Rightarrow> Result \<times> err option \<times> 'w" where
  "mirror_terminal r kd w =
     (case dst_UpsertIncident (r_Store r) (incidentFromDiagnosis kd) w of
        (Some e, w1) \<Rightarrow> (done_result, Some (errorf_w ''upsert incident (terminal mirror): '' e), w1)
      | (None, w1) \<Rightarrow> (done_result, None, w1))"

definition Reconcile ::
  "'w go_env \<Rightarrow> 'w KscribeDiagnosisReconciler \<Rightarrow> NamespacedName \<Rightarrow> RateLimiter option \<Rightarrow> 'w
     \<Rightarrow> (Result \<times> err option \<times> 'w) \<times> RateLimiter option" where
  "Reconcile ge r req lim w =
     (case crc_Get (r_Client r) req w of
        (Inl e, w1) \<Rightarrow> ((done_result, IgnoreNotFound e, w1), lim)
      | (Inr kd, w1) \<Rightarrow>
          if kd_Phase kd = [] \<or> kd_Phase kd = DiagnosisPhasePending then
            start_diagnosis ge r req kd lim w1
          else if kd_Phase kd = DiagnosisPhaseDiagnosing then
            (if st_Persisted (kd_Status kd) then (mirror_terminal r kd w1, lim)
             else if hasStorageError kd then start_diagnosis ge r req kd lim w1
             else (case ge_Now ge w1 of (now, w2) \<Rightarrow>
                     if \<not> diagnosisIsStale kd now then ((done_result, None, w2), lim)
                     else start_diagnosis ge r req kd lim w2))
          else (mirror_terminal r kd w1, lim))"

text \<open>\<^verbatim>\<open>SetupWithManager\<close> registers the handler with this many workers.\<close>

definition max_concurrent_reconciles :: "'w KscribeDiagnosisReconciler \<Rightarrow> int" where
  "max_concurrent_reconciles r = (if r_Concurrency r \<le> 0 then 1 else r_Concurrency r)"

end
