(* ===== verification/Reconciler_Protocol.thy ===== *)
theory Reconciler_Protocol
  imports Reconciler Agent_Laws Tool_Executor
begin

text \<open>
  What a run of the diagnosis handler may do, in which order. The calls a run makes are read
  off a ghost trace of the world; the locale \<^verbatim>\<open>audited_reconciler\<close> says which interface calls the trace
  records and that the others leave it alone. The inductive relation \<^verbatim>\<open>handler_calls\<close> is the
  abstract protocol of the handler: every admissible sequence of calls with the result it must
  lead to. The handler refines it (\<^verbatim>\<open>Reconcile_calls\<close>), also over the modelled SQL store.
\<close>

section \<open>Calls\<close>

datatype call =
    Read NamespacedName "err + KscribeDiagnosis"
  | StatusWritten KscribeDiagnosis "err option"
  | Upserted Incident "err option"
  | Inserted Diagnosis "err option"
  | ModelCalled
  | TaskStarted
  | Published string string

definition IsConflict :: "err \<Rightarrow> bool" where
  "IsConflict e \<longleftrightarrow> class_of e = Conflict"

text \<open>
  Documented behaviour of \<^verbatim>\<open>RetryOnConflict\<close>: the function runs, and again after a conflict, and
  the result is that of the last run.
\<close>

inductive retried :: "('w \<Rightarrow> err option \<times> 'w) \<Rightarrow> 'w \<Rightarrow> err option \<times> 'w \<Rightarrow> bool" for f where
  last: "retried f w (f w)"
| again: "f w = (Some e, w1) \<Longrightarrow> IsConflict e \<Longrightarrow> retried f w1 rw \<Longrightarrow> retried f w rw"

definition kube_silent :: "('w \<Rightarrow> call list) \<Rightarrow> 'w kube \<Rightarrow> bool" where
  "kube_silent trace k \<longleftrightarrow>
     (\<forall>ns w. trace (snd (k_ListEvents k ns w)) = trace w)
     \<and> (\<forall>ns n w. trace (snd (k_GetPod k ns n w)) = trace w)
     \<and> (\<forall>ns n w. trace (snd (k_GetDeployment k ns n w)) = trace w)
     \<and> (\<forall>ns n w. trace (snd (k_GetReplicaSet k ns n w)) = trace w)
     \<and> (\<forall>ns s w. trace (snd (k_ListPods k ns s w)) = trace w)
     \<and> (\<forall>n w. trace (snd (k_GetNode k n w)) = trace w)
     \<and> (\<forall>ns p c t w. trace (snd (k_PodLogs k ns p c t w)) = trace w)"

section \<open>The protocol\<close>

inductive patch_calls ::
  "NamespacedName \<Rightarrow> (KscribeDiagnosis \<Rightarrow> KscribeDiagnosis) \<Rightarrow> call list \<Rightarrow> err option \<Rightarrow> bool"
  for key mutate where
  unread: "patch_calls key mutate [Read key (Inl e)] (Some e)"
| written: "patch_calls key mutate [Read key (Inr cur), StatusWritten (mutate cur) r] r"
| retry: "patch_calls key mutate cs (Some e) \<Longrightarrow> IsConflict e \<Longrightarrow> patch_calls key mutate cs' r
    \<Longrightarrow> patch_calls key mutate (cs @ cs') r"

definition published :: "'w KscribeDiagnosisReconciler \<Rightarrow> NamespacedName \<Rightarrow> DiagnosisPhase \<Rightarrow> call list" where
  "published r req phase =
     (case r_Publisher r of None \<Rightarrow> [] | Some p \<Rightarrow> [Published (sse_id req) (phase_span phase)])"

definition task_started :: "'w KscribeDiagnosisReconciler \<Rightarrow> call list" where
  "task_started r = (case r_Notifier r of None \<Rightarrow> [] | Some nf \<Rightarrow> [TaskStarted])"

definition terminal_outcome :: "Outcome \<Rightarrow> bool" where
  "terminal_outcome oc \<longleftrightarrow> oc_Phase oc \<in> {DiagnosisPhaseDone, DiagnosisPhasePartial, DiagnosisPhaseFailed}"

text \<open>From the call of the model on: provider failure, storage failure, success.\<close>

inductive outcome_calls ::
  "'w go_env \<Rightarrow> 'w KscribeDiagnosisReconciler \<Rightarrow> job \<Rightarrow> call list \<Rightarrow> Result \<Rightarrow> err option \<Rightarrow> bool"
  for ge r j where
  provider_failed:
    "oc_Phase oc = DiagnosisPhaseFailed \<Longrightarrow>
     patch_calls (jb_req j) (set_failed ge t (jb_provider j) (jb_model j) oc) cs e \<Longrightarrow>
     outcome_calls ge r j
       (Upserted (incident_of (jb_kd j) DiagnosisPhaseFailed (jb_started j) (Some t) (jb_provider j) (jb_model j)
          (oc_TokensUsed oc) False) u # task_started r @ published r (jb_req j) DiagnosisPhaseFailed @ cs)
       done_result e"
| not_stored:
    "terminal_outcome oc \<Longrightarrow> oc_Phase oc \<noteq> DiagnosisPhaseFailed \<Longrightarrow>
     d = fst (final_diagnosis (jb_kd j) ctx oc) \<Longrightarrow>
     patch_calls (jb_req j) (set_storage_error ge e) cs p \<Longrightarrow>
     outcome_calls ge r j (Inserted d (Some e) # cs) \<lparr>res_RequeueAfter = 30 * Second\<rparr> (Some e)"
| stored:
    "terminal_outcome oc \<Longrightarrow> oc_Phase oc \<noteq> DiagnosisPhaseFailed \<Longrightarrow>
     d = fst (final_diagnosis (jb_kd j) ctx oc) \<Longrightarrow>
     patch_calls (jb_req j) (set_done ge t (jb_provider j) (jb_model j) oc) cs e \<Longrightarrow>
     outcome_calls ge r j
       (Inserted d None # Upserted (incident_of (jb_kd j) (oc_Phase oc) (jb_started j) (Some t) (jb_provider j)
          (jb_model j) (oc_TokensUsed oc) True) u # task_started r @ published r (jb_req j) (oc_Phase oc) @ cs)
       done_result e"

text \<open>From the first write to the store on.\<close>

inductive diagnosis_calls ::
  "'w go_env \<Rightarrow> 'w KscribeDiagnosisReconciler \<Rightarrow> NamespacedName \<Rightarrow> KscribeDiagnosis \<Rightarrow> call list
     \<Rightarrow> Result \<Rightarrow> err option \<Rightarrow> bool"
  for ge r req kd where
  not_mirrored:
    "diagnosis_calls ge r req kd
       [Upserted (incident_of kd DiagnosisPhaseDiagnosing t None (effectiveLLMProvider r kd)
          (effectiveLLMModel r kd) 0 False) (Some e)]
       done_result (Some (errorf_w ''upsert incident (diagnosing): '' e))"
| not_marked:
    "patch_calls req (set_diagnosing ge t (effectiveLLMProvider r kd) (effectiveLLMModel r kd)) cs (Some e) \<Longrightarrow>
     diagnosis_calls ge r req kd
       (Upserted (incident_of kd DiagnosisPhaseDiagnosing t None (effectiveLLMProvider r kd)
          (effectiveLLMModel r kd) 0 False) None # cs)
       done_result (Some (errorf_w ''update status (diagnosing): '' e))"
| vanished:
    "patch_calls req (set_diagnosing ge t (effectiveLLMProvider r kd) (effectiveLLMModel r kd)) cs None \<Longrightarrow>
     diagnosis_calls ge r req kd
       (Upserted (incident_of kd DiagnosisPhaseDiagnosing t None (effectiveLLMProvider r kd)
          (effectiveLLMModel r kd) 0 False) None # cs @ published r req DiagnosisPhaseDiagnosing @ [Read req (Inl e)])
       done_result (IgnoreNotFound e)"
| diagnosed:
    "patch_calls req (set_diagnosing ge t (effectiveLLMProvider r kd) (effectiveLLMModel r kd)) cs None \<Longrightarrow>
     1 \<le> n \<Longrightarrow> int n \<le> max_iterations (agent_of r kd') + 1 \<Longrightarrow>
     outcome_calls ge r \<lparr>jb_req = req, jb_kd = kd', jb_started = t, jb_provider = effectiveLLMProvider r kd,
       jb_model = effectiveLLMModel r kd\<rparr> cs' res e \<Longrightarrow>
     diagnosis_calls ge r req kd
       (Upserted (incident_of kd DiagnosisPhaseDiagnosing t None (effectiveLLMProvider r kd)
          (effectiveLLMModel r kd) 0 False) None # cs @ published r req DiagnosisPhaseDiagnosing
        @ [Read req (Inr kd')] @ replicate n ModelCalled @ cs') res e"

definition mirrored_only :: "KscribeDiagnosis \<Rightarrow> bool" where
  "mirrored_only kd \<longleftrightarrow> kd_Phase kd \<notin> {[], DiagnosisPhasePending, DiagnosisPhaseDiagnosing}
     \<or> kd_Phase kd = DiagnosisPhaseDiagnosing \<and> st_Persisted (kd_Status kd)"

definition runnable :: "KscribeDiagnosis \<Rightarrow> bool" where
  "runnable kd \<longleftrightarrow> kd_Phase kd \<in> {[], DiagnosisPhasePending}
     \<or> kd_Phase kd = DiagnosisPhaseDiagnosing \<and> \<not> st_Persisted (kd_Status kd)"

inductive handler_calls ::
  "'w go_env \<Rightarrow> 'w KscribeDiagnosisReconciler \<Rightarrow> NamespacedName \<Rightarrow> call list \<Rightarrow> Result \<Rightarrow> err option \<Rightarrow> bool"
  for ge r req where
  gone: "handler_calls ge r req [Read req (Inl e)] done_result (IgnoreNotFound e)"
| running: "kd_Phase kd = DiagnosisPhaseDiagnosing \<Longrightarrow> \<not> st_Persisted (kd_Status kd) \<Longrightarrow> \<not> hasStorageError kd
    \<Longrightarrow> handler_calls ge r req [Read req (Inr kd)] done_result None"
| mirrored: "mirrored_only kd \<Longrightarrow>
    handler_calls ge r req [Read req (Inr kd), Upserted (incidentFromDiagnosis kd) u] done_result
      (map_option (errorf_w ''upsert incident (terminal mirror): '') u)"
| throttled: "runnable kd \<Longrightarrow> patch_calls req (set_throttled ge) cs p \<Longrightarrow> 2 * Minute \<le> after \<Longrightarrow> after < 5 * Minute \<Longrightarrow>
    handler_calls ge r req (Read req (Inr kd) # cs) \<lparr>res_RequeueAfter = after\<rparr> None"
| started: "runnable kd \<Longrightarrow> diagnosis_calls ge r req kd cs res e \<Longrightarrow>
    handler_calls ge r req (Read req (Inr kd) # cs) res e"

section \<open>Silent parts\<close>

text \<open>Collecting context makes no recorded call.\<close>

lemma kube_silentD:
  assumes "kube_silent trace k"
  shows "k_ListEvents k ns w = (e, w') \<Longrightarrow> trace w' = trace w"
    and "k_GetPod k ns n w = (p, w') \<Longrightarrow> trace w' = trace w"
    and "k_GetDeployment k ns n w = (dp, w') \<Longrightarrow> trace w' = trace w"
    and "k_GetReplicaSet k ns n w = (rs, w') \<Longrightarrow> trace w' = trace w"
    and "k_ListPods k ns s w = (ps, w') \<Longrightarrow> trace w' = trace w"
    and "k_GetNode k n w = (nd, w') \<Longrightarrow> trace w' = trace w"
    and "k_PodLogs k ns n c t w = (l, w') \<Longrightarrow> trace w' = trace w"
  using assms unfolding kube_silent_def by (metis snd_conv)+

lemma streamPodLogs_silent:
  "kube_silent trace k \<Longrightarrow> streamPodLogs k ns p c t w = (x, w') \<Longrightarrow> trace w' = trace w"
  by (auto simp: streamPodLogs_def dest: kube_silentD split: option.splits prod.splits log_stream.splits)

lemma fetch_silent:
  "kube_silent trace k \<Longrightarrow> fetchLogsIntoPodContext k ns pn t cs s pc w = (s', pc', w') \<Longrightarrow> trace w' = trace w"
proof (induction cs arbitrary: s pc w)
  case (Cons c cs)
  obtain x w1 where x: "streamPodLogs k ns pn (ct_Name c) t w = (x, w1)" by force
  have "trace w' = trace w1" using Cons x by (cases x) auto
  with streamPodLogs_silent [OF Cons.prems(1) x] show ?case by simp
qed simp

lemma collectNodeConditions_silent:
  "kube_silent trace k \<Longrightarrow> collectNodeConditions k n s w = (s', w') \<Longrightarrow> trace w' = trace w"
  by (auto simp: collectNodeConditions_def dest: kube_silentD split: prod.splits sum.splits)

lemma collect_pod_silent:
  assumes "kube_silent trace k"
  shows "collect_pod k ns t pod s w = (s', w') \<Longrightarrow> trace w' = trace w"
  by (auto simp: collect_pod_def Let_def dest!: fetch_silent [OF assms] collectNodeConditions_silent [OF assms]
      split: prod.splits if_splits)

lemma collect_pods_silent:
  "kube_silent trace k \<Longrightarrow> collect_pods k ns t ps s w = (s', w') \<Longrightarrow> trace w' = trace w"
proof (induction ps arbitrary: s w)
  case (Cons p ps)
  obtain s1 w1 where "collect_pod k ns t p s w = (s1, w1)" by force
  with Cons show ?case by (auto dest: collect_pod_silent)
qed simp

lemma collectPodsForSelector_silent:
  assumes "kube_silent trace k"
  shows "collectPodsForSelector k ns sel t mx s w = (s', w') \<Longrightarrow> trace w' = trace w"
  by (auto simp: collectPodsForSelector_def dest!: collect_pods_silent [OF assms] kube_silentD(5) [OF assms]
      split: sum.splits prod.splits)

lemma collect_object_silent:
  assumes "kube_silent trace k"
  shows "collect_object gt k ref t mx s w = (s', w') \<Longrightarrow> trace w' = trace w"
  by (auto simp: collect_object_def collectSinglePod_def collectDeployment_def collectReplicaSet_def Let_def
      dest!: collectPodsForSelector_silent [OF assms] collect_pod_silent [OF assms] kube_silentD(2,3,4) [OF assms]
      split: sum.splits prod.splits option.splits if_splits)

lemma collectRelatedEvents_silent:
  "kube_silent trace k \<Longrightarrow> collectRelatedEvents k ref s w = (s', w') \<Longrightarrow> trace w' = trace w"
  by (auto simp: collectRelatedEvents_def dest: kube_silentD(1) split: sum.splits prod.splits)

lemma BuildSnapshot_silent:
  assumes "kube_silent trace k"
  shows "BuildSnapshot gt k ref t mx w = (x, w') \<Longrightarrow> trace w' = trace w"
  by (auto simp: BuildSnapshot_def Let_def
      dest!: collectRelatedEvents_silent [OF assms] collect_object_silent [OF assms] split: prod.splits)

text \<open>A run of the agent ends in a terminal phase.\<close>

lemma final_answer_terminal: "terminal_outcome (fst (final_answer gt fc a ctx ms t tr m w))"
  by (simp add: final_answer_def terminal_outcome_def split: sum.splits prod.splits)

lemma terminal_outcomeI [simp]:
  "oc_Phase oc = DiagnosisPhaseDone \<Longrightarrow> terminal_outcome oc"
  "oc_Phase oc = DiagnosisPhasePartial \<Longrightarrow> terminal_outcome oc"
  "oc_Phase oc = DiagnosisPhaseFailed \<Longrightarrow> terminal_outcome oc"
  by (simp_all add: terminal_outcome_def)

lemma run_loop_terminal: "terminal_outcome (fst (run_loop n gt fc a ctx ms t tr w))"
proof (induction n arbitrary: ms t tr w)
  case (Suc n)
  obtain x w1 where x: "pr_Complete (ag_Provider a) (loop_req (ag_Tools a) ms) w = (x, w1)" by force
  show ?case
    by (cases x) (simp_all add: x Let_def final_answer_terminal Suc.IH case_prod_beta split: list.splits)
qed simp

lemma Run_terminal: "Run gt fc a snap w = (oc, w') \<Longrightarrow> terminal_outcome oc"
  using run_loop_terminal [of "nat (max_iterations a)" gt fc a snap] by (metis Run_def fst_conv)

section \<open>The audited handler\<close>

locale audited_reconciler =
  fixes ge :: "'w go_env" and r :: "'w KscribeDiagnosisReconciler" and trace :: "'w \<Rightarrow> call list"
  assumes get: "trace (snd (crc_Get (r_Client r) k w)) = trace w @ [Read k (fst (crc_Get (r_Client r) k w))]"
    and status: "trace (snd (crc_StatusUpdate (r_Client r) kd w)) =
          trace w @ [StatusWritten kd (fst (crc_StatusUpdate (r_Client r) kd w))]"
    and upsert: "trace (snd (dst_UpsertIncident (r_Store r) inc w)) =
          trace w @ [Upserted inc (fst (dst_UpsertIncident (r_Store r) inc w))]"
    and insert: "trace (snd (dst_InsertDiagnosis (r_Store r) d p w)) =
          trace w @ [Inserted d (fst (dst_InsertDiagnosis (r_Store r) d p w))]"
    and model: "trace (snd (pr_Complete (r_AgentProvider r) q w)) = trace w @ [ModelCalled]"
    and tools: "r_ToolExecutor r = Some ex \<Longrightarrow> trace (snd (ex n a w)) = trace w"
    and kube: "r_KubeClient r = Some k' \<Longrightarrow> kube_silent trace k'"
    and clock: "trace (snd (ge_Now ge w)) = trace w"
    and random: "trace (snd (ge_Int64N ge m w)) = trace w"
    and random_range: "0 < m \<Longrightarrow> 0 \<le> fst (ge_Int64N ge m w) \<and> fst (ge_Int64N ge m w) < m"
    and metric: "trace (ge_Metric ge x w) = trace w"
    and go: "trace (ge_Go ge task w) = trace w @ [TaskStarted]"
    and publisher: "r_Publisher r = Some pub \<Longrightarrow> trace (pub i h w) = trace w @ [Published i h]"
    and retry: "retried f w (ge_RetryOnConflict ge f w)"
begin

lemma patch_attempt_calls:
  "\<exists>cs. trace (snd (patch_attempt r key mutate w)) = trace w @ cs
     \<and> patch_calls key mutate cs (fst (patch_attempt r key mutate w))"
  using get [of key w] status
  by (auto simp: patch_attempt_def intro: patch_calls.unread patch_calls.written
      split: prod.splits sum.splits)

lemma retried_calls:
  "retried (patch_attempt r key mutate) w rw \<Longrightarrow>
     \<exists>cs. trace (snd rw) = trace w @ cs \<and> patch_calls key mutate cs (fst rw)"
proof (induction rule: retried.induct)
  case (last w)
  show ?case by (rule patch_attempt_calls)
next
  case (again w e w1 rw)
  from again.hyps(1) patch_attempt_calls [of key mutate w] obtain cs where
    "trace w1 = trace w @ cs" "patch_calls key mutate cs (Some e)" by auto
  with again.IH again.hyps(2) show ?case using patch_calls.retry by fastforce
qed

lemma patchStatus_calls:
  assumes "patchStatus ge r key mutate w = (e, w')"
  obtains cs where "trace w' = trace w @ cs" "patch_calls key mutate cs e"
  using retried_calls [OF retry, of key mutate w] assms by (auto simp: patchStatus_def)

lemma publish_calls: "trace (publish r (sse_id req) (phase_span p) w) = trace w @ published r req p"
  by (simp add: publish_def published_def publisher split: option.splits)

lemma notify_calls: "trace (notifyTerminal ge r kd p s c rs w) = trace w @ task_started r"
  by (simp add: notifyTerminal_def task_started_def go Let_def split: option.splits)

lemma callTool_silent:
  assumes "ag_Executor a = r_ToolExecutor r" "callTool gt a tc w = (x, w')"
  shows "trace w' = trace w"
proof (cases "r_ToolExecutor r")
  case (Some ex)
  obtain y w1 where y: "ex (fn_Name (tc_Function tc)) (fn_Arguments (tc_Function tc)) w = (y, w1)" by force
  then have "w' = w1" using assms Some by (auto simp: callTool_def split: sum.splits)
  then show ?thesis using tools [OF Some, of "fn_Name (tc_Function tc)" "fn_Arguments (tc_Function tc)" w]
    by (simp add: y)
qed (use assms in \<open>simp add: callTool_def\<close>)

lemma run_tools_silent:
  "ag_Executor a = r_ToolExecutor r \<Longrightarrow> run_tools gt a tcs ms tr w = (ms', tr', w') \<Longrightarrow> trace w' = trace w"
proof (induction tcs arbitrary: ms tr w)
  case (Cons tc tcs)
  obtain x w1 where "callTool gt a tc w = (x, w1)" by force
  with Cons show ?case by (auto dest: callTool_silent)
qed simp

lemma model_called: "pr_Complete (r_AgentProvider r) q w = (x, w') \<Longrightarrow> trace w' = trace w @ [ModelCalled]"
  using model [of q w] by simp

lemma final_answer_calls:
  assumes "ag_Provider a = r_AgentProvider r" "final_answer gt fc a ctx ms t tr m w = (oc, w')"
  shows "\<exists>n \<le> 1. trace w' = trace w @ replicate n ModelCalled"
proof (cases "parseRCA gt fc (msg_Content m)")
  case (Inl e)
  obtain x t' w1 where rep: "repairRCA gt fc a ms t w = (x, t', w1)" by (metis prod_cases3)
  then have "trace w1 = trace w @ [ModelCalled]"
    using assms(1) by (auto simp: repairRCA_def Let_def dest: model_called split: prod.splits sum.splits list.splits)
  moreover have "w' = w1" using assms(2) Inl rep by (auto simp: final_answer_def split: sum.splits)
  ultimately show ?thesis by (intro exI [of _ 1]) simp
next
  case (Inr rca)
  then show ?thesis using assms(2) by (auto simp: final_answer_def)
qed

lemma run_loop_calls:
  assumes "ag_Provider a = r_AgentProvider r" "ag_Executor a = r_ToolExecutor r"
  shows "run_loop n gt fc a ctx ms t tr w = (oc, w') \<Longrightarrow>
     \<exists>m. trace w' = trace w @ replicate m ModelCalled \<and> m \<le> Suc n \<and> (0 < n \<longrightarrow> 1 \<le> m)"
proof (induction n arbitrary: ms t tr w)
  case 0
  then show ?case by (intro exI [of _ 0]) simp
next
  case (Suc n)
  obtain x w1 where x: "pr_Complete (ag_Provider a) (loop_req (ag_Tools a) ms) w = (x, w1)" by force
  have one: "trace w1 = trace w @ [ModelCalled]" using x model_called by (simp add: assms(1))
  have rest: "\<exists>m. trace w' = trace w1 @ replicate m ModelCalled \<and> m \<le> Suc n"
  proof (cases "\<exists>resp c cs. x = Inr resp \<and> rsp_Choices resp = c # cs")
    case False
    then have "w' = w1" using Suc.prems x by (cases x) (auto simp: Let_def neq_Nil_conv split: list.splits)
    then show ?thesis by (intro exI [of _ 0]) simp
  next
    case True
    then obtain resp c cs where c: "x = Inr resp" "rsp_Choices resp = c # cs" by blast
    let ?ms = "ms @ [ch_Message c]" and ?t = "to_int64 (t + us_TotalTokens (rsp_Usage resp))"
    obtain ms2 tr2 w2 where tl: "run_tools gt a (msg_ToolCalls (ch_Message c)) ?ms tr w1 = (ms2, tr2, w2)"
      by (metis prod_cases3)
    show ?thesis
    proof (cases "msg_ToolCalls (ch_Message c) = []")
      case True
      then have "final_answer gt fc a ctx ?ms ?t tr (ch_Message c) w1 = (oc, w')"
        using Suc.prems x c by (simp add: Let_def)
      from final_answer_calls [OF assms(1) this] obtain m where
        "m \<le> 1" "trace w' = trace w1 @ replicate m ModelCalled" by blast
      then show ?thesis by (intro exI [of _ m]) simp
    next
      case False
      then have "run_loop n gt fc a ctx ms2 ?t tr2 w2 = (oc, w')"
        using Suc.prems x c tl by (simp add: Let_def)
      from Suc.IH [OF this] run_tools_silent [OF assms(2) tl] show ?thesis by auto
    qed
  qed
  then obtain m where "trace w' = trace w1 @ replicate m ModelCalled" "m \<le> Suc n" by blast
  with one show ?case by (intro exI [of _ "Suc m"]) simp
qed

lemma Run_calls:
  assumes "Run gt fc (agent_of r kd) snap w = (oc, w')"
  obtains n where "trace w' = trace w @ replicate n ModelCalled" "1 \<le> n"
    "int n \<le> max_iterations (agent_of r kd) + 1"
proof -
  have "0 < nat (max_iterations (agent_of r kd))" by (simp add: max_iterations_def)
  then show ?thesis
    using run_loop_calls [of "agent_of r kd" "nat (max_iterations (agent_of r kd))"] assms that
    by (fastforce simp: Run_def agent_of_def)
qed

lemma upserted: "dst_UpsertIncident (r_Store r) inc w = (u, w') \<Longrightarrow> trace w' = trace w @ [Upserted inc u]"
  using upsert [of inc w] by simp

lemma inserted: "dst_InsertDiagnosis (r_Store r) d p w = (u, w') \<Longrightarrow> trace w' = trace w @ [Inserted d u]"
  using insert [of d p w] by simp

lemma got: "crc_Get (r_Client r) k w = (x, w') \<Longrightarrow> trace w' = trace w @ [Read k x]"
  using get [of k w] by simp

lemma read_clock: "ge_Now ge w = (t, w') \<Longrightarrow> trace w' = trace w"
  using clock [of w] by simp

lemma build_context_silent: "build_context ge r kd w = (j, w') \<Longrightarrow> trace w' = trace w"
  using kube BuildSnapshot_silent
  by (fastforce simp: build_context_def Let_def split: option.splits prod.splits sum.splits)

lemma finish_failed_calls:
  assumes "finish_failed ge r j oc t w = (res, e, w')" "oc_Phase oc = DiagnosisPhaseFailed"
  shows "\<exists>cs. trace w' = trace w @ cs \<and> outcome_calls ge r j cs res e"
proof -
  let ?inc = "incident_of (jb_kd j) DiagnosisPhaseFailed (jb_started j) (Some t) (jb_provider j) (jb_model j)
    (oc_TokensUsed oc) False"
  obtain u w1 where u: "dst_UpsertIncident (r_Store r) ?inc w = (u, w1)" by force
  let ?w4 = "publish r (sse_id (jb_req j)) (phase_span DiagnosisPhaseFailed)
    (notifyTerminal ge r (jb_kd j) DiagnosisPhaseFailed [] (oc_RawError oc) [] (ge_Metric ge (DiagnosesTotal ''failed'') w1))"
  have p: "patchStatus ge r (jb_req j) (set_failed ge t (jb_provider j) (jb_model j) oc) ?w4 = (e, w')"
    and res: "res = done_result"
    using assms(1) u by (auto simp: finish_failed_def Let_def split: prod.splits)
  obtain cs where cs: "trace w' = trace ?w4 @ cs"
    "patch_calls (jb_req j) (set_failed ge t (jb_provider j) (jb_model j) oc) cs e"
    using patchStatus_calls [OF p] by blast
  show ?thesis
    using cs outcome_calls.provider_failed [OF assms(2) cs(2), of r u] upserted [OF u]
    by (auto simp: publish_calls notify_calls metric res)
qed

lemma finish_done_calls:
  assumes "finish_done ge r j oc t d w = (res, e, w')" "oc_Phase oc \<noteq> DiagnosisPhaseFailed" "terminal_outcome oc"
    and "d = fst (final_diagnosis (jb_kd j) ctx oc)" "trace w = tr @ [Inserted d None]"
  shows "\<exists>cs. trace w' = tr @ cs \<and> outcome_calls ge r j cs res e"
proof -
  let ?inc = "incident_of (jb_kd j) (oc_Phase oc) (jb_started j) (Some t) (jb_provider j) (jb_model j)
    (oc_TokensUsed oc) True"
  obtain u w1 where u: "dst_UpsertIncident (r_Store r) ?inc w = (u, w1)" by force
  let ?w4 = "publish r (sse_id (jb_req j)) (phase_span (oc_Phase oc))
    (notifyTerminal ge r (jb_kd j) (oc_Phase oc) (dg_Summary d) (dg_RootCause d) (remediationSteps oc)
      (ge_Metric ge (DiagnosesTotal (ToLower (oc_Phase oc))) w1))"
  have p: "patchStatus ge r (jb_req j) (set_done ge t (jb_provider j) (jb_model j) oc) ?w4 = (e, w')"
    and res: "res = done_result"
    using assms(1) u by (auto simp: finish_done_def Let_def split: prod.splits)
  obtain cs where cs: "trace w' = trace ?w4 @ cs"
    "patch_calls (jb_req j) (set_done ge t (jb_provider j) (jb_model j) oc) cs e"
    using patchStatus_calls [OF p] by blast
  show ?thesis
    using cs outcome_calls.stored [OF assms(3,2,4) cs(2), of r u] upserted [OF u] assms(5)
    by (auto simp: publish_calls notify_calls metric res)
qed

lemma persist_calls:
  assumes "persist ge r j ctx oc t w = (res, e, w')" "oc_Phase oc \<noteq> DiagnosisPhaseFailed" "terminal_outcome oc"
  shows "\<exists>cs. trace w' = trace w @ cs \<and> outcome_calls ge r j cs res e"
proof -
  obtain d p where d: "final_diagnosis (jb_kd j) ctx oc = (d, p)" by force
  obtain u w1 where u: "dst_InsertDiagnosis (r_Store r) d p w = (u, w1)" by force
  note tr = inserted [OF u]
  show ?thesis
  proof (cases u)
    case None
    then have "finish_done ge r j oc t d w1 = (res, e, w')"
      using assms(1) d u by (simp add: persist_def)
    from finish_done_calls [OF this assms(2,3), of ctx "trace w"] show ?thesis using d tr None by simp
  next
    case (Some x)
    obtain q w2 where q: "patchStatus ge r (jb_req j) (set_storage_error ge x) w1 = (q, w2)" by force
    then have "res = \<lparr>res_RequeueAfter = 30 * Second\<rparr>" "e = Some x" "w' = w2"
      using assms(1) d u Some by (auto simp: persist_def Let_def)
    moreover obtain cs where "trace w2 = trace w1 @ cs" "patch_calls (jb_req j) (set_storage_error ge x) cs q"
      using patchStatus_calls [OF q] by blast
    ultimately show ?thesis
      using outcome_calls.not_stored [OF assms(3,2), of d j ctx ge x cs q r] d tr Some by auto
  qed
qed

lemma diagnose_calls:
  assumes "diagnose ge r j w = (res, e, w')"
  shows "\<exists>n cs. trace w' = trace w @ replicate n ModelCalled @ cs \<and> 1 \<le> n
     \<and> int n \<le> max_iterations (agent_of r (jb_kd j)) + 1 \<and> outcome_calls ge r j cs res e"
proof -
  obtain ctx w1 where 1: "build_context ge r (jb_kd j) w = (ctx, w1)" by force
  obtain t1 w2 where 2: "ge_Now ge w1 = (t1, w2)" by force
  obtain oc w3 where 3: "Run (ge_texts ge) (ge_floats ge) (agent_of r (jb_kd j)) ctx w2 = (oc, w3)" by force
  obtain t2 w4 where 4: "ge_Now ge w3 = (t2, w4)" by force
  let ?w6 = "ge_Metric ge (LLMTokensTotal (jb_provider j) (jb_model j) (oc_TokensUsed oc))
    (ge_Metric ge (LLMRequestSeconds (jb_provider j) (time_Sub t2 t1)) w4)"
  obtain t w7 where 7: "ge_Now ge ?w6 = (t, w7)" by force
  have fin: "(if oc_Phase oc = DiagnosisPhaseFailed then finish_failed ge r j oc t w7
       else persist ge r j ctx oc t w7) = (res, e, w')"
    using assms unfolding diagnose_def Let_def 1 2 3 4 7 prod.case by simp
  obtain cs where cs: "trace w' = trace w7 @ cs" "outcome_calls ge r j cs res e"
    using fin finish_failed_calls [of j oc t w7 res e w'] persist_calls [of j ctx oc t w7 res e w'] Run_terminal [OF 3]
    by (auto split: if_splits)
  obtain n where n: "trace w3 = trace w2 @ replicate n ModelCalled" "1 \<le> n"
    "int n \<le> max_iterations (agent_of r (jb_kd j)) + 1"
    using Run_calls [OF 3] by blast
  have "trace w7 = trace w @ replicate n ModelCalled"
    using build_context_silent [OF 1] read_clock [OF 2] n(1) read_clock [OF 4] read_clock [OF 7] by (simp add: metric)
  with cs n show ?thesis by (intro exI [of _ n] exI [of _ cs]) simp
qed

text \<open>After the object was marked: publish, read it again, diagnose.\<close>

definition marked ::
  "NamespacedName \<Rightarrow> KscribeDiagnosis \<Rightarrow> gotime \<Rightarrow> 'w \<Rightarrow> Result \<times> err option \<times> 'w" where
  "marked req kd t w3 =
     (case crc_Get (r_Client r) req (publish r (sse_id req) (phase_span DiagnosisPhaseDiagnosing) w3) of
        (Inl e, w5) \<Rightarrow> (done_result, IgnoreNotFound e, w5)
      | (Inr kd', w5) \<Rightarrow> diagnose ge r \<lparr>jb_req = req, jb_kd = kd', jb_started = t,
          jb_provider = effectiveLLMProvider r kd, jb_model = effectiveLLMModel r kd\<rparr> w5)"

lemma marked_calls:
  assumes "marked req kd t w3 = (res, e, w')"
    and "patch_calls req (set_diagnosing ge t (effectiveLLMProvider r kd) (effectiveLLMModel r kd)) cs None"
  shows "\<exists>cs'. trace w' = trace w3 @ cs' \<and> diagnosis_calls ge r req kd
     (Upserted (incident_of kd DiagnosisPhaseDiagnosing t None (effectiveLLMProvider r kd)
        (effectiveLLMModel r kd) 0 False) None # cs @ cs') res e"
proof -
  let ?w4 = "publish r (sse_id req) (phase_span DiagnosisPhaseDiagnosing) w3"
  obtain x w5 where 5: "crc_Get (r_Client r) req ?w4 = (x, w5)" by force
  have tr5: "trace w5 = trace w3 @ published r req DiagnosisPhaseDiagnosing @ [Read req x]"
    using got [OF 5] by (simp add: publish_calls)
  show ?thesis
  proof (cases x)
    case (Inl y)
    then have "res = done_result" "e = IgnoreNotFound y" "w' = w5"
      using assms(1) 5 by (auto simp: marked_def)
    then show ?thesis using tr5 Inl diagnosis_calls.vanished [OF assms(2)] by auto
  next
    case (Inr kd')
    let ?j = "\<lparr>jb_req = req, jb_kd = kd', jb_started = t, jb_provider = effectiveLLMProvider r kd,
      jb_model = effectiveLLMModel r kd\<rparr>"
    have "diagnose ge r ?j w5 = (res, e, w')" using assms(1) 5 Inr by (simp add: marked_def)
    from diagnose_calls [OF this] obtain n cs' where n: "trace w' = trace w5 @ replicate n ModelCalled @ cs'"
      "1 \<le> n" "int n \<le> max_iterations (agent_of r kd') + 1" "outcome_calls ge r ?j cs' res e"
      by auto
    from diagnosis_calls.diagnosed [OF assms(2) n(2-4)] n(1) tr5 Inr show ?thesis by auto
  qed
qed

lemma begin_diagnosis_calls:
  assumes "begin_diagnosis ge r req kd w = (res, e, w')"
  shows "\<exists>cs. trace w' = trace w @ cs \<and> diagnosis_calls ge r req kd cs res e"
proof -
  let ?p = "effectiveLLMProvider r kd" and ?m = "effectiveLLMModel r kd"
  obtain t w1 where 1: "ge_Now ge w = (t, w1)" by force
  let ?inc = "incident_of kd DiagnosisPhaseDiagnosing t None ?p ?m 0 False"
  obtain u w2 where 2: "dst_UpsertIncident (r_Store r) ?inc w1 = (u, w2)" by force
  have tr2: "trace w2 = trace w @ [Upserted ?inc u]" using upserted [OF 2] read_clock [OF 1] by simp
  obtain q w3 where 3: "patchStatus ge r req (set_diagnosing ge t ?p ?m) w2 = (q, w3)" by force
  obtain cs where cs: "trace w3 = trace w2 @ cs" "patch_calls req (set_diagnosing ge t ?p ?m) cs q"
    using patchStatus_calls [OF 3] by blast
  consider x where "u = Some x" | x where "u = None" "q = Some x" | "u = None" "q = None" by fastforce
  then show ?thesis
  proof cases
    case 1
    then have "res = done_result" "e = Some (errorf_w ''upsert incident (diagnosing): '' x)" "w' = w2"
      using assms \<open>ge_Now ge w = (t, w1)\<close> 2 by (auto simp: begin_diagnosis_def)
    then show ?thesis using tr2 1 diagnosis_calls.not_mirrored by auto
  next
    case 2
    then have "res = done_result" "e = Some (errorf_w ''update status (diagnosing): '' x)" "w' = w3"
      using assms \<open>ge_Now ge w = (t, w1)\<close> \<open>dst_UpsertIncident (r_Store r) ?inc w1 = (u, w2)\<close> 3
      by (auto simp: begin_diagnosis_def)
    then show ?thesis using tr2 cs 2 diagnosis_calls.not_marked by auto
  next
    case 3
    then have "marked req kd t w3 = (res, e, w')"
      using assms 1 2 \<open>patchStatus ge r req (set_diagnosing ge t ?p ?m) w2 = (q, w3)\<close>
      by (simp add: begin_diagnosis_def marked_def Let_def)
    from marked_calls [OF this] cs(2) 3 obtain cs' where "trace w' = trace w3 @ cs'"
      "diagnosis_calls ge r req kd (Upserted ?inc None # cs @ cs') res e" by auto
    then show ?thesis using tr2 cs(1) 3 by auto
  qed
qed

lemma throttle_calls:
  assumes "throttle ge r req w = (res, e, w')"
  shows "\<exists>cs p after. trace w' = trace w @ cs \<and> patch_calls req (set_throttled ge) cs p
     \<and> res = \<lparr>res_RequeueAfter = after\<rparr> \<and> 2 * Minute \<le> after \<and> after < 5 * Minute \<and> e = None"
proof -
  let ?w1 = "ge_Metric ge DiagnosesThrottledTotal w"
  obtain q w2 where 2: "patchStatus ge r req (set_throttled ge) ?w1 = (q, w2)" by force
  obtain x w3 where 3: "ge_Int64N ge (3 * Minute) w2 = (x, w3)" by force
  obtain cs where cs: "trace w2 = trace ?w1 @ cs" "patch_calls req (set_throttled ge) cs q"
    using patchStatus_calls [OF 2] by blast
  have "0 \<le> x" "x < 3 * Minute" "trace w3 = trace w2"
    using random_range [of "3 * Minute" w2] random [of "3 * Minute" w2] Minute_pos by (simp_all add: 3)
  moreover have "res = \<lparr>res_RequeueAfter = 2 * Minute + x\<rparr>" "e = None" "w' = w3"
    using assms 2 3 by (auto simp: throttle_def Let_def)
  ultimately show ?thesis using cs metric [of DiagnosesThrottledTotal w] by auto
qed

lemma start_diagnosis_calls:
  assumes "start_diagnosis ge r req kd lim w = ((res, e, w'), lim')" "runnable kd"
    and "trace w = tr @ [Read req (Inr kd)]"
  shows "\<exists>cs. trace w' = tr @ cs \<and> handler_calls ge r req cs res e"
proof -
  obtain ok lim1 w1 where a: "allow_start ge lim w = ((ok, lim1), w1)" by (metis prod.collapse)
  have tr: "trace w1 = trace w"
    using a by (auto simp: allow_start_def dest: read_clock split: option.splits if_splits prod.splits)
  show ?thesis
  proof (cases ok)
    case True
    then have "begin_diagnosis ge r req kd w1 = (res, e, w')"
      using assms(1) a by (simp add: start_diagnosis_def)
    from begin_diagnosis_calls [OF this] obtain cs where "trace w' = trace w1 @ cs"
      "diagnosis_calls ge r req kd cs res e" by blast
    then show ?thesis using tr assms(3) handler_calls.started [OF assms(2)] by auto
  next
    case False
    then have "throttle ge r req w1 = (res, e, w')"
      using assms(1) a by (simp add: start_diagnosis_def)
    from throttle_calls [OF this] show ?thesis
      using tr assms(3) handler_calls.throttled [OF assms(2)] by auto
  qed
qed

lemma mirror_calls:
  assumes "mirror_terminal r kd w = (res, e, w')" "mirrored_only kd" "trace w = tr @ [Read req (Inr kd)]"
  shows "\<exists>cs. trace w' = tr @ cs \<and> handler_calls ge r req cs res e"
proof -
  obtain u w1 where u: "dst_UpsertIncident (r_Store r) (incidentFromDiagnosis kd) w = (u, w1)" by force
  have "res = done_result" "e = map_option (errorf_w ''upsert incident (terminal mirror): '') u" "w' = w1"
    using assms(1) u by (auto simp: mirror_terminal_def split: option.splits)
  then show ?thesis using upserted [OF u] assms(3) handler_calls.mirrored [OF assms(2)] by auto
qed

theorem Reconcile_calls:
  assumes "Reconcile ge r req lim w = ((res, e, w'), lim')"
  shows "\<exists>cs. trace w' = trace w @ cs \<and> handler_calls ge r req cs res e"
proof -
  obtain x w1 where x: "crc_Get (r_Client r) req w = (x, w1)" by force
  note tr1 = got [OF x]
  show ?thesis
  proof (cases x)
    case (Inl y)
    then show ?thesis using assms x tr1 handler_calls.gone by (auto simp: Reconcile_def)
  next
    case (Inr kd)
    obtain t w2 where t: "ge_Now ge w1 = (t, w2)" by force
    have tr2: "trace w2 = trace w @ [Read req (Inr kd)]" using read_clock [OF t] tr1 Inr by simp
    consider "start_diagnosis ge r req kd lim w1 = ((res, e, w'), lim')" "runnable kd"
      | "start_diagnosis ge r req kd lim w2 = ((res, e, w'), lim')" "runnable kd"
      | "mirror_terminal r kd w1 = (res, e, w')" "mirrored_only kd"
      | "res = done_result" "e = None" "w' = w2" "kd_Phase kd = DiagnosisPhaseDiagnosing"
        "\<not> st_Persisted (kd_Status kd)" "\<not> hasStorageError kd"
      using assms x Inr t by (auto simp: Reconcile_def runnable_def mirrored_only_def split: if_splits)
    then show ?thesis
    proof cases
      case 1
      from start_diagnosis_calls [OF this] tr1 Inr show ?thesis by simp
    next
      case 2
      from start_diagnosis_calls [OF this tr2] show ?thesis .
    next
      case 3
      from mirror_calls [OF this] tr1 Inr show ?thesis by simp
    next
      case 4
      with handler_calls.running [of kd] tr2 show ?thesis by auto
    qed
  qed
qed

end

section \<open>The handler over the SQL store\<close>

text \<open>
  A world in which every answer from outside is a script: API reads and writes, replies of
  the model, clock readings, random numbers and failures of SQL statements are taken from
  lists, so a theorem about all worlds covers every behaviour of the environment. The store is the
  modelled database, the cluster is any fixed set of answers.
\<close>

record op_world =
  ow_db :: Store
  ow_calls :: "call list"
  ow_gets :: "(err + KscribeDiagnosis) list"
  ow_updates :: "err option list"
  ow_replies :: "(err + Response) list"
  ow_clock :: "gotime list"
  ow_random :: "nat list"
  ow_faults :: "err option list"

definition first :: "'a \<Rightarrow> 'a list \<Rightarrow> 'a" where
  "first z xs = (case xs of [] \<Rightarrow> z | x # _ \<Rightarrow> x)"

definition next_clock :: "op_world \<Rightarrow> gotime \<times> op_world" where
  "next_clock w = (first 0 (ow_clock w), w\<lparr>ow_clock := tl (ow_clock w)\<rparr>)"

definition sql_client :: "op_world cr_client" where
  "sql_client = \<lparr>
     crc_Get = (\<lambda>k w. let x = first (Inl (Err NotFound ''not found'')) (ow_gets w)
        in (x, w\<lparr>ow_gets := tl (ow_gets w), ow_calls := ow_calls w @ [Read k x]\<rparr>)),
     crc_StatusUpdate = (\<lambda>kd w. let x = first None (ow_updates w)
        in (x, w\<lparr>ow_updates := tl (ow_updates w), ow_calls := ow_calls w @ [StatusWritten kd x]\<rparr>))\<rparr>"

definition sql_store :: "float_codec \<Rightarrow> op_world DiagnosisStore" where
  "sql_store fc = \<lparr>
     dst_UpsertIncident = (\<lambda>inc w.
        let (now, w1) = next_clock w;
            (e, db) = UpsertIncident now (first None (ow_faults w1)) inc (ow_db w1)
        in (e, w1\<lparr>ow_db := db, ow_faults := tl (ow_faults w1), ow_calls := ow_calls w1 @ [Upserted inc e]\<rparr>)),
     dst_InsertDiagnosis = (\<lambda>d p w.
        let (now, w1) = next_clock w;
            (e, db) = InsertDiagnosis now (first None (ow_faults w1)) d (marshal_payload fc p) (ow_db w1)
        in (e, w1\<lparr>ow_db := db, ow_faults := tl (ow_faults w1), ow_calls := ow_calls w1 @ [Inserted d e]\<rparr>))\<rparr>"

definition scripted_provider :: "op_world Provider" where
  "scripted_provider = \<lparr>pr_Complete = (\<lambda>q w. (first (Inl (errorf ''no reply'')) (ow_replies w),
       w\<lparr>ow_replies := tl (ow_replies w), ow_calls := ow_calls w @ [ModelCalled]\<rparr>)),
     pr_CompleteStream = None\<rparr>"

text \<open>A cluster whose answers do not depend on the world.\<close>

definition fixed_cluster :: "unit kube \<Rightarrow> op_world kube" where
  "fixed_cluster c = \<lparr>
     k_ListEvents = (\<lambda>ns w. (fst (k_ListEvents c ns ()), w)),
     k_GetPod = (\<lambda>ns n w. (fst (k_GetPod c ns n ()), w)),
     k_GetDeployment = (\<lambda>ns n w. (fst (k_GetDeployment c ns n ()), w)),
     k_GetReplicaSet = (\<lambda>ns n w. (fst (k_GetReplicaSet c ns n ()), w)),
     k_ListPods = (\<lambda>ns s w. (fst (k_ListPods c ns s ()), w)),
     k_GetNode = (\<lambda>n w. (fst (k_GetNode c n ()), w)), k_AsSelector = k_AsSelector c,
     k_PodLogs = (\<lambda>ns p ct t w. (fst (k_PodLogs c ns p ct t ()), w)),
     k_LogPanic = (\<lambda>ns p ct w. k_LogPanic c ns p ct ())\<rparr>"

fun retry_steps :: "nat \<Rightarrow> ('w \<Rightarrow> err option \<times> 'w) \<Rightarrow> 'w \<Rightarrow> err option \<times> 'w" where
  "retry_steps 0 f w = f w"
| "retry_steps (Suc n) f w =
     (case f w of (Some e, w1) \<Rightarrow> if IsConflict e then retry_steps n f w1 else (Some e, w1) | (None, w1) \<Rightarrow> (None, w1))"

lemma retry_steps_retried: "retried f w (retry_steps n f w)"
proof (induction n arbitrary: w)
  case (Suc n)
  show ?case
    using Suc retried.last [of f w] retried.again [of f w]
    by (auto split: prod.splits option.splits)
qed (simp add: retried.last)

definition sql_env :: "go_texts \<Rightarrow> float_codec \<Rightarrow> set_status_condition \<Rightarrow> op_world go_env" where
  "sql_env gt fc ssc = \<lparr>ge_Now = next_clock,
     ge_Int64N = (\<lambda>m w. (int (first 0 (ow_random w)) mod m, w\<lparr>ow_random := tl (ow_random w)\<rparr>)),
     ge_Go = (\<lambda>task w. w\<lparr>ow_calls := ow_calls w @ [TaskStarted]\<rparr>), ge_Metric = (\<lambda>m w. w),
     ge_RetryOnConflict = retry_steps 4, ge_SetStatusCondition = ssc, ge_texts = gt, ge_floats = fc\<rparr>"

definition sql_reconciler ::
  "go_texts \<Rightarrow> float_codec \<Rightarrow> unit kube option \<Rightarrow> bool \<Rightarrow> op_world Notifier option \<Rightarrow> string \<Rightarrow> string \<Rightarrow> int
     \<Rightarrow> op_world KscribeDiagnosisReconciler" where
  "sql_reconciler gt fc c live nf provider model maxIter = \<lparr>r_Client = sql_client, r_Store = sql_store fc,
     r_AgentProvider = scripted_provider,
     r_Publisher = (if live then Some (\<lambda>i h w. w\<lparr>ow_calls := ow_calls w @ [Published i h]\<rparr>) else None),
     r_LLMProvider = provider, r_LLMModel = model, r_MaxIter = maxIter, r_Concurrency = 1, r_Tools = KubeTools,
     r_ToolExecutor = map_option (\<lambda>k. Execute gt (fixed_cluster k)) c,
     r_KubeClient = map_option fixed_cluster c, r_MaxPodsPerWorkload = 3, r_Notifier = nf\<rparr>"

lemma fixed_cluster_reads:
  "snd (k_ListEvents (fixed_cluster c) ns w) = w" "snd (k_GetNode (fixed_cluster c) n w) = w"
  "snd (k_PodLogs (fixed_cluster c) ns p ct t w) = w"
  by (simp_all add: fixed_cluster_def)

lemma Execute_fixed: "snd (Execute gt (fixed_cluster c) n a w) = w"
  by (auto simp: Execute_def getPodLogs_def getEvents_def getNode_def fixed_cluster_def
      split: sum.splits prod.splits log_stream.splits)

interpretation sql: audited_reconciler "sql_env gt fc ssc" "sql_reconciler gt fc c live nf provider model maxIter" ow_calls
  for gt fc ssc c live nf provider model maxIter
  by unfold_locales
    (auto simp: sql_env_def sql_reconciler_def sql_client_def sql_store_def scripted_provider_def next_clock_def
      Let_def kube_silent_def fixed_cluster_def Execute_fixed [unfolded fixed_cluster_def]
      retry_steps_retried case_prod_beta split: if_splits)

end
