(* ===== verification/Reconciler_Laws.thy ===== *)
theory Reconciler_Laws
  imports Reconciler_Protocol
begin

text \<open>
  The promises of the diagnosis handler, derived from its protocol by rule inversion: the order
  of store and status writes (ADR-003), the states an object is moved to, what a run that
  reports success has achieved, and how storage failures are handled.
\<close>

section \<open>Status changes\<close>

text \<open>
  The status changes of a sequence of calls: each write together with the object read right
  before it and whether a diagnosis was stored before it.
\<close>

fun status_changes :: "bool \<Rightarrow> call list \<Rightarrow> (bool \<times> KscribeDiagnosis \<times> KscribeDiagnosis) list" where
  "status_changes b [] = []"
| "status_changes b (Read k (Inr cur) # StatusWritten new u # cs) = (b, cur, new) # status_changes b cs"
| "status_changes b (Inserted d None # cs) = status_changes True cs"
| "status_changes b (c # cs) = status_changes b cs"

lemma patch_changes:
  "patch_calls k m cs e \<Longrightarrow>
     \<exists>curs. \<forall>b ys. status_changes b (cs @ ys) = map (\<lambda>c. (b, c, m c)) curs @ status_changes b ys"
proof (induction rule: patch_calls.induct)
  case (unread e)
  show ?case by (intro exI [of _ "[]"]) simp
next
  case (written cur u)
  show ?case by (intro exI [of _ "[cur]"]) simp
next
  case (retry cs e cs' u)
  then obtain xs ys where
    "\<forall>b zs. status_changes b (cs @ zs) = map (\<lambda>c. (b, c, m c)) xs @ status_changes b zs"
    "\<forall>b zs. status_changes b (cs' @ zs) = map (\<lambda>c. (b, c, m c)) ys @ status_changes b zs" by blast
  then show ?case by (intro exI [of _ "xs @ ys"]) simp
qed

lemma patch_starts_with_read: "patch_calls k m cs e \<Longrightarrow> \<exists>x cs'. cs = Read k x # cs'"
  by (induction rule: patch_calls.induct) auto

lemma status_changes_skip:
  "(\<And>new u cs'. cs \<noteq> StatusWritten new u # cs') \<Longrightarrow> status_changes b (Read k x # cs) = status_changes b cs"
proof (cases cs)
  case (Cons c cs')
  assume "\<And>new u cs'. cs \<noteq> StatusWritten new u # cs'"
  with Cons show ?thesis by (cases x; cases c) auto
qed (cases x; simp)

lemma status_changes_silent [simp]:
  "status_changes b (replicate n ModelCalled @ cs) = status_changes b cs"
  "status_changes b (published r req p @ cs) = status_changes b cs"
  "status_changes b (task_started r @ cs) = status_changes b cs"
  by (induction n) (simp_all add: published_def task_started_def split: option.splits)

text \<open>An admissible change: a new phase of the handler's own, terminal results only once stored.\<close>

definition change_ok :: "bool \<times> KscribeDiagnosis \<times> KscribeDiagnosis \<Rightarrow> bool" where
  "change_ok x = (case x of (stored, cur, new) \<Rightarrow>
     kd_Meta new = kd_Meta cur \<and> kd_Spec new = kd_Spec cur
     \<and> (kd_Phase new \<noteq> kd_Phase cur \<longrightarrow>
          kd_Phase new \<in> {DiagnosisPhasePending, DiagnosisPhaseDiagnosing, DiagnosisPhaseFailed}
          \<or> stored \<and> kd_Phase new \<in> {DiagnosisPhaseDone, DiagnosisPhasePartial})
     \<and> (st_Persisted (kd_Status new) \<and> \<not> st_Persisted (kd_Status cur) \<longrightarrow> stored))"

lemma change_ok_setters:
  "change_ok (b, c, set_throttled ge c)" "change_ok (b, c, set_diagnosing ge t p m c)"
  "change_ok (b, c, set_failed ge t p m oc c)" "change_ok (b, c, set_storage_error ge e c)"
  "terminal_outcome oc \<Longrightarrow> change_ok (True, c, set_done ge t p m oc c)"
  by (auto simp: change_ok_def set_throttled_def set_diagnosing_def set_failed_def set_storage_error_def
      set_done_def terminal_outcome_def Let_def split: option.splits)

lemma patch_change_ok:
  assumes "patch_calls k m cs e" "\<And>c. change_ok (b, c, m c)" "list_all change_ok (status_changes b ys)"
  shows "list_all change_ok (status_changes b (cs @ ys))"
proof -
  obtain curs where "status_changes b (cs @ ys) = map (\<lambda>c. (b, c, m c)) curs @ status_changes b ys"
    using patch_changes [OF assms(1)] by blast
  then show ?thesis using assms(2,3) by (auto simp: list_all_iff)
qed

lemma patch_change_ok_last:
  "patch_calls k m cs e \<Longrightarrow> (\<And>c. change_ok (b, c, m c)) \<Longrightarrow> list_all change_ok (status_changes b cs)"
  using patch_change_ok [of k m cs e b "[]"] by simp

lemma outcome_changes:
  "outcome_calls ge r j cs res e \<Longrightarrow> list_all change_ok (status_changes False cs)"
  by (induction rule: outcome_calls.induct) (simp_all add: patch_change_ok_last change_ok_setters)

lemma outcome_starts: "outcome_calls ge r j cs res e \<Longrightarrow> cs \<noteq> StatusWritten new u # cs'"
  by (induction rule: outcome_calls.induct) auto

lemma diagnosis_changes:
  "diagnosis_calls ge r req kd cs res e \<Longrightarrow> list_all change_ok (status_changes False cs)"
proof (induction rule: diagnosis_calls.induct)
  case (diagnosed t cs n kd' cs' res e)
  have "status_changes False ([Read req (Inr kd')] @ replicate n ModelCalled @ cs') = status_changes False cs'"
    using diagnosed.hyps(2) by (cases n) (simp_all add: status_changes_skip)
  with diagnosed show ?case
    by (auto intro!: patch_change_ok [OF diagnosed.hyps(1)] simp: change_ok_setters outcome_changes)
qed (auto intro: patch_change_ok patch_change_ok_last simp: change_ok_setters)

lemma diagnosis_starts: "diagnosis_calls ge r req kd cs res e \<Longrightarrow> \<exists>inc u cs'. cs = Upserted inc u # cs'"
  by (induction rule: diagnosis_calls.induct) auto

lemma handler_changes:
  "handler_calls ge r req cs res e \<Longrightarrow> list_all change_ok (status_changes False cs)"
proof (induction rule: handler_calls.induct)
  case (throttled kd cs p after)
  obtain x cs' where "cs = Read req x # cs'" using patch_starts_with_read [OF throttled.hyps(2)] by blast
  then have "status_changes False (Read req (Inr kd) # cs) = status_changes False cs"
    by (simp add: status_changes_skip)
  then show ?case using patch_change_ok_last [OF throttled.hyps(2)] by (simp add: change_ok_setters)
next
  case (started kd cs res e)
  obtain inc u cs' where "cs = Upserted inc u # cs'" using diagnosis_starts [OF started.hyps(2)] by blast
  then show ?case using diagnosis_changes [OF started.hyps(2)] by simp
qed simp_all

section \<open>Results\<close>

lemma patch_calls_kinds:
  "patch_calls k m cs e \<Longrightarrow> Inserted d u \<notin> set cs \<and> ModelCalled \<notin> set cs \<and> Upserted i u' \<notin> set cs"
  by (induction rule: patch_calls.induct) auto

lemma silent_kinds [simp]:
  "Inserted d u \<notin> set (published r req p)" "Inserted d u \<notin> set (task_started r)"
  by (auto simp: published_def task_started_def split: option.splits)

lemma patch_calls_success:
  "patch_calls k m cs e \<Longrightarrow> e = None \<Longrightarrow> \<exists>cur cs'. cs = cs' @ [Read k (Inr cur), StatusWritten (m cur) None]"
proof (induction rule: patch_calls.induct)
  case (retry cs e cs' r)
  then obtain cur cs'' where "cs' = cs'' @ [Read k (Inr cur), StatusWritten (m cur) None]" by blast
  then show ?case by (intro exI [of _ cur] exI [of _ "cs @ cs''"]) simp
qed auto

text \<open>Runs in which storing the diagnosis fails.\<close>

lemma outcome_not_stored:
  assumes "outcome_calls ge r j cs res e" "Inserted d (Some x) \<in> set cs"
  shows "res = \<lparr>res_RequeueAfter = 30 * Second\<rparr> \<and> e = Some x
     \<and> (\<exists>curs. status_changes False cs = map (\<lambda>c. (False, c, set_storage_error ge x c)) curs)"
  using assms
proof (induction rule: outcome_calls.induct)
  case (not_stored oc d ctx e' cs p)
  moreover obtain curs where
    "\<And>ys. status_changes False (cs @ ys) = map (\<lambda>c. (False, c, set_storage_error ge e' c)) curs @ status_changes False ys"
    using patch_changes [OF not_stored.hyps(4)] by blast
  from this [of "[]"] not_stored show ?case using patch_calls_kinds by auto
qed (use patch_calls_kinds in auto)

lemma diagnosis_not_stored:
  assumes "diagnosis_calls ge r req kd cs res e" "Inserted d (Some x) \<in> set cs"
  shows "res = \<lparr>res_RequeueAfter = 30 * Second\<rparr> \<and> e = Some x
     \<and> (\<exists>t ms curs. status_changes False cs = map (\<lambda>c. (False, c, set_diagnosing ge t (effectiveLLMProvider r kd)
            (effectiveLLMModel r kd) c)) ms @ map (\<lambda>c. (False, c, set_storage_error ge x c)) curs)"
  using assms
proof (induction rule: diagnosis_calls.induct)
  case (diagnosed t cs n kd' cs' res e)
  have "Inserted d (Some x) \<in> set cs'" using diagnosed.prems patch_calls_kinds [OF diagnosed.hyps(1)] by auto
  note fin = outcome_not_stored [OF diagnosed.hyps(4) this]
  have "status_changes False (Read req (Inr kd') # replicate n ModelCalled @ cs') = status_changes False cs'"
    using diagnosed.hyps(2) by (cases n) (simp_all add: status_changes_skip)
  with fin patch_changes [OF diagnosed.hyps(1)] show ?case by fastforce
qed (use patch_calls_kinds in auto)

text \<open>Runs that succeed on a runnable object.\<close>

definition finished :: "KscribeDiagnosis \<Rightarrow> bool" where
  "finished kd \<longleftrightarrow> kd_Phase kd \<in> {DiagnosisPhaseDone, DiagnosisPhasePartial, DiagnosisPhaseFailed}
     \<and> st_CompletedAt (kd_Status kd) \<noteq> None"

lemma finished_setters:
  "finished (set_failed ge t p m oc c)" "terminal_outcome oc \<Longrightarrow> finished (set_done ge t p m oc c)"
  by (auto simp: finished_def set_failed_def set_done_def terminal_outcome_def Let_def split: option.splits)

lemma outcome_success:
  assumes "outcome_calls ge r j cs res e" "e = None"
  shows "\<exists>new. last cs = StatusWritten new None \<and> finished new \<and> cs \<noteq> []"
  using assms
proof (induction rule: outcome_calls.induct)
  case (provider_failed oc t cs e u)
  from patch_calls_success [OF provider_failed.hyps(2) provider_failed.prems] show ?case
    by (auto simp: finished_setters)
next
  case (stored oc d ctx t cs e u)
  from patch_calls_success [OF stored.hyps(4) stored.prems] show ?case
    using stored.hyps(1) by (auto simp: finished_setters)
qed simp

lemma diagnosis_success:
  assumes "diagnosis_calls ge r req kd cs res e" "e = None"
  shows "(\<exists>y. last cs = Read req (Inl y) \<and> IsNotFound y) \<or> (\<exists>new. last cs = StatusWritten new None \<and> finished new)"
  using assms
proof (induction rule: diagnosis_calls.induct)
  case (diagnosed t cs n kd' cs' res e)
  from outcome_success [OF diagnosed.hyps(4) diagnosed.prems] show ?case by auto
qed (auto simp: IgnoreNotFound_def split: if_splits)

text \<open>The limiter is asked once, by runs of runnable objects only, before anything is called.\<close>

context audited_reconciler
begin

lemma start_granted:
  assumes "start_diagnosis ge r req kd (Some l) w = ((res, e, w'), lim')" "0 < rl_limit l"
    and "trace w = tr @ [Read req x]" "trace w' = tr @ cs" "ModelCalled \<in> set cs"
  shows "\<exists>now. now = fst (ge_Now ge w) \<and> int (length (keep_after (now - rl_window l) (rl_starts l))) < rl_limit l
     \<and> lim' = Some (l\<lparr>rl_starts := keep_after (now - rl_window l) (rl_starts l) @ [now]\<rparr>)"
proof -
  obtain now w1 where now: "ge_Now ge w = (now, w1)" by force
  obtain ok l1 where al: "Allow now (Some l) = (ok, l1)" by force
  have start: "allow_start ge (Some l) w = ((ok, l1), w1)" using assms(2) now al by (simp add: allow_start_def)
  have ok
  proof (rule ccontr)
    assume "\<not> ok"
    then have "throttle ge r req w1 = (res, e, w')" using assms(1) start by (simp add: start_diagnosis_def)
    from throttle_calls [OF this] obtain cs' p where "trace w' = trace w1 @ cs'" "patch_calls req (set_throttled ge) cs' p"
      by blast
    with assms(3-5) read_clock [OF now] patch_calls_kinds show False by auto
  qed
  then show ?thesis
    using al assms(1,2) start now by (auto simp: Allow_def Let_def start_diagnosis_def split: if_splits)
qed

lemma mirror_trace:
  assumes "mirror_terminal r kd w = (res, e, w')"
  shows "\<exists>u. trace w' = trace w @ [Upserted (incidentFromDiagnosis kd) u]"
proof -
  obtain u w1 where u: "dst_UpsertIncident (r_Store r) (incidentFromDiagnosis kd) w = (u, w1)" by force
  then have "w' = w1" using assms by (auto simp: mirror_terminal_def split: option.splits)
  with upserted [OF u] show ?thesis by blast
qed

lemma Reconcile_granted:
  assumes "Reconcile ge r req (Some l) w = ((res, e, w'), lim')" "0 < rl_limit l"
    and "trace w' = trace w @ cs" "ModelCalled \<in> set cs"
  shows "\<exists>now w0. now = fst (ge_Now ge w0) \<and> int (length (keep_after (now - rl_window l) (rl_starts l))) < rl_limit l
     \<and> lim' = Some (l\<lparr>rl_starts := keep_after (now - rl_window l) (rl_starts l) @ [now]\<rparr>)"
proof -
  obtain x w1 where x: "crc_Get (r_Client r) req w = (x, w1)" by force
  have tr1: "trace w1 = trace w @ [Read req x]" by (rule got [OF x])
  obtain t w2 where t: "ge_Now ge w1 = (t, w2)" by force
  note tr2 = read_clock [OF t]
  show ?thesis
  proof (cases "\<exists>kd w0. (w0 = w1 \<or> w0 = w2) \<and> start_diagnosis ge r req kd (Some l) w0 = ((res, e, w'), lim')")
    case True
    then obtain kd0 w0 where w0: "w0 = w1 \<or> w0 = w2" "start_diagnosis ge r req kd0 (Some l) w0 = ((res, e, w'), lim')"
      by blast
    have "trace w0 = trace w @ [Read req x]" using w0(1) tr1 tr2 by auto
    from start_granted [OF w0(2) assms(2) this assms(3,4)] show ?thesis by blast
  next
    case False
    then have "\<exists>kd. mirror_terminal r kd w1 = (res, e, w') \<or> w' = w1 \<or> w' = w2"
      using assms(1) x t by (auto simp: Reconcile_def split: sum.splits if_splits)
    then have "ModelCalled \<notin> set cs"
      using assms(3) tr1 tr2 by (auto dest!: mirror_trace)
    with assms(4) show ?thesis by blast
  qed
qed

end

section \<open>Properties\<close>

text \<open>
C2: Every run of the reconciler follows the protocol \<^verbatim>\<open>handler_calls\<close>: whatever the API server,
the store, the model and the cluster answer, the calls of the run are one of the admissible
sequences, with the result and error that the sequence prescribes; in particular the model is
called between one and maxIterations + 1 times, or not at all.
\<close>

theorem Reconcile_refines_protocol:
  assumes "audited_reconciler ge r trace" "Reconcile ge r req lim w = ((res, e, w'), lim')"
  shows "\<exists>cs. trace w' = trace w @ cs \<and> handler_calls ge r req cs res e"
  by (rule audited_reconciler.Reconcile_calls [OF assms])

text \<open>
C1: Write ordering (ADR-003). Every status write changes only the status; it moves an object to
Done or Partial, or marks it persisted, only after the diagnosis was stored successfully
in the same run, and the only other phases it sets are Pending, Diagnosing and Failed.
\<close>

theorem terminal_status_only_after_store:
  assumes "audited_reconciler ge r trace" "Reconcile ge r req lim w = ((res, e, w'), lim')"
    "trace w' = trace w @ cs" "(stored, cur, new) \<in> set (status_changes False cs)"
  shows "kd_Meta new = kd_Meta cur \<and> kd_Spec new = kd_Spec cur
     \<and> (kd_Phase new \<noteq> kd_Phase cur \<longrightarrow>
          kd_Phase new \<in> {DiagnosisPhasePending, DiagnosisPhaseDiagnosing, DiagnosisPhaseFailed}
          \<or> stored \<and> kd_Phase new \<in> {DiagnosisPhaseDone, DiagnosisPhasePartial})
     \<and> (st_Persisted (kd_Status new) \<and> \<not> st_Persisted (kd_Status cur) \<longrightarrow> stored)"
proof -
  have "handler_calls ge r req cs res e"
    using audited_reconciler.Reconcile_calls [OF assms(1,2)] assms(3) by auto
  then have "list_all change_ok (status_changes False cs)" by (rule handler_changes)
  with assms(4) have "change_ok (stored, cur, new)" by (auto simp: list_all_iff)
  then show ?thesis by (simp add: change_ok_def)
qed

text \<open>A closed run: a Pending object, a model whose answer is no JSON and then fails, a working store.\<close>

definition sample_kd :: KscribeDiagnosis where
  "sample_kd = \<lparr>kd_Meta = \<lparr>om_Name = ''ksd-1'', om_Namespace = ''kscribe'', om_Labels = [], om_Generation = 1,
       om_ResourceVersion = ''7'', om_CreationTimestamp = 0\<rparr>,
     kd_Spec = \<lparr>spec_InvolvedObjectName = ''web'', spec_InvolvedObjectNamespace = ''prod'',
       spec_InvolvedObjectKind = ''Pod'', spec_Reason = ''BackOff'', spec_Message = [], spec_EventUID = ''u1'',
       spec_Count = 1, spec_FirstTimestamp = None, spec_LastTimestamp = None, spec_PolicyRef = [],
       spec_LLMProvider = [], spec_LLMModel = [], spec_LLMBaseURL = [], spec_MaxIterations = Some 2,
       spec_Redact = None\<rparr>,
     kd_Status = zero_status\<lparr>st_Phase := DiagnosisPhasePending\<rparr>\<rparr>"

definition sample_req :: NamespacedName where
  "sample_req = \<lparr>nn_Namespace = ''kscribe'', nn_Name = ''ksd-1''\<rparr>"

definition sample_world :: "err option list \<Rightarrow> op_world" where
  "sample_world faults = \<lparr>ow_db = empty_store, ow_calls = [],
     ow_gets = [Inr sample_kd, Inr sample_kd, Inr sample_kd, Inr sample_kd], ow_updates = [],
     ow_replies = [Inr \<lparr>rsp_Choices = [\<lparr>ch_Message = text_message ''assistant'' [], ch_FinishReason = ''stop''\<rparr>],
       rsp_Usage = \<lparr>us_TotalTokens = 3\<rparr>\<rparr>], ow_clock = [], ow_random = [], ow_faults = faults\<rparr>"

definition sample_env :: "op_world go_env" where
  "sample_env = sql_env sample_texts sample_codec (\<lambda>cs c. cs @ [c])"

definition sample_reconciler :: "op_world KscribeDiagnosisReconciler" where
  "sample_reconciler = sql_reconciler sample_texts sample_codec None False None ''openai'' ''m'' 5"

lemma sample_audited: "audited_reconciler sample_env sample_reconciler ow_calls"
  unfolding sample_env_def sample_reconciler_def by (rule sql.audited_reconciler_axioms)

lemma sample_parse: "parseRCA sample_texts sample_codec [] = Inl (errorf_w ''unmarshal: '' (unmarshal_error sample_texts ''agent.RCAResult'' []))"
  by code_simp

lemmas sample_simps = sample_env_def sample_reconciler_def sql_env_def sql_reconciler_def sql_client_def sql_store_def
  scripted_provider_def first_def next_clock_def Let_def

lemma sample_kd_simps:
  "kd_Phase sample_kd = DiagnosisPhasePending" "spec_MaxIterations (kd_Spec sample_kd) = Some 2"
  "effectiveLLMProvider sample_reconciler sample_kd = ''openai''" "effectiveLLMModel sample_reconciler sample_kd = ''m''"
  by (simp_all add: sample_kd_def effectiveLLMProvider_def effectiveLLMModel_def sample_simps)

definition sample_outcome :: "string \<Rightarrow> Outcome" where
  "sample_outcome ctx = \<lparr>oc_Phase = DiagnosisPhasePartial, oc_RCA = None, oc_TokensUsed = 3,
     oc_RawError = ''rca parse: '' @ msg_of (errorf_w ''unmarshal: '' (unmarshal_error sample_texts ''agent.RCAResult'' []))
       @ ''; repair: no reply'', oc_Reasoning = [], oc_Trace = [], oc_ContextJSON = ctx\<rparr>"

lemma sample_agent_run:
  "Run sample_texts sample_codec (agent_of sample_reconciler sample_kd) ctx
     \<lparr>ow_db = db, ow_calls = cs, ow_gets = gs, ow_updates = us, ow_replies = ow_replies (sample_world fs),
      ow_clock = ts, ow_random = rs, ow_faults = fs\<rparr> =
     (sample_outcome ctx, \<lparr>ow_db = db, ow_calls = cs @ [ModelCalled, ModelCalled], ow_gets = gs, ow_updates = us,
        ow_replies = [], ow_clock = ts, ow_random = rs, ow_faults = fs\<rparr>)"
  by (simp add: Run_def agent_of_def max_iterations_def sample_kd_simps sample_world_def sample_simps
      eval_nat_numeral text_message_def final_answer_def sample_parse repairRCA_def sample_outcome_def
      errorf_def wrap_signed_def)

definition sample_context :: string where
  "sample_context = fst (build_context sample_env sample_reconciler sample_kd (sample_world []))"

lemma sample_build_context: "build_context sample_env sample_reconciler sample_kd w = (sample_context, w)"
  by (simp add: sample_context_def build_context_def sample_simps)

lemma sample_interface:
  "crc_Get (r_Client sample_reconciler) k \<lparr>ow_db = db, ow_calls = cs, ow_gets = g # gs, ow_updates = [], ow_replies = ps, ow_clock = [], ow_random = rs, ow_faults = fs\<rparr> =
     (g, \<lparr>ow_db = db, ow_calls = cs @ [Read k g], ow_gets = gs, ow_updates = [], ow_replies = ps, ow_clock = [], ow_random = rs, ow_faults = fs\<rparr>)"
  "crc_StatusUpdate (r_Client sample_reconciler) kd \<lparr>ow_db = db, ow_calls = cs, ow_gets = gs, ow_updates = [], ow_replies = ps, ow_clock = [], ow_random = rs, ow_faults = fs\<rparr> = (None, \<lparr>ow_db = db, ow_calls = cs @ [StatusWritten kd None], ow_gets = gs, ow_updates = [], ow_replies = ps, ow_clock = [], ow_random = rs, ow_faults = fs\<rparr>)"
  "dst_UpsertIncident (r_Store sample_reconciler) inc \<lparr>ow_db = db, ow_calls = cs, ow_gets = gs, ow_updates = [], ow_replies = ps, ow_clock = [], ow_random = rs, ow_faults = []\<rparr> =
     (None, \<lparr>ow_db = snd (UpsertIncident 0 None inc db), ow_calls = cs @ [Upserted inc None], ow_gets = gs, ow_updates = [], ow_replies = ps, ow_clock = [], ow_random = rs, ow_faults = []\<rparr>)"
  "dst_UpsertIncident (r_Store sample_reconciler) inc \<lparr>ow_db = db, ow_calls = cs, ow_gets = gs, ow_updates = [], ow_replies = ps, ow_clock = [], ow_random = rs, ow_faults = f # fs\<rparr> =
     (f, \<lparr>ow_db = snd (UpsertIncident 0 f inc db), ow_calls = cs @ [Upserted inc f], ow_gets = gs, ow_updates = [], ow_replies = ps, ow_clock = [], ow_random = rs, ow_faults = fs\<rparr>)"
  "dst_InsertDiagnosis (r_Store sample_reconciler) d (ErrorPayload m) \<lparr>ow_db = db, ow_calls = cs, ow_gets = gs, ow_updates = [], ow_replies = ps, ow_clock = [], ow_random = rs, ow_faults = []\<rparr> =
     (None, \<lparr>ow_db = snd (InsertDiagnosis 0 None d (marshal_payload sample_codec (ErrorPayload m)) db), ow_calls = cs @ [Inserted d None], ow_gets = gs, ow_updates = [], ow_replies = ps, ow_clock = [], ow_random = rs, ow_faults = []\<rparr>)"
  "dst_InsertDiagnosis (r_Store sample_reconciler) d (ErrorPayload m)
     \<lparr>ow_db = db, ow_calls = cs, ow_gets = gs, ow_updates = [], ow_replies = ps, ow_clock = [], ow_random = rs, ow_faults = Some e # fs\<rparr> = (Some e, \<lparr>ow_db = db, ow_calls = cs @ [Inserted d (Some e)], ow_gets = gs, ow_updates = [], ow_replies = ps, ow_clock = [], ow_random = rs, ow_faults = fs\<rparr>)"
  "ge_Now sample_env \<lparr>ow_db = db, ow_calls = cs, ow_gets = gs, ow_updates = [], ow_replies = ps, ow_clock = [], ow_random = rs, ow_faults = fs\<rparr> = (0, \<lparr>ow_db = db, ow_calls = cs, ow_gets = gs, ow_updates = [], ow_replies = ps, ow_clock = [], ow_random = rs, ow_faults = fs\<rparr>)"
  "ge_Metric sample_env x w = w" "ge_RetryOnConflict sample_env f' w = retry_steps 4 f' w"
  "ge_texts sample_env = sample_texts" "ge_floats sample_env = sample_codec"
  "r_Publisher sample_reconciler = None" "r_Notifier sample_reconciler = None"
  by (simp_all add: sample_simps UpsertIncident_def InsertDiagnosis_def marshal_payload_def split: option.splits)

lemmas sample_path = Reconcile_def start_diagnosis_def allow_start_def begin_diagnosis_def diagnose_def
  persist_def final_diagnosis_def publish_def notifyTerminal_def patchStatus_def patch_attempt_def
  sample_build_context sample_kd_simps Allow_def sample_interface Let_def eval_nat_numeral

lemma sample_world_run:
  "Run sample_texts sample_codec (agent_of sample_reconciler sample_kd) ctx
     \<lparr>ow_db = db, ow_calls = cs, ow_gets = gs, ow_updates = us, ow_replies =
        [Inr \<lparr>rsp_Choices = [\<lparr>ch_Message = text_message ''assistant'' [], ch_FinishReason = ''stop''\<rparr>],
          rsp_Usage = \<lparr>us_TotalTokens = 3\<rparr>\<rparr>], ow_clock = ts, ow_random = rs, ow_faults = fs\<rparr> =
     (sample_outcome ctx, \<lparr>ow_db = db, ow_calls = cs @ [ModelCalled, ModelCalled], ow_gets = gs, ow_updates = us,
        ow_replies = [], ow_clock = ts, ow_random = rs, ow_faults = fs\<rparr>)"
  using sample_agent_run [of ctx db cs gs us fs ts rs] by (simp add: sample_world_def)

lemma sample_outcome_simps:
  "oc_Phase (sample_outcome ctx) = DiagnosisPhasePartial" "oc_RCA (sample_outcome ctx) = None"
  "oc_Trace (sample_outcome ctx) = []" "json_print (enc_trace []) = ''[]''"
  "DiagnosisPhasePartial \<noteq> DiagnosisPhaseFailed"
  by (simp_all add: sample_outcome_def enc_trace_def phase_defs)

lemma sample_stored:
  "\<exists>w'. Reconcile sample_env sample_reconciler sample_req None (sample_world []) = ((done_result, None, w'), None)
     \<and> (True, sample_kd, set_done sample_env 0 ''openai'' ''m'' (sample_outcome sample_context) sample_kd)
         \<in> set (status_changes False (ow_calls w'))"
  by (simp add: sample_path sample_world_def sample_world_run sample_outcome_simps finish_done_def)

lemma sample_not_stored:
  "\<exists>w' d cs. Reconcile sample_env sample_reconciler sample_req None (sample_world [None, Some (errorf ''disk full'')])
       = ((\<lparr>res_RequeueAfter = 30 * Second\<rparr>, Some (errorf ''disk full''), w'), None)
     \<and> ow_calls w' = cs \<and> Inserted d (Some (errorf ''disk full'')) \<in> set cs"
  by (simp add: sample_path sample_world_def sample_world_run sample_outcome_simps)

theorem Reconcile_refines_protocol_witness:
  "\<exists>cs res e w'. Reconcile sample_env sample_reconciler sample_req None (sample_world []) = ((res, e, w'), None)
     \<and> ow_calls w' = cs \<and> handler_calls sample_env sample_reconciler sample_req cs res e"
proof -
  obtain w' where run: "Reconcile sample_env sample_reconciler sample_req None (sample_world []) = ((done_result, None, w'), None)"
    using sample_stored by blast
  from Reconcile_refines_protocol [OF sample_audited this] run show ?thesis by (auto simp: sample_world_def)
qed

theorem terminal_status_only_after_store_witness:
  "\<exists>w' new. Reconcile sample_env sample_reconciler sample_req None (sample_world []) = ((done_result, None, w'), None)
     \<and> (True, sample_kd, new) \<in> set (status_changes False (ow_calls w')) \<and> kd_Spec new = kd_Spec sample_kd"
proof -
  obtain w' new where run: "Reconcile sample_env sample_reconciler sample_req None (sample_world []) = ((done_result, None, w'), None)"
    "(True, sample_kd, new) \<in> set (status_changes False (ow_calls w'))"
    using sample_stored by blast
  have "ow_calls w' = ow_calls (sample_world []) @ ow_calls w'" by (simp add: sample_world_def)
  from terminal_status_only_after_store [OF sample_audited run(1) this run(2)] run show ?thesis by blast
qed



text \<open>
C3: A run that reports success finished its work. When the handler returns without error and
without a delay for an object that is Pending or has no phase, then either the object is gone,
or the last call of the run is a successful status write that leaves the object Done, Partial or
Failed with its completion time.
\<close>

theorem success_means_finished:
  assumes "audited_reconciler ge r trace" "Reconcile ge r req lim w = ((done_result, None, w'), lim')"
    "trace w' = trace w @ Read req (Inr kd) # cs" "kd_Phase kd \<in> {[], DiagnosisPhasePending}"
  shows "cs \<noteq> [] \<and> ((\<exists>y. last cs = Read req (Inl y) \<and> IsNotFound y)
     \<or> (\<exists>new. last cs = StatusWritten new None
          \<and> kd_Phase new \<in> {DiagnosisPhaseDone, DiagnosisPhasePartial, DiagnosisPhaseFailed}
          \<and> st_CompletedAt (kd_Status new) \<noteq> None))"
proof -
  have hc: "handler_calls ge r req (Read req (Inr kd) # cs) done_result None"
    using audited_reconciler.Reconcile_calls [OF assms(1,2)] assms(3) by auto
  have "Minute > 0" by simp
  with hc have dc: "diagnosis_calls ge r req kd cs done_result None"
    using assms(4) by (cases rule: handler_calls.cases)
      (auto simp: done_result_def mirrored_only_def phase_defs)
  from diagnosis_starts [OF dc] diagnosis_success [OF dc] show ?thesis by (auto simp: finished_def)
qed

theorem success_means_finished_witness:
  "\<exists>w' cs. Reconcile sample_env sample_reconciler sample_req None (sample_world []) = ((done_result, None, w'), None)
     \<and> ow_calls w' = Read sample_req (Inr sample_kd) # cs \<and> cs \<noteq> []"
proof -
  obtain w' where run: "Reconcile sample_env sample_reconciler sample_req None (sample_world []) = ((done_result, None, w'), None)"
    using sample_stored by blast
  have "\<exists>cs. ow_calls w' = ow_calls (sample_world []) @ Read sample_req (Inr sample_kd) # cs"
    using run by (auto simp: sample_path sample_world_def sample_world_run sample_outcome_simps finish_done_def)
  then obtain cs where cs: "ow_calls w' = ow_calls (sample_world []) @ Read sample_req (Inr sample_kd) # cs" by blast
  from success_means_finished [OF sample_audited run cs] run cs show ?thesis
    by (auto simp: sample_kd_simps sample_world_def)
qed

text \<open>
C5: The cost cap gates the model. A run with a positive limit that calls the model at all has
taken a grant from the rate limiter: at a clock reading of the run fewer than the limit starts
were left in the window, and that reading is the only start added.
\<close>

theorem model_calls_need_grant:
  assumes "audited_reconciler ge r trace" "Reconcile ge r req (Some l) w = ((res, e, w'), lim')"
    "0 < rl_limit l" "trace w' = trace w @ cs" "ModelCalled \<in> set cs"
  shows "\<exists>now w0. now = fst (ge_Now ge w0)
     \<and> int (length (keep_after (now - rl_window l) (rl_starts l))) < rl_limit l
     \<and> lim' = Some (l\<lparr>rl_starts := keep_after (now - rl_window l) (rl_starts l) @ [now]\<rparr>)"
  by (rule audited_reconciler.Reconcile_granted [OF assms])

theorem model_calls_need_grant_witness:
  "\<exists>res e w' lim'. Reconcile sample_env sample_reconciler sample_req (Some (NewRateLimiter 2)) (sample_world [])
       = ((res, e, w'), lim') \<and> ModelCalled \<in> set (ow_calls w')
     \<and> (\<exists>now. lim' = Some ((NewRateLimiter 2)\<lparr>rl_starts := [now]\<rparr>))"
proof -
  have "\<exists>res e w' lim'. Reconcile sample_env sample_reconciler sample_req (Some (NewRateLimiter 2)) (sample_world [])
       = ((res, e, w'), lim') \<and> ModelCalled \<in> set (ow_calls w')"
    by (simp add: sample_path sample_world_def sample_world_run sample_outcome_simps finish_done_def
        NewRateLimiter_def keep_after_def)
  then obtain res e w' lim' where run: "Reconcile sample_env sample_reconciler sample_req (Some (NewRateLimiter 2))
      (sample_world []) = ((res, e, w'), lim')" "ModelCalled \<in> set (ow_calls w')" by blast
  have "ow_calls w' = ow_calls (sample_world []) @ ow_calls w'" by (simp add: sample_world_def)
  from model_calls_need_grant [OF sample_audited run(1) _ this run(2)] run show ?thesis
    by (auto simp: NewRateLimiter_def keep_after_def)
qed

end
