(* ===== verification/Broker.thy ===== *)
theory Broker
  imports Kscribe_Prelude
begin

text \<open>
  The event broker of the dashboard, \<^verbatim>\<open>src/internal/web/broker.go\<close>. A channel with its buffer of
  eight events is an entry of \<^verbatim>\<open>br_chans\<close>; its number stands for the channel's identity. The
  mutex makes each operation atomic, so the broker is a transition system: subscribing,
  unsubscribing, publishing, and a subscriber receiving from its channel.
\<close>

section \<open>Model\<close>

type_synonym channel = nat

record Broker =
  br_subs :: "(string, channel list) gomap"
  br_chans :: "(channel, string list) gomap"
  br_next :: channel

definition channel_capacity :: nat where
  "channel_capacity = 8"

definition NewBroker :: Broker where
  "NewBroker = \<lparr>br_subs = [], br_chans = [], br_next = 0\<rparr>"

definition subs_of :: "Broker \<Rightarrow> string \<Rightarrow> channel list" where
  "subs_of b incidentID = (case gm_get (br_subs b) incidentID of None \<Rightarrow> [] | Some cs \<Rightarrow> cs)"

definition buffer_of :: "Broker \<Rightarrow> channel \<Rightarrow> string list" where
  "buffer_of b ch = (case gm_get (br_chans b) ch of None \<Rightarrow> [] | Some q \<Rightarrow> q)"

definition Subscribe :: "string \<Rightarrow> Broker \<Rightarrow> channel \<times> Broker" where
  "Subscribe incidentID b =
     (let ch = br_next b
      in (ch, b\<lparr>br_next := Suc ch, br_chans := gm_put ch [] (br_chans b),
                br_subs := gm_put incidentID (subs_of b incidentID @ [ch]) (br_subs b)\<rparr>))"

definition unsubscribe :: "string \<Rightarrow> channel \<Rightarrow> Broker \<Rightarrow> Broker" where
  "unsubscribe incidentID ch b =
     (case gm_get (br_subs b) incidentID of
        None \<Rightarrow> b
      | Some cs \<Rightarrow>
          (let cs' = filter (\<lambda>c. c \<noteq> ch) cs
           in if cs' = [] then b\<lparr>br_subs := gm_del incidentID (br_subs b)\<rparr>
              else b\<lparr>br_subs := gm_put incidentID cs' (br_subs b)\<rparr>))"

text \<open>The \<^verbatim>\<open>select\<close> with a \<^verbatim>\<open>default\<close>: an event for a full buffer is dropped.\<close>

definition offer :: "string \<Rightarrow> channel \<Rightarrow> Broker \<Rightarrow> Broker" where
  "offer e ch b =
     (if length (buffer_of b ch) < channel_capacity
      then b\<lparr>br_chans := gm_put ch (buffer_of b ch @ [e]) (br_chans b)\<rparr> else b)"

definition Publish :: "string \<Rightarrow> string \<Rightarrow> Broker \<Rightarrow> Broker" where
  "Publish incidentID e b = fold (offer e) (subs_of b incidentID) b"

text \<open>A receive on a channel with an event in its buffer, as the stream handlers do it.\<close>

definition receive :: "channel \<Rightarrow> Broker \<Rightarrow> (string \<times> Broker) option" where
  "receive ch b =
     (case buffer_of b ch of
        [] \<Rightarrow> None
      | e # q \<Rightarrow> Some (e, b\<lparr>br_chans := gm_put ch q (br_chans b)\<rparr>))"

section \<open>The transition system\<close>

text \<open>
  Labels name the operation. \<^verbatim>\<open>unsubscribe\<close> is only ever called by the cancel function that
  \<^verbatim>\<open>Subscribe\<close> returned, with the topic and the channel of that subscription.
\<close>

datatype label = Subscribed string channel | Unsubscribed string channel
  | PublishedTo string string | Received channel string

inductive broker_step :: "Broker \<Rightarrow> label \<Rightarrow> Broker \<Rightarrow> bool" where
  sub: "Subscribe t b = (ch, b') \<Longrightarrow> broker_step b (Subscribed t ch) b'"
| unsub: "broker_step b (Unsubscribed t ch) (unsubscribe t ch b)"
| pub: "broker_step b (PublishedTo t e) (Publish t e b)"
| recv: "receive ch b = Some (e, b') \<Longrightarrow> broker_step b (Received ch e) b'"

inductive_cases broker_stepE: "broker_step b l b'"

inductive broker_run :: "label list \<Rightarrow> Broker \<Rightarrow> bool" where
  start: "broker_run [] NewBroker"
| step: "broker_run ls b \<Longrightarrow> broker_step b l b' \<Longrightarrow> broker_run (ls @ [l]) b'"

definition broker_inv :: "Broker \<Rightarrow> bool" where
  "broker_inv b \<longleftrightarrow> gm_ok (br_subs b) \<and> gm_ok (br_chans b)
     \<and> (\<forall>t. gm_get (br_subs b) t \<noteq> Some [])
     \<and> (\<forall>t. distinct (subs_of b t) \<and> (\<forall>c \<in> set (subs_of b t). c < br_next b))
     \<and> (\<forall>t t' c. c \<in> set (subs_of b t) \<and> c \<in> set (subs_of b t') \<longrightarrow> t = t')
     \<and> (\<forall>c. length (buffer_of b c) \<le> channel_capacity)
     \<and> (\<forall>c \<ge> br_next b. buffer_of b c = [])"

section \<open>Lemmas\<close>

lemma subs_of_simps [simp]:
  "subs_of (b\<lparr>br_chans := q\<rparr>) t = subs_of b t" "subs_of (b\<lparr>br_next := n\<rparr>) t = subs_of b t"
  "subs_of (b\<lparr>br_subs := gm_put t' cs m\<rparr>) t = (if t = t' then cs else subs_of (b\<lparr>br_subs := m\<rparr>) t)"
  "subs_of (b\<lparr>br_subs := gm_del t' m\<rparr>) t = (if t = t' then [] else subs_of (b\<lparr>br_subs := m\<rparr>) t)"
  "subs_of (b\<lparr>br_subs := br_subs b\<rparr>) t = subs_of b t"
  by (auto simp: subs_of_def)

lemma buffer_of_simps [simp]:
  "buffer_of (b\<lparr>br_subs := m\<rparr>) c = buffer_of b c" "buffer_of (b\<lparr>br_next := n\<rparr>) c = buffer_of b c"
  "buffer_of (b\<lparr>br_chans := gm_put c' q qs\<rparr>) c = (if c = c' then q else buffer_of (b\<lparr>br_chans := qs\<rparr>) c)"
  by (auto simp: buffer_of_def)

lemma offer_simps [simp]:
  "br_subs (offer e c b) = br_subs b" "br_next (offer e c b) = br_next b" "subs_of (offer e c b) t = subs_of b t"
  "gm_ok (br_chans b) \<Longrightarrow> gm_ok (br_chans (offer e c b))"
  by (auto simp: offer_def)

lemma offer_buffer:
  "buffer_of (offer e c b) c' =
     (if c' = c \<and> length (buffer_of b c) < channel_capacity then buffer_of b c @ [e] else buffer_of b c')"
  by (auto simp: offer_def)

lemma fold_offer:
  "distinct cs \<Longrightarrow> buffer_of (fold (offer e) cs b) c =
     (if c \<in> set cs \<and> length (buffer_of b c) < channel_capacity then buffer_of b c @ [e] else buffer_of b c)"
  "br_subs (fold (offer e) cs b) = br_subs b" "br_next (fold (offer e) cs b) = br_next b"
  "gm_ok (br_chans b) \<Longrightarrow> gm_ok (br_chans (fold (offer e) cs b))"
  by (induction cs arbitrary: b) (auto simp: offer_buffer)

lemma subs_of_offers [simp]: "subs_of (fold (offer e) cs b) t = subs_of b t"
  by (simp add: subs_of_def fold_offer)

lemma subs_of_unsubscribe [simp]:
  "subs_of (unsubscribe t ch b) t' = (if t' = t then filter (\<lambda>c. c \<noteq> ch) (subs_of b t) else subs_of b t')"
  by (auto simp: unsubscribe_def subs_of_def Let_def split: option.splits)

lemma unsubscribe_simps [simp]:
  "br_next (unsubscribe t ch b) = br_next b" "br_chans (unsubscribe t ch b) = br_chans b"
  "buffer_of (unsubscribe t ch b) c = buffer_of b c"
  "gm_ok (br_subs b) \<Longrightarrow> gm_ok (br_subs (unsubscribe t ch b))"
  "\<forall>t. gm_get (br_subs b) t \<noteq> Some [] \<Longrightarrow> gm_get (br_subs (unsubscribe t ch b)) t' \<noteq> Some []"
  by (auto simp: unsubscribe_def Let_def buffer_of_def split: option.splits if_splits)

lemma receive_simps:
  "receive ch b = Some (e, b') \<Longrightarrow> \<exists>q. buffer_of b ch = e # q \<and> b' = b\<lparr>br_chans := gm_put ch q (br_chans b)\<rparr>"
  by (auto simp: receive_def split: list.splits)

lemma broker_invI:
  assumes "gm_ok (br_subs b)" "gm_ok (br_chans b)" "\<And>t. gm_get (br_subs b) t \<noteq> Some []"
    and "\<And>t. distinct (subs_of b t)" "\<And>t c. c \<in> set (subs_of b t) \<Longrightarrow> c < br_next b"
    and "\<And>t t' c. c \<in> set (subs_of b t) \<Longrightarrow> c \<in> set (subs_of b t') \<Longrightarrow> t = t'"
    and "\<And>c. length (buffer_of b c) \<le> channel_capacity" "\<And>c. br_next b \<le> c \<Longrightarrow> buffer_of b c = []"
  shows "broker_inv b"
  using assms unfolding broker_inv_def by blast

lemma broker_invD:
  assumes "broker_inv b"
  shows "gm_ok (br_subs b)" "gm_ok (br_chans b)" "gm_get (br_subs b) t \<noteq> Some []" "\<forall>t. gm_get (br_subs b) t \<noteq> Some []"
    "distinct (subs_of b t)" "c \<in> set (subs_of b t) \<Longrightarrow> c < br_next b"
    "c \<in> set (subs_of b t) \<Longrightarrow> c \<in> set (subs_of b t') \<Longrightarrow> t = t'"
    "length (buffer_of b c) \<le> channel_capacity" "br_next b \<le> c \<Longrightarrow> buffer_of b c = []"
    "br_next b \<notin> set (subs_of b t)"
  using assms unfolding broker_inv_def by blast+

lemma inv_NewBroker: "broker_inv NewBroker"
  by (rule broker_invI) (simp_all add: NewBroker_def subs_of_def buffer_of_def)

lemma Subscribe_simps:
  assumes "Subscribe t b = (ch, b')"
  shows "ch = br_next b" "br_next b' = Suc ch" "subs_of b' t' = (if t' = t then subs_of b t @ [ch] else subs_of b t')"
    "buffer_of b' c = (if c = ch then [] else buffer_of b c)"
    "gm_ok (br_subs b) \<Longrightarrow> gm_ok (br_subs b')" "gm_ok (br_chans b) \<Longrightarrow> gm_ok (br_chans b')"
    "\<forall>t. gm_get (br_subs b) t \<noteq> Some [] \<Longrightarrow> gm_get (br_subs b') t' \<noteq> Some []"
  using assms by (auto simp: Subscribe_def Let_def subs_of_def buffer_of_def split: if_splits)

lemma inv_Subscribe:
  assumes "broker_inv b" "Subscribe t b = (ch, b')"
  shows "broker_inv b'"
proof (rule broker_invI)
  note s = Subscribe_simps [OF assms(2)] and d = broker_invD [OF assms(1)]
  show "gm_ok (br_subs b')" "gm_ok (br_chans b')" "gm_get (br_subs b') t' \<noteq> Some []" for t'
    using s(5-7) d(1,2,4) by simp_all
  show "distinct (subs_of b' t')" for t' using s(1,3) d(5,10) by simp
  show "c < br_next b'" if "c \<in> set (subs_of b' t')" for c t'
    using that s(1-3) d(6) by (auto simp: less_Suc_eq split: if_splits)
  show "t' = t''" if "c \<in> set (subs_of b' t')" "c \<in> set (subs_of b' t'')" for c t' t''
    using that s(1,3) d(7,10) by (auto split: if_splits)
  show "length (buffer_of b' c) \<le> channel_capacity" for c using s(4) d(8) by simp
  show "buffer_of b' c = []" if "br_next b' \<le> c" for c using that s(1,2,4) d(9) by simp
qed

lemma inv_unsubscribe:
  assumes "broker_inv b"
  shows "broker_inv (unsubscribe t ch b)"
  by (rule broker_invI) (use broker_invD [OF assms] in \<open>auto split: if_splits\<close>)

lemma inv_Publish:
  assumes "broker_inv b"
  shows "broker_inv (Publish t e b)"
proof (rule broker_invI)
  note d = broker_invD [OF assms]
  have buf: "buffer_of (Publish t e b) c = (if c \<in> set (subs_of b t) \<and> length (buffer_of b c) < channel_capacity
      then buffer_of b c @ [e] else buffer_of b c)" for c
    by (simp add: Publish_def fold_offer d(5))
  have "br_next (Publish t e b) = br_next b" by (simp add: Publish_def fold_offer)
  then show "buffer_of (Publish t e b) c = []" if "br_next (Publish t e b) \<le> c" for c
    using that d(6) [of c t] d(9) [of c] by (auto simp: buf)
  show "length (buffer_of (Publish t e b) c) \<le> channel_capacity" for c using d(8) by (simp add: buf)
qed (use broker_invD [OF assms] in \<open>simp_all add: Publish_def fold_offer\<close>)

lemma inv_receive:
  assumes "broker_inv b" "receive ch b = Some (e, b')"
  shows "broker_inv b'"
proof (rule broker_invI)
  note d = broker_invD [OF assms(1)]
  obtain q where q: "buffer_of b ch = e # q" "b' = b\<lparr>br_chans := gm_put ch q (br_chans b)\<rparr>"
    using receive_simps [OF assms(2)] by blast
  show "length (buffer_of b' c) \<le> channel_capacity" for c using d(8) [of c] d(8) [of ch] by (simp add: q)
  show "buffer_of b' c = []" if "br_next b' \<le> c" for c using that d(9) [of c] q by auto
qed (use broker_invD [OF assms(1)] receive_simps [OF assms(2)] in auto)

lemma broker_run_inv: "broker_run ls b \<Longrightarrow> broker_inv b"
proof (induction rule: broker_run.induct)
  case (step ls b l b')
  then show ?case
    by (auto elim!: broker_stepE intro: inv_Subscribe inv_unsubscribe inv_Publish inv_receive)
qed (rule inv_NewBroker)

section \<open>Properties\<close>



end
