(* ===== verification/Auth.thy ===== *)
theory Auth
  imports Rate_Limit Dedup
begin

text \<open>
  Authentication of the dashboard, \<^verbatim>\<open>src/internal/web/auth.go\<close>: the token check, the
  middleware, the login handlers and the limiter of failed logins. A request carries the
  values the standard library reads from it; a handler returns its response and the new state of
  the limiter. The clock readings of a handler are its arguments, in the order of the calls.
\<close>

section \<open>Requests and responses\<close>

record http_req =
  rq_Method :: string
  rq_Path :: string
  rq_RemoteAddr :: string
  rq_Header :: "string \<Rightarrow> string"
  rq_Cookie :: "string \<Rightarrow> string option"
  rq_FormValue :: "string \<Rightarrow> string"

text \<open>
  A response is a page with its status, headers and body, or a redirect with its status and the
  cookie it sets. \<^verbatim>\<open>http.Error\<close> answers with a line of plain text, next to the headers
  \<open>hs\<close> set before.
\<close>

datatype SameSite = SameSiteLaxMode | SameSiteStrictMode | SameSiteNoneMode

record http_cookie =
  ck_Name :: string
  ck_Value :: string
  ck_Path :: string
  ck_HttpOnly :: bool
  ck_SameSite :: SameSite
  ck_Secure :: bool

datatype response = Page int "(string \<times> string) list" string | Redirect string int "http_cookie option"

definition http_Error :: "(string \<times> string) list \<Rightarrow> string \<Rightarrow> int \<Rightarrow> response" where
  "http_Error hs body code =
     Page code (hs @ [(''Content-Type'', ''text/plain; charset=utf-8''), (''X-Content-Type-Options'', ''nosniff'')])
       (body @ nl)"

definition authCookieName :: string where
  "authCookieName = ''kscribe_token''"

definition loginAttemptLimit :: nat where
  "loginAttemptLimit = 10"

definition loginAttemptWindow :: duration where
  "loginAttemptWindow = Minute"

definition loginTrackedIPsMax :: nat where
  "loginTrackedIPsMax = 1024"

section \<open>The limiter of failed logins\<close>

text \<open>The map of failure times; \<^term>\<open>None\<close> is the nil map of the zero value.\<close>

record loginLimiter =
  ll_failures :: "(string, gotime list) gomap option"

definition failures_of :: "loginLimiter \<Rightarrow> string \<Rightarrow> gotime list" where
  "failures_of l ip =
     (case ll_failures l of
        None \<Rightarrow> []
      | Some m \<Rightarrow> (case gm_get m ip of None \<Rightarrow> [] | Some ts \<Rightarrow> ts))"

definition tooMany :: "string \<Rightarrow> gotime \<Rightarrow> loginLimiter \<Rightarrow> bool \<times> loginLimiter" where
  "tooMany ip now l =
     (let cutoff = now - loginAttemptWindow;
          keep = keep_after cutoff (failures_of l ip);
          l' = (if keep = [] then l\<lparr>ll_failures := map_option (gm_del ip) (ll_failures l)\<rparr>
                else l\<lparr>ll_failures := map_option (gm_put ip keep) (ll_failures l)\<rparr>)
      in (length keep \<ge> loginAttemptLimit, l'))"

definition recordFailure :: "string \<Rightarrow> gotime \<Rightarrow> loginLimiter \<Rightarrow> loginLimiter" where
  "recordFailure ip now l =
     (let m = (case ll_failures l of
                 None \<Rightarrow> []
               | Some m \<Rightarrow> if gm_len m > loginTrackedIPsMax then [] else m);
          ts = (case gm_get m ip of None \<Rightarrow> [] | Some ts \<Rightarrow> ts)
      in l\<lparr>ll_failures := Some (gm_put ip (ts @ [now]) m)\<rparr>)"

text \<open>
  \<^verbatim>\<open>net.SplitHostPort\<close>, as far as the host: the part before the last colon, without the
  brackets of an IPv6 address, or an error.
\<close>

fun index_byte :: "char \<Rightarrow> string \<Rightarrow> nat option" where
  "index_byte c [] = None"
| "index_byte c (x # xs) = (if x = c then Some 0 else map_option Suc (index_byte c xs))"

definition last_index_byte :: "char \<Rightarrow> string \<Rightarrow> nat option" where
  "last_index_byte c s = map_option (\<lambda>i. length s - 1 - i) (index_byte c (rev s))"

definition SplitHost :: "string \<Rightarrow> string option" where
  "SplitHost hp =
     (case last_index_byte CHR '':'' hp of
        None \<Rightarrow> None
      | Some i \<Rightarrow>
          if hd hp = CHR ''['' then
            (case index_byte CHR '']'' hp of
               None \<Rightarrow> None
             | Some e \<Rightarrow>
                 if e + 1 \<noteq> i then None
                 else if CHR ''['' \<in> set (drop 1 hp) \<or> CHR '']'' \<in> set (drop (e + 1) hp) then None
                 else Some (take (e - 1) (drop 1 hp)))
          else
            (let host = take i hp
             in if CHR '':'' \<in> set host then None
                else if CHR ''['' \<in> set hp \<or> CHR '']'' \<in> set hp then None
                else Some host))"

definition clientIP :: "'a http_req_scheme \<Rightarrow> string" where
  "clientIP r = (case SplitHost (rq_RemoteAddr r) of None \<Rightarrow> rq_RemoteAddr r | Some host \<Rightarrow> host)"

section \<open>Tokens and handlers\<close>

text \<open>\<^verbatim>\<open>subtle.ConstantTimeCompare\<close> is 1 exactly for equal byte strings.\<close>

definition tokenMatches :: "string \<Rightarrow> string \<Rightarrow> bool" where
  "tokenMatches authToken candidate \<longleftrightarrow> candidate = authToken"

definition authorized :: "string \<Rightarrow> 'a http_req_scheme \<Rightarrow> bool" where
  "authorized authToken r =
     (let h = rq_Header r ''Authorization'' in
      if prefix ''Bearer '' h \<and> tokenMatches authToken (drop (length ''Bearer '') h) then True
      else (case rq_Cookie r authCookieName of None \<Rightarrow> False | Some v \<Rightarrow> tokenMatches authToken v))"

fun contains :: "string \<Rightarrow> string \<Rightarrow> bool" where
  "contains sub [] = (sub = [])"
| "contains sub (c # s) = (prefix sub (c # s) \<or> contains sub s)"

text \<open>
  The middleware, around a handler whose answers may be other than plain responses:
  \<open>answer\<close> makes an answer of a response.
\<close>

definition requireAuth ::
  "string \<Rightarrow> (response \<Rightarrow> 'r) \<Rightarrow> ('a http_req_scheme \<Rightarrow> 'w \<Rightarrow> 'r \<times> 'w)
     \<Rightarrow> 'a http_req_scheme \<Rightarrow> 'w \<Rightarrow> 'r \<times> 'w" where
  "requireAuth authToken answer next r w =
     (if authorized authToken r then next r w
      else if rq_Method r = ''GET'' \<and> contains ''text/html'' (rq_Header r ''Accept'')
           \<and> \<not> suffix ''/stream'' (rq_Path r)
      then (answer (Redirect ''/login'' 303 None), w)
      else (answer (http_Error [] ''unauthorized'' 401), w))"

definition loginPage :: string where
  "loginPage =
     ''<!doctype html>'' @ nl @
     ''<html><head><meta charset='' @ dquote @ ''utf-8'' @ dquote @ ''><title>kscribe '' @ [CHR 0xE2, CHR 0x80, CHR 0x94] @ '' Login</title>'' @ nl @
     ''<style>'' @ nl @
     ''body{font-family:system-ui,sans-serif;display:grid;place-items:center;min-height:100vh;margin:0;background:#0b1120;color:#e2e8f0}'' @ nl @
     ''form{background:#1e293b;padding:2rem;border-radius:8px;display:grid;gap:.75rem;min-width:280px}'' @ nl @
     ''input,button{padding:.5rem .75rem;border-radius:4px;border:1px solid #334155;font-size:1rem}'' @ nl @
     ''input{background:#0f172a;color:inherit}'' @ nl @
     ''button{background:#3b82f6;color:#fff;border:none;cursor:pointer}'' @ nl @
     ''.err{color:#f87171;font-size:.875rem;margin:0}'' @ nl @
     ''</style></head><body>'' @ nl @
     ''<form method='' @ dquote @ ''post'' @ dquote @ '' action='' @ dquote @ ''/login'' @ dquote @ ''>'' @ nl @
     ''<h1 style='' @ dquote @ ''margin:0;font-size:1.25rem'' @ dquote @ ''>kscribe</h1>'' @ nl @
     ''%s<input type='' @ dquote @ ''password'' @ dquote @ '' name='' @ dquote @ ''token'' @ dquote @ '' placeholder='' @ dquote @ ''Access token'' @ dquote @ '' autofocus autocomplete='' @ dquote @ ''current-password'' @ dquote @ ''>'' @ nl @
     ''<button type='' @ dquote @ ''submit'' @ dquote @ ''>Sign in</button>'' @ nl @
     ''</form></body></html>''"

text \<open>\<^verbatim>\<open>strings.Replace(s, old, new, 1)\<close>, for a nonempty \<open>old\<close>.\<close>

fun replace_once :: "string \<Rightarrow> string \<Rightarrow> string \<Rightarrow> string" where
  "replace_once old new [] = []"
| "replace_once old new (c # s) =
     (if prefix old (c # s) then new @ drop (length old) (c # s) else c # replace_once old new s)"

definition html_header :: "(string \<times> string) list" where
  "html_header = [(''Content-Type'', ''text/html; charset=utf-8'')]"

definition loginForm :: response where
  "loginForm = Page 200 html_header (replace_once ''%s'' [] loginPage)"

definition invalid_token :: string where
  "invalid_token = ''<p class='' @ dquote @ ''err'' @ dquote @ ''>Invalid token</p>''"

definition session_cookie :: "string \<Rightarrow> http_cookie" where
  "session_cookie token =
     \<lparr>ck_Name = authCookieName, ck_Value = token, ck_Path = ''/'', ck_HttpOnly = True,
      ck_SameSite = SameSiteLaxMode, ck_Secure = False\<rparr>"

definition loginSubmit ::
  "string \<Rightarrow> gotime \<Rightarrow> gotime \<Rightarrow> 'a http_req_scheme \<Rightarrow> loginLimiter \<Rightarrow> response \<times> loginLimiter" where
  "loginSubmit authToken now1 now2 r l =
     (case tooMany (clientIP r) now1 l of
        (True, l1) \<Rightarrow>
          (http_Error [(''Retry-After'', ''60'')] ''too many login attempts; try again later'' 429, l1)
      | (False, l1) \<Rightarrow>
          if \<not> tokenMatches authToken (rq_FormValue r ''token'') then
            (Page 401 html_header (replace_once ''%s'' invalid_token loginPage),
             recordFailure (clientIP r) now2 l1)
          else (Redirect ''/'' 303 (Some (session_cookie (rq_FormValue r ''token''))), l1))"

section \<open>Bounding failed logins\<close>

text \<open>
  One login with a wrong token, at one clock reading: whether the token was looked at, and the
  limiter afterwards.
\<close>

definition wrong_login :: "string \<Rightarrow> gotime \<Rightarrow> loginLimiter \<Rightarrow> bool \<times> loginLimiter" where
  "wrong_login ip now l =
     (case tooMany ip now l of (True, l1) \<Rightarrow> (False, l1) | (False, l1) \<Rightarrow> (True, recordFailure ip now l1))"

text \<open>The limiter tracks only addresses of \<open>ips\<close>, a set small enough never to be reset.\<close>

definition ll_inv :: "string set \<Rightarrow> loginLimiter \<Rightarrow> bool" where
  "ll_inv ips l \<longleftrightarrow> finite ips \<and> card ips \<le> loginTrackedIPsMax
     \<and> (\<forall>m. ll_failures l = Some m \<longrightarrow> gm_ok m \<and> fst ` set m \<subseteq> ips)"

lemma gm_keys_put: "fst ` set (gm_put k v m) \<subseteq> insert k (fst ` set m)"
  using gm_put_mem by fastforce

lemma gm_keys_del: "fst ` set (gm_del k m) \<subseteq> fst ` set m"
  by (auto simp: gm_del_def AList.delete_eq)

lemma gm_len_keys: "gm_ok m \<Longrightarrow> fst ` set m \<subseteq> ips \<Longrightarrow> finite ips \<Longrightarrow> gm_len m \<le> card ips"
  using distinct_card [of "map fst m"] card_mono [of ips "fst ` set m"] by (simp add: gm_ok_def gm_len_def)

lemma tooMany_result: "fst (tooMany ip now l) \<longleftrightarrow> loginAttemptLimit \<le> in_window Minute now (failures_of l ip)"
  by (simp add: tooMany_def Let_def loginAttemptWindow_def length_keep_after)

lemma tooMany_failures:
  "failures_of (snd (tooMany ip now l)) ip' =
     (if ip' = ip then keep_after (now - Minute) (failures_of l ip) else failures_of l ip')"
  by (cases "ll_failures l") (auto simp: tooMany_def Let_def failures_of_def loginAttemptWindow_def keep_after_def)

lemma tooMany_inv: "ll_inv ips l \<Longrightarrow> ip \<in> ips \<Longrightarrow> ll_inv ips (snd (tooMany ip now l))"
  using gm_keys_put gm_keys_del
  by (cases "ll_failures l") (auto simp: ll_inv_def tooMany_def Let_def dest!: subsetD [OF gm_keys_put] subsetD [OF gm_keys_del])

lemma recordFailure_inv: "ll_inv ips l \<Longrightarrow> ip \<in> ips \<Longrightarrow> ll_inv ips (recordFailure ip now l)"
  by (cases "ll_failures l") (auto simp: ll_inv_def recordFailure_def Let_def dest!: subsetD [OF gm_keys_put] split: if_splits)

lemma recordFailure_failures:
  assumes "ll_inv ips l"
  shows "failures_of (recordFailure ip now l) ip' = (if ip' = ip then failures_of l ip @ [now] else failures_of l ip')"
proof (cases "ll_failures l")
  case None
  then show ?thesis by (simp add: recordFailure_def failures_of_def)
next
  case (Some m)
  then have "gm_len m \<le> card ips" "card ips \<le> loginTrackedIPsMax"
    using assms gm_len_keys [of m ips] by (auto simp: ll_inv_def)
  then show ?thesis using Some by (simp add: recordFailure_def failures_of_def Let_def)
qed

lemma wrong_login_facts:
  assumes "ll_inv ips l" "ip \<in> ips"
  shows "fst (wrong_login ip now l) \<longleftrightarrow> in_window Minute now (failures_of l ip) < loginAttemptLimit"
    and "ll_inv ips (snd (wrong_login ip now l))"
    and "failures_of (snd (wrong_login ip now l)) ip' =
      (if ip' = ip then keep_after (now - Minute) (failures_of l ip) @
         (if in_window Minute now (failures_of l ip) < loginAttemptLimit then [now] else [])
       else failures_of l ip')"
proof -
  obtain b l1 where b: "tooMany ip now l = (b, l1)" by force
  note f = tooMany_result [of ip now l] tooMany_failures [of ip now l] tooMany_inv [OF assms, of now]
  show "fst (wrong_login ip now l) \<longleftrightarrow> in_window Minute now (failures_of l ip) < loginAttemptLimit"
    using f(1) b by (cases b) (auto simp: wrong_login_def)
  show "ll_inv ips (snd (wrong_login ip now l))"
    using f(3) b recordFailure_inv [OF _ assms(2)] by (cases b) (auto simp: wrong_login_def)
  show "failures_of (snd (wrong_login ip now l)) ip' =
      (if ip' = ip then keep_after (now - Minute) (failures_of l ip) @
         (if in_window Minute now (failures_of l ip) < loginAttemptLimit then [now] else [])
       else failures_of l ip')"
    using f b recordFailure_failures [of ips l1 ip now ip'] by (cases b) (auto simp: wrong_login_def)
qed

text \<open>For one address the limiter of logins meets the contract of the diagnosis limiter.\<close>

interpretation login: start_limiter "wrong_login ip" "\<lambda>l t. in_window Minute t (failures_of l ip)"
  loginAttemptLimit Minute "\<lambda>l. \<exists>ips. ll_inv ips l \<and> ip \<in> ips" for ip
  by unfold_locales
    (auto simp: wrong_login_facts(1,3) in_window_append in_window_keep_after intro: wrong_login_facts(2))

lemma guard_run_Cons:
  "fst (guard_run f d ((t, k) # calls)) = fst (f k t d) # fst (guard_run f (snd (f k t d)) calls)"
  by (simp add: split_beta)

lemma login_run_spec:
  assumes "ll_inv ips l" "\<forall>c \<in> set calls. snd c \<in> ips \<and> t0 \<le> fst c" "sorted (map fst calls)"
    and "\<forall>t. t0 \<le> t \<longrightarrow> in_window Minute t (failures_of l ip) = in_window Minute t hist"
  shows "map fst (filter (\<lambda>c. snd c = ip) (accepted calls (fst (guard_run wrong_login l calls)))) =
     accepted (map fst (filter (\<lambda>c. snd c = ip) calls))
       (spec_starts loginAttemptLimit Minute hist (map fst (filter (\<lambda>c. snd c = ip) calls)))"
  using assms
proof (induction calls arbitrary: l t0 hist)
  case (Cons c calls)
  obtain now k where c: "c = (now, k)" by (cases c)
  have k: "k \<in> ips" "t0 \<le> now" using Cons.prems(2) by (auto simp: c)
  note w = wrong_login_facts [OF Cons.prems(1) k(1), of now]
  let ?l = "snd (wrong_login k now l)"
  have rest: "\<forall>c \<in> set calls. snd c \<in> ips \<and> now \<le> fst c" "sorted (map fst calls)"
    using Cons.prems(2,3) by (auto simp: c)
  show ?case
  proof (cases "k = ip")
    case False
    have "\<forall>t. now \<le> t \<longrightarrow> in_window Minute t (failures_of ?l ip) = in_window Minute t hist"
      using Cons.prems(4) k(2) False by (simp add: w(3))
    from Cons.IH [OF w(2) rest this] False show ?thesis by (simp add: c guard_run_Cons del: guard_run.simps)
  next
    case True
    have now: "in_window Minute now (failures_of l ip) = in_window Minute now hist" using Cons.prems(4) k(2) by blast
    let ?hist = "if in_window Minute now hist < loginAttemptLimit then hist @ [now] else hist"
    have "\<forall>t. now \<le> t \<longrightarrow> in_window Minute t (failures_of ?l ip) = in_window Minute t ?hist"
      using Cons.prems(4) k(2) True now by (auto simp: w(3) [unfolded True] in_window_append in_window_keep_after)
    from Cons.IH [OF w(2) rest this] True now show ?thesis
      by (auto simp: c guard_run_Cons w(1) [unfolded True] simp del: guard_run.simps)
  qed
qed simp

section \<open>Properties\<close>



text \<open>
  A request is authorized iff it carries the token, in the Authorization header or in the
  session cookie. A login sets the cookie only for the right token.
\<close>

lemma authorized_iff:
  "authorized tok r \<longleftrightarrow>
     rq_Header r ''Authorization'' = ''Bearer '' @ tok \<or> rq_Cookie r authCookieName = Some tok"
  by (auto simp: authorized_def tokenMatches_def Let_def prefix_def split: option.splits)

lemma loginSubmit_cookie:
  assumes "fst (loginSubmit tok t1 t2 r l) = Redirect p code (Some c)"
  shows "rq_FormValue r ''token'' = tok" "c = session_cookie tok"
  using assms
  by (auto simp: loginSubmit_def tokenMatches_def http_Error_def split: prod.splits bool.splits if_splits)

lemma requireAuth_blocks:
  assumes "\<not> authorized tok r"
  shows "requireAuth tok answer next r w \<in>
    {(answer (Redirect ''/login'' 303 None), w), (answer (http_Error [] ''unauthorized'' 401), w)}"
  using assms by (simp add: requireAuth_def)

lemma requireAuth_passes: "authorized tok r \<Longrightarrow> requireAuth tok answer next r w = next r w"
  by (simp add: requireAuth_def)

text \<open>
C36: The reset of the failure map forgets live failures. Once more than 1024 addresses are
tracked, one wrong login from any address empties the map, so another address whose ten attempts
were used up may try again at once, within the same minute.
\<close>

theorem login_reset_regains_attempts:
  assumes "ll_failures l = Some m" "1024 < gm_len m" "ip \<noteq> ip'"
  shows "\<not> fst (tooMany ip now (recordFailure ip' now l))"
  using assms by (simp add: tooMany_result failures_of_def recordFailure_def loginTrackedIPsMax_def
      in_window_def loginAttemptLimit_def)

theorem login_reset_regains_attempts_witness:
  "\<exists>l. fst (tooMany ''a'' 5 l) \<and> \<not> fst (tooMany ''a'' 5 (recordFailure ''b'' 5 l))"
proof -
  let ?m = "(''a'', replicate 10 (4 :: int)) # map (\<lambda>i. (''x'' @ nat_dec i, [0])) [0..<1024]"
  let ?l = "\<lparr>ll_failures = Some ?m\<rparr>"
  have "fst (tooMany ''a'' 5 ?l)"
    by (simp add: tooMany_result failures_of_def gm_get_def in_window_def loginAttemptLimit_def duration_defs
        filter_replicate)
  moreover have "\<not> fst (tooMany ''a'' 5 (recordFailure ''b'' 5 ?l))"
    by (rule login_reset_regains_attempts [of _ ?m]) (simp_all add: gm_len_def)
  ultimately show ?thesis by blast
qed

end
