(* ===== verification/Pruner.thy ===== *)
theory Pruner
  imports Store Api_Types Notify
begin

text \<open>
  Retention: \<^verbatim>\<open>src/internal/controller/prune.go\<close> deletes finished diagnosis objects, and the
  hourly loop \<^verbatim>\<open>runPruner\<close> of \<^verbatim>\<open>src/cmd/kscribe/main.go\<close> prunes the history in the store
  and then the objects. Listing and deleting objects are API calls on a world.
\<close>

section \<open>Model\<close>

record 'w prune_client =
  pcn_List :: "'w \<Rightarrow> (err + KscribeDiagnosis list) \<times> 'w"
  pcn_Delete :: "KscribeDiagnosis \<Rightarrow> 'w \<Rightarrow> err option \<times> 'w"

definition terminal_phase :: "KscribeDiagnosis \<Rightarrow> bool" where
  "terminal_phase d \<longleftrightarrow> kd_Phase d = DiagnosisPhaseDone \<or> kd_Phase d = DiagnosisPhasePartial
     \<or> kd_Phase d = DiagnosisPhaseFailed"

definition finished_at :: "KscribeDiagnosis \<Rightarrow> gotime" where
  "finished_at d =
     (case st_CompletedAt (kd_Status d) of
        Some t \<Rightarrow> t
      | None \<Rightarrow> om_CreationTimestamp (kd_Meta d))"

fun prune_items ::
  "'w prune_client \<Rightarrow> gotime \<Rightarrow> KscribeDiagnosis list \<Rightarrow> int \<Rightarrow> err list \<Rightarrow> 'w \<Rightarrow> int \<times> err list \<times> 'w" where
  "prune_items c cutoff [] deleted errs w = (deleted, errs, w)"
| "prune_items c cutoff (d # ds) deleted errs w =
     (if \<not> terminal_phase d then prune_items c cutoff ds deleted errs w
      else if finished_at d > cutoff then prune_items c cutoff ds deleted errs w
      else (case pcn_Delete c d w of
              (Some e, w1) \<Rightarrow>
                if \<not> IsNotFound e then
                  prune_items c cutoff ds deleted
                    (errs @ [errorf_w (''delete '' @ kd_Namespace d @ ''/'' @ kd_Name d @ '': '') e]) w1
                else prune_items c cutoff ds (deleted + 1) errs w1
            | (None, w1) \<Rightarrow> prune_items c cutoff ds (deleted + 1) errs w1))"

definition PruneDiagnosisCRs :: "'w prune_client \<Rightarrow> gotime \<Rightarrow> 'w \<Rightarrow> int \<times> err option \<times> 'w" where
  "PruneDiagnosisCRs c cutoff w =
     (case pcn_List c w of
        (Inl e, w1) \<Rightarrow> (0, Some e, w1)
      | (Inr items, w1) \<Rightarrow>
          (case prune_items c cutoff items 0 [] w1 of
             (deleted, errs, w2) \<Rightarrow> (deleted, errors_Join errs, w2)))"

text \<open>
  One round of the loop: read the clock, prune the store, prune the objects; both are tried
  whatever the other does, and their errors are only logged. The world holds the database.
\<close>

record 'w pruner_env =
  pe_Now :: "'w \<Rightarrow> gotime \<times> 'w"
  pe_Faults :: "'w \<Rightarrow> prune_faults"
  pe_DB :: "'w \<Rightarrow> Store"
  pe_SetDB :: "Store \<Rightarrow> 'w \<Rightarrow> 'w"
  pe_Client :: "'w prune_client"

definition prune_round :: "'w pruner_env \<Rightarrow> duration \<Rightarrow> 'w \<Rightarrow> (err + int) \<times> (int \<times> err option) \<times> 'w" where
  "prune_round pe retention w =
     (let (now, w1) = pe_Now pe w;
          cutoff = now - retention;
          (r, db) = Prune (pe_Faults pe w1) cutoff (pe_DB pe w1);
          (deleted, e, w2) = PruneDiagnosisCRs (pe_Client pe) cutoff (pe_SetDB pe db w1)
      in (r, (deleted, e), w2))"

text \<open>The loop runs a round at once and then one per tick, until the context is done.\<close>

fun runPruner :: "'w pruner_env \<Rightarrow> duration \<Rightarrow> nat \<Rightarrow> 'w \<Rightarrow> 'w" where
  "runPruner pe retention 0 w = snd (snd (prune_round pe retention w))"
| "runPruner pe retention (Suc ticks) w = runPruner pe retention ticks (snd (snd (prune_round pe retention w)))"

section \<open>Reference\<close>

text \<open>Delete each of a list of objects and collect the answers.\<close>

fun delete_each :: "'w prune_client \<Rightarrow> KscribeDiagnosis list \<Rightarrow> 'w \<Rightarrow> (KscribeDiagnosis \<times> err option) list \<times> 'w" where
  "delete_each c [] w = ([], w)"
| "delete_each c (d # ds) w =
     (let (e, w1) = pcn_Delete c d w; (rs, w2) = delete_each c ds w1 in ((d, e) # rs, w2))"

definition expired :: "gotime \<Rightarrow> KscribeDiagnosis \<Rightarrow> bool" where
  "expired cutoff d \<longleftrightarrow> terminal_phase d \<and> finished_at d \<le> cutoff"

definition was_deleted :: "KscribeDiagnosis \<times> err option \<Rightarrow> bool" where
  "was_deleted r = (case snd r of None \<Rightarrow> True | Some e \<Rightarrow> IsNotFound e)"

definition delete_error :: "KscribeDiagnosis \<times> err option \<Rightarrow> err list" where
  "delete_error r = (case snd r of
     None \<Rightarrow> [] | Some e \<Rightarrow> if IsNotFound e then []
       else [errorf_w (''delete '' @ kd_Namespace (fst r) @ ''/'' @ kd_Name (fst r) @ '': '') e])"

lemma prune_items_spec:
  "prune_items c cutoff ds n errs w =
     (case delete_each c (filter (expired cutoff) ds) w of
        (rs, w') \<Rightarrow> (n + int (length (filter was_deleted rs)), errs @ concat (map delete_error rs), w'))"
proof (induction ds arbitrary: n errs w)
  case (Cons d ds)
  show ?case
  proof (cases "expired cutoff d")
    case False
    then show ?thesis using Cons by (auto simp: expired_def)
  next
    case True
    then have "terminal_phase d" "\<not> cutoff < finished_at d" by (auto simp: expired_def)
    moreover obtain e w1 where "pcn_Delete c d w = (e, w1)" by force
    moreover obtain rs w2 where "delete_each c (filter (expired cutoff) ds) w1 = (rs, w2)" by force
    ultimately show ?thesis using Cons True
      by (cases e) (auto simp: was_deleted_def delete_error_def Let_def)
  qed
qed simp

section \<open>Properties\<close>

text \<open>
C37: Pruning deletes exactly the diagnosis objects that are Done, Partial or Failed and finished at
or before the cutoff (by completion time, else by creation time), each once and in list order,
whatever other deletions do. It counts the deletions that succeeded or found nothing to delete,
and its error has one line per failed deletion; when listing fails nothing is deleted.
\<close>

theorem PruneDiagnosisCRs_exact:
  "PruneDiagnosisCRs c cutoff w =
     (case pcn_List c w of
        (Inl e, w1) \<Rightarrow> (0, Some e, w1)
      | (Inr items, w1) \<Rightarrow>
          (case delete_each c (filter (\<lambda>d. kd_Phase d \<in> {''Done'', ''Partial'', ''Failed''} \<and> finished_at d \<le> cutoff) items) w1 of
             (rs, w2) \<Rightarrow> (int (length (filter was_deleted rs)), errors_Join (concat (map delete_error rs)), w2)))"
proof -
  have "expired cutoff = (\<lambda>d. kd_Phase d \<in> {''Done'', ''Partial'', ''Failed''} \<and> finished_at d \<le> cutoff)"
    by (auto simp: expired_def terminal_phase_def phase_defs fun_eq_iff)
  then show ?thesis
    by (simp add: PruneDiagnosisCRs_def prune_items_spec split: prod.splits sum.splits)
qed

end
