(* ===== verification/Go_Bufio.thy ===== *)
theory Go_Bufio
  imports Kscribe_Prelude
begin

text \<open>
  \<^verbatim>\<open>bufio.Scanner\<close> with its default line splitting, which the program uses to write
  server-sent events and to read streamed completions. A reader is the bytes it delivers and
  the error it ends with, \<^term>\<open>None\<close> for the end of the file.
\<close>

definition MaxScanTokenSize :: nat where
  "MaxScanTokenSize = 65536"

definition ErrTooLong :: err where
  "ErrTooLong = errorf ''bufio.Scanner: token too long''"

definition drop_cr :: "string \<Rightarrow> string" where
  "drop_cr s = (if s \<noteq> [] \<and> last s = CHR 0x0D then butlast s else s)"

abbreviation newline :: char where
  "newline \<equiv> CHR 0x0A"

definition first_line :: "string \<Rightarrow> string" where
  "first_line s = takeWhile (\<lambda>c. c \<noteq> newline) s"

definition after_line :: "string \<Rightarrow> string" where
  "after_line s = dropWhile (\<lambda>c. c \<noteq> newline) s"

text \<open>
  The tokens of the successful calls of \<^verbatim>\<open>Scan\<close>, each with the value \<^verbatim>\<open>Err\<close> has after it,
  and the final value of \<^verbatim>\<open>Err\<close>. A line that is ended by a newline is returned before the
  reader is asked for more; the rest of the input is returned once the reader has ended. A line
  that fills the buffer stops the scanner.
\<close>

function scan_lines :: "err option \<Rightarrow> string \<Rightarrow> (string \<times> err option) list \<times> err option" where
  "scan_lines end_err s =
     (if length (first_line s) \<ge> MaxScanTokenSize then ([], Some ErrTooLong)
      else
        (case after_line s of
           [] \<Rightarrow> if s = [] then ([], end_err) else ([(drop_cr s, end_err)], end_err)
         | _ # rest \<Rightarrow>
             (case scan_lines end_err rest of
                (ts, e) \<Rightarrow> ((drop_cr (first_line s), None) # ts, e))))"
  by pat_completeness auto
termination
proof (relation "measure (\<lambda>(e, s). length s)")
  fix end_err :: "err option" and s rest :: string and c
  assume "after_line s = c # rest"
  then have "length (c # rest) \<le> length s"
    unfolding after_line_def by (metis length_dropWhile_le)
  then show "((end_err, rest), end_err, s) \<in> measure (\<lambda>(e, s). length s)" by simp
qed simp

declare scan_lines.simps [simp del]

section \<open>Lemmas\<close>

lemma first_line_append: "newline \<notin> set l \<Longrightarrow> first_line (l @ newline # r) = l"
  by (induction l) (auto simp: first_line_def)

lemma after_line_append: "newline \<notin> set l \<Longrightarrow> after_line (l @ newline # r) = newline # r"
  by (induction l) (auto simp: after_line_def)

lemma line_plain: "newline \<notin> set l \<Longrightarrow> first_line l = l" "newline \<notin> set l \<Longrightarrow> after_line l = []"
  by (induction l) (auto simp: first_line_def after_line_def)

lemma scan_lines_Nil [simp]: "scan_lines e [] = ([], e)"
  by (simp add: scan_lines.simps [of e "[]"] MaxScanTokenSize_def first_line_def after_line_def)

lemma scan_lines_line:
  assumes "newline \<notin> set l" "length l < MaxScanTokenSize"
  shows "scan_lines e (l @ newline # r) =
    ((drop_cr l, None) # fst (scan_lines e r), snd (scan_lines e r))"
  using assms
  by (subst scan_lines.simps) (simp add: first_line_append after_line_append split_beta)

lemma scan_lines_last:
  assumes "newline \<notin> set l" "length l < MaxScanTokenSize" "l \<noteq> []"
  shows "scan_lines e l = ([(drop_cr l, e)], e)"
  using assms by (subst scan_lines.simps) (simp add: line_plain)

lemma scan_lines_long:
  assumes "newline \<notin> set l" "MaxScanTokenSize \<le> length l"
  shows "scan_lines e (l @ newline # r) = ([], Some ErrTooLong)"
  using assms by (subst scan_lines.simps) (simp add: first_line_append)

lemma scan_lines_end:
  "snd (scan_lines e s) = e \<or> snd (scan_lines e s) = Some ErrTooLong"
  by (induction e s rule: scan_lines.induct)
    (subst (1 2) scan_lines.simps, auto split: list.splits prod.splits)

end
