(* ===== verification/Openai.thy ===== *)
theory Openai
  imports Agent Notify Go_Bufio "HOL-Library.Char_ord" "HOL-Library.List_Lexorder"
begin

text \<open>
  The OpenAI-compatible provider, \<^verbatim>\<open>src/internal/agent/openai.go\<close>: plain completions, which
  go through the openai-go SDK, and streamed ones, which the program requests and reads itself.
  The SDK call, the HTTP client, the URL check of \<^verbatim>\<open>http.NewRequest\<close> and the wait between two
  attempts are parameters.
\<close>

section \<open>The client\<close>

record OpenAIClient =
  oc_BaseURL :: string
  oc_APIKey :: string
  oc_Model :: string

definition DefaultMaxTokens :: int where
  "DefaultMaxTokens = 1024"

definition NewOpenAIClient :: "string \<Rightarrow> string \<Rightarrow> string \<Rightarrow> OpenAIClient" where
  "NewOpenAIClient baseURL apiKey model =
     \<lparr>oc_BaseURL = (if baseURL = [] then ''https://api.openai.com/v1'' else baseURL),
      oc_APIKey = apiKey, oc_Model = model\<rparr>"

definition effectiveMaxTokens :: "Request \<Rightarrow> int" where
  "effectiveMaxTokens req = (if req_MaxTokens req > 0 then req_MaxTokens req else DefaultMaxTokens)"

section \<open>Completions through the SDK\<close>

text \<open>The values of the SDK the program builds and reads.\<close>

datatype request_option = WithBaseURL string | WithMaxRetries int | WithAPIKey string | WithHTTPClient

record sdk_tool_call =
  stc_ID :: string
  stc_Name :: string
  stc_Arguments :: string

datatype sdk_message =
    SystemMessage string
  | DeveloperMessage string
  | ToolMessage string string
  | AssistantMessage string
  | AssistantParam "string option" "sdk_tool_call list"
  | UserMessage string

record sdk_tool =
  stl_Name :: string
  stl_Description :: "string option"
  stl_Parameters :: "(string \<times> json) list option"

record sdk_params =
  sp_Model :: string
  sp_Messages :: "sdk_message list"
  sp_MaxTokens :: int
  sp_Tools :: "sdk_tool list option"

record sdk_choice =
  sch_Content :: string
  sch_ToolCalls :: "sdk_tool_call list"
  sch_FinishReason :: string

record sdk_completion =
  scp_Choices :: "sdk_choice list"
  scp_TotalTokens :: int

text \<open>The response of the HTTP client: its status, the bytes of the body and how reading them ends.\<close>

record stream_response =
  st_StatusCode :: int
  st_Body :: string
  st_End :: "err option"

record 'w openai_env =
  oe_ChatCompletions :: "request_option list \<Rightarrow> sdk_params \<Rightarrow> 'w \<Rightarrow> (err + sdk_completion) \<times> 'w"
  oe_NewRequest :: "string \<Rightarrow> err option"
  oe_Do :: "http_request \<Rightarrow> 'w \<Rightarrow> (err + stream_response) \<times> 'w"
  oe_Wait :: "duration \<Rightarrow> 'w \<Rightarrow> err option \<times> 'w"

definition sdkClient :: "OpenAIClient \<Rightarrow> request_option list" where
  "sdkClient c =
     [WithBaseURL (oc_BaseURL c), WithMaxRetries 2]
     @ (if oc_APIKey c \<noteq> [] then [WithAPIKey (oc_APIKey c)] else []) @ [WithHTTPClient]"

definition truncErr :: "err \<Rightarrow> err" where
  "truncErr e =
     (let s = msg_of e; s = (if length s > 512 then take 512 s else s)
      in errorf (''provider error: '' @ s))"

definition sdk_call :: "ToolCall \<Rightarrow> sdk_tool_call" where
  "sdk_call tc =
     \<lparr>stc_ID = tc_ID tc, stc_Name = fn_Name (tc_Function tc), stc_Arguments = fn_Arguments (tc_Function tc)\<rparr>"

definition toSDKMessage :: "Message \<Rightarrow> sdk_message" where
  "toSDKMessage m =
     (if msg_Role m = ''system'' then SystemMessage (msg_Content m)
      else if msg_Role m = ''developer'' then DeveloperMessage (msg_Content m)
      else if msg_Role m = ''tool'' then ToolMessage (msg_Content m) (msg_ToolCallID m)
      else if msg_Role m = ''assistant'' then
        (if msg_ToolCalls m = [] then AssistantMessage (msg_Content m)
         else AssistantParam (if msg_Content m \<noteq> [] then Some (msg_Content m) else None)
                (map sdk_call (msg_ToolCalls m)))
      else UserMessage (msg_Content m))"

definition toSDKMessages :: "Message list \<Rightarrow> sdk_message list" where
  "toSDKMessages msgs = map toSDKMessage msgs"

definition toSDKTools :: "ToolDefinition list \<Rightarrow> sdk_tool list" where
  "toSDKTools tools =
     map (\<lambda>t. let f = td_Function t in
       \<lparr>stl_Name = fd_Name f,
        stl_Description = (if fd_Description f \<noteq> [] then Some (fd_Description f) else None),
        stl_Parameters = (case fd_Parameters f of JObj ms \<Rightarrow> Some ms | _ \<Rightarrow> None)\<rparr>) tools"

definition fromSDKResponse :: "sdk_completion \<Rightarrow> Response" where
  "fromSDKResponse resp =
     \<lparr>rsp_Choices =
        map (\<lambda>ch. \<lparr>ch_Message =
          \<lparr>msg_Role = ''assistant'', msg_Content = sch_Content ch,
           msg_ToolCalls = map (\<lambda>tc. \<lparr>tc_ID = stc_ID tc, tc_Type = ''function'',
             tc_Function = \<lparr>fn_Name = stc_Name tc, fn_Arguments = stc_Arguments tc\<rparr>\<rparr>) (sch_ToolCalls ch),
           msg_ToolCallID = [], msg_Name = []\<rparr>,
          ch_FinishReason = sch_FinishReason ch\<rparr>) (scp_Choices resp),
      rsp_Usage = \<lparr>us_TotalTokens = scp_TotalTokens resp\<rparr>\<rparr>"

definition Complete :: "'w openai_env \<Rightarrow> OpenAIClient \<Rightarrow> Request \<Rightarrow> 'w \<Rightarrow> (err + Response) \<times> 'w" where
  "Complete env c req w =
     (let params = \<lparr>sp_Model = oc_Model c, sp_Messages = toSDKMessages (req_Messages req),
            sp_MaxTokens = effectiveMaxTokens req,
            sp_Tools = (if req_Tools req \<noteq> [] then Some (toSDKTools (req_Tools req)) else None)\<rparr>
      in case oe_ChatCompletions env (sdkClient c) params w of
           (Inl e, w1) \<Rightarrow> (Inl (truncErr e), w1)
         | (Inr resp, w1) \<Rightarrow> (Inr (fromSDKResponse resp), w1))"

section \<open>The streamed request\<close>

text \<open>
  \<^verbatim>\<open>json.Marshal\<close> of a request; maps are written with sorted keys. The messages of a request
  are a slice made by the caller, so an empty one is written as an empty array.
\<close>

primrec sorted_keys :: "json \<Rightarrow> json" where
  "sorted_keys JNull = JNull"
| "sorted_keys (JBool b) = JBool b"
| "sorted_keys (JNum s) = JNum s"
| "sorted_keys (JStr s) = JStr s"
| "sorted_keys (JArr vs) = JArr (map sorted_keys vs)"
| "sorted_keys (JObj ms) = JObj (sort_key fst (map (map_prod id sorted_keys) ms))"

definition enc_tool_call :: "ToolCall \<Rightarrow> json" where
  "enc_tool_call tc =
     JObj [(''id'', JStr (tc_ID tc)), (''type'', JStr (tc_Type tc)),
       (''function'', JObj [(''name'', JStr (fn_Name (tc_Function tc))),
         (''arguments'', JStr (fn_Arguments (tc_Function tc)))])]"

definition enc_message :: "Message \<Rightarrow> json" where
  "enc_message m =
     JObj ([(''role'', JStr (msg_Role m))]
       @ opt_member (msg_Content m \<noteq> []) ''content'' (JStr (msg_Content m))
       @ opt_member (msg_ToolCalls m \<noteq> []) ''tool_calls'' (JArr (map enc_tool_call (msg_ToolCalls m)))
       @ opt_member (msg_ToolCallID m \<noteq> []) ''tool_call_id'' (JStr (msg_ToolCallID m))
       @ opt_member (msg_Name m \<noteq> []) ''name'' (JStr (msg_Name m)))"

definition enc_tool :: "ToolDefinition \<Rightarrow> json" where
  "enc_tool t =
     JObj [(''type'', JStr (td_Type t)),
       (''function'', JObj [(''name'', JStr (fd_Name (td_Function t))),
         (''description'', JStr (fd_Description (td_Function t))),
         (''parameters'', sorted_keys (fd_Parameters (td_Function t)))])]"

definition enc_request :: "Request \<Rightarrow> json" where
  "enc_request r =
     JObj ([(''model'', JStr (req_Model r)), (''messages'', JArr (map enc_message (req_Messages r)))]
       @ opt_member (req_Tools r \<noteq> []) ''tools'' (JArr (map enc_tool (req_Tools r)))
       @ opt_member (req_MaxTokens r \<noteq> 0) ''max_tokens'' (JNum (int_dec (req_MaxTokens r)))
       @ opt_member (req_Stream r) ''stream'' (JBool True))"

definition stream_request :: "OpenAIClient \<Rightarrow> Request \<Rightarrow> http_request" where
  "stream_request c req =
     \<lparr>hq_Method = ''POST'', hq_URL = oc_BaseURL c @ ''/chat/completions'',
      hq_Header = [(''Content-Type'', ''application/json'')]
        @ (if oc_APIKey c \<noteq> [] then [(''Authorization'', ''Bearer '' @ oc_APIKey c)] else []),
      hq_BasicAuth = None,
      hq_Body = json_print (enc_request
        (req\<lparr>req_Model := oc_Model c, req_Stream := True, req_MaxTokens := effectiveMaxTokens req\<rparr>))\<rparr>"

text \<open>The connection loop: at most three attempts, with growing waits.\<close>

definition retryable :: "err + stream_response \<Rightarrow> bool" where
  "retryable r = (case r of Inl _ \<Rightarrow> True | Inr resp \<Rightarrow> st_StatusCode resp = 429 \<or> st_StatusCode resp \<ge> 500)"

definition Millisecond :: duration where
  "Millisecond = 1000000"

definition backoff :: "nat \<Rightarrow> duration" where
  "backoff attempt = int (attempt + 1) * 500 * Millisecond"

function connect ::
  "'w openai_env \<Rightarrow> http_request \<Rightarrow> nat \<Rightarrow> 'w \<Rightarrow> (err + stream_response) \<times> 'w" where
  "connect env hreq attempt w =
     (case oe_Do env hreq w of
        (r, w1) \<Rightarrow>
          if \<not> retryable r \<or> attempt \<ge> 2 then
            (case r of Inl e \<Rightarrow> (Inl (errorf_w ''http: '' e), w1) | Inr resp \<Rightarrow> (Inr resp, w1))
          else
            (case oe_Wait env (backoff attempt) w1 of
               (Some e, w2) \<Rightarrow> (Inl e, w2)
             | (None, w2) \<Rightarrow> connect env hreq (attempt + 1) w2))"
  by pat_completeness auto
termination
  by (relation "measure (\<lambda>(env, hreq, attempt, w). 2 - attempt)") auto

declare connect.simps [simp del]

section \<open>Reading the stream\<close>

text \<open>The struct \<^verbatim>\<open>streamChunk\<close>: the contents of the deltas of its choices.\<close>

definition delta_field :: "string \<Rightarrow> json \<Rightarrow> string \<Rightarrow> string option" where
  "delta_field k v r = (if EqualFold k ''content'' then dec_string v r else Some r)"

definition choice_field :: "string \<Rightarrow> json \<Rightarrow> string \<Rightarrow> string option" where
  "choice_field k v r = (if EqualFold k ''delta'' then decode_struct delta_field v r else Some r)"

definition chunk_field :: "string \<Rightarrow> json \<Rightarrow> string list \<Rightarrow> string list option" where
  "chunk_field k v r =
     (if EqualFold k ''choices'' then dec_list [] (decode_struct choice_field) v r else Some r)"

definition unmarshal_chunk :: "string \<Rightarrow> string list option" where
  "unmarshal_chunk payload =
     (case json_parse payload of None \<Rightarrow> None | Some j \<Rightarrow> decode_struct chunk_field j [])"

definition stream_end :: "err option \<Rightarrow> string \<Rightarrow> err + string" where
  "stream_end e accumulated =
     (case e of Some x \<Rightarrow> Inl (errorf_w ''read stream: '' x) | None \<Rightarrow> Inr accumulated)"

fun read_stream ::
  "'w on_delta \<Rightarrow> err option \<Rightarrow> (string \<times> err option) list \<Rightarrow> string \<Rightarrow> 'w \<Rightarrow> (err + string) \<times> 'w" where
  "read_stream onDelta end_err [] accumulated w = (stream_end end_err accumulated, w)"
| "read_stream onDelta end_err ((tok, tok_err) # toks) accumulated w =
     (let line = TrimSpace tok;
          payload = drop (length ''data: '') line
      in if line = [] \<or> \<not> prefix ''data: '' line then read_stream onDelta end_err toks accumulated w
         else if payload = ''[DONE]'' then (stream_end tok_err accumulated, w)
         else
           (case unmarshal_chunk payload of
              None \<Rightarrow> read_stream onDelta end_err toks accumulated w
            | Some [] \<Rightarrow> read_stream onDelta end_err toks accumulated w
            | Some (delta # _) \<Rightarrow>
                if delta \<noteq> [] then
                  (case onDelta delta w of
                     (Some e, w1) \<Rightarrow> (Inl e, w1)
                   | (None, w1) \<Rightarrow> read_stream onDelta end_err toks (accumulated @ delta) w1)
                else read_stream onDelta end_err toks accumulated w))"

declare read_stream.simps(2) [simp del]

definition CompleteStream ::
  "'w openai_env \<Rightarrow> OpenAIClient \<Rightarrow> Request \<Rightarrow> 'w on_delta \<Rightarrow> 'w \<Rightarrow> (err + Response) \<times> 'w" where
  "CompleteStream env c req onDelta w =
     (let hreq = stream_request c req in
      case oe_NewRequest env (hq_URL hreq) of
        Some e \<Rightarrow> (Inl (errorf_w ''build http request: '' e), w)
      | None \<Rightarrow>
     (case connect env hreq 0 w of
        (Inl e, w1) \<Rightarrow> (Inl e, w1)
      | (Inr resp, w1) \<Rightarrow>
          if st_StatusCode resp \<ge> 300 then
            (Inl (errorf (''provider error '' @ int_dec (st_StatusCode resp) @ '': '' @ take 512 (st_Body resp))), w1)
          else
            (case scan_lines (st_End resp) (st_Body resp) of
               (toks, end_err) \<Rightarrow>
                 (case read_stream onDelta end_err toks [] w1 of
                    (Inl e, w2) \<Rightarrow> (Inl e, w2)
                  | (Inr accumulated, w2) \<Rightarrow>
                      (Inr \<lparr>rsp_Choices = [\<lparr>ch_Message = text_message ''assistant'' accumulated,
                              ch_FinishReason = ''stop''\<rparr>],
                            rsp_Usage = \<lparr>us_TotalTokens = 0\<rparr>\<rparr>, w2)))))"

text \<open>The client as a provider that can stream.\<close>

definition openai_provider :: "'w openai_env \<Rightarrow> OpenAIClient \<Rightarrow> 'w Provider" where
  "openai_provider env c =
     \<lparr>pr_Complete = Complete env c, pr_CompleteStream = Some (CompleteStream env c)\<rparr>"

section \<open>What a stream delivers\<close>

text \<open>
  The contents a streamed body carries: those of the well-formed data lines before the end
  marker. The body is complete when the marker came as a whole line, or when the reader ended
  without an error and without a line that is too long.
\<close>

definition payload_of :: "string \<Rightarrow> string option" where
  "payload_of tok =
     (let line = TrimSpace tok
      in if line \<noteq> [] \<and> prefix ''data: '' line then Some (drop (length ''data: '') line) else None)"

definition delta_of :: "string \<Rightarrow> string list" where
  "delta_of tok =
     (case payload_of tok of
        None \<Rightarrow> []
      | Some p \<Rightarrow> (case unmarshal_chunk p of Some (d # _) \<Rightarrow> if d \<noteq> [] then [d] else [] | _ \<Rightarrow> []))"

definition is_done :: "string \<times> err option \<Rightarrow> bool" where
  "is_done t \<longleftrightarrow> payload_of (fst t) = Some ''[DONE]''"

definition token_deltas :: "(string \<times> err option) list \<Rightarrow> string list" where
  "token_deltas toks = concat (map (\<lambda>t. delta_of (fst t)) (takeWhile (\<lambda>t. \<not> is_done t) toks))"

definition tokens_end :: "(string \<times> err option) list \<Rightarrow> err option \<Rightarrow> err option" where
  "tokens_end toks e = (case dropWhile (\<lambda>t. \<not> is_done t) toks of [] \<Rightarrow> e | t # _ \<Rightarrow> snd t)"

definition stream_deltas :: "stream_response \<Rightarrow> string list" where
  "stream_deltas resp = token_deltas (fst (scan_lines (st_End resp) (st_Body resp)))"

definition stream_complete :: "stream_response \<Rightarrow> bool" where
  "stream_complete resp \<longleftrightarrow>
     (case scan_lines (st_End resp) (st_Body resp) of (toks, e) \<Rightarrow> tokens_end toks e = None)"

text \<open>The calls of a run, in order, recorded beside the world they act on.\<close>

datatype stream_event = Attempt "err + stream_response" | Delta string

definition logged_env :: "'w openai_env \<Rightarrow> (stream_event list \<times> 'w) openai_env" where
  "logged_env env =
     \<lparr>oe_ChatCompletions = (\<lambda>opts p lw. case oe_ChatCompletions env opts p (snd lw) of (r, w) \<Rightarrow> (r, (fst lw, w))),
      oe_NewRequest = oe_NewRequest env,
      oe_Do = (\<lambda>hreq lw. case oe_Do env hreq (snd lw) of (r, w) \<Rightarrow> (r, (fst lw @ [Attempt r], w))),
      oe_Wait = (\<lambda>d lw. case oe_Wait env d (snd lw) of (e, w) \<Rightarrow> (e, (fst lw, w)))\<rparr>"

definition logged_delta :: "'w on_delta \<Rightarrow> (stream_event list \<times> 'w) on_delta" where
  "logged_delta onDelta d lw = (case onDelta d (snd lw) of (e, w) \<Rightarrow> (e, (fst lw @ [Delta d], w)))"

lemma logged_apply:
  "oe_NewRequest (logged_env env) = oe_NewRequest env"
  "oe_Do (logged_env env) hreq (l, w) = (fst (oe_Do env hreq w), (l @ [Attempt (fst (oe_Do env hreq w))], snd (oe_Do env hreq w)))"
  "oe_Wait (logged_env env) d (l, w) = (fst (oe_Wait env d w), (l, snd (oe_Wait env d w)))"
  "logged_delta onDelta x (l, w) = (fst (onDelta x w), (l @ [Delta x], snd (onDelta x w)))"
  by (simp_all add: logged_env_def logged_delta_def split_beta)

lemma read_stream_step:
  "read_stream onDelta e (t # toks) acc w =
     (if is_done t then (stream_end (snd t) acc, w)
      else case delta_of (fst t) of
        [] \<Rightarrow> read_stream onDelta e toks acc w
      | d # _ \<Rightarrow>
          (case onDelta d w of
             (Some x, w1) \<Rightarrow> (Inl x, w1)
           | (None, w1) \<Rightarrow> read_stream onDelta e toks (acc @ d) w1))"
  by (cases t) (simp add: read_stream.simps(2) is_done_def delta_of_def payload_of_def Let_def
      split: option.splits list.splits)

lemma delta_of_single: "delta_of tok = [] \<or> (\<exists>d. delta_of tok = [d])"
  by (simp add: delta_of_def split: option.splits list.splits)

lemma token_deltas_Cons:
  "token_deltas (t # toks) = (if is_done t then [] else delta_of (fst t) @ token_deltas toks)"
  by (simp add: token_deltas_def)

lemma tokens_end_Cons: "tokens_end (t # toks) e = (if is_done t then snd t else tokens_end toks e)"
  by (simp add: tokens_end_def)

text \<open>Reading delivers a prefix of the deltas; success means all of them, up to a clean end.\<close>

lemma read_stream_logged:
  assumes "read_stream (logged_delta onDelta) e toks acc (l, w) = (r, (l', w'))"
  shows "\<exists>ds. l' = l @ map Delta ds \<and> prefix ds (token_deltas toks)
     \<and> (\<forall>a. r = Inr a \<longrightarrow> ds = token_deltas toks \<and> a = acc @ concat ds \<and> tokens_end toks e = None)"
  using assms
proof (induction toks arbitrary: acc l w)
  case Nil
  then show ?case
    by (auto simp: token_deltas_def tokens_end_def stream_end_def split: option.splits)
next
  case (Cons t toks)
  consider "is_done t" | "\<not> is_done t" "delta_of (fst t) = []" | d where "\<not> is_done t" "delta_of (fst t) = [d]"
    using delta_of_single by blast
  then show ?case
  proof cases
    case 1
    then show ?thesis
      using Cons.prems
      by (auto simp: read_stream_step token_deltas_Cons tokens_end_Cons stream_end_def split: option.splits)
  next
    case 2
    then show ?thesis
      using Cons.prems Cons.IH by (simp add: read_stream_step token_deltas_Cons tokens_end_Cons)
  next
    case 3
    obtain x w1 where f: "onDelta d w = (x, w1)" by (cases "onDelta d w")
    show ?thesis
    proof (cases x)
      case (Some e1)
      then have "r = Inl e1 \<and> l' = l @ map Delta [d]"
        using Cons.prems 3 f by (simp add: read_stream_step logged_apply)
      then show ?thesis
        by (intro exI [of _ "[d]"]) (simp add: token_deltas_Cons 3)
    next
      case None
      then have "read_stream (logged_delta onDelta) e toks (acc @ d) (l @ [Delta d], w1) = (r, (l', w'))"
        using Cons.prems 3 f by (simp add: read_stream_step logged_apply)
      from Cons.IH [OF this] obtain ds where "l' = (l @ [Delta d]) @ map Delta ds" "prefix ds (token_deltas toks)"
        "\<forall>a. r = Inr a \<longrightarrow> ds = token_deltas toks \<and> a = (acc @ d) @ concat ds \<and> tokens_end toks e = None"
        by blast
      then show ?thesis
        by (intro exI [of _ "d # ds"]) (auto simp: token_deltas_Cons tokens_end_Cons 3)
    qed
  qed
qed

lemma connect_logged:
  assumes "connect (logged_env env) hreq n (l, w) = (r, (l', w'))" "n \<le> 2"
  shows "\<exists>rs. l' = l @ map Attempt rs \<and> rs \<noteq> [] \<and> length rs \<le> 3 - n
     \<and> (\<forall>x \<in> set (butlast rs). retryable x) \<and> (\<forall>resp. r = Inr resp \<longrightarrow> last rs = Inr resp)"
  using assms
proof (induction "2 - n" arbitrary: n l w)
  case 0
  obtain x w1 where f: "oe_Do env hreq w = (x, w1)" by (cases "oe_Do env hreq w")
  show ?case
    using 0 f
    by (intro exI [of _ "[x]"]) (auto simp: connect.simps [of _ _ "2 :: nat"] logged_apply split: sum.splits)
next
  case (Suc k)
  obtain x w1 where f: "oe_Do env hreq w = (x, w1)" by (cases "oe_Do env hreq w")
  obtain y w2 where g: "oe_Wait env (backoff n) w1 = (y, w2)" by (cases "oe_Wait env (backoff n) w1")
  have n: "\<not> 2 \<le> n" using Suc.hyps(2) by simp
  show ?case
  proof (cases "\<not> retryable x \<or> y \<noteq> None")
    case True
    then have "l' = l @ map Attempt [x] \<and> (\<forall>resp. r = Inr resp \<longrightarrow> x = Inr resp)"
      using Suc.prems n f g
      by (subst (asm) connect.simps) (auto simp: logged_apply split: sum.splits if_splits)
    then show ?thesis
      using Suc.prems(2) by (intro exI [of _ "[x]"]) auto
  next
    case False
    then have "connect (logged_env env) hreq (n + 1) (l @ [Attempt x], w2) = (r, (l', w'))"
      using Suc.prems n f g by (subst (asm) connect.simps) (auto simp: logged_apply)
    moreover have "k = 2 - (n + 1)" "n + 1 \<le> 2" using Suc.hyps(2) by simp_all
    ultimately obtain rs where "l' = (l @ [Attempt x]) @ map Attempt rs" "rs \<noteq> []" "length rs \<le> 3 - (n + 1)"
      "\<forall>x \<in> set (butlast rs). retryable x" "\<forall>resp. r = Inr resp \<longrightarrow> last rs = Inr resp"
      using Suc.hyps(1) by metis
    then show ?thesis
      using False \<open>n + 1 \<le> 2\<close> by (intro exI [of _ "x # rs"]) auto
  qed
qed

section \<open>Properties\<close>

text \<open>
C29: A streamed completion connects at most three times, retries only failed connections and
the statuses 429 and 5xx, and never retries once a delta was delivered. Deltas are delivered
only from a response with a status below 300, in the order of its body and without gaps. A
successful call means that all of them were delivered and the stream ended cleanly, and its
message is their concatenation: a stream that breaks off is an error.
\<close>

theorem CompleteStream_delivers:
  assumes "CompleteStream (logged_env env) c req (logged_delta onDelta) ([], w) = (r, (calls, w'))"
  shows "\<exists>rs ds. calls = map Attempt rs @ map Delta ds \<and> length rs \<le> 3
     \<and> (\<forall>x \<in> set (butlast rs). retryable x)
     \<and> (ds \<noteq> [] \<or> isl r = False \<longrightarrow> (\<exists>resp. rs \<noteq> [] \<and> last rs = Inr resp \<and> st_StatusCode resp < 300
          \<and> prefix ds (stream_deltas resp)
          \<and> (\<forall>a. r = Inr a \<longrightarrow> ds = stream_deltas resp \<and> stream_complete resp
               \<and> map (\<lambda>ch. msg_Content (ch_Message ch)) (rsp_Choices a) = [concat ds])))"
proof (cases "oe_NewRequest env (hq_URL (stream_request c req))")
  case (Some e)
  then have "calls = [] \<and> isl r"
    using assms by (auto simp: CompleteStream_def logged_apply Let_def)
  then show ?thesis by (intro exI [of _ "[]"]) simp
next
  case None
  obtain x l1 w1 where con: "connect (logged_env env) (stream_request c req) 0 ([], w) = (x, (l1, w1))"
    by (metis prod_cases3)
  from connect_logged [OF con] obtain rs where rs: "l1 = map Attempt rs" "rs \<noteq> []" "length rs \<le> 3"
    "\<forall>x \<in> set (butlast rs). retryable x" "\<forall>resp. x = Inr resp \<longrightarrow> last rs = Inr resp"
    by auto
  have new: "oe_NewRequest (logged_env env) (hq_URL (stream_request c req)) = None"
    using None by (simp add: logged_apply)
  consider "calls = l1 \<and> isl r" | resp where "x = Inr resp" "st_StatusCode resp < 300"
    using assms con new by (cases x) (auto simp: CompleteStream_def Let_def split: if_splits)
  then show ?thesis
  proof cases
    case 1
    then show ?thesis using rs by (intro exI [of _ rs] exI [of _ "[]"]) simp
  next
    case 2
    obtain toks e where toks: "scan_lines (st_End resp) (st_Body resp) = (toks, e)" by fastforce
    obtain y l2 w2 where rd: "read_stream (logged_delta onDelta) e toks [] (l1, w1) = (y, (l2, w2))"
      by (metis prod_cases3)
    from read_stream_logged [OF rd] obtain ds where ds: "l2 = l1 @ map Delta ds" "prefix ds (token_deltas toks)"
      "\<forall>a. y = Inr a \<longrightarrow> ds = token_deltas toks \<and> a = concat ds \<and> tokens_end toks e = None"
      by auto
    have "calls = l2 \<and> (\<forall>a. r = Inr a \<longrightarrow>
        (\<exists>acc. y = Inr acc \<and> map (\<lambda>ch. msg_Content (ch_Message ch)) (rsp_Choices a) = [acc]))"
      using assms con new 2 toks rd
      by (auto simp: CompleteStream_def Let_def text_message_def split: sum.splits)
    then show ?thesis
      using rs ds 2 toks by (intro exI [of _ rs] exI [of _ ds]) (auto simp: stream_deltas_def stream_complete_def)
  qed
qed

text \<open>A server that first refuses the connection and then streams two letters.\<close>

definition sample_chunk :: json where
  "sample_chunk = JObj [(''choices'', JArr [JObj [(''delta'', JObj [(''content'', JStr ''hi'')])]])]"

definition sample_line :: string where
  "sample_line = ''data: '' @ json_print sample_chunk"

definition sample_stream :: stream_response where
  "sample_stream = \<lparr>st_StatusCode = 200, st_Body = sample_line @ nl @ nl @ ''data: [DONE]'' @ nl, st_End = None\<rparr>"

definition sample_server :: "(err + stream_response) list openai_env" where
  "sample_server =
     \<lparr>oe_ChatCompletions = (\<lambda>opts p w. (Inl (errorf []), w)), oe_NewRequest = (\<lambda>_. None),
      oe_Do = (\<lambda>_ w. case w of [] \<Rightarrow> (Inl (errorf []), []) | r # rs \<Rightarrow> (r, rs)),
      oe_Wait = (\<lambda>_ w. (None, w))\<rparr>"

definition sample_chat :: Request where
  "sample_chat = \<lparr>req_Model = [], req_Messages = [text_message ''user'' ''hello''], req_Tools = [],
     req_MaxTokens = 700, req_Stream = False\<rparr>"

definition sample_stream_run :: "(err + Response) \<times> (stream_event list \<times> (err + stream_response) list)" where
  "sample_stream_run =
     CompleteStream (logged_env sample_server) (NewOpenAIClient [] [] ''m'') sample_chat
       (logged_delta (\<lambda>_ w. (None, w))) ([], [Inl (errorf ''refused''), Inr sample_stream])"

lemma unmarshal_sample: "unmarshal_chunk (json_print sample_chunk) = Some [''hi'']"
proof -
  have "utf8_valid ''choices''" "utf8_valid ''delta''" "utf8_valid ''content''" "utf8_valid ''hi''"
    by code_simp+
  then have "json_ok maxNestingDepth sample_chunk"
    by (simp add: sample_chunk_def maxNestingDepth_def)
  moreover have "decode_struct chunk_field sample_chunk [] = Some [''hi'']" by code_simp
  ultimately show ?thesis by (simp add: unmarshal_chunk_def json_parse_print)
qed

lemma sample_line_facts:
  "newline \<notin> set sample_line" "length sample_line < MaxScanTokenSize" "drop_cr sample_line = sample_line"
  "payload_of sample_line = Some (json_print sample_chunk)" "json_print sample_chunk \<noteq> ''[DONE]''"
proof -
  show "newline \<notin> set sample_line" "drop_cr sample_line = sample_line"
    "payload_of sample_line = Some (json_print sample_chunk)" "json_print sample_chunk \<noteq> ''[DONE]''"
    by code_simp+
  have "length sample_line < 100" by code_simp
  then show "length sample_line < MaxScanTokenSize" by (simp add: MaxScanTokenSize_def)
qed

lemma sample_tokens:
  "scan_lines None (st_Body sample_stream) = ([(sample_line, None), ([], None), (''data: [DONE]'', None)], None)"
proof -
  let ?done = "''data: [DONE]'' @ newline # []"
  have "scan_lines None ?done = ([(''data: [DONE]'', None)], None)"
    using scan_lines_line [of "''data: [DONE]''" None "[]"] by (simp add: MaxScanTokenSize_def drop_cr_def)
  then have "scan_lines None (newline # ?done) = ([([], None), (''data: [DONE]'', None)], None)"
    using scan_lines_line [of "[]" None ?done] by (simp add: MaxScanTokenSize_def drop_cr_def)
  moreover have "st_Body sample_stream = sample_line @ newline # (newline # ?done)"
    by (simp add: sample_stream_def nl_def)
  ultimately show ?thesis
    using scan_lines_line [OF sample_line_facts(1,2), of None "newline # ?done"]
    by (simp only: sample_line_facts fst_conv snd_conv)
qed

lemma sample_done:
  "payload_of ''data: [DONE]'' = Some ''[DONE]''" "payload_of [] = None"
  by code_simp+

lemma sample_stream_run_value:
  "sample_stream_run =
     (Inr \<lparr>rsp_Choices = [\<lparr>ch_Message = text_message ''assistant'' ''hi'', ch_FinishReason = ''stop''\<rparr>],
           rsp_Usage = \<lparr>us_TotalTokens = 0\<rparr>\<rparr>,
      ([Attempt (Inl (errorf ''refused'')), Attempt (Inr sample_stream), Delta ''hi''], []))"
proof -
  have status: "st_StatusCode sample_stream = 200" "st_End sample_stream = None"
    by (simp_all add: sample_stream_def)
  have "connect (logged_env sample_server) hreq 0 ([], [Inl (errorf ''refused''), Inr sample_stream]) =
      (Inr sample_stream, ([Attempt (Inl (errorf ''refused'')), Attempt (Inr sample_stream)], []))" for hreq
    by (simp add: connect.simps logged_apply sample_server_def retryable_def status)
  moreover have "read_stream (logged_delta (\<lambda>_ w. (None, w))) None
      [(sample_line, None), ([], None), (''data: [DONE]'', None)] [] (l, w) = (Inr ''hi'', (l @ [Delta ''hi''], w))" for l and w :: "(err + stream_response) list"
    by (simp add: read_stream_step is_done_def delta_of_def sample_line_facts sample_done unmarshal_sample
        logged_apply stream_end_def)
  moreover have "oe_NewRequest (logged_env sample_server) url = None" for url
    by (simp add: logged_apply sample_server_def)
  ultimately show ?thesis
    by (simp add: sample_stream_run_def CompleteStream_def Let_def status sample_tokens)
qed

theorem CompleteStream_delivers_witness:
  "\<exists>rs ds. fst (snd sample_stream_run) = map Attempt rs @ map Delta ds \<and> length rs \<le> 3
     \<and> last rs = Inr sample_stream \<and> ds = stream_deltas sample_stream \<and> concat ds = ''hi''"
proof -
  note run = sample_stream_run_value [unfolded sample_stream_run_def]
  from CompleteStream_delivers [OF run] obtain rs ds resp where
    split: "[Attempt (Inl (errorf ''refused'')), Attempt (Inr sample_stream), Delta ''hi''] = map Attempt rs @ map Delta ds"
    and rs: "length rs \<le> 3" "rs \<noteq> []" "last rs = Inr resp" and ds: "ds = stream_deltas resp" "[''hi''] = [concat ds]"
    unfolding text_message_def by fastforce
  from split rs(2) have "last rs = Inr sample_stream"
    by (cases rs rule: rev_cases; cases ds) (auto simp: append_eq_Cons_conv Cons_eq_append_conv)
  then show ?thesis
    using split rs ds by (intro exI [of _ rs] exI [of _ ds]) (simp add: sample_stream_run_value)
qed

end
