(* ===== verification/Html.thy ===== *)
theory Html
  imports Notify
begin

text \<open>
  Generated HTML. A templ component writes a sequence of pieces: literals of the template, texts,
  links, attribute values, class lists and sanitized Markdown. What the templ library, goldmark
  and bluemonday make of a value is a parameter. The second part reads HTML the other way: a scanner
  that follows tags, quoted attribute values, comments and scripts and keeps the open elements.
  Running it over pieces checks that every value stands where its escaping is the right one.
\<close>

section \<open>Pieces\<close>

datatype piece =
    Lit string
  | Text string
  | Link string
  | Href string
  | Attr string
  | Class "string list"
  | Markdown string

text \<open>
  \<^verbatim>\<open>templ.EscapeString\<close>, \<^verbatim>\<open>templ.ResolveAttributeValue\<close> of a string, \<^verbatim>\<open>templ.CSSClasses\<close>, the URL
  check of a link that is not marked as safe, \<^verbatim>\<open>goldmark.Convert\<close> and the sanitizer.
\<close>

record templ_lib =
  tl_EscapeString :: "string \<Rightarrow> string"
  tl_AttributeValue :: "string \<Rightarrow> string"
  tl_CSSClasses :: "string list \<Rightarrow> string"
  tl_URL :: "string \<Rightarrow> string"
  tl_goldmark :: "string \<Rightarrow> string"
  tl_Sanitize :: "string \<Rightarrow> string"

definition RenderMarkdown :: "templ_lib \<Rightarrow> string \<Rightarrow> string" where
  "RenderMarkdown lib md = tl_Sanitize lib (tl_goldmark lib md)"

fun render_piece :: "templ_lib \<Rightarrow> piece \<Rightarrow> string" where
  "render_piece lib (Lit s) = s"
| "render_piece lib (Text s) = tl_EscapeString lib s"
| "render_piece lib (Link u) = tl_EscapeString lib u"
| "render_piece lib (Href u) = tl_EscapeString lib (tl_URL lib u)"
| "render_piece lib (Attr s) = tl_AttributeValue lib s"
| "render_piece lib (Class cs) = tl_AttributeValue lib (tl_CSSClasses lib cs)"
| "render_piece lib (Markdown s) = RenderMarkdown lib s"

definition html_of :: "templ_lib \<Rightarrow> piece list \<Rightarrow> string" where
  "html_of lib ps = concat (map (render_piece lib) ps)"

section \<open>Scanning\<close>

text \<open>
  Where a position of a document is: in the content of an element, in the name of a tag, between the
  attributes of a tag, inside a quoted attribute value, in a comment (with the number of
  dashes just read) or in a script (with its last characters).
\<close>

datatype html_context = Data | Tag string | Attrs string | Quoted string | Comment nat | Script string

type_synonym html_state = "html_context \<times> string list"

definition void_elements :: "string list" where
  "void_elements = [''input'', ''meta'', ''link'', ''br'', ''hr'', ''img'']"

fun pop_element :: "string \<Rightarrow> string list \<Rightarrow> html_state option" where
  "pop_element n [] = None"
| "pop_element n (e # es) = (if n = e then Some (Data, es) else None)"

definition end_of_tag :: "string \<Rightarrow> string list \<Rightarrow> html_state option" where
  "end_of_tag t open_els =
     (case t of
        [] \<Rightarrow> None
      | c # r \<Rightarrow>
          if c = CHR ''!'' then Some (Data, open_els)
          else if c = CHR ''/'' then pop_element r open_els
          else if List.member void_elements t then Some (Data, open_els)
          else if t = ''script'' then Some (Script [], t # open_els)
          else Some (Data, t # open_els))"

definition script_tail :: "string \<Rightarrow> string" where
  "script_tail s = drop (length s - length ''</script>'') s"

fun scan_char :: "char \<Rightarrow> html_state \<Rightarrow> html_state option" where
  "scan_char c (Data, els) = Some (if c = CHR ''<'' then Tag [] else Data, els)"
| "scan_char c (Tag t, els) =
     (if c = CHR 0x22 then None
      else if c = CHR ''>'' then end_of_tag t els
      else if c = CHR '' '' then Some (Attrs t, els)
      else if t @ [c] = ''!--'' then Some (Comment 0, els)
      else Some (Tag (t @ [c]), els))"
| "scan_char c (Attrs t, els) =
     (if c = CHR ''>'' then end_of_tag t els
      else Some (if c = CHR 0x22 then Quoted t else Attrs t, els))"
| "scan_char c (Quoted t, els) = Some (if c = CHR 0x22 then Attrs t else Quoted t, els)"
| "scan_char c (Comment n, els) =
     Some (if c = CHR ''>'' \<and> 2 \<le> n then Data else if c = CHR ''-'' then Comment (n + 1) else Comment 0, els)"
| "scan_char c (Script s, els) =
     (let t = script_tail (s @ [c])
      in if t = ''</script>'' then pop_element ''script'' els else Some (Script t, els))"

fun scan_html :: "string \<Rightarrow> html_state \<Rightarrow> html_state option" where
  "scan_html [] st = Some st"
| "scan_html (c # s) st = (case scan_char c st of None \<Rightarrow> None | Some st1 \<Rightarrow> scan_html s st1)"

text \<open>
  Over pieces: literals are scanned; escaped text and sanitized Markdown must stand in the content of
  an element, links, attribute values and classes inside a quoted attribute value.
\<close>

fun admits :: "piece \<Rightarrow> html_context \<Rightarrow> bool" where
  "admits (Lit s) cx = True"
| "admits (Text s) cx = (cx = Data)"
| "admits (Markdown s) cx = (cx = Data)"
| "admits _ cx = (case cx of Quoted t \<Rightarrow> True | _ \<Rightarrow> False)"

fun scan_piece :: "piece \<Rightarrow> html_state \<Rightarrow> html_state option" where
  "scan_piece (Lit s) st = scan_html s st"
| "scan_piece p st = (if admits p (fst st) then Some st else None)"

fun scan_pieces :: "piece list \<Rightarrow> html_state \<Rightarrow> html_state option" where
  "scan_pieces [] st = Some st"
| "scan_pieces (p # ps) st = (case scan_piece p st of None \<Rightarrow> None | Some st1 \<Rightarrow> scan_pieces ps st1)"

definition well_placed :: "piece list \<Rightarrow> bool" where
  "well_placed ps \<longleftrightarrow> scan_pieces ps (Data, []) = Some (Data, [])"

definition well_nested :: "string \<Rightarrow> bool" where
  "well_nested s \<longleftrightarrow> scan_html s (Data, []) = Some (Data, [])"

section \<open>Lemmas\<close>

lemma scan_html_append:
  "scan_html (s @ t) st = (case scan_html s st of None \<Rightarrow> None | Some st1 \<Rightarrow> scan_html t st1)"
  by (induction s arbitrary: st) (auto split: option.splits)

lemma scan_pieces_append:
  "scan_pieces (ps @ qs) st = (case scan_pieces ps st of None \<Rightarrow> None | Some st1 \<Rightarrow> scan_pieces qs st1)"
  by (induction ps arbitrary: st) (auto split: option.splits)

text \<open>A loop keeps the state when its body does.\<close>

lemma scan_pieces_loop:
  "(\<And>x. scan_pieces (f x) st = Some st) \<Longrightarrow> scan_pieces (concat (map f xs)) st = Some st"
  by (induction xs) (simp_all add: scan_pieces_append)

text \<open>What the library promises: escaped values have no angle bracket and no double quote.\<close>

definition plain :: "string \<Rightarrow> bool" where
  "plain s \<longleftrightarrow> CHR ''<'' \<notin> set s \<and> CHR ''>'' \<notin> set s \<and> CHR 0x22 \<notin> set s"

definition templ_escapes :: "templ_lib \<Rightarrow> bool" where
  "templ_escapes lib \<longleftrightarrow> (\<forall>s. plain (tl_EscapeString lib s) \<and> plain (tl_AttributeValue lib s))"

definition neutral :: "string \<Rightarrow> bool" where
  "neutral s \<longleftrightarrow> (\<forall>els. scan_html s (Data, els) = Some (Data, els))"

lemma scan_html_plain:
  "plain s \<Longrightarrow> scan_html s (Data, els) = Some (Data, els)"
  "plain s \<Longrightarrow> scan_html s (Quoted t, els) = Some (Quoted t, els)"
  by (induction s) (auto simp: plain_def)

lemma scan_html_piece:
  assumes "templ_escapes lib" "scan_piece p st = Some st1" "\<And>s. p = Markdown s \<Longrightarrow> neutral (RenderMarkdown lib s)"
  shows "scan_html (render_piece lib p) st = Some st1"
  using assms
  by (cases st; cases p)
    (auto simp: templ_escapes_def scan_html_plain neutral_def split: if_splits html_context.splits)

text \<open>The rendered text scans like its pieces.\<close>

lemma scan_html_pieces:
  assumes "templ_escapes lib" "scan_pieces ps st = Some st1"
    "\<And>s. Markdown s \<in> set ps \<Longrightarrow> neutral (RenderMarkdown lib s)"
  shows "scan_html (html_of lib ps) st = Some st1"
  using assms(2,3)
proof (induction ps arbitrary: st)
  case (Cons p ps)
  then obtain st2 where "scan_piece p st = Some st2" "scan_pieces ps st2 = Some st1"
    by (auto split: option.splits)
  then show ?case
    using Cons scan_html_piece [OF assms(1), of p st st2] by (auto simp: html_of_def scan_html_append)
qed (simp add: html_of_def)

lemma well_nested_pieces:
  assumes "templ_escapes lib" "well_placed ps" "\<And>s. Markdown s \<in> set ps \<Longrightarrow> neutral (RenderMarkdown lib s)"
  shows "well_nested (html_of lib ps)"
  using scan_html_pieces [OF assms(1)] assms(2,3) by (simp add: well_placed_def well_nested_def)

end
