(* ===== verification/Web_Views.thy ===== *)
theory Web_Views
  imports Reconciler Enricher_Laws
begin

text \<open>
  What the pages of the dashboard show: the view model of the detail page,
  \<^verbatim>\<open>src/internal/web/templates/viewmodel.go\<close>, and the functions of
  \<^verbatim>\<open>src/internal/web/templates/incidents_templ.go\<close> that choose labels and CSS classes. The
  last section shows that the detail page reads back what the reconciler stored.
\<close>

section \<open>Labels\<close>

definition phaseBadgeClass :: "string \<Rightarrow> string" where
  "phaseBadgeClass phase =
     (if phase = ''Done'' then ''badge-done''
      else if phase = ''Partial'' then ''badge-partial''
      else if phase = ''Failed'' then ''badge-failed''
      else if phase = ''Diagnosing'' then ''badge-diagnosing''
      else ''badge-pending'')"

definition phaseCardClass :: "string \<Rightarrow> string" where
  "phaseCardClass phase =
     (if phase = ''Done'' then ''stat-card-done''
      else if phase = ''Partial'' then ''stat-card-partial''
      else if phase = ''Failed'' then ''stat-card-failed''
      else if phase = ''Diagnosing'' then ''stat-card-diagnosing''
      else ''stat-card-pending'')"

definition statCardActiveClass :: "string \<Rightarrow> string \<Rightarrow> string" where
  "statCardActiveClass phase activePhase = (if phase = activePhase then ''stat-card-active'' else [])"

definition incidentObjectLabel :: "Incident \<Rightarrow> string" where
  "incidentObjectLabel inc =
     (let kind = TrimSpace (inc_InvolvedObjectKind inc);
          name = TrimSpace (inc_InvolvedObjectName inc);
          ns = TrimSpace (inc_InvolvedObjectNamespace inc)
      in if kind \<noteq> [] \<and> name \<noteq> [] \<and> ns \<noteq> [] then kind @ ''/'' @ name @ '' ('' @ ns @ '')''
         else if kind \<noteq> [] \<and> name \<noteq> [] then kind @ ''/'' @ name
         else if name \<noteq> [] then name
         else if kind \<noteq> [] then kind
         else ''Not captured'')"

definition displayText :: "string \<Rightarrow> string \<Rightarrow> string" where
  "displayText val fallback = (if TrimSpace val = [] then fallback else val)"

fun missingValueClass :: "string list \<Rightarrow> string" where
  "missingValueClass [] = ''muted-value''"
| "missingValueClass (v # vs) = (if TrimSpace v \<noteq> [] then [] else missingValueClass vs)"

section \<open>The view model\<close>

text \<open>
  The fields of type \<^verbatim>\<open>any\<close> are kept as the JSON values they were read from, \<^term>\<open>JNull\<close> for nil.
\<close>

record ViewTraceStep =
  vt_Tool :: string
  vt_Args :: json
  vt_Result :: json

record DiagnosisView =
  dv_Diagnosis :: Diagnosis
  dv_Snapshot :: "Snapshot option"
  dv_TraceSteps :: "ViewTraceStep list"

record IncidentDetailView =
  idv_IncidentDetail :: IncidentDetail
  idv_DiagnosisViews :: "DiagnosisView list"
  idv_ChatMessages :: "ChatMessage list"

definition zero_view_step :: ViewTraceStep where
  "zero_view_step = \<lparr>vt_Tool = [], vt_Args = JNull, vt_Result = JNull\<rparr>"

text \<open>
  \<^verbatim>\<open>json.Unmarshal\<close> with its error ignored: a document that does not parse changes nothing, and
  a value of the wrong type leaves its field or element at zero while decoding goes on.
\<close>

definition view_step_field :: "string \<times> json \<Rightarrow> ViewTraceStep \<Rightarrow> ViewTraceStep" where
  "view_step_field kv st =
     (let (k, v) = kv in
      if EqualFold k ''tool'' then (case v of JStr s \<Rightarrow> st\<lparr>vt_Tool := s\<rparr> | _ \<Rightarrow> st)
      else if EqualFold k ''args'' then st\<lparr>vt_Args := v\<rparr>
      else if EqualFold k ''result'' then st\<lparr>vt_Result := v\<rparr>
      else st)"

definition view_step :: "json \<Rightarrow> ViewTraceStep" where
  "view_step v = (case v of JObj ms \<Rightarrow> fold view_step_field ms zero_view_step | _ \<Rightarrow> zero_view_step)"

definition view_steps :: "string \<Rightarrow> ViewTraceStep list" where
  "view_steps s = (case json_parse s of Some (JArr vs) \<Rightarrow> map view_step vs | _ \<Rightarrow> [])"

definition diagnosis_view :: "go_texts \<Rightarrow> Diagnosis \<Rightarrow> DiagnosisView" where
  "diagnosis_view gt diag =
     \<lparr>dv_Diagnosis = diag,
      dv_Snapshot =
        (if length (dg_ContextJSON diag) > 0 then
           (case DecodeSnapshot gt (dg_ContextJSON diag) of Inl e \<Rightarrow> None | Inr s \<Rightarrow> Some s)
         else None),
      dv_TraceSteps = (if length (dg_TraceJSON diag) > 0 then view_steps (dg_TraceJSON diag) else [])\<rparr>"

definition BuildDetailView :: "go_texts \<Rightarrow> IncidentDetail \<Rightarrow> ChatMessage list \<Rightarrow> IncidentDetailView" where
  "BuildDetailView gt d msgs =
     \<lparr>idv_IncidentDetail = d, idv_DiagnosisViews = map (diagnosis_view gt) (det_Diagnoses d),
      idv_ChatMessages = msgs\<rparr>"

section \<open>What the page reads back\<close>

definition trace_utf8 :: "TraceStep list \<Rightarrow> bool" where
  "trace_utf8 ts \<longleftrightarrow> (\<forall>t \<in> set ts. utf8_valid (ts_Tool t) \<and> utf8_valid (ts_Args t) \<and> utf8_valid (ts_Result t))"

lemma trace_keys: "utf8_valid ''tool''" "utf8_valid ''args''" "utf8_valid ''result''"
  by code_simp+

lemma view_step_trace:
  "view_step (JObj [(''tool'', JStr a), (''args'', JStr b), (''result'', JStr c)]) =
     \<lparr>vt_Tool = a, vt_Args = JStr b, vt_Result = JStr c\<rparr>"
proof -
  have "EqualFold ''tool'' ''tool''" "\<not> EqualFold ''args'' ''tool''" "EqualFold ''args'' ''args''"
    "\<not> EqualFold ''result'' ''tool''" "\<not> EqualFold ''result'' ''args''" "EqualFold ''result'' ''result''"
    by code_simp+
  then show ?thesis
    by (simp add: view_step_def view_step_field_def zero_view_step_def)
qed

lemma view_steps_trace:
  assumes "trace_utf8 ts"
  shows "view_steps (json_print (enc_trace ts)) =
    map (\<lambda>t. \<lparr>vt_Tool = ts_Tool t, vt_Args = JStr (ts_Args t), vt_Result = JStr (ts_Result t)\<rparr>) ts"
proof -
  have "json_ok maxNestingDepth (enc_trace ts)"
    using assms trace_keys by (auto simp: enc_trace_def maxNestingDepth_def trace_utf8_def)
  then have "json_parse (json_print (enc_trace ts)) = Some (enc_trace ts)"
    by (rule json_parse_print)
  then show ?thesis
    unfolding view_steps_def by (simp only: option.case) (simp add: enc_trace_def comp_def view_step_trace)
qed


definition sample_traced :: Outcome where
  "sample_traced = \<lparr>oc_Phase = DiagnosisPhaseFailed, oc_RCA = None, oc_TokensUsed = 7, oc_RawError = ''cut'', oc_Reasoning = [],
     oc_Trace = [\<lparr>ts_Tool = ''get_node'', ts_Args = ''{}'', ts_Result = ''ok''\<rparr>], oc_ContextJSON = []\<rparr>"


end
