(* ===== verification/Url.thy ===== *)
theory Url
  imports Store
begin

text \<open>
  The query strings of the dashboard: what \<^verbatim>\<open>net/url\<close> does to write and read them
  (\<^verbatim>\<open>Values\<close>, \<^verbatim>\<open>QueryEscape\<close>, \<^verbatim>\<open>ParseQuery\<close>), the links the templates build
  (\<^verbatim>\<open>pageURL\<close> and \<^verbatim>\<open>phaseURL\<close> of \<^verbatim>\<open>src/internal/web/templates/incidents_templ.go\<close>) and the
  parameters the list handler of \<^verbatim>\<open>src/internal/web/server.go\<close> reads from them.
\<close>

section \<open>Escaping\<close>

definition unreserved :: "char \<Rightarrow> bool" where
  "unreserved c \<longleftrightarrow>
     (48 \<le> byte c \<and> byte c \<le> 57) \<or> (65 \<le> byte c \<and> byte c \<le> 90) \<or> (97 \<le> byte c \<and> byte c \<le> 122)
     \<or> c \<in> {CHR ''-'', CHR ''_'', CHR ''.'', CHR ''~''}"

definition upper_hex :: "nat \<Rightarrow> char" where
  "upper_hex n = (if n < 10 then char_of (48 + n) else char_of (55 + n))"

definition escape_byte :: "char \<Rightarrow> string" where
  "escape_byte c =
     (if c = CHR '' '' then ''+''
      else if unreserved c then [c]
      else [CHR ''%'', upper_hex (byte c div 16), upper_hex (byte c mod 16)])"

definition QueryEscape :: "string \<Rightarrow> string" where
  "QueryEscape s = concat (map escape_byte s)"

definition unhex :: "char \<Rightarrow> char \<Rightarrow> char option" where
  "unhex a b =
     (case (hex_value a, hex_value b) of
        (Some x, Some y) \<Rightarrow> Some (char_of (16 * x + y))
      | _ \<Rightarrow> None)"

fun QueryUnescape :: "string \<Rightarrow> string option" where
  "QueryUnescape [] = Some []"
| "QueryUnescape (c # s) =
     (if c = CHR ''%'' then
        (case s of
           a # b # r \<Rightarrow>
             (case unhex a b of
                None \<Rightarrow> None
              | Some x \<Rightarrow> map_option ((#) x) (QueryUnescape r))
         | _ \<Rightarrow> None)
      else map_option ((#) (if c = CHR ''+'' then CHR '' '' else c)) (QueryUnescape s))"

section \<open>Values\<close>

text \<open>A \<^verbatim>\<open>url.Values\<close> maps a key to the list of its values.\<close>

type_synonym Values = "(string, string list) gomap"

definition values_of :: "Values \<Rightarrow> string \<Rightarrow> string list" where
  "values_of v k = (case gm_get v k of None \<Rightarrow> [] | Some xs \<Rightarrow> xs)"

definition Values_Set :: "string \<Rightarrow> string \<Rightarrow> Values \<Rightarrow> Values" where
  "Values_Set k x v = gm_put k [x] v"

definition Values_Get :: "Values \<Rightarrow> string \<Rightarrow> string" where
  "Values_Get v k = (case values_of v k of [] \<Rightarrow> [] | x # _ \<Rightarrow> x)"

definition query_pair :: "string \<Rightarrow> string \<Rightarrow> string" where
  "query_pair k x = QueryEscape k @ ''='' @ QueryEscape x"

text \<open>\<^verbatim>\<open>Encode\<close> writes the keys in byte order.\<close>

definition Values_Encode :: "Values \<Rightarrow> string" where
  "Values_Encode v =
     join_sep ''&'' (concat (map (\<lambda>k. map (query_pair k) (values_of v k)) (sort (map fst v))))"

text \<open>\<^verbatim>\<open>strings.Cut\<close> at a byte.\<close>

definition before :: "char \<Rightarrow> string \<Rightarrow> string" where
  "before c s = takeWhile (\<lambda>x. x \<noteq> c) s"

definition after :: "char \<Rightarrow> string \<Rightarrow> string" where
  "after c s = drop 1 (dropWhile (\<lambda>x. x \<noteq> c) s)"

lemma length_after [termination_simp]: "s \<noteq> [] \<Longrightarrow> length (after c s) < length s"
  using length_dropWhile_le [of "\<lambda>x. x \<noteq> c" s] by (cases s) (auto simp: after_def)

definition add_segment :: "string \<Rightarrow> Values \<Rightarrow> Values" where
  "add_segment seg m =
     (if CHR '';'' \<in> set seg \<or> seg = [] then m
      else
        (case QueryUnescape (before CHR ''='' seg) of
           None \<Rightarrow> m
         | Some k \<Rightarrow>
             (case QueryUnescape (after CHR ''='' seg) of
                None \<Rightarrow> m
              | Some x \<Rightarrow> gm_put k (values_of m k @ [x]) m)))"

function parse_query :: "Values \<Rightarrow> string \<Rightarrow> Values" where
  "parse_query m q =
     (if q = [] then m
      else parse_query (add_segment (before CHR ''&'' q) m) (after CHR ''&'' q))"
  by pat_completeness auto
termination
  by (relation "measure (\<lambda>(m, q). length q)") (auto intro: length_after)

declare parse_query.simps [simp del]

text \<open>\<^verbatim>\<open>URL.Query\<close>: the pairs that parse; malformed segments are left out.\<close>

definition ParseQuery :: "string \<Rightarrow> Values" where
  "ParseQuery q = parse_query [] q"

section \<open>Links\<close>

definition set_nonempty :: "string \<Rightarrow> string \<Rightarrow> Values \<Rightarrow> Values" where
  "set_nonempty k x v = (if x \<noteq> [] then Values_Set k x v else v)"

definition link_of :: "Values \<Rightarrow> string" where
  "link_of v = (let s = Values_Encode v in if s \<noteq> [] then ''/?'' @ s else ''/'')"

definition pageURL :: "int \<Rightarrow> IncidentFilter \<Rightarrow> string" where
  "pageURL page f =
     (let v = (if page > 1 then Values_Set ''page'' (int_dec page) [] else []);
          v = set_nonempty ''phase'' (flt_Phase f) v;
          v = set_nonempty ''namespace'' (flt_Namespace f) v;
          v = set_nonempty ''reason'' (flt_Reason f) v;
          v = set_nonempty ''q'' (flt_Query f) v
      in link_of v)"

definition phaseURL :: "string \<Rightarrow> IncidentFilter \<Rightarrow> string" where
  "phaseURL phase f =
     (let v = set_nonempty ''phase'' phase [];
          v = set_nonempty ''namespace'' (flt_Namespace f) v;
          v = set_nonempty ''reason'' (flt_Reason f) v;
          v = set_nonempty ''q'' (flt_Query f) v
      in link_of v)"

section \<open>The parameters of the list page\<close>

text \<open>
  The number \<^verbatim>\<open>strconv.Atoi\<close> returns when its error is ignored: 0 for a malformed number, the
  nearest \<^verbatim>\<open>int\<close> for one out of range.
\<close>

definition Atoi_value :: "string \<Rightarrow> int" where
  "Atoi_value s =
     (let neg = (take 1 s = ''-'');
          digits = (if take 1 s = ''-'' \<or> take 1 s = ''+'' then drop 1 s else s)
      in case parse_dec digits of
           None \<Rightarrow> 0
         | Some n \<Rightarrow> max min_int64 (min max_int64 (if neg then - int n else int n)))"

definition list_page :: "Values \<Rightarrow> int" where
  "list_page q = (let page = Atoi_value (Values_Get q ''page'') in if page < 1 then 1 else page)"

definition list_filter :: "Values \<Rightarrow> IncidentFilter" where
  "list_filter q =
     \<lparr>flt_Phase = Values_Get q ''phase'', flt_Namespace = Values_Get q ''namespace'',
      flt_Reason = Values_Get q ''reason'', flt_Query = Values_Get q ''q''\<rparr>"

text \<open>The raw query of a link to the list page, as the server receives it.\<close>

definition raw_query :: "string \<Rightarrow> string" where
  "raw_query url = after CHR ''?'' url"

section \<open>Lemmas\<close>

lemma hex_value_upper [simp]: "n < 16 \<Longrightarrow> hex_value (upper_hex n) = Some n"
  by (auto simp: hex_value_def upper_hex_def of_char_of)

lemma byte_less: "byte c < 256"
  by (rule nat_of_char_less_256)

lemma unhex_upper: "unhex (upper_hex (byte c div 16)) (upper_hex (byte c mod 16)) = Some c"
proof -
  have "byte c div 16 < 16"
    using byte_less [of c] by (simp add: less_mult_imp_div_less)
  then show ?thesis
    by (simp add: unhex_def mult_div_mod_eq)
qed

lemma QueryUnescape_escape_byte:
  "QueryUnescape (escape_byte c @ s) = map_option ((#) c) (QueryUnescape s)"
  by (auto simp: escape_byte_def unhex_upper unreserved_def)

lemma QueryUnescape_QueryEscape [simp]: "QueryUnescape (QueryEscape s) = Some s"
  by (induction s) (simp_all add: QueryEscape_def QueryUnescape_escape_byte)

text \<open>Escaped text has none of the separators.\<close>

definition separators :: "char set" where
  "separators = {CHR ''&'', CHR ''='', CHR '';'', CHR ''?''}"

lemma upper_hex_alnum: "n < 16 \<Longrightarrow> upper_hex n \<notin> separators"
  by (cases "n < 10"; force simp: upper_hex_def separators_def dest: arg_cong [where f = byte] simp: of_char_of)

lemma escape_byte_plain: "set (escape_byte c) \<inter> separators = {}"
proof -
  have "byte c div 16 < 16"
    using byte_less [of c] by (simp add: less_mult_imp_div_less)
  then have "upper_hex (byte c div 16) \<notin> separators" "upper_hex (byte c mod 16) \<notin> separators"
    by (simp_all add: upper_hex_alnum)
  then show ?thesis
    by (auto simp: escape_byte_def separators_def unreserved_def)
qed

lemma QueryEscape_plain: "set (QueryEscape s) \<inter> separators = {}"
  using escape_byte_plain by (fastforce simp: QueryEscape_def)

lemma QueryEscape_nonempty [simp]: "QueryEscape s = [] \<longleftrightarrow> s = []"
  by (cases s) (auto simp: QueryEscape_def escape_byte_def)

lemma takeWhile_neq_append: "c \<notin> set s \<Longrightarrow> takeWhile (\<lambda>x. x \<noteq> c) (s @ c # t) = s"
  by (induction s) auto

lemma dropWhile_neq_append: "c \<notin> set s \<Longrightarrow> dropWhile (\<lambda>x. x \<noteq> c) (s @ c # t) = c # t"
  by (induction s) auto

lemma cut_append:
  assumes "c \<notin> set s"
  shows "before c (s @ c # t) = s" "after c (s @ c # t) = t" "before c s = s" "after c s = []"
proof -
  have "takeWhile (\<lambda>x. x \<noteq> c) s = s" "dropWhile (\<lambda>x. x \<noteq> c) s = []"
    using assms by (auto simp: takeWhile_eq_all_conv dropWhile_eq_Nil_conv)
  then show "before c (s @ c # t) = s" "after c (s @ c # t) = t" "before c s = s" "after c s = []"
    using assms by (simp_all only: before_def after_def takeWhile_neq_append dropWhile_neq_append) simp_all
qed

lemma query_pair_plain: "CHR ''&'' \<notin> set (query_pair k x)" "CHR '';'' \<notin> set (query_pair k x)"
  using QueryEscape_plain [of k] QueryEscape_plain [of x] by (auto simp: query_pair_def separators_def)

lemma query_pair_nonempty [simp]: "query_pair k x \<noteq> []"
  by (simp add: query_pair_def)

lemma add_segment_query_pair: "add_segment (query_pair k x) m = gm_put k (values_of m k @ [x]) m"
proof -
  have "CHR ''='' \<notin> set (QueryEscape k)"
    using QueryEscape_plain [of k] by (auto simp: separators_def)
  then have "before CHR ''='' (query_pair k x) = QueryEscape k" "after CHR ''='' (query_pair k x) = QueryEscape x"
    by (simp_all add: query_pair_def cut_append)
  then show ?thesis
    by (simp add: add_segment_def query_pair_plain)
qed

lemma parse_query_pairs:
  "parse_query m (join_sep ''&'' (map (\<lambda>(k, x). query_pair k x) ps)) =
     fold (\<lambda>(k, x) m. gm_put k (values_of m k @ [x]) m) ps m"
proof (induction ps arbitrary: m)
  case Nil
  show ?case by (simp add: parse_query.simps)
next
  case (Cons p ps)
  obtain k x where p: "p = (k, x)" by (cases p)
  let ?q = "join_sep ''&'' (map (\<lambda>(k, x). query_pair k x) (p # ps))"
  have "?q \<noteq> [] \<and> before CHR ''&'' ?q = query_pair k x
      \<and> after CHR ''&'' ?q = join_sep ''&'' (map (\<lambda>(k, x). query_pair k x) ps)"
    by (cases ps) (simp_all add: p cut_append query_pair_plain)
  then show ?case
    using Cons.IH by (subst parse_query.simps) (simp add: p add_segment_query_pair)
qed

lemma values_of_put [simp]: "values_of (gm_put k xs m) k' = (if k' = k then xs else values_of m k')"
  by (simp add: values_of_def)

lemma values_of_fold:
  "values_of (fold (\<lambda>(k, x) m. gm_put k (values_of m k @ [x]) m) ps m) k =
     values_of m k @ map snd (filter (\<lambda>p. fst p = k) ps)"
  by (induction ps arbitrary: m) auto

lemma filter_pairs:
  "distinct ks \<Longrightarrow>
     map snd (filter (\<lambda>p. fst p = k) (concat (map (\<lambda>k. map (Pair k) (g k)) ks))) = (if k \<in> set ks then g k else [])"
proof (induction ks)
  case (Cons a ks)
  then show ?case
    by (cases "a = k") (auto simp: filter_map comp_def)
qed simp

text \<open>Parsing an encoded query gives back the values of every key.\<close>

lemma ParseQuery_Values_Encode:
  assumes "gm_ok v"
  shows "values_of (ParseQuery (Values_Encode v)) k = values_of v k"
proof -
  define ps where "ps = concat (map (\<lambda>k. map (Pair k) (values_of v k)) (sort (map fst v)))"
  have "Values_Encode v = join_sep ''&'' (map (\<lambda>(k, x). query_pair k x) ps)"
    by (simp add: Values_Encode_def ps_def map_concat comp_def)
  then have "values_of (ParseQuery (Values_Encode v)) k = map snd (filter (\<lambda>p. fst p = k) ps)"
    by (simp add: ParseQuery_def parse_query_pairs values_of_fold) (simp add: values_of_def gm_get_def)
  also have "\<dots> = (if k \<in> set (map fst v) then values_of v k else [])"
    using filter_pairs [of "sort (map fst v)" k "values_of v"] assms by (simp add: ps_def gm_ok_def)
  also have "\<dots> = values_of v k"
    using gm_get_notin [of k v] by (auto simp: values_of_def)
  finally show ?thesis .
qed

lemma raw_query_link_of: "raw_query (link_of v) = Values_Encode v"
  by (simp add: raw_query_def link_of_def Let_def after_def)

lemma set_nonempty_laws:
  "gm_ok v \<Longrightarrow> gm_ok (set_nonempty k x v)"
  "values_of (set_nonempty k x v) k' = (if k' = k \<and> x \<noteq> [] then [x] else values_of v k')"
  by (simp_all add: set_nonempty_def Values_Set_def)

lemma Atoi_value_int_dec:
  assumes "0 \<le> i" "i \<le> max_int64"
  shows "Atoi_value (int_dec i) = i"
proof -
  have "take 1 (nat_dec (nat i)) \<noteq> ''+''"
    using nat_dec_props [of "nat i"] by (cases "nat_dec (nat i)") (auto simp: is_digit_def)
  then show ?thesis
    using assms nat_dec_no_minus [of "nat i"] by (simp add: Atoi_value_def int_dec_def)
qed

lemma link_values:
  "gm_ok v \<Longrightarrow> values_of (ParseQuery (raw_query (link_of v))) k = values_of v k"
  by (simp add: raw_query_link_of ParseQuery_Values_Encode)

lemma values_of_Nil [simp]: "values_of [] k = []"
  by (simp add: values_of_def)

section \<open>Properties\<close>

text \<open>
C32: The links of the dashboard lead where they say. A pager link carries the page and all four
filter fields, whatever bytes they contain, and the list page reads exactly these back; a
link of a phase card replaces the phase, keeps the other fields and starts at page one.
\<close>

theorem links_round_trip:
  assumes "page \<le> max_int64"
  shows "list_page (ParseQuery (raw_query (pageURL page f))) = max 1 page
     \<and> list_filter (ParseQuery (raw_query (pageURL page f))) = f
     \<and> list_page (ParseQuery (raw_query (phaseURL phase f))) = 1
     \<and> list_filter (ParseQuery (raw_query (phaseURL phase f))) = f\<lparr>flt_Phase := phase\<rparr>"
proof -
  have start: "gm_ok (if page > 1 then Values_Set ''page'' (int_dec page) [] else [])"
    by (simp add: Values_Set_def)
  have vals: "values_of (if page > 1 then Values_Set ''page'' (int_dec page) [] else []) k =
      (if k = ''page'' \<and> page > 1 then [int_dec page] else [])" for k
    by (simp add: Values_Set_def)
  have get: "Values_Get (ParseQuery (raw_query (pageURL page f))) k =
      (if k = ''q'' then flt_Query f else if k = ''reason'' then flt_Reason f
       else if k = ''namespace'' then flt_Namespace f else if k = ''phase'' then flt_Phase f
       else if k = ''page'' \<and> page > 1 then int_dec page else [])" for k
    by (simp add: Values_Get_def pageURL_def Let_def link_values set_nonempty_laws start vals)
  have get': "Values_Get (ParseQuery (raw_query (phaseURL phase f))) k =
      (if k = ''q'' then flt_Query f else if k = ''reason'' then flt_Reason f
       else if k = ''namespace'' then flt_Namespace f else if k = ''phase'' then phase else [])" for k
    by (simp add: Values_Get_def phaseURL_def Let_def link_values set_nonempty_laws)
  have "Atoi_value [] = 0"
    by (simp add: Atoi_value_def parse_dec_def)
  then show ?thesis
    using assms by (auto simp: list_page_def list_filter_def get get' Atoi_value_int_dec)
qed

theorem links_round_trip_witness:
  "list_filter (ParseQuery (raw_query (pageURL 3 (no_filter\<lparr>flt_Query := ''a&b=c d''\<rparr>)))) = no_filter\<lparr>flt_Query := ''a&b=c d''\<rparr>
   \<and> list_page (ParseQuery (raw_query (pageURL 3 (no_filter\<lparr>flt_Query := ''a&b=c d''\<rparr>)))) = 3"
  using links_round_trip [of 3 "no_filter\<lparr>flt_Query := ''a&b=c d''\<rparr>"] by simp

end
