(* ===== verification/Web_Server.thy ===== *)
theory Web_Server
  imports Web_Views Store_Laws Url Auth Chat Broker Go_Bufio
begin

text \<open>
  The HTTP server of the dashboard, \<^verbatim>\<open>src/internal/web/server.go\<close>: the routes and the handlers
  behind them. The store, the chat pipeline's effects and the model provider act on a world of
  any type; the state of the server is the limiter of failed logins next to that world. The router
  matches a request to one of the routes the server registers; that match is a parameter. A page
  is given by the template it renders and the values the template gets.
\<close>

section \<open>Requests, routes and answers\<close>

record web_req = http_req +
  wq_RawQuery :: string
  wq_Body :: string

text \<open>The routes of \<^verbatim>\<open>Handler\<close>, with the URL parameters \<^verbatim>\<open>namespace\<close> and \<^verbatim>\<open>name\<close>.\<close>

datatype route =
    GetHealthz
  | GetLogin
  | PostLogin
  | GetList
  | GetDetail string string
  | GetStream string string
  | PostChat string string
  | GetChatStream string string
  | AnyStatic string

datatype page =
    ListPage "Incident list" "(string, int) gomap" int int IncidentFilter
  | DetailPage IncidentDetailView

datatype answer =
    Answer response
  | Rendered string "(string \<times> string) list" page
  | EventStream string "(string \<times> string) list"
  | StaticFile string "(string \<times> string) list"
  | RouterError

record 'w web_env =
  we_CountIncidentsByPhase :: "IncidentFilter \<Rightarrow> 'w \<Rightarrow> (err + (string, int) gomap) \<times> 'w"
  we_CountIncidents :: "IncidentFilter \<Rightarrow> 'w \<Rightarrow> (err + int) \<times> 'w"
  we_ListIncidentsPage :: "IncidentFilter \<Rightarrow> int \<Rightarrow> int \<Rightarrow> 'w \<Rightarrow> (err + Incident list) \<times> 'w"
  we_chat :: "'w chat_env"
  we_provider :: "(string \<times> 'w) Provider option"
  we_texts :: go_texts
  we_flusher :: bool

section \<open>Handlers\<close>

definition pageSize :: int where
  "pageSize = 25"

definition healthz :: answer where
  "healthz = Answer (Page 200 [] ''ok'')"

text \<open>The number of pages. A count is never negative, where Go's division is \<^term>\<open>(div)\<close>.\<close>

definition last_page :: "int \<Rightarrow> int" where
  "last_page cnt = (let l = (cnt + pageSize - 1) div pageSize in if l < 1 then 1 else l)"

definition html_headers :: "(string \<times> string) list" where
  "html_headers = [(''Content-Type'', ''text/html; charset=utf-8'')]"

definition list_handler :: "'w web_env \<Rightarrow> web_req \<Rightarrow> 'w \<Rightarrow> answer \<times> 'w" where
  "list_handler env r w =
     (let q = ParseQuery (wq_RawQuery r);
          page = list_page q;
          filter = list_filter q
      in case we_CountIncidentsByPhase env filter w of
           (Inl e, w1) \<Rightarrow> (Answer (http_Error [] ''failed to count incidents'' 500), w1)
         | (Inr totals, w1) \<Rightarrow>
        (case we_CountIncidents env filter w1 of
           (Inl e, w2) \<Rightarrow> (Answer (http_Error [] ''failed to count incidents'' 500), w2)
         | (Inr cnt, w2) \<Rightarrow>
             (let lastPage = last_page cnt;
                  page = (if page > lastPage then lastPage else page)
              in case we_ListIncidentsPage env filter pageSize ((page - 1) * pageSize) w2 of
                   (Inl e, w3) \<Rightarrow> (Answer (http_Error [] ''failed to list incidents'' 500), w3)
                 | (Inr incidents, w3) \<Rightarrow>
                     (Rendered (''kscribe '' @ em_dash @ '' Incidents'') html_headers
                        (ListPage incidents totals page lastPage filter), w3))))"

definition detail_handler :: "'w web_env \<Rightarrow> string \<Rightarrow> string \<Rightarrow> 'w \<Rightarrow> answer \<times> 'w" where
  "detail_handler env ns name w =
     (case ce_GetIncident (we_chat env) ns name w of
        (Inl e, w1) \<Rightarrow> (Answer (http_Error [] ''incident not found'' 404), w1)
      | (Inr detail, w1) \<Rightarrow>
          (case ce_ListChatMessages (we_chat env) ns name w1 of
             (r, w2) \<Rightarrow>
               (Rendered (''kscribe '' @ em_dash @ '' '' @ name) html_headers
                  (DetailPage (BuildDetailView (we_texts env) detail
                     (case r of Inl e \<Rightarrow> [] | Inr msgs \<Rightarrow> msgs))), w2)))"

text \<open>\<^verbatim>\<open>wq_Body\<close> is what parsing the form has left of the body.\<close>

definition posted_message :: "web_req \<Rightarrow> string" where
  "posted_message r = (let form = rq_FormValue r ''message'' in TrimSpace (if form = [] then wq_Body r else form))"

definition chatPost :: "'w web_env \<Rightarrow> string \<Rightarrow> string \<Rightarrow> web_req \<Rightarrow> 'w \<Rightarrow> answer \<times> 'w" where
  "chatPost env ns name r w =
     (let msg = posted_message r
      in if msg = [] then (Answer (http_Error [] ''empty message'' 400), w)
         else
           (case we_provider env of
              None \<Rightarrow> (Answer (http_Error [] ''chat provider not configured'' 500), w)
            | Some provider \<Rightarrow>
                (case RunChat (we_chat env) provider ns name msg w of
                   (Some e, w1) \<Rightarrow> (Answer (http_Error [] (msg_of e) 500), w1)
                 | (None, w1) \<Rightarrow> (Answer (Page 200 [] []), w1))))"

text \<open>
  A stream answers with its headers and then follows a topic of the broker; each event it
  receives is written as one frame.
\<close>

definition sse_headers :: "(string \<times> string) list" where
  "sse_headers = [(''Content-Type'', ''text/event-stream''), (''Cache-Control'', ''no-cache''), (''Connection'', ''keep-alive'')]"

definition stream_topic :: "'w web_env \<Rightarrow> string \<Rightarrow> answer" where
  "stream_topic env topic =
     (if we_flusher env then EventStream topic sse_headers
      else Answer (http_Error [(''Cache-Control'', ''no-cache''), (''Connection'', ''keep-alive'')] ''streaming not supported'' 500))"

definition stream :: "'w web_env \<Rightarrow> string \<Rightarrow> string \<Rightarrow> answer" where
  "stream env ns name = stream_topic env (ns @ ''/'' @ name)"

definition chatStream :: "'w web_env \<Rightarrow> string \<Rightarrow> string \<Rightarrow> answer" where
  "chatStream env ns name = stream_topic env (ns @ ''/'' @ name @ ''/chat'')"

definition writeSSE :: "string \<Rightarrow> string" where
  "writeSSE html = concat (map (\<lambda>t. ''data: '' @ fst t @ nl) (fst (scan_lines None html))) @ nl"

text \<open>What a stream has written after the events it received, and the channel it reads them from.\<close>

fun stream_loop :: "nat \<Rightarrow> channel \<Rightarrow> Broker \<Rightarrow> string \<times> Broker" where
  "stream_loop 0 ch b = ([], b)"
| "stream_loop (Suc n) ch b =
     (case receive ch b of
        None \<Rightarrow> ([], b)
      | Some (html, b1) \<Rightarrow> (case stream_loop n ch b1 of (out, b2) \<Rightarrow> (writeSSE html @ out, b2)))"

section \<open>The router\<close>

record Server =
  srv_authToken :: string

definition New :: Server where
  "New = \<lparr>srv_authToken = []\<rparr>"

definition WithAuthToken :: "string \<Rightarrow> Server \<Rightarrow> Server" where
  "WithAuthToken token s = s\<lparr>srv_authToken := token\<rparr>"

definition static_headers :: "(string \<times> string) list" where
  "static_headers = [(''Cache-Control'', ''public, max-age=31536000, immutable'')]"

text \<open>The routes of the group.\<close>

fun group_route :: "'w web_env \<Rightarrow> route \<Rightarrow> web_req \<Rightarrow> 'w \<Rightarrow> answer \<times> 'w" where
  "group_route env GetList r w = list_handler env r w"
| "group_route env (GetDetail ns name) r w = detail_handler env ns name w"
| "group_route env (GetStream ns name) r w = (stream env ns name, w)"
| "group_route env (PostChat ns name) r w = chatPost env ns name r w"
| "group_route env (GetChatStream ns name) r w = (chatStream env ns name, w)"
| "group_route env (AnyStatic path) r w = (StaticFile path static_headers, w)"
| "group_route env _ r w = (RouterError, w)"

text \<open>
  \<^verbatim>\<open>Handler\<close>: the login routes exist only with a token, and then the group is behind the
  middleware. \<open>route_of\<close> is the router's match; a request that matches nothing gets its own error.
\<close>

definition Handler ::
  "Server \<Rightarrow> 'w web_env \<Rightarrow> (web_req \<Rightarrow> route option) \<Rightarrow> gotime \<Rightarrow> gotime \<Rightarrow> web_req
     \<Rightarrow> loginLimiter \<times> 'w \<Rightarrow> answer \<times> (loginLimiter \<times> 'w)" where
  "Handler s env route_of now1 now2 r st =
     (let token = srv_authToken s in
      case route_of r of
        None \<Rightarrow> (RouterError, st)
      | Some rt \<Rightarrow>
          if rt = GetHealthz then (healthz, st)
          else if rt = GetLogin then (if token \<noteq> [] then (Answer loginForm, st) else (RouterError, st))
          else if rt = PostLogin then
            (if token \<noteq> [] then
               (case loginSubmit token now1 now2 r (fst st) of (resp, l) \<Rightarrow> (Answer resp, (l, snd st)))
             else (RouterError, st))
          else
            (let inner = (\<lambda>r st. case group_route env rt r (snd st) of (a, w) \<Rightarrow> (a, (fst st, w)))
             in if token \<noteq> [] then requireAuth token Answer inner r st else inner r st))"

section \<open>Event streams\<close>

text \<open>
  How a browser reads an event stream (the EventSource interface of the HTML standard, for
  streams without carriage returns): complete lines are collected, the values of the data lines
  up to a blank line are joined into one event, and a blank line with no data before it is
  ignored.
\<close>

fun split_lines :: "string \<Rightarrow> string \<Rightarrow> string list" where
  "split_lines acc [] = [acc]"
| "split_lines acc (c # s) = (if c = newline then acc # split_lines [] s else split_lines (acc @ [c]) s)"

definition data_value :: "string \<Rightarrow> string" where
  "data_value line = (let v = drop (length ''data:'') line in if take 1 v = '' '' then drop 1 v else v)"

fun sse_dispatch :: "string list \<Rightarrow> string list \<Rightarrow> string list" where
  "sse_dispatch [] data = []"
| "sse_dispatch (l # ls) data =
     (if l = [] then (if data = [] then sse_dispatch ls [] else join_sep nl data # sse_dispatch ls [])
      else if prefix ''data:'' l then sse_dispatch ls (data @ [data_value l])
      else sse_dispatch ls data)"

definition sse_events :: "string \<Rightarrow> string list" where
  "sse_events out = sse_dispatch (butlast (split_lines [] out)) []"

text \<open>A text without its last newline, and the texts the scanner can split.\<close>

definition chomp :: "string \<Rightarrow> string" where
  "chomp s = (if s \<noteq> [] \<and> last s = newline then butlast s else s)"

definition sse_safe :: "string \<Rightarrow> bool" where
  "sse_safe s \<longleftrightarrow> CHR 0x0D \<notin> set s \<and> (\<forall>l \<in> set (split_lines [] s). length l < MaxScanTokenSize)"

lemma split_lines_line: "newline \<notin> set l \<Longrightarrow> split_lines a (l @ newline # r) = (a @ l) # split_lines [] r"
  by (induction l arbitrary: a) auto

lemma split_lines_plain: "newline \<notin> set l \<Longrightarrow> split_lines a l = [a @ l]"
  by (induction l arbitrary: a) auto

lemma split_lines_nonempty [simp]: "split_lines a s \<noteq> []"
  by (induction a s rule: split_lines.induct) auto

text \<open>Every text is one line, or a line, a newline and the rest.\<close>

lemma line_cases:
  obtains "newline \<notin> set s" | l r where "s = l @ newline # r" "newline \<notin> set l"
  using split_list_first [of newline s] by blast

lemma join_sep_Cons: "ys \<noteq> [] \<Longrightarrow> join_sep sep (x # ys) = x @ sep @ join_sep sep ys"
  by (cases ys) simp_all

lemma drop_cr_safe: "CHR 0x0D \<notin> set l \<Longrightarrow> drop_cr l = l"
  by (cases l rule: rev_cases) (auto simp: drop_cr_def)

text \<open>The tokens of a safe text are its lines.\<close>

lemma scan_lines_safe:
  assumes "sse_safe s"
  shows "(\<forall>t \<in> set (fst (scan_lines None s)). newline \<notin> set (fst t))
     \<and> (fst (scan_lines None s) = [] \<longleftrightarrow> s = [])
     \<and> join_sep nl (map fst (fst (scan_lines None s))) = chomp s"
  using assms
proof (induction "length s" arbitrary: s rule: less_induct)
  case less
  show ?case
  proof (cases s rule: line_cases)
    case 1
    then have "length s < MaxScanTokenSize" "chomp s = s"
      using less.prems by (auto simp: sse_safe_def split_lines_plain chomp_def dest: last_in_set)
    then show ?thesis
      using 1 less.prems
      by (cases "s = []") (simp_all add: scan_lines_last drop_cr_safe sse_safe_def chomp_def)
  next
    case (2 l r)
    have l: "length l < MaxScanTokenSize" "CHR 0x0D \<notin> set l" and r: "sse_safe r"
      using less.prems 2 by (auto simp: sse_safe_def split_lines_line)
    have toks: "fst (scan_lines None s) = (l, None) # fst (scan_lines None r)"
      by (simp add: 2 scan_lines_line l drop_cr_safe)
    have IH: "(\<forall>t \<in> set (fst (scan_lines None r)). newline \<notin> set (fst t))"
      "fst (scan_lines None r) = [] \<longleftrightarrow> r = []" "join_sep nl (map fst (fst (scan_lines None r))) = chomp r"
      using less.hyps [OF _ r] by (simp_all add: 2)
    have "join_sep nl (map fst (fst (scan_lines None s))) = chomp s"
    proof (cases "r = []")
      case True
      then have "map fst (fst (scan_lines None s)) = [l]" using IH(2) by (simp only: toks) simp
      then show ?thesis using True by (simp add: 2 chomp_def butlast_append)
    next
      case False
      then have "chomp s = l @ nl @ chomp r"
        by (simp add: 2 chomp_def nl_def butlast_append)
      then show ?thesis
        using False IH(2,3) by (simp add: toks join_sep_Cons)
    qed
    moreover have "\<forall>t \<in> set (fst (scan_lines None s)). newline \<notin> set (fst t)" "fst (scan_lines None s) \<noteq> []"
      using IH(1) 2(2) by (simp_all only: toks) simp_all
    moreover have "s \<noteq> []" using 2(1) by simp
    ultimately show ?thesis by blast
  qed
qed

lemma split_lines_frame:
  "(\<forall>t \<in> set ts. newline \<notin> set (fst t)) \<Longrightarrow>
     split_lines [] (concat (map (\<lambda>t. ''data: '' @ fst t @ nl) ts) @ nl @ rest) =
       map (\<lambda>t. ''data: '' @ fst t) ts @ [] # split_lines [] rest"
proof (induction ts)
  case (Cons t ts)
  have "split_lines [] ((''data: '' @ fst t) @ newline # X) = (''data: '' @ fst t) # split_lines [] X" for X
    using Cons.prems by (subst split_lines_line) auto
  then show ?case using Cons by (simp add: nl_def)
qed (simp add: nl_def)

lemma sse_dispatch_frame:
  "sse_dispatch (map (\<lambda>t. ''data: '' @ fst t) ts @ [] # ls) data =
     (if data @ map fst ts = [] then sse_dispatch ls []
      else join_sep nl (data @ map fst ts) # sse_dispatch ls [])"
  by (induction ts arbitrary: data) (simp_all add: data_value_def)

lemma sse_events_frames:
  assumes "\<forall>e \<in> set evs. sse_safe e"
  shows "sse_events (concat (map writeSSE evs)) = map chomp (filter (\<lambda>e. e \<noteq> []) evs)"
proof -
  have "sse_dispatch (butlast (split_lines [] (concat (map writeSSE evs)))) [] = map chomp (filter (\<lambda>e. e \<noteq> []) evs)"
    using assms
  proof (induction evs)
    case (Cons e evs)
    then have e: "\<forall>t \<in> set (fst (scan_lines None e)). newline \<notin> set (fst t)"
      "fst (scan_lines None e) = [] \<longleftrightarrow> e = []" "join_sep nl (map fst (fst (scan_lines None e))) = chomp e"
      using scan_lines_safe [of e] by simp_all
    have "split_lines [] (concat (map writeSSE (e # evs))) =
        map (\<lambda>t. ''data: '' @ fst t) (fst (scan_lines None e)) @ [] # split_lines [] (concat (map writeSSE evs))"
      using split_lines_frame [OF e(1), of "concat (map writeSSE evs)"] by (simp only: writeSSE_def list.map concat.simps append_assoc)
    then have "sse_dispatch (butlast (split_lines [] (concat (map writeSSE (e # evs))))) [] =
        sse_dispatch (map (\<lambda>t. ''data: '' @ fst t) (fst (scan_lines None e))
          @ [] # butlast (split_lines [] (concat (map writeSSE evs)))) []"
      by (simp only:) (simp add: butlast_append)
    then show ?case
      using Cons by (simp only: sse_dispatch_frame) (simp add: e)
  qed simp
  then show ?thesis by (simp add: sse_events_def)
qed

text \<open>A stream with enough rounds writes what its channel holds.\<close>

lemma stream_loop_drains:
  "length (buffer_of b ch) \<le> n \<Longrightarrow> fst (stream_loop n ch b) = concat (map writeSSE (buffer_of b ch))"
proof (induction n arbitrary: b)
  case (Suc n)
  show ?case
  proof (cases "buffer_of b ch")
    case Nil
    then show ?thesis by (simp add: receive_def)
  next
    case (Cons e q)
    with Suc.prems show ?thesis
      using Suc.IH [of "b\<lparr>br_chans := gm_put ch q (br_chans b)\<rparr>"]
      by (simp add: receive_def case_prod_beta)
  qed
qed simp

text \<open>The pages cover all incidents, and the last one is not empty.\<close>

lemma last_page_bounds:
  assumes "0 \<le> n"
  shows "1 \<le> last_page n" "0 < n \<Longrightarrow> (last_page n - 1) * pageSize < n" "n \<le> last_page n * pageSize"
proof -
  define l where "l = (n + 24) div 25"
  have l: "25 * l \<le> n + 24" "n + 24 < 25 * l + 25"
    unfolding l_def by presburger+
  have lp: "last_page n = (if l < 1 then 1 else l)"
    by (simp add: last_page_def pageSize_def l_def Let_def add.commute)
  show "1 \<le> last_page n" "n \<le> last_page n * pageSize"
    using l assms by (simp_all add: lp pageSize_def)
  show "(last_page n - 1) * pageSize < n" if "0 < n"
    using l that by (simp add: lp pageSize_def)
qed

section \<open>Properties\<close>

text \<open>
A browser that follows a stream receives the published fragments: reading the frames the
server wrote gives every nonempty fragment once, in order, up to one final newline, as long as the
fragments have no carriage return and no line of 65536 bytes or more.
\<close>

theorem writeSSE_round_trip:
  assumes "\<forall>e \<in> set evs. sse_safe e"
  shows "sse_events (concat (map writeSSE evs)) = map chomp (filter (\<lambda>e. e \<noteq> []) evs)"
  by (rule sse_events_frames [OF assms])

theorem writeSSE_round_trip_witness:
  "sse_events (writeSSE ''<p>'' @ writeSSE (''<b>x</b>'' @ nl @ ''y'' @ nl)) = [''<p>'', ''<b>x</b>'' @ nl @ ''y'']"
proof -
  have "sse_safe ''<p>''" "sse_safe (''<b>x</b>'' @ nl @ ''y'' @ nl)"
    by (simp_all add: sse_safe_def MaxScanTokenSize_def nl_def)
  moreover have "chomp ''<p>'' = ''<p>''" "chomp (''<b>x</b>'' @ nl @ ''y'' @ nl) = ''<b>x</b>'' @ nl @ ''y''"
    by (simp_all add: chomp_def nl_def)
  ultimately show ?thesis
    using writeSSE_round_trip [of "[''<p>'', ''<b>x</b>'' @ nl @ ''y'' @ nl]"] by (simp add: nl_def)
qed

text \<open>A line that is too long stops the scanner: the fragment is replaced by an empty frame.\<close>

lemma writeSSE_long_line:
  assumes "newline \<notin> set l" "MaxScanTokenSize \<le> length l"
  shows "writeSSE (l @ newline # r) = nl"
  using scan_lines_long [OF assms, of None r] by (simp add: writeSSE_def)

subsection \<open>Access\<close>

definition open_routes :: "route set" where
  "open_routes = {GetHealthz, GetLogin, PostLogin}"

lemma group_route_no_redirect: "fst (group_route env rt r w) \<noteq> Answer (Redirect p code c)"
  by (cases rt) (auto simp: list_handler_def detail_handler_def chatPost_def stream_def chatStream_def
      stream_topic_def http_Error_def Let_def split: prod.splits sum.splits option.splits)

lemma Handler_group:
  assumes "route_of r = Some rt" "rt \<notin> open_routes" "srv_authToken s \<noteq> []"
  shows "Handler s env route_of t1 t2 r st =
    requireAuth (srv_authToken s) Answer
      (\<lambda>r st. case group_route env rt r (snd st) of (a, w) \<Rightarrow> (a, (fst st, w))) r st"
  using assms by (simp add: Handler_def open_routes_def Let_def)

lemma Handler_open:
  assumes "route_of r = Some rt" "rt \<in> open_routes" "srv_authToken s \<noteq> []"
    "Handler s env route_of t1 t2 r (l, w) = (a, (l', w'))"
  shows "w' = w \<and> (\<exists>resp. a = Answer resp
     \<and> (\<forall>p code c. resp = Redirect p code (Some c) \<longrightarrow>
          rt = PostLogin \<and> resp = fst (loginSubmit (srv_authToken s) t1 t2 r l)))"
  using assms
  by (auto simp: Handler_def open_routes_def Let_def healthz_def loginForm_def split: prod.splits)

text \<open>
C28: With a token configured, every route but the health check and the login is closed to
requests without it: they reach no handler, read and change nothing of the store, the broker
and the model, and are answered with a redirect to the login page or with status 401. Requests with the
token are served as by a server without authentication. The cookie that opens the dashboard is
set only by a login with the right token.
\<close>

theorem Handler_guards:
  assumes "srv_authToken s \<noteq> []" "Handler s env route_of t1 t2 r (l, w) = (a, (l', w'))"
  shows "(\<not> authorized (srv_authToken s) r \<longrightarrow> w' = w
        \<and> (\<forall>rt. route_of r = Some rt \<longrightarrow> rt \<notin> open_routes \<longrightarrow> l' = l
             \<and> a \<in> {Answer (Redirect ''/login'' 303 None), Answer (http_Error [] ''unauthorized'' 401)}))
     \<and> (\<forall>rt. authorized (srv_authToken s) r \<longrightarrow> route_of r = Some rt \<longrightarrow> rt \<notin> open_routes \<longrightarrow>
          Handler New env route_of t1 t2 r (l, w) = (a, (l', w')))
     \<and> (\<forall>p code c r'. a = Answer (Redirect p code (Some c)) \<longrightarrow> rq_FormValue r ''token'' = srv_authToken s \<and> ck_HttpOnly c
          \<and> (rq_Cookie r' (ck_Name c) = Some (ck_Value c) \<longrightarrow> authorized (srv_authToken s) (r' :: web_req)))"
    (is "?closed \<and> ?served \<and> ?cookie")
proof (cases "\<exists>rt. route_of r = Some rt \<and> rt \<notin> open_routes")
  case True
  then obtain rt where rt: "route_of r = Some rt" "rt \<notin> open_routes" by blast
  define inner where "inner = (\<lambda>(r :: web_req) (st :: loginLimiter \<times> 'a). case group_route env rt r (snd st) of (a, w) \<Rightarrow> (a, (fst st, w)))"
  have step: "requireAuth (srv_authToken s) Answer inner r (l, w) = (a, (l', w'))"
    using assms(2) Handler_group [where s = s and route_of = route_of and r = r and env = env and st = "(l, w)", OF rt assms(1)] by (simp add: inner_def)
  have new: "Handler New env route_of t1 t2 r (l, w) = inner r (l, w)"
    using rt by (simp add: Handler_def New_def open_routes_def inner_def)
  show ?thesis
  proof (cases "authorized (srv_authToken s) r")
    case True
    then have "inner r (l, w) = (a, (l', w'))"
      using step by (simp add: requireAuth_passes)
    then have "a = fst (group_route env rt r w)"
      by (simp add: inner_def split: prod.splits)
    then have "a \<noteq> Answer (Redirect p code c)" for p code c
      by (simp add: group_route_no_redirect)
    with True new \<open>inner r (l, w) = (a, (l', w'))\<close> rt show ?thesis by simp
  next
    case False
    then have "(a, (l', w')) \<in> {(Answer (Redirect ''/login'' 303 None), (l, w)), (Answer (http_Error [] ''unauthorized'' 401), (l, w))}"
      using requireAuth_blocks [OF False, of Answer inner "(l, w)"] step by simp
    with False rt show ?thesis by (auto simp: http_Error_def)
  qed
next
  case False
  show ?thesis
  proof (cases "route_of r")
    case None
    then show ?thesis using assms(2) by (simp add: Handler_def Let_def)
  next
    case (Some rt)
    with False have "rt \<in> open_routes" by blast
    note op = Handler_open [OF Some this assms]
    have ?cookie
    proof (intro allI impI)
      fix p code c and r' :: web_req
      assume "a = Answer (Redirect p code (Some c))"
      with op have "fst (loginSubmit (srv_authToken s) t1 t2 r l) = Redirect p code (Some c)" by auto
      from loginSubmit_cookie [OF this]
      show "rq_FormValue r ''token'' = srv_authToken s \<and> ck_HttpOnly c
          \<and> (rq_Cookie r' (ck_Name c) = Some (ck_Value c) \<longrightarrow> authorized (srv_authToken s) r')"
        by (simp add: session_cookie_def authorized_iff)
    qed
    with op Some False show ?thesis by auto
  qed
qed

text \<open>A request without a token, and one that logs in.\<close>

definition sample_web_req :: web_req where
  "sample_web_req = \<lparr>rq_Method = ''GET'', rq_Path = ''/'', rq_RemoteAddr = ''10.0.0.1:5000'',
     rq_Header = (\<lambda>_. []), rq_Cookie = (\<lambda>_. None), rq_FormValue = (\<lambda>_. ''s3cret''),
     wq_RawQuery = [], wq_Body = []\<rparr>"

definition sample_chat_env :: "unit chat_env" where
  "sample_chat_env =
     \<lparr>ce_AppendChatMessage = (\<lambda>_ _ _ _ w. (None, w)), ce_GetIncident = (\<lambda>_ _ w. (Inl (errorf []), w)),
      ce_ListChatMessages = (\<lambda>_ _ w. (Inr [], w)), ce_Publish = (\<lambda>_ _ w. w), ce_RenderMarkdown = Inr\<rparr>"

definition sample_web_env :: "unit web_env" where
  "sample_web_env =
     \<lparr>we_CountIncidentsByPhase = (\<lambda>_ w. (Inr [], w)), we_CountIncidents = (\<lambda>_ w. (Inr 0, w)),
      we_ListIncidentsPage = (\<lambda>_ _ _ w. (Inr [], w)), we_chat = sample_chat_env, we_provider = None,
      we_texts = \<lparr>gt_quote = id, gt_json_error = (\<lambda>t. id)\<rparr>, we_flusher = True\<rparr>"

theorem Handler_guards_witness:
  "fst (Handler (WithAuthToken ''s3cret'' New) sample_web_env (\<lambda>_. Some GetList) 0 0 sample_web_req (\<lparr>ll_failures = None\<rparr>, ()))
     \<in> {Answer (Redirect ''/login'' 303 None), Answer (http_Error [] ''unauthorized'' 401)}
   \<and> authorized ''s3cret'' (sample_web_req\<lparr>rq_Cookie := (\<lambda>_. Some ''s3cret'')\<rparr>)"
proof -
  let ?s = "WithAuthToken ''s3cret'' New"
  let ?l = "\<lparr>ll_failures = None\<rparr>"
  have s: "srv_authToken ?s = ''s3cret''" "srv_authToken ?s \<noteq> []"
    by (simp_all add: WithAuthToken_def)
  have no: "\<not> authorized ''s3cret'' sample_web_req"
    by (simp add: authorized_iff sample_web_req_def)
  obtain a l' w' where run: "Handler ?s sample_web_env (\<lambda>_. Some GetList) 0 0 sample_web_req (?l, ()) = (a, (l', w'))"
    by (metis prod_cases3)
  have "a \<in> {Answer (Redirect ''/login'' 303 None), Answer (http_Error [] ''unauthorized'' 401)}"
    using Handler_guards [OF s(2) run] no s(1) by (simp add: open_routes_def)
  moreover have login: "Handler ?s sample_web_env (\<lambda>_. Some PostLogin) 0 0 sample_web_req (?l, ()) =
      (Answer (Redirect ''/'' 303 (Some (session_cookie ''s3cret''))), (?l, ()))"
    by (simp add: Handler_def s loginSubmit_def tooMany_def failures_of_def keep_after_def loginAttemptLimit_def
        tokenMatches_def sample_web_req_def)
  have "authorized ''s3cret'' (sample_web_req\<lparr>rq_Cookie := (\<lambda>_. Some ''s3cret'')\<rparr>)"
    using Handler_guards [OF s(2) login] s(1) by (simp add: session_cookie_def)
  ultimately show ?thesis using run by simp
qed

end
