(* ===== verification/Web_Templates.thy ===== *)
theory Web_Templates
  imports Html Web_Server
begin

text \<open>
  The pages of the dashboard as the generated templ code writes them,
  \<^verbatim>\<open>src/internal/web/templates/incidents_templ.go\<close> and \<^verbatim>\<open>layout_templ.go\<close>: every component is
  the list of the pieces it writes, in order, for writes that succeed. Long components are divided at
  the sections of the page. \<open>percent\<close> is \<^verbatim>\<open>Sprintf\<close> of a confidence as a percentage and
  \<open>fc\<close> the float code of \<^verbatim>\<open>strconv\<close>.
\<close>

section \<open>Values\<close>

definition phases :: "string list" where
  "phases = [''Done'', ''Diagnosing'', ''Failed'', ''Partial'', ''Pending'']"

definition total_of :: "(string, int) gomap \<Rightarrow> string \<Rightarrow> int" where
  "total_of totals p = (case gm_get totals p of None \<Rightarrow> 0 | Some n \<Rightarrow> n)"

definition view_incident :: "IncidentDetailView \<Rightarrow> Incident" where
  "view_incident d = det_Incident (idv_IncidentDetail d)"

text \<open>\<^verbatim>\<open>Format\<close> with a date and a time of day; stored times are in UTC.\<close>

definition display_seconds :: "gotime \<Rightarrow> string" where
  "display_seconds t = map (\<lambda>c. if c = CHR ''T'' then CHR '' '' else c) (fmt_seconds (t div nanos_per_second))"

definition display_minutes :: "gotime \<Rightarrow> string" where
  "display_minutes t = (let s = display_seconds t in take (length s - 3) s)"

definition Asset :: "string \<Rightarrow> string \<Rightarrow> string" where
  "Asset version path = path @ ''?v='' @ version"

text \<open>
  \<^verbatim>\<open>marshalJSON\<close> of a decoded value: objects have become maps, so the last of several equal keys
  counts and keys are written in order; numbers have become floats, null when out of range.
\<close>

fun collect_results :: "'a option list \<Rightarrow> 'a list option" where
  "collect_results [] = Some []"
| "collect_results (x # xs) =
     (case x of None \<Rightarrow> None | Some y \<Rightarrow> map_option ((#) y) (collect_results xs))"

primrec remarshal :: "float_codec \<Rightarrow> json \<Rightarrow> json option" where
  "remarshal fc JNull = Some JNull"
| "remarshal fc (JBool b) = Some (JBool b)"
| "remarshal fc (JNum l) = (case fc_parse fc l of None \<Rightarrow> Some JNull | Some x \<Rightarrow> map_option JNum (fc_format fc x))"
| "remarshal fc (JStr s) = Some (JStr s)"
| "remarshal fc (JArr vs) = map_option JArr (collect_results (map (remarshal fc) vs))"
| "remarshal fc (JObj ms) =
     map_option (\<lambda>kvs. JObj (sort_key fst (fold (\<lambda>(k, v) m. gm_put k v m) kvs [])))
       (collect_results (map (\<lambda>(k, r). map_option (Pair k) r) (map (map_prod id (remarshal fc)) ms)))"

definition marshalJSON :: "float_codec \<Rightarrow> json \<Rightarrow> string" where
  "marshalJSON fc v = (case remarshal fc v of None \<Rightarrow> ''?'' | Some j \<Rightarrow> json_print j)"

section \<open>Components\<close>

definition PhaseBadge :: "string \<Rightarrow> piece list" where
  "PhaseBadge phase =
     [Lit ''<span class=\"'',
      Class [''badge'', phaseBadgeClass phase],
      Lit ''\">'',
      Text phase,
      Lit ''</span>'']"

definition stat_card :: "IncidentFilter \<Rightarrow> (string, int) gomap \<Rightarrow> string \<Rightarrow> piece list" where
  "stat_card flt totals p =
     [Lit ''<a href=\"'',
      Link (phaseURL p flt),
      Lit ''\" class=\"'',
      Class [''stat-card'', phaseCardClass p, statCardActiveClass p (flt_Phase flt)],
      Lit ''\"><span class=\"stat-card-label\">'',
      Text p,
      Lit ''</span> <span class=\"stat-card-count\">'',
      Text (int_dec (total_of totals p)),
      Lit ''</span></a>'']"

definition StatCards :: "(string, int) gomap \<Rightarrow> IncidentFilter \<Rightarrow> piece list" where
  "StatCards totals flt =
     [Lit ''<div class=\"stat-cards\">''] @
     concat (map (stat_card flt totals) phases) @
     [Lit ''</div>'']"

definition filter_option :: "IncidentFilter \<Rightarrow> string \<Rightarrow> piece list" where
  "filter_option flt p =
     [Lit ''<option value=\"'',
      Attr p,
      Lit ''\"''] @
     (if flt_Phase flt = p then
         [Lit '' selected'']
      else []) @
     [Lit ''>'',
      Text p,
      Lit ''</option>'']"

definition filter_bar :: "IncidentFilter \<Rightarrow> piece list" where
  "filter_bar flt =
     [Lit ''<div class=\"page-header\"><h2>Incidents</h2></div><!-- Filter bar: GET form so all state lives in the URL (shareable, no JS required). --><!-- CON-005: Alpine x-data on form so @change auto-submits the phase select. --><form action=\"/\" method=\"GET\" class=\"filter-bar\" x-data><input type=\"search\" name=\"q\" value=\"'',
      Attr (flt_Query flt),
      Lit (''\" placeholder=\"Search name, message, reason'' @ [CHR 0xE2, CHR 0x80, CHR 0xA6] @ ''\" class=\"filter-input filter-input-wide\"> <select name=\"phase\" @change=\"$el.form.submit()\" class=\"filter-select\"><option value=\"\">All phases</option> '')] @
     concat (map (filter_option flt) phases) @
     [Lit ''</select> <input type=\"text\" name=\"namespace\" value=\"'',
      Attr (flt_Namespace flt),
      Lit ''\" placeholder=\"Namespace\" class=\"filter-input\"> <input type=\"text\" name=\"reason\" value=\"'',
      Attr (flt_Reason flt),
      Lit ''\" placeholder=\"Reason\" class=\"filter-input\"> <button type=\"submit\" class=\"filter-submit\">Search</button> ''] @
     (if flt \<noteq> no_filter then
         [Lit ''<a href=\"/\" class=\"filter-clear\">Clear</a>'']
      else []) @
     [Lit ''</form>'']"

definition incident_row :: "Incident \<Rightarrow> piece list" where
  "incident_row inc =
     [Lit ''<tr><td><a href=\"'',
      Link (''/incidents/'' @ inc_Namespace inc @ ''/'' @ inc_Name inc),
      Lit ''\" style=\"font-family: var(--font-mono); font-size: var(--text-sm)\">'',
      Text (inc_Namespace inc),
      Lit ''/'',
      Text (inc_Name inc),
      Lit ''</a></td>'',
      Lit ''<td class=\"'',
      Class [''incident-object'', missingValueClass [inc_InvolvedObjectKind inc, inc_InvolvedObjectName inc]],
      Lit ''\">'',
      Text (incidentObjectLabel inc),
      Lit ''</td>'',
      Lit ''<td class=\"'',
      Class [missingValueClass [inc_Reason inc]],
      Lit ''\">'',
      Text (displayText (inc_Reason inc) ''Not captured''),
      Lit ''</td><td>''] @
     PhaseBadge (inc_Phase inc) @
     [Lit ''</td><td style=\"color: var(--c-text-muted); font-size: var(--text-sm)\">'',
      Text (display_minutes (inc_UpdatedAt inc)),
      Lit ''</td></tr>'']"

definition pager :: "int \<Rightarrow> int \<Rightarrow> IncidentFilter \<Rightarrow> piece list" where
  "pager page lastPage flt =
     [Lit ''</tbody></table><div class=\"pager\">''] @
     (if page \<le> 1 then
         [Lit ''<span class=\"pager-btn disabled\">Prev</span> '']
      else [Lit ''<a class=\"pager-btn\" href=\"'',
            Link (pageURL (page - 1) flt),
            Lit ''\">Prev</a> '']) @
     [Lit ''<span class=\"pager-label\">Page '',
      Text (int_dec page),
      Lit '' of '',
      Text (int_dec lastPage),
      Lit ''</span> ''] @
     (if page \<ge> lastPage then
         [Lit ''<span class=\"pager-btn disabled\">Next</span>'']
      else [Lit ''<a class=\"pager-btn\" href=\"'',
            Link (pageURL (page + 1) flt),
            Lit ''\">Next</a>'']) @
     [Lit ''</div>'']"

definition incident_table :: "Incident list \<Rightarrow> int \<Rightarrow> int \<Rightarrow> IncidentFilter \<Rightarrow> piece list" where
  "incident_table incidents page lastPage flt =
     [Lit ''<table><thead><tr><th>Namespace / Name</th><th>Object</th><th>Reason</th><th>Phase</th><th>Updated</th></tr></thead> <tbody>''] @
     concat (map incident_row incidents) @
     pager page lastPage flt"

definition IncidentList :: "Incident list \<Rightarrow> (string, int) gomap \<Rightarrow> int \<Rightarrow> int \<Rightarrow> IncidentFilter \<Rightarrow> piece list" where
  "IncidentList incidents totals page lastPage flt =
     filter_bar flt @
     StatCards totals flt @
     (if length incidents = 0 \<and> page = 1 then
         [Lit ''<div class=\"empty-state\"><p>No incidents yet.</p></div>'']
      else incident_table incidents page lastPage flt)"

definition DiagnosisBlock :: "(float64 \<Rightarrow> string) \<Rightarrow> Diagnosis \<Rightarrow> piece list" where
  "DiagnosisBlock percent diag =
     [Lit ''<article><header><strong>Diagnosis #'',
      Text (int_dec (dg_ID diag)),
      Lit ''</strong> <small style=\"float:right\">'',
      Text (display_seconds (dg_CreatedAt diag)),
      Lit ''</small></header><dl>''] @
     (if dg_Summary diag \<noteq> [] then
         [Lit ''<dt>Summary</dt><dd class=\"markdown\">'',
          Markdown (dg_Summary diag),
          Lit ''</dd>'']
      else []) @
     (if dg_RootCause diag \<noteq> [] then
         [Lit ''<dt>Root Cause</dt><dd class=\"markdown\">'',
          Markdown (dg_RootCause diag),
          Lit ''</dd>'']
      else []) @
     (if dg_Remediation diag \<noteq> [] then
         [Lit ''<dt>Remediation</dt><dd class=\"markdown\">'',
          Markdown (dg_Remediation diag),
          Lit ''</dd>'']
      else []) @
     [Lit ''<dt>Confidence</dt><dd><span class=\"confidence-badge\">'',
      Text (percent (dg_Confidence diag)),
      Lit ''</span></dd></dl></article>'']"

definition pod_log :: "PodLog \<Rightarrow> piece list" where
  "pod_log log =
     [Lit ''<div class=\"log-label\">'',
      Text (pl_ContainerName log),
      Lit ''</div><pre class=\"log-block\">'',
      Text (pl_Lines log),
      Lit ''</pre>'']"

definition pod_section :: "PodContext \<Rightarrow> piece list" where
  "pod_section pod =
     [Lit ''<div class=\"context-section\"><strong>'',
      Text (pc_PodName pod),
      Lit ''</strong> <small>('',
      Text (pc_Phase pod),
      Lit '' on '',
      Text (pc_NodeName pod),
      Lit '')</small> ''] @
     concat (map pod_log (pc_Logs pod)) @
     [Lit ''</div>'']"

definition pods_section :: "Snapshot \<Rightarrow> piece list" where
  "pods_section sn =
     (if length (sn_PodContexts sn) > 0 then
         [Lit ''<section><h4>Pod Logs</h4>''] @
         concat (map pod_section (sn_PodContexts sn)) @
         [Lit ''</section>'']
      else [])"

definition event_row :: "EventSummary \<Rightarrow> piece list" where
  "event_row ev =
     [Lit ''<tr><td>'',
      Text (es_Name ev),
      Lit ''</td><td>'',
      Text (es_Reason ev),
      Lit ''</td><td>'',
      Text (es_Message ev),
      Lit ''</td><td>'',
      Text (int_dec (es_Count ev)),
      Lit ''</td></tr>'']"

definition events_section :: "Snapshot \<Rightarrow> piece list" where
  "events_section sn =
     (if length (sn_RelatedEvents sn) > 0 then
         [Lit ''<section><h4>Related Events</h4><table><thead><tr><th>Name</th><th>Reason</th><th>Message</th><th>Count</th></tr></thead> <tbody>''] @
         concat (map event_row (sn_RelatedEvents sn)) @
         [Lit ''</tbody></table></section>'']
      else [])"

definition node_entry :: "NodeCondition \<Rightarrow> piece list" where
  "node_entry nc =
     [Lit ''<dt>'',
      Text (nc_NodeName nc),
      Lit '' / '',
      Text (nc_Type nc),
      Lit ''</dt><dd>'',
      Text (nc_Status nc),
      Lit ('' '' @ em_dash @ '' ''),
      Text (nc_Message nc),
      Lit ''</dd>'']"

definition nodes_section :: "Snapshot \<Rightarrow> piece list" where
  "nodes_section sn =
     (if length (sn_NodeConditions sn) > 0 then
         [Lit ''<section><h4>Node Conditions</h4><dl>''] @
         concat (map node_entry (sn_NodeConditions sn)) @
         [Lit ''</dl></section>'']
      else [])"

definition condition_entry :: "string \<Rightarrow> piece list" where
  "condition_entry c =
     [Lit ''<dt>Condition</dt><dd>'',
      Text c,
      Lit ''</dd>'']"

definition deployment_section :: "Snapshot \<Rightarrow> piece list" where
  "deployment_section sn =
     (case sn_DeploymentStatus sn of
         None \<Rightarrow> []
       | Some ds \<Rightarrow> [Lit ''<section><h4>Deployment: '',
              Text (ds_Name ds),
              Lit ''</h4><dl><dt>Replicas</dt><dd>'',
              Text (int_dec (ds_ReadyReplicas ds) @ '' ready / '' @ int_dec (ds_AvailableReplicas ds) @ '' available / '' @ int_dec (ds_Replicas ds) @ '' total''),
              Lit ''</dd>''] @
             concat (map condition_entry (ds_Conditions ds)) @
             [Lit ''</dl></section>''])"

definition replicaset_section :: "Snapshot \<Rightarrow> piece list" where
  "replicaset_section sn =
     (case sn_ReplicaSetStatus sn of
         None \<Rightarrow> []
       | Some rs \<Rightarrow> [Lit ''<section><h4>ReplicaSet: '',
              Text (rs_Name rs),
              Lit ''</h4><dl><dt>Replicas</dt><dd>'',
              Text (int_dec (rs_ReadyReplicas rs) @ '' ready / '' @ int_dec (rs_Replicas rs) @ '' total''),
              Lit ''</dd>''] @
             concat (map condition_entry (rs_Conditions rs)) @
             [Lit ''</dl></section>''])"

definition warnings_section :: "Snapshot \<Rightarrow> piece list" where
  "warnings_section sn =
     (if length (sn_Partial sn) > 0 then
         [Lit ''<section><h4>Collection Warnings</h4><ul>''] @
         concat (map (\<lambda>p.
             [Lit ''<li>'',
              Text p,
              Lit ''</li>'']) (sn_Partial sn)) @
         [Lit ''</ul></section>'']
      else [])"

definition snapshot_sections :: "Snapshot \<Rightarrow> piece list" where
  "snapshot_sections sn =
     pods_section sn @
     [Lit '' ''] @
     events_section sn @
     [Lit '' ''] @
     nodes_section sn @
     [Lit '' ''] @
     deployment_section sn @
     [Lit '' ''] @
     replicaset_section sn @
     [Lit '' ''] @
     warnings_section sn"

definition DiagnosisContextBlock :: "DiagnosisView \<Rightarrow> piece list" where
  "DiagnosisContextBlock dv =
     [Lit ''<article class=\"context-block\"><header><strong>Diagnosis #'',
      Text (int_dec (dg_ID (dv_Diagnosis dv))),
      Lit ('' '' @ em_dash @ '' Context</strong></header>'')] @
     (case dv_Snapshot dv of
         None \<Rightarrow> [Lit ''<div class=\"empty-state\"><p>No context captured.</p></div>'']
       | Some sn \<Rightarrow> snapshot_sections sn) @
     [Lit ''</article>'']"

definition trace_item :: "float_codec \<Rightarrow> ViewTraceStep \<Rightarrow> piece list" where
  "trace_item fc step =
     [Lit ''<li class=\"trace-step\"><span class=\"trace-tool\">'',
      Text (vt_Tool step),
      Lit ''</span><div class=\"trace-args\"><span class=\"trace-label\">args: </span><code>'',
      Text (marshalJSON fc (vt_Args step)),
      Lit ''</code></div><div class=\"trace-result\"><span class=\"trace-label\">result: </span><code>'',
      Text (marshalJSON fc (vt_Result step)),
      Lit ''</code></div></li>'']"

definition trace_section :: "float_codec \<Rightarrow> DiagnosisView \<Rightarrow> piece list" where
  "trace_section fc dv =
     (if length (dv_TraceSteps dv) > 0 then
         [Lit ''<section><h4>Tool Trace</h4><ol class=\"trace-list\">''] @
         concat (map (trace_item fc) (dv_TraceSteps dv)) @
         [Lit ''</ol></section>'']
      else [])"

definition DiagnosisReasoningBlock :: "float_codec \<Rightarrow> DiagnosisView \<Rightarrow> piece list" where
  "DiagnosisReasoningBlock fc dv =
     [Lit ''<article class=\"context-block\"><header><strong>Diagnosis #'',
      Text (int_dec (dg_ID (dv_Diagnosis dv))),
      Lit ('' '' @ em_dash @ '' Reasoning</strong></header>'')] @
     (if dg_Reasoning (dv_Diagnosis dv) = [] \<and> length (dv_TraceSteps dv) = 0 then
         [Lit ''<div class=\"empty-state\"><p>No reasoning captured.</p></div>'']
      else (if dg_Reasoning (dv_Diagnosis dv) \<noteq> [] then
               [Lit ''<section><h4>Analysis</h4><div class=\"markdown\">'',
                Markdown (dg_Reasoning (dv_Diagnosis dv)),
                Lit ''</div></section>'']
            else []) @
           [Lit '' ''] @
           trace_section fc dv) @
     [Lit ''</article>'']"

definition chat_message :: "ChatMessage \<Rightarrow> piece list" where
  "chat_message msg =
     (if cm_Role msg = ''user'' then
         [Lit ''<div class=\"chat-message chat-message-user\"><div class=\"chat-message-label\">You</div><div class=\"chat-bubble chat-bubble-user\">'',
          Text (cm_Content msg),
          Lit ''</div></div>'']
      else [Lit ''<div class=\"chat-message chat-message-assistant\"><div class=\"chat-message-label\">kscribe</div><div class=\"chat-bubble chat-bubble-assistant markdown\">'',
            Markdown (cm_Content msg),
            Lit ''</div></div>''])"

definition ChatPanel :: "IncidentDetailView \<Rightarrow> piece list" where
  "ChatPanel d =
     [Lit (''<section class=\"chat-panel\" x-data=\"{ chatDraft: '' @ [CHR 0x27, CHR 0x27] @ '', chatPending: [], chatSending: false }\"><button class=\"chat-rail-button\" type=\"button\" x-show=\"!chatOpen\" @click=\"chatOpen = true\" aria-label=\"Open chat\">Chat</button><header class=\"chat-header\" x-show=\"chatOpen\"><div><h3>Incident Chat</h3><p>Context-aware RCA assistant</p></div><button class=\"chat-icon-button\" type=\"button\" @click=\"chatOpen = false\" aria-label=\"Collapse chat\" title=\"Collapse chat\">&gt;</button></header><div class=\"chat-messages\" id=\"chat-messages\" x-ref=\"chatTranscript\" x-show=\"chatOpen\" aria-live=\"polite\"><div class=\"chat-history\">'')] @
     (if length (idv_ChatMessages d) = 0 then
         [Lit ''<div class=\"chat-empty\"><strong>Ready for incident follow-up.</strong> <span>Ask for blast radius, next command, or remediation checks.</span></div>'']
      else concat (map chat_message (idv_ChatMessages d))) @
     [Lit ''</div><div class=\"chat-pending\"><template x-for=\"(m, i) in chatPending\" :key=\"i\"><div class=\"chat-message chat-message-user\"><div class=\"chat-message-label\">You</div><div class=\"chat-bubble chat-bubble-user\" x-text=\"m\"></div></div></template></div><div class=\"chat-message chat-message-assistant chat-streaming-message\"><div class=\"chat-message-label\">kscribe</div><div hx-ext=\"sse\" sse-connect=\"'',
      Attr (''/incidents/'' @ inc_Namespace (view_incident d) @ ''/'' @ inc_Name (view_incident d) @ ''/chat/stream''),
      Lit ''\" sse-swap=\"message\" hx-swap=\"innerHTML\" id=\"chat-stream\" x-ref=\"chatStream\" class=\"chat-bubble chat-bubble-assistant chat-streaming markdown\"></div></div><template x-if=\"chatSending && chatPending.length > 0\"><div class=\"chat-message chat-message-assistant chat-waiting\"><div class=\"chat-message-label\">kscribe</div><div class=\"chat-bubble chat-bubble-assistant\"><span class=\"chat-typing-dot\"></span> <span class=\"chat-typing-dot\"></span> <span class=\"chat-typing-dot\"></span></div></div></template></div><div class=\"chat-input-area\" x-show=\"chatOpen\"><form class=\"chat-form\" hx-post=\"'',
      Attr (''/incidents/'' @ inc_Namespace (view_incident d) @ ''/'' @ inc_Name (view_incident d) @ ''/chat''),
      Lit (''\" hx-swap=\"none\" @submit=\"if (chatDraft.trim() === '' @ [CHR 0x27, CHR 0x27] @ '') { $event.preventDefault() } else { chatPending.push(chatDraft); chatSending = true; if ($refs.chatStream) { $refs.chatStream.innerHTML = '' @ [CHR 0x27, CHR 0x27] @ ''; } $nextTick(() => { if ($refs.chatTranscript) { $refs.chatTranscript.scrollTop = $refs.chatTranscript.scrollHeight } }) }\" hx-on--after-request=\"chatSending = false; if (event.detail.successful) { chatDraft = '' @ [CHR 0x27, CHR 0x27] @ ''; chatPending = []; window.location.reload(); }\"><input type=\"text\" name=\"message\" x-model=\"chatDraft\" placeholder=\"Ask about this incident...\" class=\"chat-input\" autocomplete=\"off\" :readonly=\"chatSending\"> <button type=\"submit\" class=\"chat-send\" aria-label=\"Send message\" title=\"Send message\" :disabled=\"chatSending || chatDraft.trim() === '' @ [CHR 0x27, CHR 0x27] @ ''\"><span x-show=\"!chatSending\">'' @ [CHR 0xE2, CHR 0x86, CHR 0x91] @ ''</span> <span x-show=\"chatSending\">...</span></button></form><p class=\"chat-hint\" x-show=\"!chatSending\">Uses the latest diagnosis, context snapshot, and recent chat turns.</p><p class=\"chat-hint\" x-show=\"chatSending\">Streaming response...</p></div></section>'')]"

definition detail_header :: "IncidentDetailView \<Rightarrow> piece list" where
  "detail_header d =
     [Lit ''<div class=\"detail-shell\" x-data=\"{ tab: 'overview', chatOpen: true }\" :class=\"{ 'chat-collapsed': !chatOpen }\"><main class=\"detail-main\"><div class=\"detail-header\"><h2>'',
      Text (inc_Namespace (view_incident d)),
      Lit ''/'',
      Text (inc_Name (view_incident d))] @
     PhaseBadge (inc_Phase (view_incident d))"

definition detail_event :: "IncidentDetailView \<Rightarrow> piece list" where
  "detail_event d =
     [Lit (''</h2></div><div class=\"tab-bar\" role=\"tablist\"><button class=\"tab-button\" :class=\"{ 'tab-button-active': tab === 'overview' }\" @click=\"tab='overview'\" role=\"tab\">Overview</button> <button class=\"tab-button\" :class=\"{ 'tab-button-active': tab === 'rca' }\" @click=\"tab='rca'\" role=\"tab\">RCA</button> <button class=\"tab-button\" :class=\"{ 'tab-button-active': tab === 'context' }\" @click=\"tab='context'\" role=\"tab\">Context</button> <button class=\"tab-button\" :class=\"{ 'tab-button-active': tab === 'reasoning' }\" @click=\"tab='reasoning'\" role=\"tab\">Reasoning</button> <button class=\"tab-button\" :class=\"{ 'tab-button-active': tab === 'raw' }\" @click=\"tab='raw'\" role=\"tab\">Raw</button></div><!-- Overview tab: event info + SSE live status.'' @ [CHR 0x0A, CHR 0x09, CHR 0x09] @ ''     x-show keeps this in the DOM so the SSE stream is not interrupted. --><div x-show=\"tab === 'overview'\"><section><h3>Event</h3><dl><dt>Object</dt>''),
      Lit ''<dd class=\"'',
      Class [missingValueClass [inc_InvolvedObjectKind (view_incident d), inc_InvolvedObjectName (view_incident d)]],
      Lit ''\">'',
      Text (incidentObjectLabel (view_incident d)),
      Lit ''</dd><dt>Reason</dt>'',
      Lit ''<dd class=\"'',
      Class [missingValueClass [inc_Reason (view_incident d)]],
      Lit ''\">'',
      Text (displayText (inc_Reason (view_incident d)) ''Not captured''),
      Lit ''</dd><dt>Message</dt>'',
      Lit ''<dd class=\"'',
      Class [missingValueClass [inc_Message (view_incident d)]],
      Lit ''\">'',
      Text (displayText (inc_Message (view_incident d)) ''Not captured''),
      Lit ''</dd>'']"

definition detail_live :: "IncidentDetailView \<Rightarrow> piece list" where
  "detail_live d =
     (case inc_StartedAt (view_incident d) of
         None \<Rightarrow> []
       | Some t \<Rightarrow> [Lit ''<dt>Started</dt><dd>'',
              Text (display_seconds t @ '' UTC''),
              Lit ''</dd>'']) @
     (case inc_CompletedAt (view_incident d) of
         None \<Rightarrow> []
       | Some t \<Rightarrow> [Lit ''<dt>Completed</dt><dd>'',
              Text (display_seconds t @ '' UTC''),
              Lit ''</dd>'']) @
     [Lit ''<dt>LLM</dt><dd>'',
      Text (inc_LLMProvider (view_incident d)),
      Lit ''/'',
      Text (inc_LLMModel (view_incident d)),
      Lit '' ('',
      Text (int_dec (inc_TokensUsed (view_incident d)) @ '' tokens''),
      Lit '')</dd></dl></section><section><h3>Live Status <small style=\"font-weight:normal;font-size:.7em;color:#888;\">(SSE)</small></h3><div hx-ext=\"sse\" sse-connect=\"'',
      Attr (''/incidents/'' @ inc_Namespace (view_incident d) @ ''/'' @ inc_Name (view_incident d) @ ''/stream''),
      Lit ''\" sse-swap=\"message\" hx-swap=\"innerHTML\" id=\"live-status\">''] @
     PhaseBadge (inc_Phase (view_incident d))"

definition detail_rca :: "(float64 \<Rightarrow> string) \<Rightarrow> IncidentDetailView \<Rightarrow> piece list" where
  "detail_rca percent d =
     [Lit (''</div></section></div><!-- RCA tab: diagnosis cards with sanitized Markdown.'' @ [CHR 0x0A, CHR 0x09, CHR 0x09] @ ''     x-show keeps elements in DOM '' @ em_dash @ '' Alpine toggles display only. --><div x-show=\"tab === 'rca'\">'')] @
     (if length (idv_DiagnosisViews d) > 0 then
         [Lit ''<section><h3>RCA / Remediation</h3>''] @
         concat (map (\<lambda>dv.
             DiagnosisBlock percent (dv_Diagnosis dv)) (idv_DiagnosisViews d)) @
         [Lit ''</section>'']
      else [Lit ''<div class=\"empty-state\"><p>No diagnosis available yet.</p></div>''])"

definition detail_context :: "IncidentDetailView \<Rightarrow> piece list" where
  "detail_context d =
     [Lit (''</div><!-- Context tab: snapshot decoded from context_json '' @ em_dash @ '' pod logs, events, node conditions. --><div x-show=\"tab === 'context'\">'')] @
     (if length (idv_DiagnosisViews d) > 0 then
         concat (map (\<lambda>dv.
             DiagnosisContextBlock dv) (idv_DiagnosisViews d))
      else [Lit ''<div class=\"empty-state\"><p>No context captured.</p></div>''])"

definition detail_reasoning :: "float_codec \<Rightarrow> IncidentDetailView \<Rightarrow> piece list" where
  "detail_reasoning fc d =
     [Lit ''</div><!-- Reasoning tab: LLM reasoning (sanitized Markdown) + tool-call trace. --><div x-show=\"tab === 'reasoning'\">''] @
     (if length (idv_DiagnosisViews d) > 0 then
         concat (map (\<lambda>dv.
             DiagnosisReasoningBlock fc dv) (idv_DiagnosisViews d))
      else [Lit ''<div class=\"empty-state\"><p>No reasoning captured.</p></div>''])"

definition detail_raw :: "IncidentDetailView \<Rightarrow> piece list" where
  "detail_raw d =
     [Lit ''</div><!-- Raw tab: plain key/value dump of event + LLM fields. --><div x-show=\"tab === 'raw'\"><section><h3>Raw Fields</h3><dl><dt>Namespace</dt><dd>'',
      Text (inc_Namespace (view_incident d)),
      Lit ''</dd><dt>Name</dt><dd>'',
      Text (inc_Name (view_incident d)),
      Lit ''</dd><dt>Phase</dt><dd>'',
      Text (inc_Phase (view_incident d)),
      Lit ''</dd><dt>Involved Object</dt>'',
      Lit ''<dd class=\"'',
      Class [missingValueClass [inc_InvolvedObjectKind (view_incident d), inc_InvolvedObjectName (view_incident d)]],
      Lit ''\">'',
      Text (incidentObjectLabel (view_incident d)),
      Lit ''</dd><dt>Reason</dt>'',
      Lit ''<dd class=\"'',
      Class [missingValueClass [inc_Reason (view_incident d)]],
      Lit ''\">'',
      Text (displayText (inc_Reason (view_incident d)) ''Not captured''),
      Lit ''</dd><dt>Message</dt>'',
      Lit ''<dd class=\"'',
      Class [missingValueClass [inc_Message (view_incident d)]],
      Lit ''\">'',
      Text (displayText (inc_Message (view_incident d)) ''Not captured'')]"

definition detail_raw_llm :: "IncidentDetailView \<Rightarrow> piece list" where
  "detail_raw_llm d =
     [Lit ''</dd><dt>LLM Provider</dt><dd>'',
      Text (inc_LLMProvider (view_incident d)),
      Lit ''</dd><dt>LLM Model</dt><dd>'',
      Text (inc_LLMModel (view_incident d)),
      Lit ''</dd><dt>Tokens Used</dt><dd>'',
      Text (int_dec (inc_TokensUsed (view_incident d))),
      Lit ''</dd>''] @
     (case inc_StartedAt (view_incident d) of
         None \<Rightarrow> []
       | Some t \<Rightarrow> [Lit ''<dt>Started At</dt><dd>'',
              Text (display_seconds t @ '' UTC''),
              Lit ''</dd>'']) @
     (case inc_CompletedAt (view_incident d) of
         None \<Rightarrow> []
       | Some t \<Rightarrow> [Lit ''<dt>Completed At</dt><dd>'',
              Text (display_seconds t @ '' UTC''),
              Lit ''</dd>'']) @
     [Lit ''<dt>Created At</dt><dd>'',
      Text (display_seconds (inc_CreatedAt (view_incident d)) @ '' UTC''),
      Lit ''</dd><dt>Updated At</dt><dd>'',
      Text (display_seconds (inc_UpdatedAt (view_incident d)) @ '' UTC''),
      Lit ''</dd></dl></section></div></main><aside class=\"detail-sidebar\" :class=\"{ 'detail-sidebar-collapsed': !chatOpen }\" aria-label=\"Incident chat\">'']"

definition IncidentDetail :: "(float64 \<Rightarrow> string) \<Rightarrow> float_codec \<Rightarrow> IncidentDetailView \<Rightarrow> piece list" where
  "IncidentDetail percent fc d =
     detail_header d @
     detail_event d @
     detail_live d @
     detail_rca percent d @
     detail_context d @
     detail_reasoning fc d @
     detail_raw d @
     detail_raw_llm d @
     ChatPanel d @
     [Lit ''</aside></div>'']"

definition Layout :: "string \<Rightarrow> string \<Rightarrow> piece list \<Rightarrow> piece list" where
  "Layout version title content =
     [Lit ''<!doctype html><html lang=\"en\"><head><meta charset=\"UTF-8\"><meta name=\"viewport\" content=\"width=device-width, initial-scale=1\"><title>'',
      Text title,
      Lit (''</title><script>'' @ [CHR 0x0A, CHR 0x09, CHR 0x09, CHR 0x09, CHR 0x09] @ ''// pre-paint FOUC prevention + Alpine store registration'' @ [CHR 0x0A, CHR 0x09, CHR 0x09, CHR 0x09, CHR 0x09] @ ''(function(){'' @ [CHR 0x0A, CHR 0x09, CHR 0x09, CHR 0x09, CHR 0x09, CHR 0x09] @ ''var t = localStorage.getItem('kscribe-theme') || 'system';'' @ [CHR 0x0A, CHR 0x09, CHR 0x09, CHR 0x09, CHR 0x09, CHR 0x09] @ ''var mq = window.matchMedia('(prefers-color-scheme: dark)');'' @ [CHR 0x0A, CHR 0x09, CHR 0x09, CHR 0x09, CHR 0x09, CHR 0x09] @ ''function resolve(m) { return m === 'system' ? (mq.matches ? 'dark' : 'light') : m; }'' @ [CHR 0x0A, CHR 0x09, CHR 0x09, CHR 0x09, CHR 0x09, CHR 0x09] @ ''document.documentElement.setAttribute('data-theme', resolve(t));'' @ [CHR 0x0A, CHR 0x09, CHR 0x09, CHR 0x09, CHR 0x09] @ ''})();'' @ [CHR 0x0A, CHR 0x09, CHR 0x09, CHR 0x09, CHR 0x09] @ ''var _kMQ = window.matchMedia('(prefers-color-scheme: dark)');'' @ [CHR 0x0A, CHR 0x09, CHR 0x09, CHR 0x09, CHR 0x09] @ ''function _kApply(m) {'' @ [CHR 0x0A, CHR 0x09, CHR 0x09, CHR 0x09, CHR 0x09, CHR 0x09] @ ''document.documentElement.setAttribute('data-theme', m === 'system' ? (_kMQ.matches ? 'dark' : 'light') : m);'' @ [CHR 0x0A, CHR 0x09, CHR 0x09, CHR 0x09, CHR 0x09] @ ''}'' @ [CHR 0x0A, CHR 0x09, CHR 0x09, CHR 0x09, CHR 0x09] @ ''document.addEventListener('alpine:init', function() {'' @ [CHR 0x0A, CHR 0x09, CHR 0x09, CHR 0x09, CHR 0x09, CHR 0x09] @ ''Alpine.store('theme', {'' @ [CHR 0x0A, CHR 0x09, CHR 0x09, CHR 0x09, CHR 0x09, CHR 0x09, CHR 0x09] @ ''mode: localStorage.getItem('kscribe-theme') || 'system','' @ [CHR 0x0A, CHR 0x09, CHR 0x09, CHR 0x09, CHR 0x09, CHR 0x09, CHR 0x09] @ ''get label() {'' @ [CHR 0x0A, CHR 0x09, CHR 0x09, CHR 0x09, CHR 0x09, CHR 0x09, CHR 0x09, CHR 0x09] @ ''return ({light: 'Light', dark: 'Dark', system: 'System'})[this.mode] || 'System';'' @ [CHR 0x0A, CHR 0x09, CHR 0x09, CHR 0x09, CHR 0x09, CHR 0x09, CHR 0x09] @ ''},'' @ [CHR 0x0A, CHR 0x09, CHR 0x09, CHR 0x09, CHR 0x09, CHR 0x09, CHR 0x09] @ ''set: function(m) { this.mode = m; localStorage.setItem('kscribe-theme', m); _kApply(m); },'' @ [CHR 0x0A, CHR 0x09, CHR 0x09, CHR 0x09, CHR 0x09, CHR 0x09, CHR 0x09] @ ''cycle: function() {'' @ [CHR 0x0A, CHR 0x09, CHR 0x09, CHR 0x09, CHR 0x09, CHR 0x09, CHR 0x09, CHR 0x09] @ ''var ms = ['light', 'dark', 'system'];'' @ [CHR 0x0A, CHR 0x09, CHR 0x09, CHR 0x09, CHR 0x09, CHR 0x09, CHR 0x09, CHR 0x09] @ ''this.set(ms[(ms.indexOf(this.mode) + 1) % 3]);'' @ [CHR 0x0A, CHR 0x09, CHR 0x09, CHR 0x09, CHR 0x09, CHR 0x09, CHR 0x09] @ ''}'' @ [CHR 0x0A, CHR 0x09, CHR 0x09, CHR 0x09, CHR 0x09, CHR 0x09] @ ''});'' @ [CHR 0x0A, CHR 0x09, CHR 0x09, CHR 0x09, CHR 0x09, CHR 0x09] @ ''_kMQ.addEventListener('change', function() {'' @ [CHR 0x0A, CHR 0x09, CHR 0x09, CHR 0x09, CHR 0x09, CHR 0x09, CHR 0x09] @ ''if (Alpine.store('theme').mode === 'system') _kApply('system');'' @ [CHR 0x0A, CHR 0x09, CHR 0x09, CHR 0x09, CHR 0x09, CHR 0x09] @ ''});'' @ [CHR 0x0A, CHR 0x09, CHR 0x09, CHR 0x09, CHR 0x09] @ ''});'' @ [CHR 0x0A, CHR 0x09, CHR 0x09, CHR 0x09] @ ''</script><link rel=\"stylesheet\" href=\"''),
      Href (Asset version ''/static/css/app.css''),
      Lit ''\"><link rel=\"icon\" href=\"'',
      Href (Asset version ''/static/icons/favicon.svg''),
      Lit ''\" type=\"image/svg+xml\"><script defer src=\"'',
      Attr (Asset version ''/static/js/alpine.min.js''),
      Lit ''\"></script><script src=\"'',
      Attr (Asset version ''/static/js/htmx.min.js''),
      Lit ''\"></script><script src=\"'',
      Attr (Asset version ''/static/js/htmx-sse.min.js''),
      Lit ''\"></script></head><body><header class=\"topbar\"><a href=\"/\" class=\"topbar-brand\">kscribe</a> <span class=\"topbar-spacer\"></span> <button class=\"theme-toggle\" x-data x-on:click=\"$store.theme.cycle()\" x-text=\"$store.theme.label\">System</button></header><main class=\"main-content\">''] @
     content @
     [Lit ''</main></body></html>'']"

section \<open>Pages\<close>

text \<open>The document behind a rendered answer of the server.\<close>

fun page_pieces :: "(float64 \<Rightarrow> string) \<Rightarrow> float_codec \<Rightarrow> string \<Rightarrow> string \<Rightarrow> page \<Rightarrow> piece list" where
  "page_pieces percent fc version title (ListPage incidents totals n lastPage flt) =
     Layout version title (IncidentList incidents totals n lastPage flt)"
| "page_pieces percent fc version title (DetailPage d) = Layout version title (IncidentDetail percent fc d)"

end
