(* ===== verification/Web_Templates_Laws.thy ===== *)
theory Web_Templates_Laws
  imports Web_Templates
begin

text \<open>
  Every component of the dashboard keeps the scanner in the content of an element and closes what
  it opens, whatever the data: so every value stands where its escaping is the right one, and the
  pages are well nested. Each section has a lemma with the elements it closes and opens.
\<close>

section \<open>Sections\<close>


lemma PhaseBadge_literals:
  "scan_html ''<span class=\"'' (Data, els) = Some (Quoted ''span'', els)"
  "scan_html ''\">'' (Quoted ''span'', els) = Some (Data, ''span'' # els)"
  "scan_html ''</span>'' (Data, ''span'' # els) = Some (Data, els)"
  by code_simp+

lemma PhaseBadge_scans:
  "scan_pieces (PhaseBadge phase) (Data, els) = Some (Data, els)"
  by (simp add: PhaseBadge_def scan_pieces_append PhaseBadge_literals
      del: scan_html.simps append.simps split: option.split)

lemma stat_card_literals:
  "scan_html ''<a href=\"'' (Data, els) = Some (Quoted ''a'', els)"
  "scan_html ''\" class=\"'' (Quoted ''a'', els) = Some (Quoted ''a'', els)"
  "scan_html ''\"><span class=\"stat-card-label\">'' (Quoted ''a'', els) = Some (Data, ''span'' # ''a'' # els)"
  "scan_html ''</span> <span class=\"stat-card-count\">'' (Data, ''span'' # els) = Some (Data, ''span'' # els)"
  "scan_html ''</span></a>'' (Data, ''span'' # ''a'' # els) = Some (Data, els)"
  by code_simp+

lemma stat_card_scans:
  "scan_pieces (stat_card flt totals p) (Data, els) = Some (Data, els)"
  by (simp add: stat_card_def scan_pieces_append stat_card_literals
      del: scan_html.simps append.simps split: option.split)

lemma StatCards_literals:
  "scan_html ''<div class=\"stat-cards\">'' (Data, els) = Some (Data, ''div'' # els)"
  "scan_html ''</div>'' (Data, ''div'' # els) = Some (Data, els)"
  by code_simp+

lemma StatCards_scans:
  "scan_pieces (StatCards totals flt) (Data, els) = Some (Data, els)"
  by (simp add: StatCards_def scan_pieces_append scan_pieces_loop StatCards_literals stat_card_scans
      del: scan_html.simps append.simps split: option.split)

lemma filter_option_literals:
  "scan_html ''<option value=\"'' (Data, els) = Some (Quoted ''option'', els)"
  "scan_html ''\"'' (Quoted ''option'', els) = Some (Attrs ''option'', els)"
  "scan_html '' selected'' (Attrs ''option'', els) = Some (Attrs ''option'', els)"
  "scan_html ''>'' (Attrs ''option'', els) = Some (Data, ''option'' # els)"
  "scan_html ''</option>'' (Data, ''option'' # els) = Some (Data, els)"
  by code_simp+

lemma filter_option_scans:
  "scan_pieces (filter_option flt p) (Data, els) = Some (Data, els)"
  by (simp add: filter_option_def scan_pieces_append filter_option_literals
      del: scan_html.simps append.simps split: option.split)

lemma filter_bar_literals:
  "scan_html ''<div class=\"page-header\"><h2>Incidents</h2></div><!-- Filter bar: GET form so all state lives in the URL (shareable, no JS required). --><!-- CON-005: Alpine x-data on form so @change auto-submits the phase select. --><form action=\"/\" method=\"GET\" class=\"filter-bar\" x-data><input type=\"search\" name=\"q\" value=\"'' (Data, els) = Some (Quoted ''input'', ''form'' # els)"
  "scan_html (''\" placeholder=\"Search name, message, reason'' @ [CHR 0xE2, CHR 0x80, CHR 0xA6] @ ''\" class=\"filter-input filter-input-wide\"> <select name=\"phase\" @change=\"$el.form.submit()\" class=\"filter-select\"><option value=\"\">All phases</option> '') (Quoted ''input'', els) = Some (Data, ''select'' # els)"
  "scan_html ''</select> <input type=\"text\" name=\"namespace\" value=\"'' (Data, ''select'' # els) = Some (Quoted ''input'', els)"
  "scan_html ''\" placeholder=\"Namespace\" class=\"filter-input\"> <input type=\"text\" name=\"reason\" value=\"'' (Quoted ''input'', els) = Some (Quoted ''input'', els)"
  "scan_html ''\" placeholder=\"Reason\" class=\"filter-input\"> <button type=\"submit\" class=\"filter-submit\">Search</button> '' (Quoted ''input'', els) = Some (Data, els)"
  "scan_html ''<a href=\"/\" class=\"filter-clear\">Clear</a>'' (Data, els) = Some (Data, els)"
  "scan_html ''</form>'' (Data, ''form'' # els) = Some (Data, els)"
  by code_simp+

lemma filter_bar_scans:
  "scan_pieces (filter_bar flt) (Data, els) = Some (Data, els)"
  by (simp add: filter_bar_def scan_pieces_append scan_pieces_loop filter_bar_literals filter_option_scans
      del: scan_html.simps append.simps split: option.split)

lemma incident_row_literals:
  "scan_html ''<tr><td><a href=\"'' (Data, els) = Some (Quoted ''a'', ''td'' # ''tr'' # els)"
  "scan_html ''\" style=\"font-family: var(--font-mono); font-size: var(--text-sm)\">'' (Quoted ''a'', els) = Some (Data, ''a'' # els)"
  "scan_html ''/'' (Data, els) = Some (Data, els)"
  "scan_html ''</a></td>'' (Data, ''a'' # ''td'' # els) = Some (Data, els)"
  "scan_html ''<td class=\"'' (Data, els) = Some (Quoted ''td'', els)"
  "scan_html ''\">'' (Quoted ''td'', els) = Some (Data, ''td'' # els)"
  "scan_html ''</td>'' (Data, ''td'' # els) = Some (Data, els)"
  "scan_html ''</td><td>'' (Data, ''td'' # els) = Some (Data, ''td'' # els)"
  "scan_html ''</td><td style=\"color: var(--c-text-muted); font-size: var(--text-sm)\">'' (Data, ''td'' # els) = Some (Data, ''td'' # els)"
  "scan_html ''</td></tr>'' (Data, ''td'' # ''tr'' # els) = Some (Data, els)"
  by code_simp+

lemma incident_row_scans:
  "scan_pieces (incident_row inc) (Data, els) = Some (Data, els)"
  by (simp add: incident_row_def scan_pieces_append incident_row_literals PhaseBadge_scans
      del: scan_html.simps append.simps split: option.split)

lemma pager_literals:
  "scan_html ''</tbody></table><div class=\"pager\">'' (Data, ''tbody'' # ''table'' # els) = Some (Data, ''div'' # els)"
  "scan_html ''<span class=\"pager-btn disabled\">Prev</span> '' (Data, els) = Some (Data, els)"
  "scan_html ''<a class=\"pager-btn\" href=\"'' (Data, els) = Some (Quoted ''a'', els)"
  "scan_html ''\">Prev</a> '' (Quoted ''a'', els) = Some (Data, els)"
  "scan_html ''<span class=\"pager-label\">Page '' (Data, els) = Some (Data, ''span'' # els)"
  "scan_html '' of '' (Data, els) = Some (Data, els)"
  "scan_html ''</span> '' (Data, ''span'' # els) = Some (Data, els)"
  "scan_html ''<span class=\"pager-btn disabled\">Next</span>'' (Data, els) = Some (Data, els)"
  "scan_html ''\">Next</a>'' (Quoted ''a'', els) = Some (Data, els)"
  by code_simp+

lemma pager_scans:
  "scan_pieces (pager page lastPage flt) (Data, ''tbody'' # ''table'' # els) = Some (Data, els)"
  by (simp add: pager_def scan_pieces_append StatCards_literals pager_literals
      del: scan_html.simps append.simps split: option.split)

lemma incident_table_literals:
  "scan_html ''<table><thead><tr><th>Namespace / Name</th><th>Object</th><th>Reason</th><th>Phase</th><th>Updated</th></tr></thead> <tbody>'' (Data, els) = Some (Data, ''tbody'' # ''table'' # els)"
  by code_simp+

lemma incident_table_scans:
  "scan_pieces (incident_table incidents page lastPage flt) (Data, els) = Some (Data, els)"
  by (simp add: incident_table_def scan_pieces_append scan_pieces_loop incident_table_literals incident_row_scans pager_scans
      del: scan_html.simps append.simps split: option.split)

lemma IncidentList_literals:
  "scan_html ''<div class=\"empty-state\"><p>No incidents yet.</p></div>'' (Data, els) = Some (Data, els)"
  by code_simp+

lemma IncidentList_scans:
  "scan_pieces (IncidentList incidents totals page lastPage flt) (Data, els) = Some (Data, els)"
  by (simp add: IncidentList_def scan_pieces_append IncidentList_literals StatCards_scans filter_bar_scans incident_table_scans
      del: scan_html.simps append.simps split: option.split)

lemma DiagnosisBlock_literals:
  "scan_html ''<article><header><strong>Diagnosis #'' (Data, els) = Some (Data, ''strong'' # ''header'' # ''article'' # els)"
  "scan_html ''</strong> <small style=\"float:right\">'' (Data, ''strong'' # els) = Some (Data, ''small'' # els)"
  "scan_html ''</small></header><dl>'' (Data, ''small'' # ''header'' # els) = Some (Data, ''dl'' # els)"
  "scan_html ''<dt>Summary</dt><dd class=\"markdown\">'' (Data, els) = Some (Data, ''dd'' # els)"
  "scan_html ''</dd>'' (Data, ''dd'' # els) = Some (Data, els)"
  "scan_html ''<dt>Root Cause</dt><dd class=\"markdown\">'' (Data, els) = Some (Data, ''dd'' # els)"
  "scan_html ''<dt>Remediation</dt><dd class=\"markdown\">'' (Data, els) = Some (Data, ''dd'' # els)"
  "scan_html ''<dt>Confidence</dt><dd><span class=\"confidence-badge\">'' (Data, els) = Some (Data, ''span'' # ''dd'' # els)"
  "scan_html ''</span></dd></dl></article>'' (Data, ''span'' # ''dd'' # ''dl'' # ''article'' # els) = Some (Data, els)"
  by code_simp+

lemma DiagnosisBlock_scans:
  "scan_pieces (DiagnosisBlock percent diag) (Data, els) = Some (Data, els)"
  by (simp add: DiagnosisBlock_def scan_pieces_append DiagnosisBlock_literals
      del: scan_html.simps append.simps split: option.split)

lemma pod_log_literals:
  "scan_html ''<div class=\"log-label\">'' (Data, els) = Some (Data, ''div'' # els)"
  "scan_html ''</div><pre class=\"log-block\">'' (Data, ''div'' # els) = Some (Data, ''pre'' # els)"
  "scan_html ''</pre>'' (Data, ''pre'' # els) = Some (Data, els)"
  by code_simp+

lemma pod_log_scans:
  "scan_pieces (pod_log log) (Data, els) = Some (Data, els)"
  by (simp add: pod_log_def scan_pieces_append pod_log_literals
      del: scan_html.simps append.simps split: option.split)

lemma pod_section_literals:
  "scan_html ''<div class=\"context-section\"><strong>'' (Data, els) = Some (Data, ''strong'' # ''div'' # els)"
  "scan_html ''</strong> <small>('' (Data, ''strong'' # els) = Some (Data, ''small'' # els)"
  "scan_html '' on '' (Data, els) = Some (Data, els)"
  "scan_html '')</small> '' (Data, ''small'' # els) = Some (Data, els)"
  by code_simp+

lemma pod_section_scans:
  "scan_pieces (pod_section pod) (Data, els) = Some (Data, els)"
  by (simp add: pod_section_def scan_pieces_append scan_pieces_loop StatCards_literals pod_section_literals pod_log_scans
      del: scan_html.simps append.simps split: option.split)

lemma pods_section_literals:
  "scan_html ''<section><h4>Pod Logs</h4>'' (Data, els) = Some (Data, ''section'' # els)"
  "scan_html ''</section>'' (Data, ''section'' # els) = Some (Data, els)"
  by code_simp+

lemma pods_section_scans:
  "scan_pieces (pods_section sn) (Data, els) = Some (Data, els)"
  by (simp add: pods_section_def scan_pieces_append scan_pieces_loop pods_section_literals pod_section_scans
      del: scan_html.simps append.simps split: option.split)

lemma event_row_literals:
  "scan_html ''<tr><td>'' (Data, els) = Some (Data, ''td'' # ''tr'' # els)"
  by code_simp+

lemma event_row_scans:
  "scan_pieces (event_row ev) (Data, els) = Some (Data, els)"
  by (simp add: event_row_def scan_pieces_append incident_row_literals event_row_literals
      del: scan_html.simps append.simps split: option.split)

lemma events_section_literals:
  "scan_html ''<section><h4>Related Events</h4><table><thead><tr><th>Name</th><th>Reason</th><th>Message</th><th>Count</th></tr></thead> <tbody>'' (Data, els) = Some (Data, ''tbody'' # ''table'' # ''section'' # els)"
  "scan_html ''</tbody></table></section>'' (Data, ''tbody'' # ''table'' # ''section'' # els) = Some (Data, els)"
  by code_simp+

lemma events_section_scans:
  "scan_pieces (events_section sn) (Data, els) = Some (Data, els)"
  by (simp add: events_section_def scan_pieces_append scan_pieces_loop events_section_literals event_row_scans
      del: scan_html.simps append.simps split: option.split)

lemma node_entry_literals:
  "scan_html ''<dt>'' (Data, els) = Some (Data, ''dt'' # els)"
  "scan_html '' / '' (Data, els) = Some (Data, els)"
  "scan_html ''</dt><dd>'' (Data, ''dt'' # els) = Some (Data, ''dd'' # els)"
  "scan_html ('' '' @ em_dash @ '' '') (Data, els) = Some (Data, els)"
  by code_simp+

lemma node_entry_scans:
  "scan_pieces (node_entry nc) (Data, els) = Some (Data, els)"
  by (simp add: node_entry_def scan_pieces_append DiagnosisBlock_literals node_entry_literals
      del: scan_html.simps append.simps split: option.split)

lemma nodes_section_literals:
  "scan_html ''<section><h4>Node Conditions</h4><dl>'' (Data, els) = Some (Data, ''dl'' # ''section'' # els)"
  "scan_html ''</dl></section>'' (Data, ''dl'' # ''section'' # els) = Some (Data, els)"
  by code_simp+

lemma nodes_section_scans:
  "scan_pieces (nodes_section sn) (Data, els) = Some (Data, els)"
  by (simp add: nodes_section_def scan_pieces_append scan_pieces_loop nodes_section_literals node_entry_scans
      del: scan_html.simps append.simps split: option.split)

lemma condition_entry_literals:
  "scan_html ''<dt>Condition</dt><dd>'' (Data, els) = Some (Data, ''dd'' # els)"
  by code_simp+

lemma condition_entry_scans:
  "scan_pieces (condition_entry c) (Data, els) = Some (Data, els)"
  by (simp add: condition_entry_def scan_pieces_append DiagnosisBlock_literals condition_entry_literals
      del: scan_html.simps append.simps split: option.split)

lemma deployment_section_literals:
  "scan_html ''<section><h4>Deployment: '' (Data, els) = Some (Data, ''h4'' # ''section'' # els)"
  "scan_html ''</h4><dl><dt>Replicas</dt><dd>'' (Data, ''h4'' # els) = Some (Data, ''dd'' # ''dl'' # els)"
  by code_simp+

lemma deployment_section_scans:
  "scan_pieces (deployment_section sn) (Data, els) = Some (Data, els)"
  by (simp add: deployment_section_def scan_pieces_append scan_pieces_loop DiagnosisBlock_literals nodes_section_literals deployment_section_literals condition_entry_scans
      del: scan_html.simps append.simps split: option.split)

lemma replicaset_section_literals:
  "scan_html ''<section><h4>ReplicaSet: '' (Data, els) = Some (Data, ''h4'' # ''section'' # els)"
  by code_simp+

lemma replicaset_section_scans:
  "scan_pieces (replicaset_section sn) (Data, els) = Some (Data, els)"
  by (simp add: replicaset_section_def scan_pieces_append scan_pieces_loop deployment_section_literals DiagnosisBlock_literals nodes_section_literals replicaset_section_literals condition_entry_scans
      del: scan_html.simps append.simps split: option.split)

lemma warnings_section_literals:
  "scan_html ''<section><h4>Collection Warnings</h4><ul>'' (Data, els) = Some (Data, ''ul'' # ''section'' # els)"
  "scan_html ''<li>'' (Data, els) = Some (Data, ''li'' # els)"
  "scan_html ''</li>'' (Data, ''li'' # els) = Some (Data, els)"
  "scan_html ''</ul></section>'' (Data, ''ul'' # ''section'' # els) = Some (Data, els)"
  by code_simp+

lemma warnings_section_scans:
  "scan_pieces (warnings_section sn) (Data, els) = Some (Data, els)"
  by (simp add: warnings_section_def scan_pieces_append scan_pieces_loop warnings_section_literals
      del: scan_html.simps append.simps split: option.split)

lemma snapshot_sections_literals:
  "scan_html '' '' (Data, els) = Some (Data, els)"
  by code_simp+

lemma snapshot_sections_scans:
  "scan_pieces (snapshot_sections sn) (Data, els) = Some (Data, els)"
  by (simp add: snapshot_sections_def scan_pieces_append snapshot_sections_literals deployment_section_scans events_section_scans nodes_section_scans pods_section_scans replicaset_section_scans warnings_section_scans
      del: scan_html.simps append.simps split: option.split)

lemma DiagnosisContextBlock_literals:
  "scan_html ''<article class=\"context-block\"><header><strong>Diagnosis #'' (Data, els) = Some (Data, ''strong'' # ''header'' # ''article'' # els)"
  "scan_html ('' '' @ em_dash @ '' Context</strong></header>'') (Data, ''strong'' # ''header'' # els) = Some (Data, els)"
  "scan_html ''<div class=\"empty-state\"><p>No context captured.</p></div>'' (Data, els) = Some (Data, els)"
  "scan_html ''</article>'' (Data, ''article'' # els) = Some (Data, els)"
  by code_simp+

lemma DiagnosisContextBlock_scans:
  "scan_pieces (DiagnosisContextBlock dv) (Data, els) = Some (Data, els)"
  by (simp add: DiagnosisContextBlock_def scan_pieces_append DiagnosisContextBlock_literals snapshot_sections_scans
      del: scan_html.simps append.simps split: option.split)

lemma trace_item_literals:
  "scan_html ''<li class=\"trace-step\"><span class=\"trace-tool\">'' (Data, els) = Some (Data, ''span'' # ''li'' # els)"
  "scan_html ''</span><div class=\"trace-args\"><span class=\"trace-label\">args: </span><code>'' (Data, ''span'' # els) = Some (Data, ''code'' # ''div'' # els)"
  "scan_html ''</code></div><div class=\"trace-result\"><span class=\"trace-label\">result: </span><code>'' (Data, ''code'' # ''div'' # els) = Some (Data, ''code'' # ''div'' # els)"
  "scan_html ''</code></div></li>'' (Data, ''code'' # ''div'' # ''li'' # els) = Some (Data, els)"
  by code_simp+

lemma trace_item_scans:
  "scan_pieces (trace_item fc step) (Data, els) = Some (Data, els)"
  by (simp add: trace_item_def scan_pieces_append trace_item_literals
      del: scan_html.simps append.simps split: option.split)

lemma trace_section_literals:
  "scan_html ''<section><h4>Tool Trace</h4><ol class=\"trace-list\">'' (Data, els) = Some (Data, ''ol'' # ''section'' # els)"
  "scan_html ''</ol></section>'' (Data, ''ol'' # ''section'' # els) = Some (Data, els)"
  by code_simp+

lemma trace_section_scans:
  "scan_pieces (trace_section fc dv) (Data, els) = Some (Data, els)"
  by (simp add: trace_section_def scan_pieces_append scan_pieces_loop trace_section_literals trace_item_scans
      del: scan_html.simps append.simps split: option.split)

lemma DiagnosisReasoningBlock_literals:
  "scan_html ('' '' @ em_dash @ '' Reasoning</strong></header>'') (Data, ''strong'' # ''header'' # els) = Some (Data, els)"
  "scan_html ''<div class=\"empty-state\"><p>No reasoning captured.</p></div>'' (Data, els) = Some (Data, els)"
  "scan_html ''<section><h4>Analysis</h4><div class=\"markdown\">'' (Data, els) = Some (Data, ''div'' # ''section'' # els)"
  "scan_html ''</div></section>'' (Data, ''div'' # ''section'' # els) = Some (Data, els)"
  by code_simp+

lemma DiagnosisReasoningBlock_scans:
  "scan_pieces (DiagnosisReasoningBlock fc dv) (Data, els) = Some (Data, els)"
  by (simp add: DiagnosisReasoningBlock_def scan_pieces_append DiagnosisContextBlock_literals snapshot_sections_literals DiagnosisReasoningBlock_literals trace_section_scans
      del: scan_html.simps append.simps split: option.split)

lemma chat_message_literals:
  "scan_html ''<div class=\"chat-message chat-message-user\"><div class=\"chat-message-label\">You</div><div class=\"chat-bubble chat-bubble-user\">'' (Data, els) = Some (Data, ''div'' # ''div'' # els)"
  "scan_html ''</div></div>'' (Data, ''div'' # ''div'' # els) = Some (Data, els)"
  "scan_html ''<div class=\"chat-message chat-message-assistant\"><div class=\"chat-message-label\">kscribe</div><div class=\"chat-bubble chat-bubble-assistant markdown\">'' (Data, els) = Some (Data, ''div'' # ''div'' # els)"
  by code_simp+

lemma chat_message_scans:
  "scan_pieces (chat_message msg) (Data, els) = Some (Data, els)"
  by (simp add: chat_message_def scan_pieces_append chat_message_literals
      del: scan_html.simps append.simps split: option.split)

lemma ChatPanel_literals:
  "scan_html (''<section class=\"chat-panel\" x-data=\"{ chatDraft: '' @ [CHR 0x27, CHR 0x27] @ '', chatPending: [], chatSending: false }\"><button class=\"chat-rail-button\" type=\"button\" x-show=\"!chatOpen\" @click=\"chatOpen = true\" aria-label=\"Open chat\">Chat</button><header class=\"chat-header\" x-show=\"chatOpen\"><div><h3>Incident Chat</h3><p>Context-aware RCA assistant</p></div><button class=\"chat-icon-button\" type=\"button\" @click=\"chatOpen = false\" aria-label=\"Collapse chat\" title=\"Collapse chat\">&gt;</button></header><div class=\"chat-messages\" id=\"chat-messages\" x-ref=\"chatTranscript\" x-show=\"chatOpen\" aria-live=\"polite\"><div class=\"chat-history\">'') (Data, els) = Some (Data, ''div'' # ''div'' # ''section'' # els)"
  "scan_html ''<div class=\"chat-empty\"><strong>Ready for incident follow-up.</strong> <span>Ask for blast radius, next command, or remediation checks.</span></div>'' (Data, els) = Some (Data, els)"
  "scan_html ''</div><div class=\"chat-pending\"><template x-for=\"(m, i) in chatPending\" :key=\"i\"><div class=\"chat-message chat-message-user\"><div class=\"chat-message-label\">You</div><div class=\"chat-bubble chat-bubble-user\" x-text=\"m\"></div></div></template></div><div class=\"chat-message chat-message-assistant chat-streaming-message\"><div class=\"chat-message-label\">kscribe</div><div hx-ext=\"sse\" sse-connect=\"'' (Data, ''div'' # els) = Some (Quoted ''div'', ''div'' # els)"
  "scan_html ''\" sse-swap=\"message\" hx-swap=\"innerHTML\" id=\"chat-stream\" x-ref=\"chatStream\" class=\"chat-bubble chat-bubble-assistant chat-streaming markdown\"></div></div><template x-if=\"chatSending && chatPending.length > 0\"><div class=\"chat-message chat-message-assistant chat-waiting\"><div class=\"chat-message-label\">kscribe</div><div class=\"chat-bubble chat-bubble-assistant\"><span class=\"chat-typing-dot\"></span> <span class=\"chat-typing-dot\"></span> <span class=\"chat-typing-dot\"></span></div></div></template></div><div class=\"chat-input-area\" x-show=\"chatOpen\"><form class=\"chat-form\" hx-post=\"'' (Quoted ''div'', ''div'' # ''div'' # els) = Some (Quoted ''form'', ''div'' # els)"
  "scan_html (''\" hx-swap=\"none\" @submit=\"if (chatDraft.trim() === '' @ [CHR 0x27, CHR 0x27] @ '') { $event.preventDefault() } else { chatPending.push(chatDraft); chatSending = true; if ($refs.chatStream) { $refs.chatStream.innerHTML = '' @ [CHR 0x27, CHR 0x27] @ ''; } $nextTick(() => { if ($refs.chatTranscript) { $refs.chatTranscript.scrollTop = $refs.chatTranscript.scrollHeight } }) }\" hx-on--after-request=\"chatSending = false; if (event.detail.successful) { chatDraft = '' @ [CHR 0x27, CHR 0x27] @ ''; chatPending = []; window.location.reload(); }\"><input type=\"text\" name=\"message\" x-model=\"chatDraft\" placeholder=\"Ask about this incident...\" class=\"chat-input\" autocomplete=\"off\" :readonly=\"chatSending\"> <button type=\"submit\" class=\"chat-send\" aria-label=\"Send message\" title=\"Send message\" :disabled=\"chatSending || chatDraft.trim() === '' @ [CHR 0x27, CHR 0x27] @ ''\"><span x-show=\"!chatSending\">'' @ [CHR 0xE2, CHR 0x86, CHR 0x91] @ ''</span> <span x-show=\"chatSending\">...</span></button></form><p class=\"chat-hint\" x-show=\"!chatSending\">Uses the latest diagnosis, context snapshot, and recent chat turns.</p><p class=\"chat-hint\" x-show=\"chatSending\">Streaming response...</p></div></section>'') (Quoted ''form'', ''div'' # ''section'' # els) = Some (Data, els)"
  by code_simp+

lemma ChatPanel_scans:
  "scan_pieces (ChatPanel d) (Data, els) = Some (Data, els)"
  by (simp add: ChatPanel_def scan_pieces_append scan_pieces_loop ChatPanel_literals chat_message_scans
      del: scan_html.simps append.simps split: option.split)

lemma detail_header_literals:
  "scan_html ''<div class=\"detail-shell\" x-data=\"{ tab: 'overview', chatOpen: true }\" :class=\"{ 'chat-collapsed': !chatOpen }\"><main class=\"detail-main\"><div class=\"detail-header\"><h2>'' (Data, els) = Some (Data, ''h2'' # ''div'' # ''main'' # ''div'' # els)"
  by code_simp+

lemma detail_header_scans:
  "scan_pieces (detail_header d) (Data, els) = Some (Data, ''h2'' # ''div'' # ''main'' # ''div'' # els)"
  by (simp add: detail_header_def scan_pieces_append incident_row_literals detail_header_literals PhaseBadge_scans
      del: scan_html.simps append.simps split: option.split)

lemma detail_event_literals:
  "scan_html (''</h2></div><div class=\"tab-bar\" role=\"tablist\"><button class=\"tab-button\" :class=\"{ 'tab-button-active': tab === 'overview' }\" @click=\"tab='overview'\" role=\"tab\">Overview</button> <button class=\"tab-button\" :class=\"{ 'tab-button-active': tab === 'rca' }\" @click=\"tab='rca'\" role=\"tab\">RCA</button> <button class=\"tab-button\" :class=\"{ 'tab-button-active': tab === 'context' }\" @click=\"tab='context'\" role=\"tab\">Context</button> <button class=\"tab-button\" :class=\"{ 'tab-button-active': tab === 'reasoning' }\" @click=\"tab='reasoning'\" role=\"tab\">Reasoning</button> <button class=\"tab-button\" :class=\"{ 'tab-button-active': tab === 'raw' }\" @click=\"tab='raw'\" role=\"tab\">Raw</button></div><!-- Overview tab: event info + SSE live status.'' @ [CHR 0x0A, CHR 0x09, CHR 0x09] @ ''     x-show keeps this in the DOM so the SSE stream is not interrupted. --><div x-show=\"tab === 'overview'\"><section><h3>Event</h3><dl><dt>Object</dt>'') (Data, ''h2'' # ''div'' # els) = Some (Data, ''dl'' # ''section'' # ''div'' # els)"
  "scan_html ''<dd class=\"'' (Data, els) = Some (Quoted ''dd'', els)"
  "scan_html ''\">'' (Quoted ''dd'', els) = Some (Data, ''dd'' # els)"
  "scan_html ''</dd><dt>Reason</dt>'' (Data, ''dd'' # els) = Some (Data, els)"
  "scan_html ''</dd><dt>Message</dt>'' (Data, ''dd'' # els) = Some (Data, els)"
  by code_simp+

lemma detail_event_scans:
  "scan_pieces (detail_event d) (Data, ''h2'' # ''div'' # els) = Some (Data, ''dl'' # ''section'' # ''div'' # els)"
  by (simp add: detail_event_def scan_pieces_append DiagnosisBlock_literals detail_event_literals
      del: scan_html.simps append.simps split: option.split)

lemma detail_live_literals:
  "scan_html ''<dt>Started</dt><dd>'' (Data, els) = Some (Data, ''dd'' # els)"
  "scan_html ''<dt>Completed</dt><dd>'' (Data, els) = Some (Data, ''dd'' # els)"
  "scan_html ''<dt>LLM</dt><dd>'' (Data, els) = Some (Data, ''dd'' # els)"
  "scan_html '' ('' (Data, els) = Some (Data, els)"
  "scan_html '')</dd></dl></section><section><h3>Live Status <small style=\"font-weight:normal;font-size:.7em;color:#888;\">(SSE)</small></h3><div hx-ext=\"sse\" sse-connect=\"'' (Data, ''dd'' # ''dl'' # ''section'' # els) = Some (Quoted ''div'', ''section'' # els)"
  "scan_html ''\" sse-swap=\"message\" hx-swap=\"innerHTML\" id=\"live-status\">'' (Quoted ''div'', els) = Some (Data, ''div'' # els)"
  by code_simp+

lemma detail_live_scans:
  "scan_pieces (detail_live d) (Data, ''dl'' # ''section'' # els) = Some (Data, ''div'' # ''section'' # els)"
  by (simp add: detail_live_def scan_pieces_append DiagnosisBlock_literals incident_row_literals detail_live_literals PhaseBadge_scans
      del: scan_html.simps append.simps split: option.split)

lemma detail_rca_literals:
  "scan_html (''</div></section></div><!-- RCA tab: diagnosis cards with sanitized Markdown.'' @ [CHR 0x0A, CHR 0x09, CHR 0x09] @ ''     x-show keeps elements in DOM '' @ em_dash @ '' Alpine toggles display only. --><div x-show=\"tab === 'rca'\">'') (Data, ''div'' # ''section'' # ''div'' # els) = Some (Data, ''div'' # els)"
  "scan_html ''<section><h3>RCA / Remediation</h3>'' (Data, els) = Some (Data, ''section'' # els)"
  "scan_html ''<div class=\"empty-state\"><p>No diagnosis available yet.</p></div>'' (Data, els) = Some (Data, els)"
  by code_simp+

lemma detail_rca_scans:
  "scan_pieces (detail_rca percent d) (Data, ''div'' # ''section'' # ''div'' # els) = Some (Data, ''div'' # els)"
  by (simp add: detail_rca_def scan_pieces_append scan_pieces_loop pods_section_literals detail_rca_literals DiagnosisBlock_scans
      del: scan_html.simps append.simps split: option.split)

lemma detail_context_literals:
  "scan_html (''</div><!-- Context tab: snapshot decoded from context_json '' @ em_dash @ '' pod logs, events, node conditions. --><div x-show=\"tab === 'context'\">'') (Data, ''div'' # els) = Some (Data, ''div'' # els)"
  by code_simp+

lemma detail_context_scans:
  "scan_pieces (detail_context d) (Data, ''div'' # els) = Some (Data, ''div'' # els)"
  by (simp add: detail_context_def scan_pieces_append scan_pieces_loop DiagnosisContextBlock_literals detail_context_literals DiagnosisContextBlock_scans
      del: scan_html.simps append.simps split: option.split)

lemma detail_reasoning_literals:
  "scan_html ''</div><!-- Reasoning tab: LLM reasoning (sanitized Markdown) + tool-call trace. --><div x-show=\"tab === 'reasoning'\">'' (Data, ''div'' # els) = Some (Data, ''div'' # els)"
  by code_simp+

lemma detail_reasoning_scans:
  "scan_pieces (detail_reasoning fc d) (Data, ''div'' # els) = Some (Data, ''div'' # els)"
  by (simp add: detail_reasoning_def scan_pieces_append scan_pieces_loop DiagnosisReasoningBlock_literals detail_reasoning_literals DiagnosisReasoningBlock_scans
      del: scan_html.simps append.simps split: option.split)

lemma detail_raw_literals:
  "scan_html ''</div><!-- Raw tab: plain key/value dump of event + LLM fields. --><div x-show=\"tab === 'raw'\"><section><h3>Raw Fields</h3><dl><dt>Namespace</dt><dd>'' (Data, ''div'' # els) = Some (Data, ''dd'' # ''dl'' # ''section'' # ''div'' # els)"
  "scan_html ''</dd><dt>Name</dt><dd>'' (Data, ''dd'' # els) = Some (Data, ''dd'' # els)"
  "scan_html ''</dd><dt>Phase</dt><dd>'' (Data, ''dd'' # els) = Some (Data, ''dd'' # els)"
  "scan_html ''</dd><dt>Involved Object</dt>'' (Data, ''dd'' # els) = Some (Data, els)"
  by code_simp+

lemma detail_raw_scans:
  "scan_pieces (detail_raw d) (Data, ''div'' # els) = Some (Data, ''dd'' # ''dl'' # ''section'' # ''div'' # els)"
  by (simp add: detail_raw_def scan_pieces_append detail_event_literals detail_raw_literals
      del: scan_html.simps append.simps split: option.split)

lemma detail_raw_llm_literals:
  "scan_html ''</dd><dt>LLM Provider</dt><dd>'' (Data, ''dd'' # els) = Some (Data, ''dd'' # els)"
  "scan_html ''</dd><dt>LLM Model</dt><dd>'' (Data, ''dd'' # els) = Some (Data, ''dd'' # els)"
  "scan_html ''</dd><dt>Tokens Used</dt><dd>'' (Data, ''dd'' # els) = Some (Data, ''dd'' # els)"
  "scan_html ''<dt>Started At</dt><dd>'' (Data, els) = Some (Data, ''dd'' # els)"
  "scan_html ''<dt>Completed At</dt><dd>'' (Data, els) = Some (Data, ''dd'' # els)"
  "scan_html ''<dt>Created At</dt><dd>'' (Data, els) = Some (Data, ''dd'' # els)"
  "scan_html ''</dd><dt>Updated At</dt><dd>'' (Data, ''dd'' # els) = Some (Data, ''dd'' # els)"
  "scan_html ''</dd></dl></section></div></main><aside class=\"detail-sidebar\" :class=\"{ 'detail-sidebar-collapsed': !chatOpen }\" aria-label=\"Incident chat\">'' (Data, ''dd'' # ''dl'' # ''section'' # ''div'' # ''main'' # els) = Some (Data, ''aside'' # els)"
  by code_simp+

lemma detail_raw_llm_scans:
  "scan_pieces (detail_raw_llm d) (Data, ''dd'' # ''dl'' # ''section'' # ''div'' # ''main'' # els) = Some (Data, ''aside'' # els)"
  by (simp add: detail_raw_llm_def scan_pieces_append DiagnosisBlock_literals detail_raw_llm_literals
      del: scan_html.simps append.simps split: option.split)

lemma IncidentDetail_literals:
  "scan_html ''</aside></div>'' (Data, ''aside'' # ''div'' # els) = Some (Data, els)"
  by code_simp+

lemma IncidentDetail_scans:
  "scan_pieces (IncidentDetail percent fc d) (Data, els) = Some (Data, els)"
  by (simp add: IncidentDetail_def scan_pieces_append IncidentDetail_literals ChatPanel_scans detail_context_scans detail_event_scans detail_header_scans detail_live_scans detail_raw_llm_scans detail_raw_scans detail_rca_scans detail_reasoning_scans
      del: scan_html.simps append.simps split: option.split)

lemma Layout_literals:
  "scan_html ''<!doctype html><html lang=\"en\"><head><meta charset=\"UTF-8\"><meta name=\"viewport\" content=\"width=device-width, initial-scale=1\"><title>'' (Data, els) = Some (Data, ''title'' # ''head'' # ''html'' # els)"
  "scan_html (''</title><script>'' @ [CHR 0x0A, CHR 0x09, CHR 0x09, CHR 0x09, CHR 0x09] @ ''// pre-paint FOUC prevention + Alpine store registration'' @ [CHR 0x0A, CHR 0x09, CHR 0x09, CHR 0x09, CHR 0x09] @ ''(function(){'' @ [CHR 0x0A, CHR 0x09, CHR 0x09, CHR 0x09, CHR 0x09, CHR 0x09] @ ''var t = localStorage.getItem('kscribe-theme') || 'system';'' @ [CHR 0x0A, CHR 0x09, CHR 0x09, CHR 0x09, CHR 0x09, CHR 0x09] @ ''var mq = window.matchMedia('(prefers-color-scheme: dark)');'' @ [CHR 0x0A, CHR 0x09, CHR 0x09, CHR 0x09, CHR 0x09, CHR 0x09] @ ''function resolve(m) { return m === 'system' ? (mq.matches ? 'dark' : 'light') : m; }'' @ [CHR 0x0A, CHR 0x09, CHR 0x09, CHR 0x09, CHR 0x09, CHR 0x09] @ ''document.documentElement.setAttribute('data-theme', resolve(t));'' @ [CHR 0x0A, CHR 0x09, CHR 0x09, CHR 0x09, CHR 0x09] @ ''})();'' @ [CHR 0x0A, CHR 0x09, CHR 0x09, CHR 0x09, CHR 0x09] @ ''var _kMQ = window.matchMedia('(prefers-color-scheme: dark)');'' @ [CHR 0x0A, CHR 0x09, CHR 0x09, CHR 0x09, CHR 0x09] @ ''function _kApply(m) {'' @ [CHR 0x0A, CHR 0x09, CHR 0x09, CHR 0x09, CHR 0x09, CHR 0x09] @ ''document.documentElement.setAttribute('data-theme', m === 'system' ? (_kMQ.matches ? 'dark' : 'light') : m);'' @ [CHR 0x0A, CHR 0x09, CHR 0x09, CHR 0x09, CHR 0x09] @ ''}'' @ [CHR 0x0A, CHR 0x09, CHR 0x09, CHR 0x09, CHR 0x09] @ ''document.addEventListener('alpine:init', function() {'' @ [CHR 0x0A, CHR 0x09, CHR 0x09, CHR 0x09, CHR 0x09, CHR 0x09] @ ''Alpine.store('theme', {'' @ [CHR 0x0A, CHR 0x09, CHR 0x09, CHR 0x09, CHR 0x09, CHR 0x09, CHR 0x09] @ ''mode: localStorage.getItem('kscribe-theme') || 'system','' @ [CHR 0x0A, CHR 0x09, CHR 0x09, CHR 0x09, CHR 0x09, CHR 0x09, CHR 0x09] @ ''get label() {'' @ [CHR 0x0A, CHR 0x09, CHR 0x09, CHR 0x09, CHR 0x09, CHR 0x09, CHR 0x09, CHR 0x09] @ ''return ({light: 'Light', dark: 'Dark', system: 'System'})[this.mode] || 'System';'' @ [CHR 0x0A, CHR 0x09, CHR 0x09, CHR 0x09, CHR 0x09, CHR 0x09, CHR 0x09] @ ''},'' @ [CHR 0x0A, CHR 0x09, CHR 0x09, CHR 0x09, CHR 0x09, CHR 0x09, CHR 0x09] @ ''set: function(m) { this.mode = m; localStorage.setItem('kscribe-theme', m); _kApply(m); },'' @ [CHR 0x0A, CHR 0x09, CHR 0x09, CHR 0x09, CHR 0x09, CHR 0x09, CHR 0x09] @ ''cycle: function() {'' @ [CHR 0x0A, CHR 0x09, CHR 0x09, CHR 0x09, CHR 0x09, CHR 0x09, CHR 0x09, CHR 0x09] @ ''var ms = ['light', 'dark', 'system'];'' @ [CHR 0x0A, CHR 0x09, CHR 0x09, CHR 0x09, CHR 0x09, CHR 0x09, CHR 0x09, CHR 0x09] @ ''this.set(ms[(ms.indexOf(this.mode) + 1) % 3]);'' @ [CHR 0x0A, CHR 0x09, CHR 0x09, CHR 0x09, CHR 0x09, CHR 0x09, CHR 0x09] @ ''}'' @ [CHR 0x0A, CHR 0x09, CHR 0x09, CHR 0x09, CHR 0x09, CHR 0x09] @ ''});'' @ [CHR 0x0A, CHR 0x09, CHR 0x09, CHR 0x09, CHR 0x09, CHR 0x09] @ ''_kMQ.addEventListener('change', function() {'' @ [CHR 0x0A, CHR 0x09, CHR 0x09, CHR 0x09, CHR 0x09, CHR 0x09, CHR 0x09] @ ''if (Alpine.store('theme').mode === 'system') _kApply('system');'' @ [CHR 0x0A, CHR 0x09, CHR 0x09, CHR 0x09, CHR 0x09, CHR 0x09] @ ''});'' @ [CHR 0x0A, CHR 0x09, CHR 0x09, CHR 0x09, CHR 0x09] @ ''});'' @ [CHR 0x0A, CHR 0x09, CHR 0x09, CHR 0x09] @ ''</script><link rel=\"stylesheet\" href=\"'') (Data, ''title'' # els) = Some (Quoted ''link'', els)"
  "scan_html ''\"><link rel=\"icon\" href=\"'' (Quoted ''link'', els) = Some (Quoted ''link'', els)"
  "scan_html ''\" type=\"image/svg+xml\"><script defer src=\"'' (Quoted ''link'', els) = Some (Quoted ''script'', els)"
  "scan_html ''\"></script><script src=\"'' (Quoted ''script'', els) = Some (Quoted ''script'', els)"
  "scan_html ''\"></script></head><body><header class=\"topbar\"><a href=\"/\" class=\"topbar-brand\">kscribe</a> <span class=\"topbar-spacer\"></span> <button class=\"theme-toggle\" x-data x-on:click=\"$store.theme.cycle()\" x-text=\"$store.theme.label\">System</button></header><main class=\"main-content\">'' (Quoted ''script'', ''head'' # els) = Some (Data, ''main'' # ''body'' # els)"
  "scan_html ''</main></body></html>'' (Data, ''main'' # ''body'' # ''html'' # els) = Some (Data, els)"
  by code_simp+

lemma Layout_scans:
  assumes "scan_pieces content (Data, ''main'' # ''body'' # ''html'' # els) = Some (Data, ''main'' # ''body'' # ''html'' # els)"
  shows "scan_pieces (Layout version title content) (Data, els) = Some (Data, els)"
  by (simp add: Layout_def scan_pieces_append Layout_literals assms
      del: scan_html.simps append.simps split: option.split)

section \<open>Properties\<close>

lemma list_page_no_markdown: "Markdown s \<notin> set (IncidentList incidents totals n lastPage flt)"
  by (auto simp: IncidentList_def filter_bar_def filter_option_def StatCards_def stat_card_def incident_table_def
      incident_row_def pager_def PhaseBadge_def split: if_splits)

lemma Layout_markdown: "Markdown s \<in> set (Layout version title content) \<longleftrightarrow> Markdown s \<in> set content"
  by (simp add: Layout_def)

text \<open>
C34: The pages of the dashboard put every value where its escaping is the right one, whatever the
store holds: escaped text and sanitized Markdown only in the content of an element, links,
attribute values and classes only inside double quotes, nothing inside a script, a comment or a tag;
and every element is closed in order. With a library that escapes angle brackets and quotes, the
text of the list page is well nested HTML, so no stored value can add or close an element; the
detail page is too, if each sanitized fragment on it is.
\<close>

theorem pages_well_placed:
  "well_placed (page_pieces percent fc version title pg)
   \<and> (templ_escapes lib \<longrightarrow>
        well_nested (html_of lib (page_pieces percent fc version title (ListPage incidents totals n lastPage flt)))
        \<and> ((\<forall>s. Markdown s \<in> set (page_pieces percent fc version title pg) \<longrightarrow> neutral (RenderMarkdown lib s)) \<longrightarrow>
             well_nested (html_of lib (page_pieces percent fc version title pg))))"
proof -
  have placed: "well_placed (page_pieces percent fc version title pg)" for pg
    by (cases pg) (simp_all add: well_placed_def Layout_scans IncidentList_scans IncidentDetail_scans)
  moreover have "Markdown s \<notin> set (page_pieces percent fc version title (ListPage incidents totals n lastPage flt))" for s
    by (simp add: Layout_markdown list_page_no_markdown)
  ultimately show ?thesis
    by (blast intro: well_nested_pieces)
qed

definition escaping_lib :: templ_lib where
  "escaping_lib = \<lparr>tl_EscapeString = html_EscapeString, tl_AttributeValue = html_EscapeString,
     tl_CSSClasses = join_sep '' '', tl_URL = id, tl_goldmark = id, tl_Sanitize = html_EscapeString\<rparr>"

lemma escaping_lib_escapes: "templ_escapes escaping_lib"
proof -
  have "plain (html_EscapeString s)" for s
    by (induction s) (auto simp: html_EscapeString_def plain_def html_escape_char_def)
  then show ?thesis by (simp add: templ_escapes_def escaping_lib_def)
qed

theorem pages_well_placed_witness:
  "well_nested (html_of escaping_lib
     (page_pieces (\<lambda>_. []) \<lparr>fc_parse = (\<lambda>_. None), fc_format = (\<lambda>_. None)\<rparr> ''1'' ''<script>'' (ListPage [] [] 1 1 (no_filter\<lparr>flt_Query := dquote @ ''>''\<rparr>))))"
  using pages_well_placed escaping_lib_escapes by blast

end
