(* ===== verification/Dashboard.thy ===== *)
theory Dashboard
  imports Web_Server
begin

text \<open>
  The dashboard on a store. \<open>dashboard_store\<close> is the contract of the interface \<^verbatim>\<open>StoreReader\<close> of
  \<^verbatim>\<open>src/internal/web/server.go\<close>: what the handlers rely on. What the list page, the detail page and
  the chat show is proved from the contract alone; here it is interpreted on the SQLite store,
  with statements that may fail, and in \<^verbatim>\<open>Dev_Server\<close> on the store of the development server.
\<close>

section \<open>The contract of a store\<close>

text \<open>
  A read leaves the data alone. It may fail, but not on a healthy world, and what it returns is
  determined by the data.
\<close>

definition reads ::
  "('w \<Rightarrow> 'd) \<Rightarrow> ('w \<Rightarrow> bool) \<Rightarrow> ('w \<Rightarrow> bool) \<Rightarrow> ('w \<Rightarrow> (err + 'a) \<times> 'w) \<Rightarrow> ('d \<Rightarrow> 'a \<Rightarrow> bool) \<Rightarrow> bool" where
  "reads data ok healthy op P \<longleftrightarrow>
     (\<forall>w r w'. op w = (r, w') \<longrightarrow> ok w \<longrightarrow> data w' = data w \<and> ok w'
        \<and> (healthy w \<longrightarrow> healthy w' \<and> (\<exists>x. r = Inr x)) \<and> (\<forall>x. r = Inr x \<longrightarrow> P (data w) x))"

lemma readsD:
  assumes "reads data ok healthy op P" "op w = (r, w')" "ok w"
  shows "data w' = data w" "ok w'" "healthy w \<Longrightarrow> healthy w'" "healthy w \<Longrightarrow> \<exists>x. r = Inr x"
    "r = Inr x \<Longrightarrow> P (data w) x"
  using assms unfolding reads_def by blast+

definition turn :: "int \<Rightarrow> string \<Rightarrow> string \<Rightarrow> string \<Rightarrow> string \<Rightarrow> gotime \<Rightarrow> ChatMessage" where
  "turn i ns name role content now =
     \<lparr>cm_ID = i, cm_Namespace = ns, cm_Name = name, cm_Role = role, cm_Content = content, cm_CreatedAt = now\<rparr>"

definition extended :: "('k \<Rightarrow> 'a list) \<Rightarrow> 'k \<Rightarrow> 'a list \<Rightarrow> 'k \<Rightarrow> 'a list" where
  "extended c k xs = c(k := c k @ xs)"

lemma extended_simps [simp]: "extended c k [] = c" "extended (extended c k xs) k ys = extended c k (xs @ ys)"
  "extended c k xs k = c k @ xs"
  by (simp_all add: extended_def fun_eq_iff)

text \<open>The turns a chat request adds: question and answer, or at most the question when it fails.\<close>

definition turns_added :: "string \<Rightarrow> string \<Rightarrow> string \<Rightarrow> bool \<Rightarrow> ChatMessage list \<Rightarrow> bool" where
  "turns_added ns name msg success added \<longleftrightarrow>
     (if success
      then \<exists>i1 t1 i2 t2 reply. added = [turn i1 ns name ''user'' msg t1, turn i2 ns name ''assistant'' reply t2]
             \<and> TrimSpace reply \<noteq> []
      else added = [] \<or> (\<exists>i1 t1. added = [turn i1 ns name ''user'' msg t1]))"

lemma turns_addedI:
  "turns_added ns name msg False []" "turns_added ns name msg False [turn i1 ns name ''user'' msg t1]"
  "TrimSpace reply \<noteq> [] \<Longrightarrow>
     turns_added ns name msg True [turn i1 ns name ''user'' msg t1, turn i2 ns name ''assistant'' reply t2]"
  by (auto simp: turns_added_def)

definition phase_count :: "(string, int) gomap \<Rightarrow> string \<Rightarrow> int" where
  "phase_count totals p = (case gm_get totals p of None \<Rightarrow> 0 | Some n \<Rightarrow> n)"

text \<open>A model client that touches the world only where \<open>I\<close> does not look, or through its callback.\<close>

definition confined :: "('w \<Rightarrow> bool) \<Rightarrow> 'w Provider \<Rightarrow> bool" where
  "confined I p \<longleftrightarrow>
     (\<forall>q w. I w \<longrightarrow> I (snd (pr_Complete p q w)))
   \<and> (\<forall>stream q f w. pr_CompleteStream p = Some stream \<longrightarrow> (\<forall>d v. I v \<longrightarrow> I (snd (f d v))) \<longrightarrow> I w \<longrightarrow>
        I (snd (stream q f w)))"

lemma StreamOrComplete_confined:
  assumes "confined I p" "\<And>d v. I v \<Longrightarrow> I (snd (f d v))" "I w"
  shows "I (snd (StreamOrComplete p q f w))"
proof (cases "pr_CompleteStream p")
  case None
  obtain r w1 where c: "pr_Complete p q w = (r, w1)" by fastforce
  then have "I w1" using assms(1,3) unfolding confined_def by (metis snd_conv)
  with None c assms(2) [OF this] show ?thesis
    by (auto simp: StreamOrComplete_def split: sum.split list.split prod.split option.split) (metis snd_conv)+
next
  case (Some stream)
  then show ?thesis
    using assms unfolding confined_def by (simp add: StreamOrComplete_def)
qed

locale dashboard_store =
  fixes env :: "'w web_env"
    and data :: "'w \<Rightarrow> 'd"
    and ok :: "'w \<Rightarrow> bool"
    and healthy :: "'w \<Rightarrow> bool"
    and matching :: "IncidentFilter \<Rightarrow> 'd \<Rightarrow> Incident list"
    and conversation :: "'d \<Rightarrow> string \<times> string \<Rightarrow> ChatMessage list"
  assumes count: "reads data ok healthy (we_CountIncidents env f) (\<lambda>d n. n = int (length (matching f d)))"
    and phases: "reads data ok healthy (we_CountIncidentsByPhase env f)
      (\<lambda>d t. \<forall>p. p \<noteq> [] \<longrightarrow> phase_count t p = int (length (matching (f\<lparr>flt_Phase := p\<rparr>) d)))"
    and page: "0 \<le> limit \<Longrightarrow> 0 \<le> offset \<Longrightarrow> reads data ok healthy (we_ListIncidentsPage env f limit offset)
      (\<lambda>d is. is = take (nat limit) (drop (nat offset) (matching f d)))"
    and turns: "reads data ok healthy (ce_ListChatMessages (we_chat env) ns name)
      (\<lambda>d ms. ms = conversation d (ns, name))"
    and lookup: "ce_GetIncident (we_chat env) ns name w = (r, w') \<Longrightarrow> ok w \<Longrightarrow>
      data w' = data w \<and> ok w' \<and> (healthy w \<longrightarrow> healthy w')"
    and append: "ce_AppendChatMessage (we_chat env) ns name role content w = (e, w') \<Longrightarrow> ok w \<Longrightarrow>
      ok w' \<and> (healthy w \<longrightarrow> healthy w' \<and> e = None) \<and> (\<forall>f. matching f (data w') = matching f (data w))
      \<and> (if e = None
         then \<exists>i now. conversation (data w') = extended (conversation (data w)) (ns, name) [turn i ns name role content now]
         else data w' = data w)"
    and publishing: "data (ce_Publish (we_chat env) topic html w) = data w"
      "ok w \<Longrightarrow> ok (ce_Publish (we_chat env) topic html w)"
      "healthy w \<Longrightarrow> healthy (ce_Publish (we_chat env) topic html w)"
begin

text \<open>The list page.\<close>

lemma list_page:
  fixes r :: web_req
  assumes "ok w"
  defines "q \<equiv> ParseQuery (wq_RawQuery r)"
  defines "f \<equiv> list_filter q"
  defines "rows \<equiv> matching f (data w)"
  defines "page \<equiv> min (list_page q) (last_page (int (length rows)))"
  shows "\<exists>a w'. list_handler env r w = (a, w') \<and> data w' = data w \<and> ok w' \<and> (healthy w \<longrightarrow> healthy w')
     \<and> ((\<not> healthy w \<and> (a = Answer (http_Error [] ''failed to count incidents'' 500)
             \<or> a = Answer (http_Error [] ''failed to list incidents'' 500)))
        \<or> (\<exists>totals. a = Rendered (''kscribe '' @ em_dash @ '' Incidents'') html_headers
                (ListPage (take 25 (drop (nat ((page - 1) * 25)) rows)) totals page (last_page (int (length rows))) f)
             \<and> (\<forall>p. p \<noteq> [] \<longrightarrow> phase_count totals p = int (length (matching (f\<lparr>flt_Phase := p\<rparr>) (data w))))))"
proof -
  obtain r1 w1 where s1: "we_CountIncidentsByPhase env f w = (r1, w1)" by fastforce
  note p1 = readsD [OF phases s1 assms(1)]
  obtain r2 w2 where s2: "we_CountIncidents env f w1 = (r2, w2)" by fastforce
  note p2 = readsD [OF count s2 p1(2)]
  have "1 \<le> list_page q" by (simp add: list_page_def Let_def)
  then have "1 \<le> page" using last_page_bounds(1) [of "int (length rows)"] by (simp add: page_def)
  then have off: "0 \<le> pageSize" "0 \<le> (page - 1) * pageSize" by (simp_all add: pageSize_def)
  obtain r3 w3 where s3: "we_ListIncidentsPage env f pageSize ((page - 1) * pageSize) w2 = (r3, w3)" by fastforce
  note p3 = readsD [OF page [OF off] s3 p2(2)]
  have rng: "(if list_page q > last_page (int (length rows)) then last_page (int (length rows)) else list_page q) = page"
    by (simp add: page_def min_def)
  note handler = list_handler_def [of env r w] q_def [symmetric] f_def [symmetric] Let_def s1
  show ?thesis
  proof (cases r1)
    case (Inl e)
    then show ?thesis using p1 by (auto simp: handler)
  next
    case totals: (Inr totals)
    show ?thesis
    proof (cases r2)
      case (Inl e)
      then show ?thesis using totals s2 p1 p2 by (auto simp: handler)
    next
      case (Inr n)
      then have n: "n = int (length rows)" using p2(5) p1(1) by (simp add: rows_def)
      then have run: "list_handler env r w = (case r3 of
            Inl e \<Rightarrow> (Answer (http_Error [] ''failed to list incidents'' 500), w3)
          | Inr is \<Rightarrow> (Rendered (''kscribe '' @ em_dash @ '' Incidents'') html_headers
              (ListPage is totals page (last_page (int (length rows))) f), w3))"
        unfolding handler by (simp only: totals prod.case sum.case s2 Inr n rng s3)
      show ?thesis
        using p1 p2 p3 totals unfolding run
        by (cases r3) (auto simp: rows_def pageSize_def)
    qed
  qed
qed

text \<open>The detail page shows the conversation.\<close>

lemma detail_page:
  assumes "ok w" "detail_handler env ns name w = (Rendered t h p, w')"
  shows "data w' = data w \<and> ok w' \<and> (\<exists>v. p = DetailPage v
     \<and> (healthy w \<longrightarrow> healthy w' \<and> idv_ChatMessages v = conversation (data w) (ns, name)))"
proof -
  obtain r1 w1 where s1: "ce_GetIncident (we_chat env) ns name w = (r1, w1)" by fastforce
  note p1 = lookup [OF s1 assms(1)]
  then have "ok w1" by simp
  obtain r2 w2 where s2: "ce_ListChatMessages (we_chat env) ns name w1 = (r2, w2)" by fastforce
  note p2 = readsD [OF turns s2 \<open>ok w1\<close>]
  show ?thesis
    using assms(2) p1 p2 by (cases r1; cases r2) (auto simp: detail_handler_def s1 s2 BuildDetailView_def)
qed

text \<open>
  The chat. A successful request adds the user's turn and a nonempty answer to its own conversation; a
  failed one adds at most the user's turn. Nothing else of the data changes.
\<close>

lemma RunChat_turns:
  assumes "ok w"
    and conf: "\<And>d. confined (\<lambda>(acc, v). data v = d \<and> ok v \<and> (healthy w \<longrightarrow> healthy v)) p"
    and run: "RunChat (we_chat env) p ns name msg w = (e, w')"
  shows "ok w' \<and> (healthy w \<longrightarrow> healthy w') \<and> (\<forall>f. matching f (data w') = matching f (data w))
     \<and> (\<exists>added. conversation (data w') = extended (conversation (data w)) (ns, name) added
          \<and> turns_added ns name msg (e = None) added)"
proof -
  obtain e1 w1 where s1: "ce_AppendChatMessage (we_chat env) ns name ''user'' msg w = (e1, w1)" by fastforce
  note p1 = append [OF s1 assms(1)]
  show ?thesis
  proof (cases e1)
    case (Some x)
    then have "e \<noteq> None" "w' = w1" "data w1 = data w" using run p1 by (auto simp: RunChat_def s1)
    then show ?thesis using p1 by (intro conjI exI [of _ "[]"]) (auto simp: turns_addedI)
  next
    case None
    then obtain i1 t1 where c1: "conversation (data w1) =
        extended (conversation (data w)) (ns, name) [turn i1 ns name ''user'' msg t1]"
      using p1 by auto
    obtain r2 w2 where s2: "ce_GetIncident (we_chat env) ns name w1 = (r2, w2)" by fastforce
    have p2: "data w2 = data w1" "ok w2" "healthy w \<Longrightarrow> healthy w2" using lookup [OF s2] p1 by auto
    obtain r3 w3 where s3: "ce_ListChatMessages (we_chat env) ns name w2 = (r3, w3)" by fastforce
    have p3: "data w3 = data w1" "ok w3" "healthy w \<Longrightarrow> healthy w3" using readsD [OF turns s3 p2(2)] p2 by auto
    have user_only: ?thesis if "e \<noteq> None" "data w' = data w1" "ok w'" "healthy w \<Longrightarrow> healthy w'"
      using that p1 c1 by (intro conjI exI [of _ "[turn i1 ns name ''user'' msg t1]"]) (auto simp: turns_addedI)
    show ?thesis
    proof (cases "\<exists>detail history. r2 = Inr detail \<and> r3 = Inr history")
      case False
      then show ?thesis
        using run None p2 p3 user_only by (cases r2; cases r3) (auto simp: RunChat_def s1 s2 s3)
    next
      case True
      then obtain detail history where r23: "r2 = Inr detail" "r3 = Inr history" by blast
      let ?I = "\<lambda>(acc, v). data v = data w1 \<and> ok v \<and> (healthy w \<longrightarrow> healthy v)"
      let ?f = "on_chat_delta (we_chat env) (ns @ ''/'' @ name @ ''/chat'')"
      have "?I (snd (?f d v))" if "?I v" for d v
        using that publishing by (auto simp: on_chat_delta_def Let_def split: prod.splits)
      with p3 have I4: "?I (snd (StreamOrComplete p (chat_request detail history) ?f ([], w3)))"
        by (intro StreamOrComplete_confined [OF conf]) auto
      obtain r4 acc w4 where s4: "StreamOrComplete p (chat_request detail history) ?f ([], w3) = (r4, (acc, w4))"
        by (metis prod_cases3)
      with I4 have p4: "data w4 = data w1" "ok w4" "healthy w \<Longrightarrow> healthy w4" by simp_all
      let ?reply = "if TrimSpace acc = [] then ''(no response from model)'' else acc"
      have "TrimSpace ''(no response from model)'' \<noteq> []" by code_simp
      then have reply: "TrimSpace ?reply \<noteq> []" by simp
      have go: "RunChat (we_chat env) p ns name msg w = (case r4 of Inl x \<Rightarrow> (Some x, w4)
          | Inr resp \<Rightarrow> ce_AppendChatMessage (we_chat env) ns name ''assistant'' ?reply w4)"
        by (cases r4) (simp_all only: RunChat_def s1 None s2 s3 r23 s4 prod.case sum.case option.case)
      show ?thesis
      proof (cases r4)
        case (Inl x)
        then have "e = Some x" "w' = w4" using run go by simp_all
        then show ?thesis using p4 by (intro user_only) simp_all
      next
        case (Inr resp)
        then have s5: "ce_AppendChatMessage (we_chat env) ns name ''assistant'' ?reply w4 = (e, w')" using run go by simp
        note p5 = append [OF this p4(2)]
        show ?thesis
        proof (cases e)
          case None
          then obtain i2 t2 where c2: "conversation (data w') = extended (conversation (data w)) (ns, name)
              [turn i1 ns name ''user'' msg t1, turn i2 ns name ''assistant'' ?reply t2]"
            using p5 by (auto simp: p4(1) c1)
          show ?thesis
            using None p1 p4 p5 c2 turns_addedI(3) [OF reply] by auto
        next
          case Some
          with p4 p5 show ?thesis by (intro user_only) auto
        qed
      qed
    qed
  qed
qed

lemma chat_turns:
  assumes "ok w" "we_provider env = Some p"
    and conf: "\<And>d. confined (\<lambda>(acc, v). data v = d \<and> ok v \<and> (healthy w \<longrightarrow> healthy v)) p"
    and post: "chatPost env ns name r w = (a, w')"
  shows "ok w' \<and> (healthy w \<longrightarrow> healthy w') \<and> (\<forall>f. matching f (data w') = matching f (data w))
     \<and> (\<exists>added. conversation (data w') = extended (conversation (data w)) (ns, name) added
          \<and> turns_added ns name (posted_message r) (a = Answer (Page 200 [] [])) added)"
proof (cases "posted_message r = []")
  case True
  then have "w' = w" "a \<noteq> Answer (Page 200 [] [])"
    using post by (auto simp: chatPost_def Let_def http_Error_def)
  then show ?thesis
    using assms(1) by (intro conjI exI [of _ "[]"]) (simp_all add: turns_addedI)
next
  case False
  obtain e w1 where run: "RunChat (we_chat env) p ns name (posted_message r) w = (e, w1)" by fastforce
  then have "w' = w1" "a = Answer (Page 200 [] []) \<longleftrightarrow> e = None"
    using False assms(2) post by (auto simp: chatPost_def Let_def http_Error_def split: option.splits)
  with RunChat_turns [OF assms(1) conf run] show ?thesis by simp
qed

end

section \<open>The dashboard on the SQLite store\<close>

text \<open>
  The world of the dashboard: a store, the broker, and the readings of the clock and the faults
  of statements to come; more fields may follow, such as the network.
\<close>

record 's dash =
  dw_store :: 's
  dw_broker :: Broker
  dw_clock :: "gotime list"
  dw_faults :: "err option list"

definition next_now :: "('s, 'n) dash_scheme \<Rightarrow> gotime \<times> ('s, 'n) dash_scheme" where
  "next_now w = (case dw_clock w of [] \<Rightarrow> (0, w) | t # ts \<Rightarrow> (t, w\<lparr>dw_clock := ts\<rparr>))"

definition next_fault :: "('s, 'n) dash_scheme \<Rightarrow> err option \<times> ('s, 'n) dash_scheme" where
  "next_fault w = (case dw_faults w of [] \<Rightarrow> (None, w) | f # fs \<Rightarrow> (f, w\<lparr>dw_faults := fs\<rparr>))"

definition no_faults :: "('s, 'n) dash_scheme \<Rightarrow> bool" where
  "no_faults w \<longleftrightarrow> set (dw_faults w) \<subseteq> {None}"

definition sql_read ::
  "(err option \<Rightarrow> Store \<Rightarrow> err + 'a) \<Rightarrow> (Store, 'n) dash_scheme \<Rightarrow> (err + 'a) \<times> (Store, 'n) dash_scheme" where
  "sql_read query w = (case next_fault w of (fault, w1) \<Rightarrow> (query fault (dw_store w1), w1))"

definition sql_append ::
  "string \<Rightarrow> string \<Rightarrow> string \<Rightarrow> string \<Rightarrow> (Store, 'n) dash_scheme \<Rightarrow> err option \<times> (Store, 'n) dash_scheme" where
  "sql_append ns name role content w =
     (case next_fault w of (fault, w1) \<Rightarrow>
      case next_now w1 of (now, w2) \<Rightarrow>
      case AppendChatMessage now fault ns name role content (dw_store w2) of
        (e, db) \<Rightarrow> (e, w2\<lparr>dw_store := db\<rparr>))"

definition dash_publish :: "string \<Rightarrow> string \<Rightarrow> ('s, 'n) dash_scheme \<Rightarrow> ('s, 'n) dash_scheme" where
  "dash_publish topic html w = w\<lparr>dw_broker := Publish topic html (dw_broker w)\<rparr>"

definition sql_web_env ::
  "sql_order \<Rightarrow> (string \<Rightarrow> err + string) \<Rightarrow> (string \<times> (Store, 'n) dash_scheme) Provider option \<Rightarrow> go_texts
     \<Rightarrow> (Store, 'n) dash_scheme web_env" where
  "sql_web_env so markdown provider gt =
     \<lparr>we_CountIncidentsByPhase = (\<lambda>f. sql_read (\<lambda>fault. CountIncidentsByPhase fault f)),
      we_CountIncidents = (\<lambda>f. sql_read (\<lambda>fault. CountIncidents fault f)),
      we_ListIncidentsPage = (\<lambda>f limit offset. sql_read (\<lambda>fault. ListIncidentsPage so fault f limit offset)),
      we_chat = \<lparr>ce_AppendChatMessage = sql_append,
                 ce_GetIncident = (\<lambda>ns name w. case next_fault w of (fault, w1) \<Rightarrow>
                    sql_read (\<lambda>fault2. GetIncident so fault fault2 ns name) w1),
                 ce_ListChatMessages = (\<lambda>ns name. sql_read (\<lambda>fault. ListChatMessages fault ns name)),
                 ce_Publish = dash_publish, ce_RenderMarkdown = markdown\<rparr>,
      we_provider = provider, we_texts = gt, we_flusher = True\<rparr>"

definition sql_ok :: "(Store, 'n) dash_scheme \<Rightarrow> bool" where
  "sql_ok w \<longleftrightarrow> store_ok (dw_store w) \<and> (\<forall>t \<in> set (dw_clock w). year_in_range t)"

text \<open>The incidents a filter selects, in the order of the store.\<close>

definition sql_matching :: "sql_order \<Rightarrow> IncidentFilter \<Rightarrow> Store \<Rightarrow> Incident list" where
  "sql_matching so f db = map scanIncident (so_incidents so (filter (matches f True) (db_incidents db)))"

lemma sql_matching_length:
  "sql_order_ok so \<Longrightarrow> length (sql_matching so f db) = length (filter (matches f True) (db_incidents db))"
  by (simp add: sql_matching_def so_incidents_length)

lemma next_fault_facts:
  assumes "next_fault w = (fault, w')"
  shows "dw_store w' = dw_store w" "dw_clock w' = dw_clock w" "no_faults w \<Longrightarrow> fault = None \<and> no_faults w'"
  using assms by (auto simp: next_fault_def no_faults_def split: list.splits)

lemma next_now_facts:
  assumes "next_now w = (now, w')"
  shows "dw_store w' = dw_store w" "dw_faults w' = dw_faults w" "set (dw_clock w') \<subseteq> set (dw_clock w)"
    "(\<forall>t \<in> set (dw_clock w). year_in_range t) \<Longrightarrow> year_in_range now"
proof -
  have "year_in_range 0" by (simp add: year_in_range_def) code_simp
  with assms show "dw_store w' = dw_store w" "dw_faults w' = dw_faults w" "set (dw_clock w') \<subseteq> set (dw_clock w)"
    "(\<forall>t \<in> set (dw_clock w). year_in_range t) \<Longrightarrow> year_in_range now"
    by (auto simp: next_now_def split: list.splits)
qed

lemma sql_read_reads:
  assumes "\<And>e db. query (Some e) db = Inl e"
    and "\<And>db. store_ok db \<Longrightarrow> \<exists>x. query None db = Inr x \<and> P db x"
  shows "reads dw_store sql_ok no_faults (sql_read query) P"
  unfolding reads_def
proof (intro allI impI)
  fix w w' r
  assume run: "sql_read query w = (r, w')" and ok: "sql_ok w"
  then obtain fault where f: "next_fault w = (fault, w')" "r = query fault (dw_store w')"
    by (auto simp: sql_read_def split: prod.splits)
  note facts = next_fault_facts [OF f(1)]
  show "dw_store w' = dw_store w \<and> sql_ok w' \<and> (no_faults w \<longrightarrow> no_faults w' \<and> (\<exists>x. r = Inr x))
     \<and> (\<forall>x. r = Inr x \<longrightarrow> P (dw_store w) x)"
    using facts ok f(2) assms(1) assms(2) [of "dw_store w"] by (cases fault) (auto simp: sql_ok_def)
qed

lemma sql_append_law:
  assumes "sql_append ns name role content w = (e, w')" "sql_ok w"
  shows "sql_ok w' \<and> (no_faults w \<longrightarrow> no_faults w' \<and> e = None) \<and> (\<forall>f. sql_matching so f (dw_store w') = sql_matching so f (dw_store w))
     \<and> (if e = None
        then \<exists>i now. chat_at (dw_store w') = extended (chat_at (dw_store w)) (ns, name) [turn i ns name role content now]
        else dw_store w' = dw_store w)"
proof -
  obtain fault w1 where f: "next_fault w = (fault, w1)" by fastforce
  obtain now w2 where n: "next_now w1 = (now, w2)" by fastforce
  note facts = next_fault_facts [OF f] next_now_facts [OF n]
  have now: "year_in_range now" using facts assms(2) by (simp add: sql_ok_def)
  let ?r = "AppendChatMessage now fault ns name role content (dw_store w)"
  have r: "e = fst ?r" "w' = w2\<lparr>dw_store := snd ?r\<rparr>"
    using assms(1) facts by (auto simp: sql_append_def f n split: prod.splits)
  have "store_ok (snd ?r)" using store_ok_append [OF _ now] assms(2) by (simp add: sql_ok_def)
  then have "sql_ok w'" "no_faults w \<longrightarrow> no_faults w' \<and> e = None"
    using facts assms(2) by (auto simp: r sql_ok_def no_faults_def AppendChatMessage_def)
  moreover have "chat_at (snd ?r) = extended (chat_at (dw_store w)) (ns, name)
      [turn (db_next_chat (dw_store w)) ns name role content now]" if "fault = None"
    using that
    by (auto simp: fun_eq_iff chat_at_def extended_def AppendChatMessage_def cr_key_def scanChat_def turn_def parseTime_nano [OF now])
  ultimately show ?thesis
    by (cases fault) (auto simp: r AppendChatMessage_def sql_matching_def)
qed

lemma phase_count_agrees:
  assumes "p \<noteq> []" "CountIncidentsByPhase None f db = Inr totals"
  shows "int (length (filter (matches (f\<lparr>flt_Phase := p\<rparr>) True) (db_incidents db))) = phase_count totals p"
  using CountIncidentsByPhase_agrees [OF assms, where q = p] by (simp add: CountIncidents_rows phase_count_def)

lemma sql_lookup_law:
  assumes "ce_GetIncident (we_chat (sql_web_env so markdown provider gt)) ns name w = (r, w')" "sql_ok w"
  shows "dw_store w' = dw_store w \<and> sql_ok w' \<and> (no_faults w \<longrightarrow> no_faults w')"
proof -
  obtain f1 w1 where f: "next_fault w = (f1, w1)" by fastforce
  then obtain f2 where g: "next_fault w1 = (f2, w')"
    using assms(1) by (auto simp: sql_web_env_def sql_read_def split: prod.splits)
  show ?thesis
    using next_fault_facts [OF f] next_fault_facts [OF g] assms(2) by (simp add: sql_ok_def)
qed

lemma sql_dashboard:
  assumes "sql_order_ok so"
  shows "dashboard_store (sql_web_env so markdown provider gt) dw_store sql_ok no_faults (sql_matching so) chat_at"
    (is "dashboard_store ?env _ _ _ _ _")
proof
  show "reads dw_store sql_ok no_faults (we_CountIncidents ?env f) (\<lambda>d n. n = int (length (sql_matching so f d)))" for f
    unfolding sql_web_env_def web_env.simps
    by (rule sql_read_reads) (simp_all add: CountIncidents_rows sql_matching_length [OF assms] CountIncidents_def [of "Some _"])
  show "reads dw_store sql_ok no_faults (we_CountIncidentsByPhase ?env f)
      (\<lambda>d t. \<forall>p. p \<noteq> [] \<longrightarrow> phase_count t p = int (length (sql_matching so (f\<lparr>flt_Phase := p\<rparr>) d)))" for f
    unfolding sql_web_env_def web_env.simps
  proof (rule sql_read_reads)
    show "\<exists>x. CountIncidentsByPhase None f db = Inr x
        \<and> (\<forall>p. p \<noteq> [] \<longrightarrow> phase_count x p = int (length (sql_matching so (f\<lparr>flt_Phase := p\<rparr>) db)))" for db
      using phase_count_agrees [of _ f db] by (auto simp: sql_matching_length [OF assms] CountIncidentsByPhase_def Let_def)
  qed (simp add: CountIncidentsByPhase_def)
  show "reads dw_store sql_ok no_faults (we_ListIncidentsPage ?env f limit offset)
      (\<lambda>d is. is = take (nat limit) (drop (nat offset) (sql_matching so f d)))" if "0 \<le> limit" "0 \<le> offset" for f limit offset
    unfolding sql_web_env_def web_env.simps using that
    by (intro sql_read_reads)
      (simp_all add: ListIncidentsPage_rows sql_matching_def sql_limit_def take_map drop_map Let_def ListIncidentsPage_def [of _ "Some _"])
  show "reads dw_store sql_ok no_faults (ce_ListChatMessages (we_chat ?env) ns name)
      (\<lambda>d ms. ms = chat_at d (ns, name))" for ns name
    unfolding sql_web_env_def web_env.simps chat_env.simps
    by (rule sql_read_reads) (simp_all add: ListChatMessages_chat_at ListChatMessages_def [of "Some _"])
next
  fix ns name role content e and w w' :: "(Store, 'a) dash_scheme"
  assume "ce_AppendChatMessage (we_chat ?env) ns name role content w = (e, w')" and ok: "sql_ok w"
  then have run: "sql_append ns name role content w = (e, w')" by (simp add: sql_web_env_def)
  show "sql_ok w' \<and> (no_faults w \<longrightarrow> no_faults w' \<and> e = None)
     \<and> (\<forall>f. sql_matching so f (dw_store w') = sql_matching so f (dw_store w))
     \<and> (if e = None then \<exists>i now. chat_at (dw_store w') = extended (chat_at (dw_store w)) (ns, name) [turn i ns name role content now]
        else dw_store w' = dw_store w)"
    by (rule sql_append_law [OF run ok])
next
  fix ns name r and w w' :: "(Store, 'a) dash_scheme"
  assume "ce_GetIncident (we_chat ?env) ns name w = (r, w')" "sql_ok w"
  then show "dw_store w' = dw_store w \<and> sql_ok w' \<and> (no_faults w \<longrightarrow> no_faults w')"
    by (rule sql_lookup_law)
qed (simp_all add: sql_web_env_def dash_publish_def sql_ok_def no_faults_def)

interpretation sql_dash: dashboard_store "sql_web_env stable_order markdown provider gt" dw_store sql_ok no_faults
  "sql_matching stable_order" chat_at for markdown provider gt
  by (rule sql_dashboard [OF stable_order_ok])

section \<open>Properties\<close>

text \<open>
C30: The list page shows a page of the incidents that match the filter of the request: the
requested page, or the first or last one when the request is out of range. It shows at most 25
incidents, those of its position in the order of the store, it is empty only when no incident
matches, and the count of each phase is the number of incidents the filter of that phase selects.
When a statement fails the answer is status 500. Nothing in the store changes.
\<close>

theorem list_shows_page:
  fixes r :: web_req and w :: "(Store, 'n) dash_scheme"
  assumes "sql_order_ok so" "sql_ok w"
  defines "q \<equiv> ParseQuery (wq_RawQuery r)"
  defines "f \<equiv> list_filter q"
  defines "rows \<equiv> sql_matching so f (dw_store w)"
  defines "page \<equiv> min (list_page q) (last_page (int (length rows)))"
  defines "shown \<equiv> take 25 (drop (nat ((page - 1) * 25)) rows)"
  shows "\<exists>a w'. list_handler (sql_web_env so markdown provider gt) r w = (a, w') \<and> dw_store w' = dw_store w
     \<and> ((\<not> no_faults w \<and> (\<exists>m. a = Answer (http_Error [] m 500)))
        \<or> (\<exists>totals. a = Rendered (''kscribe '' @ em_dash @ '' Incidents'') html_headers
               (ListPage shown totals page (last_page (int (length rows))) f)
            \<and> (\<forall>p. p \<noteq> [] \<longrightarrow> phase_count totals p = int (length (sql_matching so (f\<lparr>flt_Phase := p\<rparr>) (dw_store w))))))
     \<and> (shown = [] \<longleftrightarrow> rows = []) \<and> 1 \<le> page
     \<and> mset rows = image_mset scanIncident (mset (filter (matches f True) (db_incidents (dw_store w))))"
proof -
  have "1 \<le> list_page q" by (simp add: list_page_def Let_def)
  then have p: "1 \<le> page" "page \<le> last_page (int (length rows))"
    using last_page_bounds(1) [of "int (length rows)"] by (simp_all add: page_def)
  have "nat ((page - 1) * 25) < length rows" if "rows \<noteq> []"
  proof -
    have "(page - 1) * 25 \<le> (last_page (int (length rows)) - 1) * 25" using p(2) by simp
    also have "\<dots> < int (length rows)" using last_page_bounds(2) [of "int (length rows)"] that by (simp add: pageSize_def)
    finally show ?thesis using p(1) by (simp add: nat_less_iff)
  qed
  then have "shown = [] \<longleftrightarrow> rows = []"
    by (cases "rows = []") (auto simp: shown_def)
  moreover have "mset rows = image_mset scanIncident (mset (filter (matches f True) (db_incidents (dw_store w))))"
    by (simp add: rows_def sql_matching_def so_incidents_mset [OF assms(1)])
  ultimately show ?thesis
    using dashboard_store.list_page [OF sql_dashboard [OF assms(1)] assms(2), of markdown provider gt r] p(1)
    unfolding q_def [symmetric] f_def [symmetric] rows_def [symmetric] page_def [symmetric] shown_def [symmetric]
    by blast
qed

definition sample_dash :: "Store dash" where
  "sample_dash = \<lparr>dw_store = empty_store, dw_broker = NewBroker, dw_clock = [], dw_faults = []\<rparr>"

lemma sample_dash_ok: "sql_ok sample_dash" "no_faults sample_dash"
  by (simp_all add: sample_dash_def sql_ok_def no_faults_def store_ok_empty)

theorem list_shows_page_witness:
  "\<forall>markdown provider gt. \<exists>totals w'.
     list_handler (sql_web_env stable_order markdown provider gt) (sample_web_req\<lparr>wq_RawQuery := ''page=7''\<rparr>) sample_dash =
       (Rendered (''kscribe '' @ em_dash @ '' Incidents'') html_headers (ListPage [] totals 1 1 no_filter), w')
     \<and> dw_store w' = empty_store"
proof -
  let ?r = "sample_web_req\<lparr>wq_RawQuery := ''page=7''\<rparr>"
  have q: "list_filter (ParseQuery (wq_RawQuery ?r)) = no_filter" "list_page (ParseQuery (wq_RawQuery ?r)) = 7"
  proof -
    have "ParseQuery ''page=7'' = [(''page'', [''7''])]" by code_simp
    moreover have "parse_dec ''7'' = Some 7" by (simp add: parse_dec_def is_digit_def)
    ultimately show "list_filter (ParseQuery (wq_RawQuery ?r)) = no_filter" "list_page (ParseQuery (wq_RawQuery ?r)) = 7"
      by (simp_all add: list_filter_def list_page_def no_filter_def Values_Get_def values_of_def gm_get_def Atoi_value_def)
  qed
  have "dw_store sample_dash = empty_store" "db_incidents empty_store = []"
    by (simp_all add: sample_dash_def empty_store_def)
  then have rows: "sql_matching stable_order f (dw_store sample_dash) = []" for f
    using so_incidents_mset [OF stable_order_ok, of "[]"] by (simp add: sql_matching_def)
  have "last_page 0 = 1" by (simp add: last_page_def pageSize_def)
  then show ?thesis
    using list_shows_page [where r = ?r, OF stable_order_ok sample_dash_ok(1)] sample_dash_ok(2)
    unfolding q rows by (simp add: sample_dash_def) blast
qed


definition sample_chat_dash :: "Store dash" where
  "sample_chat_dash = sample_dash\<lparr>dw_store := sample_store\<rparr>"

definition silent_provider :: "'w Provider" where
  "silent_provider = \<lparr>pr_Complete = (\<lambda>q w. (Inr \<lparr>rsp_Choices = [], rsp_Usage = \<lparr>us_TotalTokens = 0\<rparr>\<rparr>, w)), pr_CompleteStream = None\<rparr>"


end
