(* ===== verification/Dev_Server.thy ===== *)
theory Dev_Server
  imports Dashboard
begin

text \<open>
  The development server, \<^verbatim>\<open>src/cmd/kscribe-web-dev/main.go\<close>: the dashboard on an in-memory store
  with sample incidents and a model client with canned answers. The mutex makes an operation
  of the store one step. \<^verbatim>\<open>strings.ToLower\<close> of arbitrary text is the parameter \<open>lower\<close>; the
  cancellation of a request is decided by the world.
\<close>

section \<open>The store\<close>

record devStore =
  dv_incidents :: "(string, IncidentDetail) gomap"
  dv_orderedKeys :: "string list"
  dv_chatMessages :: "ChatMessage list"
  dv_nextChatID :: int

text \<open>\<^verbatim>\<open>strings.Contains\<close>.\<close>

definition Contains :: "string \<Rightarrow> string \<Rightarrow> bool" where
  "Contains s sub = list_ex (prefix sub) (suffixes s)"

text \<open>The guards of the loop of \<^verbatim>\<open>filteredIncidents\<close> that continue with the next key.\<close>

definition skips :: "(string \<Rightarrow> string) \<Rightarrow> IncidentFilter \<Rightarrow> Incident \<Rightarrow> bool" where
  "skips lower f inc \<longleftrightarrow>
     (flt_Phase f \<noteq> [] \<and> inc_Phase inc \<noteq> flt_Phase f)
   \<or> (flt_Namespace f \<noteq> [] \<and> inc_Namespace inc \<noteq> flt_Namespace f)
   \<or> (flt_Reason f \<noteq> [] \<and> inc_Reason inc \<noteq> flt_Reason f)
   \<or> (flt_Query f \<noteq> [] \<and>
        (let q = lower (flt_Query f)
         in \<not> Contains (lower (inc_Name inc)) q \<and> \<not> Contains (lower (inc_Message inc)) q
            \<and> \<not> Contains (lower (inc_Reason inc)) q))"

fun filter_keys ::
  "(string \<Rightarrow> string) \<Rightarrow> IncidentFilter \<Rightarrow> (string, IncidentDetail) gomap \<Rightarrow> string list \<Rightarrow> Incident list" where
  "filter_keys lower f m [] = []"
| "filter_keys lower f m (key # keys) =
     (case gm_get m key of
        None \<Rightarrow> filter_keys lower f m keys
      | Some d \<Rightarrow>
          if skips lower f (det_Incident d) then filter_keys lower f m keys
          else det_Incident d # filter_keys lower f m keys)"

definition filteredIncidents :: "(string \<Rightarrow> string) \<Rightarrow> IncidentFilter \<Rightarrow> devStore \<Rightarrow> Incident list" where
  "filteredIncidents lower f s = filter_keys lower f (dv_incidents s) (dv_orderedKeys s)"

text \<open>A slice expression out of range panics; that is the value None.\<close>

definition dev_ListIncidentsPage ::
  "(string \<Rightarrow> string) \<Rightarrow> IncidentFilter \<Rightarrow> int \<Rightarrow> int \<Rightarrow> devStore \<Rightarrow> Incident list option" where
  "dev_ListIncidentsPage lower f limit offset s =
     (let all = filteredIncidents lower f s
      in if offset \<ge> int (length all) then Some []
         else if offset < 0 then None
         else
           (let all = drop (nat offset) all
            in if limit < int (length all) then (if limit < 0 then None else Some (take (nat limit) all))
               else Some all))"

definition dev_ListIncidents :: "(string \<Rightarrow> string) \<Rightarrow> int \<Rightarrow> devStore \<Rightarrow> Incident list option" where
  "dev_ListIncidents lower limit s = dev_ListIncidentsPage lower no_filter limit 0 s"

definition dev_CountIncidents :: "(string \<Rightarrow> string) \<Rightarrow> IncidentFilter \<Rightarrow> devStore \<Rightarrow> int" where
  "dev_CountIncidents lower f s = int (length (filteredIncidents lower f s))"

definition count_phase :: "Incident \<Rightarrow> (string, int) gomap \<Rightarrow> (string, int) gomap" where
  "count_phase inc counts = gm_put (inc_Phase inc) (phase_count counts (inc_Phase inc) + 1) counts"

definition dev_CountIncidentsByPhase :: "(string \<Rightarrow> string) \<Rightarrow> IncidentFilter \<Rightarrow> devStore \<Rightarrow> (string, int) gomap" where
  "dev_CountIncidentsByPhase lower f s = fold count_phase (filteredIncidents lower (f\<lparr>flt_Phase := []\<rparr>) s) []"

definition dev_GetIncident :: "string \<Rightarrow> string \<Rightarrow> devStore \<Rightarrow> err + IncidentDetail" where
  "dev_GetIncident ns name s =
     (case gm_get (dv_incidents s) (ns @ ''/'' @ name) of
        None \<Rightarrow> Inl (errorf ''incident not found'')
      | Some d \<Rightarrow> Inr d)"

definition dev_AppendChatMessage ::
  "gotime \<Rightarrow> string \<Rightarrow> string \<Rightarrow> string \<Rightarrow> string \<Rightarrow> devStore \<Rightarrow> devStore" where
  "dev_AppendChatMessage now ns name role content s =
     s\<lparr>dv_chatMessages := dv_chatMessages s @ [turn (dv_nextChatID s) ns name role content now],
       dv_nextChatID := dv_nextChatID s + 1\<rparr>"

definition dev_ListChatMessages :: "string \<Rightarrow> string \<Rightarrow> devStore \<Rightarrow> ChatMessage list" where
  "dev_ListChatMessages ns name s =
     sort_key cm_ID (filter (\<lambda>m. cm_Namespace m = ns \<and> cm_Name m = name) (dv_chatMessages s))"

section \<open>The sample incidents\<close>

definition zero_snapshot :: Snapshot where
  "zero_snapshot = \<lparr>sn_EventUID = [], sn_Reason = [], sn_Message = [], sn_Namespace = [], sn_ObjectKind = [],
     sn_ObjectName = [], sn_PodContexts = [], sn_RelatedEvents = [], sn_NodeConditions = [],
     sn_DeploymentStatus = None, sn_ReplicaSetStatus = None, sn_Partial = []\<rparr>"

definition crash_snap :: Snapshot where
  "crash_snap = zero_snapshot\<lparr>
     sn_EventUID := ''event-crashloop-demo'', sn_Reason := ''BackOff'',
     sn_Message := ''Back-off restarting failed container api in pod api-7d9c'', sn_Namespace := ''default'',
     sn_ObjectKind := ''Pod'', sn_ObjectName := ''api-7d9c'',
     sn_PodContexts := [\<lparr>pc_PodName = ''api-7d9c'', pc_NodeName = ''kind-worker'', pc_Phase = ''Running'', pc_Annotations = [],
       pc_EnvVars = [\<lparr>env_Name = ''DATABASE_URL'', env_Value = RedactedPlaceholder\<rparr>],
       pc_Logs = [\<lparr>pl_ContainerName = ''api'',
         pl_Lines = ''2026-07-03T07:42:11Z starting api'' @ nl @ ''2026-07-03T07:42:12Z failed to connect to DATABASE_URL'' @ nl @
           ''2026-07-03T07:42:12Z exiting''\<rparr>]\<rparr>],
     sn_RelatedEvents := [
       \<lparr>es_Name = ''api-backoff'', es_Reason = ''BackOff'', es_Message = ''Back-off restarting failed container'', es_Count = 12\<rparr>,
       \<lparr>es_Name = ''api-pulled'', es_Reason = ''Pulled'', es_Message = ''Container image already present'', es_Count = 3\<rparr>],
     sn_Partial := [''node conditions unavailable in dev fixture'']\<rparr>"

definition oom_snap :: Snapshot where
  "oom_snap = zero_snapshot\<lparr>
     sn_EventUID := ''event-oom-demo'', sn_Reason := ''OOMKilling'', sn_Message := ''Container worker exceeded memory limit'',
     sn_Namespace := ''payments'', sn_ObjectKind := ''Pod'', sn_ObjectName := ''worker-54b8'',
     sn_PodContexts := [\<lparr>pc_PodName = ''worker-54b8'', pc_NodeName = ''kind-worker2'', pc_Phase = ''Failed'', pc_Annotations = [],
       pc_EnvVars = [\<lparr>env_Name = ''BATCH_SIZE'', env_Value = ''5000''\<rparr>], pc_Logs = []\<rparr>]\<rparr>"

text \<open>The encoded context; a failed encoding would leave it empty.\<close>

definition encoded :: "Snapshot \<Rightarrow> string" where
  "encoded s = (case fst (EncodeSnapshot s) of Inl e \<Rightarrow> [] | Inr j \<Rightarrow> j)"

definition crash_detail :: "gotime \<Rightarrow> IncidentDetail" where
  "crash_detail now =
     (let started = now - 12 * Minute; completed = now - 9 * Minute in
      \<lparr>det_Incident =
         \<lparr>inc_Namespace = ''default'', inc_Name = ''crashloop-demo'', inc_EventUID = ''event-crashloop-demo'',
          inc_InvolvedObjectKind = ''Pod'', inc_InvolvedObjectName = ''api-7d9c'', inc_InvolvedObjectNamespace = ''default'',
          inc_Reason = ''BackOff'', inc_Message = ''Back-off restarting failed container api in pod api-7d9c'',
          inc_Phase = ''Done'', inc_StartedAt = Some started, inc_CompletedAt = Some completed,
          inc_LLMProvider = ''dev'', inc_LLMModel = ''fixture-stream'', inc_TokensUsed = 742,
          inc_PromptRedacted = True, inc_Persisted = True, inc_CreatedAt = started, inc_UpdatedAt = completed\<rparr>,
       det_Diagnoses = [
         \<lparr>dg_ID = 1, dg_Namespace = ''default'', dg_Name = ''crashloop-demo'', dg_EventUID = ''event-crashloop-demo'', dg_RCAJson = [],
          dg_Summary = ''The API pod is restarting because it exits immediately after failing to read database configuration.'',
          dg_RootCause = ''Missing or invalid `DATABASE_URL` environment configuration.'',
          dg_Remediation = ''Verify the Secret mounted into the deployment; restart the rollout after updating the value; add startup validation to fail with a clearer message.'',
          dg_Confidence = Float64 4606371770867090719, dg_CreatedAt = completed, dg_ContextJSON = encoded crash_snap,
          dg_Reasoning = ''The recent pod logs show startup followed by a database configuration error. The Kubernetes event reason is `BackOff`, which matches repeated container restarts.'',
          dg_TraceJSON = ''[{\"tool\":\"get_pod_logs\",\"args\":{\"pod\":\"api-7d9c\"},\"result\":\"failed to connect to DATABASE_URL\"},{\"tool\":\"list_events\",\"args\":{\"object_name\":\"api-7d9c\"},\"result\":\"BackOff x12\"}]''\<rparr>]\<rparr>)"

definition oom_detail :: "gotime \<Rightarrow> IncidentDetail" where
  "oom_detail now =
     \<lparr>det_Incident =
        \<lparr>inc_Namespace = ''payments'', inc_Name = ''oom-demo'', inc_EventUID = ''event-oom-demo'',
         inc_InvolvedObjectKind = ''Pod'', inc_InvolvedObjectName = ''worker-54b8'', inc_InvolvedObjectNamespace = ''payments'',
         inc_Reason = ''OOMKilling'', inc_Message = ''Container worker exceeded memory limit'',
         inc_Phase = ''Partial'', inc_StartedAt = Some (now - 28 * Minute), inc_CompletedAt = None,
         inc_LLMProvider = ''dev'', inc_LLMModel = ''fixture-stream'', inc_TokensUsed = 318,
         inc_PromptRedacted = True, inc_Persisted = True, inc_CreatedAt = now - 30 * Minute, inc_UpdatedAt = now - 22 * Minute\<rparr>,
      det_Diagnoses = [
        \<lparr>dg_ID = 2, dg_Namespace = ''payments'', dg_Name = ''oom-demo'', dg_EventUID = ''event-oom-demo'', dg_RCAJson = [],
         dg_Summary = ''Worker memory limit is too low for the observed batch size.'',
         dg_RootCause = ''Memory pressure during payment batch processing.'',
         dg_Remediation = ''Reduce batch size or raise the container memory limit after checking node capacity.'',
         dg_Confidence = Float64 4605020690978879570, dg_CreatedAt = now - 22 * Minute, dg_ContextJSON = encoded oom_snap,
         dg_Reasoning = ''The event reason is `OOMKilling` and the container state reports `OOMKilled`.'',
         dg_TraceJSON = ''[]''\<rparr>]\<rparr>"

definition pending_detail :: "gotime \<Rightarrow> IncidentDetail" where
  "pending_detail now =
     \<lparr>det_Incident =
        \<lparr>inc_Namespace = ''infra'', inc_Name = ''pending-demo'', inc_EventUID = [],
         inc_InvolvedObjectKind = ''Pod'', inc_InvolvedObjectName = ''scheduler-test'', inc_InvolvedObjectNamespace = ''infra'',
         inc_Reason = ''FailedScheduling'', inc_Message = ''0/3 nodes are available: insufficient cpu'',
         inc_Phase = ''Pending'', inc_StartedAt = None, inc_CompletedAt = None,
         inc_LLMProvider = [], inc_LLMModel = [], inc_TokensUsed = 0,
         inc_PromptRedacted = False, inc_Persisted = False, inc_CreatedAt = now - 7 * Minute, inc_UpdatedAt = now - 7 * Minute\<rparr>,
      det_Diagnoses = []\<rparr>"

definition newDevStore :: "gotime \<Rightarrow> devStore" where
  "newDevStore now =
     \<lparr>dv_incidents = [(''default/crashloop-demo'', crash_detail now), (''payments/oom-demo'', oom_detail now),
        (''infra/pending-demo'', pending_detail now)],
      dv_orderedKeys = [''default/crashloop-demo'', ''payments/oom-demo'', ''infra/pending-demo''],
      dv_chatMessages = [
        turn 1 ''default'' ''crashloop-demo'' ''user'' ''What should I check first?'' (now - 6 * Minute),
        turn 2 ''default'' ''crashloop-demo'' ''assistant''
          (''Start with the deployment'' @ [CHR 0x27] @ ''s environment and Secret references. The logs point at missing database configuration before the container exits.'')
          (now - 5 * Minute)],
      dv_nextChatID = 3\<rparr>"

section \<open>The model client\<close>

definition is_question :: "Message \<Rightarrow> bool" where
  "is_question m \<longleftrightarrow> msg_Role m = ''user'' \<and> TrimSpace (msg_Content m) \<noteq> []"

definition dev_answer :: "string \<Rightarrow> string" where
  "dev_answer q = ''For `'' @ q @ ''`: check the latest event reason, compare it with pod logs, then verify the referenced Secret or resource limit. In this fixture the strongest signal is the diagnosis context already shown on the page.''"

definition devReply :: "Request \<Rightarrow> string" where
  "devReply req =
     dev_answer (case find is_question (rev (req_Messages req)) of None \<Rightarrow> ''this incident'' | Some m \<Rightarrow> msg_Content m)"

definition dev_response :: "string \<Rightarrow> Response" where
  "dev_response reply =
     \<lparr>rsp_Choices = [\<lparr>ch_Message = text_message ''assistant'' reply, ch_FinishReason = ''stop''\<rparr>],
      rsp_Usage = \<lparr>us_TotalTokens = 128\<rparr>\<rparr>"

definition dev_Complete :: "Request \<Rightarrow> 'w \<Rightarrow> (err + Response) \<times> 'w" where
  "dev_Complete req w = (Inr (dev_response (devReply req)), w)"

text \<open>\<^verbatim>\<open>strings.SplitAfter\<close> with a blank.\<close>

fun split_after :: "string \<Rightarrow> string \<Rightarrow> string list" where
  "split_after acc [] = [acc]"
| "split_after acc (c # s) =
     (if c = CHR '' '' then (acc @ [c]) # split_after [] s else split_after (acc @ [c]) s)"

text \<open>The loop over the tokens: before each, the request may turn out to be cancelled.\<close>

fun send_tokens ::
  "('w \<Rightarrow> err option \<times> 'w) \<Rightarrow> 'w on_delta \<Rightarrow> string list \<Rightarrow> 'w \<Rightarrow> err option \<times> 'w" where
  "send_tokens cancelled onDelta [] w = (None, w)"
| "send_tokens cancelled onDelta (token # tokens) w =
     (case cancelled w of
        (Some e, w1) \<Rightarrow> (Some e, w1)
      | (None, w1) \<Rightarrow>
          (case onDelta token w1 of
             (Some e, w2) \<Rightarrow> (Some e, w2)
           | (None, w2) \<Rightarrow> send_tokens cancelled onDelta tokens w2))"

definition dev_CompleteStream ::
  "('w \<Rightarrow> err option \<times> 'w) \<Rightarrow> Request \<Rightarrow> 'w on_delta \<Rightarrow> 'w \<Rightarrow> (err + Response) \<times> 'w" where
  "dev_CompleteStream cancelled req onDelta w =
     (let reply = devReply req
      in case send_tokens cancelled onDelta (split_after [] reply) w of
           (Some e, w1) \<Rightarrow> (Inl e, w1)
         | (None, w1) \<Rightarrow> (Inr (dev_response reply), w1))"

definition devProvider :: "('w \<Rightarrow> err option \<times> 'w) \<Rightarrow> 'w Provider" where
  "devProvider cancelled = \<lparr>pr_Complete = dev_Complete, pr_CompleteStream = Some (dev_CompleteStream cancelled)\<rparr>"

section \<open>The server\<close>

text \<open>
  The dashboard's environment of \<^verbatim>\<open>main\<close>. A panic would end the request; the handlers never
  ask for a page that panics.
\<close>

definition panic_slice :: err where
  "panic_slice = errorf ''runtime error: slice bounds out of range''"

definition dev_read :: "(devStore \<Rightarrow> err + 'a) \<Rightarrow> (devStore, 'n) dash_scheme \<Rightarrow> (err + 'a) \<times> (devStore, 'n) dash_scheme" where
  "dev_read query w = (query (dw_store w), w)"

definition dev_web_env ::
  "(string \<Rightarrow> string) \<Rightarrow> (string \<Rightarrow> err + string) \<Rightarrow> (string \<times> (devStore, 'n) dash_scheme) Provider option \<Rightarrow> go_texts
     \<Rightarrow> (devStore, 'n) dash_scheme web_env" where
  "dev_web_env lower markdown provider gt =
     \<lparr>we_CountIncidentsByPhase = (\<lambda>f. dev_read (\<lambda>s. Inr (dev_CountIncidentsByPhase lower f s))),
      we_CountIncidents = (\<lambda>f. dev_read (\<lambda>s. Inr (dev_CountIncidents lower f s))),
      we_ListIncidentsPage = (\<lambda>f limit offset. dev_read (\<lambda>s. case dev_ListIncidentsPage lower f limit offset s of
         None \<Rightarrow> Inl panic_slice | Some is \<Rightarrow> Inr is)),
      we_chat = \<lparr>ce_AppendChatMessage = (\<lambda>ns name role content w. case next_now w of (now, w1) \<Rightarrow>
                    (None, w1\<lparr>dw_store := dev_AppendChatMessage now ns name role content (dw_store w1)\<rparr>)),
                 ce_GetIncident = (\<lambda>ns name. dev_read (dev_GetIncident ns name)),
                 ce_ListChatMessages = (\<lambda>ns name. dev_read (\<lambda>s. Inr (dev_ListChatMessages ns name s))),
                 ce_Publish = dash_publish, ce_RenderMarkdown = markdown\<rparr>,
      we_provider = provider, we_texts = gt, we_flusher = True\<rparr>"

text \<open>\<^verbatim>\<open>main\<close>: the server without a token, on a fresh store and broker, with the canned client.\<close>

definition dev_main ::
  "(string \<Rightarrow> string) \<Rightarrow> (string \<Rightarrow> err + string)
     \<Rightarrow> (string \<times> (devStore, 'n) dash_scheme \<Rightarrow> err option \<times> (string \<times> (devStore, 'n) dash_scheme)) \<Rightarrow> go_texts
     \<Rightarrow> (web_req \<Rightarrow> route option) \<Rightarrow> gotime \<Rightarrow> gotime \<Rightarrow> web_req
     \<Rightarrow> loginLimiter \<times> (devStore, 'n) dash_scheme \<Rightarrow> answer \<times> (loginLimiter \<times> (devStore, 'n) dash_scheme)" where
  "dev_main lower markdown cancelled gt = Handler New (dev_web_env lower markdown (Some (devProvider cancelled)) gt)"

section \<open>The contract\<close>

text \<open>Chat messages are kept in the order of their identifiers.\<close>

definition dev_ok :: "(devStore, 'n) dash_scheme \<Rightarrow> bool" where
  "dev_ok w \<longleftrightarrow> sorted_wrt (<) (map cm_ID (dv_chatMessages (dw_store w)))
     \<and> (\<forall>m \<in> set (dv_chatMessages (dw_store w)). cm_ID m < dv_nextChatID (dw_store w))"

definition dev_conversation :: "devStore \<Rightarrow> string \<times> string \<Rightarrow> ChatMessage list" where
  "dev_conversation s k = filter (\<lambda>m. (cm_Namespace m, cm_Name m) = k) (dv_chatMessages s)"

lemma filter_keys_filter:
  "filter_keys lower f m keys = filter (\<lambda>i. \<not> skips lower f i) (filter_keys lower no_filter m keys)"
proof -
  have "\<not> skips lower no_filter i" for i by (simp add: skips_def no_filter_def)
  then show ?thesis by (induction keys) (auto split: option.splits)
qed

lemma filtered_phase:
  assumes "p \<noteq> []"
  shows "filteredIncidents lower (f\<lparr>flt_Phase := p\<rparr>) s =
    filter (\<lambda>i. inc_Phase i = p) (filteredIncidents lower (f\<lparr>flt_Phase := []\<rparr>) s)"
proof -
  have "(\<not> skips lower (f\<lparr>flt_Phase := p\<rparr>) i) = (inc_Phase i = p \<and> \<not> skips lower (f\<lparr>flt_Phase := []\<rparr>) i)" for i
    using assms by (auto simp: skips_def)
  then show ?thesis
    unfolding filteredIncidents_def filter_keys_filter [where f = "f\<lparr>flt_Phase := p\<rparr>"] filter_keys_filter [where f = "f\<lparr>flt_Phase := []\<rparr>"]
    by (simp add: conj_commute)
qed

lemma phase_count_Nil: "phase_count [] p = 0"
  by (simp add: phase_count_def)

lemma phase_count_fold:
  "phase_count (fold count_phase is c) p = phase_count c p + int (length (filter (\<lambda>i. inc_Phase i = p) is))"
  by (induction "is" arbitrary: c) (auto simp: count_phase_def phase_count_def)

lemma dev_page:
  assumes "0 \<le> limit" "0 \<le> offset"
  shows "dev_ListIncidentsPage lower f limit offset s =
    Some (take (nat limit) (drop (nat offset) (filteredIncidents lower f s)))"
  using assms by (auto simp: dev_ListIncidentsPage_def Let_def)

lemma dev_turns:
  assumes "dev_ok w"
  shows "dev_ListChatMessages ns name (dw_store w) = dev_conversation (dw_store w) (ns, name)"
proof -
  have "sorted_wrt (<) (map cm_ID (filter (\<lambda>m. cm_Namespace m = ns \<and> cm_Name m = name) (dv_chatMessages (dw_store w))))"
    using assms by (intro sorted_wrt_map_filter) (simp add: dev_ok_def)
  then show ?thesis
    by (simp add: dev_ListChatMessages_def dev_conversation_def sort_key_sorted)
qed

lemma dev_append_ok:
  assumes "dev_ok w" "next_now w = (now, w1)"
  shows "dev_ok (w1\<lparr>dw_store := dev_AppendChatMessage now ns name role content (dw_store w1)\<rparr>)"
  using assms(1) next_now_facts(1) [OF assms(2)]
  by (auto simp: dev_ok_def dev_AppendChatMessage_def sorted_wrt_append turn_def)

lemma dev_append_conversation:
  "dev_conversation (dev_AppendChatMessage now ns name role content s) =
     extended (dev_conversation s) (ns, name) [turn (dv_nextChatID s) ns name role content now]"
  by (auto simp: dev_AppendChatMessage_def turn_def dev_conversation_def extended_def fun_eq_iff)

interpretation dev_dash: dashboard_store "dev_web_env lower markdown provider gt" dw_store dev_ok "\<lambda>w. True"
  "filteredIncidents lower" dev_conversation for lower markdown provider gt
proof
  fix ns name role content e and w w' :: "(devStore, 'a) dash_scheme"
  assume run: "ce_AppendChatMessage (we_chat (dev_web_env lower markdown provider gt)) ns name role content w = (e, w')"
    and ok: "dev_ok w"
  obtain now w1 where n: "next_now w = (now, w1)" by fastforce
  have w': "e = None" "w' = w1\<lparr>dw_store := dev_AppendChatMessage now ns name role content (dw_store w)\<rparr>"
    using run next_now_facts(1) [OF n] by (auto simp: dev_web_env_def n)
  have "\<exists>i now. dev_conversation (dw_store w') = extended (dev_conversation (dw_store w)) (ns, name) [turn i ns name role content now]"
    by (auto simp: w' dev_append_conversation)
  then show "dev_ok w' \<and> (True \<longrightarrow> True \<and> e = None) \<and> (\<forall>f. filteredIncidents lower f (dw_store w') = filteredIncidents lower f (dw_store w))
     \<and> (if e = None
        then \<exists>i now. dev_conversation (dw_store w') = extended (dev_conversation (dw_store w)) (ns, name) [turn i ns name role content now]
        else dw_store w' = dw_store w)"
    using dev_append_ok [OF ok n] next_now_facts(1) [OF n]
    by (simp add: w' filteredIncidents_def dev_AppendChatMessage_def)
qed (auto simp: reads_def dev_web_env_def dev_read_def dev_CountIncidents_def dev_CountIncidentsByPhase_def dev_page dev_turns
    phase_count_fold filtered_phase phase_count_Nil dash_publish_def dev_ok_def)

section \<open>Trimming\<close>

lemma trim_front_suffix: "suffix (trim_front ps s) s"
proof (induction ps s rule: trim_front.induct)
  case (1 ps s)
  have "suffix t s" if "strip_one ps s = Some t" for t
    using that by (induction ps) (auto simp: suffix_drop split: if_splits)
  with 1 show ?case
    by (subst trim_front.simps) (auto split: option.splits intro: suffix_order.trans)
qed

lemma strip_one_prefix: "strip_one ps u = None \<Longrightarrow> prefix v u \<Longrightarrow> strip_one ps v = None"
  by (induction ps) (auto split: if_splits dest: prefix_order.trans)

lemma trim_front_None: "strip_one ps s = None \<Longrightarrow> trim_front ps s = s"
  by (subst trim_front.simps) simp

lemma TrimSpace_idem: "TrimSpace (TrimSpace s) = TrimSpace s"
proof -
  define u where "u = trim_front space_seqs s"
  define v where "v = TrimSpace s"
  have v: "rev v = trim_front (map rev space_seqs) (rev u)" by (simp add: v_def u_def TrimSpace_def)
  have "prefix v u" using trim_front_suffix [of "map rev space_seqs" "rev u"] by (simp add: v [symmetric] suffix_to_prefix)
  then have "trim_front space_seqs v = v"
    using trim_front_fixed [of space_seqs s] by (auto simp: u_def [symmetric] intro: trim_front_None strip_one_prefix)
  moreover have "trim_front (map rev space_seqs) (rev v) = rev v"
    unfolding v by (intro trim_front_None trim_front_fixed)
  ultimately have "TrimSpace v = v" by (simp add: TrimSpace_def [of v])
  then show ?thesis by (simp add: v_def)
qed

text \<open>A character outside every white space sequence is never trimmed.\<close>

lemma strip_one_keeps:
  "\<forall>p \<in> set ps. c \<notin> set p \<Longrightarrow> c \<in> set s \<Longrightarrow> strip_one ps s = Some t \<Longrightarrow> c \<in> set t"
proof (induction ps)
  case (Cons p ps)
  then show ?case by (auto simp: prefix_def split: if_splits)
qed simp

lemma trim_front_keeps: "\<forall>p \<in> set ps. c \<notin> set p \<Longrightarrow> c \<in> set s \<Longrightarrow> c \<in> set (trim_front ps s)"
proof (induction ps s rule: trim_front.induct)
  case (1 ps s)
  then show ?case
    by (subst trim_front.simps) (auto split: option.splits dest: strip_one_keeps)
qed

lemma TrimSpace_keeps:
  assumes "CHR ''`'' \<in> set s"
  shows "TrimSpace s \<noteq> []"
proof -
  have "\<forall>p \<in> set space_seqs. CHR ''`'' \<notin> set p" by code_simp
  then have "CHR ''`'' \<in> set (TrimSpace s)"
    using assms by (simp add: TrimSpace_def trim_front_keeps)
  then show ?thesis by auto
qed

section \<open>The canned answers\<close>

lemma concat_split_after: "concat (split_after acc s) = acc @ s"
  by (induction acc s rule: split_after.induct) auto

lemma send_tokens_chat:
  fixes w :: "(devStore, 'n) dash_scheme"
  assumes "ce_Publish ce = dash_publish"
  shows "\<exists>b. send_tokens (\<lambda>x. (None, x)) (on_chat_delta ce topic) tokens (acc, w) = (None, (acc @ concat tokens, w\<lparr>dw_broker := b\<rparr>))"
proof (induction tokens arbitrary: acc w)
  case (Cons t ts)
  obtain html where "on_chat_delta ce topic t (acc, w) = (None, (acc @ t, dash_publish topic html w))"
    by (simp add: on_chat_delta_def Let_def assms)
  with Cons [of "acc @ t" "dash_publish topic html w"] show ?case
    by (auto simp: dash_publish_def)
next
  case Nil
  have "w = w\<lparr>dw_broker := dw_broker w\<rparr>" by simp
  then show ?case by (simp only: send_tokens.simps) (metis append_Nil2 concat.simps(1))
qed

lemma devReply_chat:
  assumes "TrimSpace msg \<noteq> []"
  shows "devReply (chat_request detail (hs @ [turn i ns name ''user'' msg now])) =
    dev_answer (if length msg \<le> 8192 then msg else ''this incident'')"
proof (cases "length msg \<le> 8192")
  case True
  then obtain zs where "bounded_history (hs @ [turn i ns name ''user'' msg now]) = zs @ [turn i ns name ''user'' msg now]"
    using bounded_history_last [of "turn i ns name ''user'' msg now" hs] by (auto simp: turn_def)
  with True assms show ?thesis
    by (simp add: devReply_def chat_request_def is_question_def text_message_def turn_def)
next
  case False
  then have "bounded_history (hs @ [turn i ns name ''user'' msg now]) = []"
    by (intro bounded_history_long) (simp_all add: turn_def)
  with False show ?thesis
    by (simp add: devReply_def chat_request_def is_question_def text_message_def)
qed

text \<open>One chat request on the development server.\<close>

lemma dev_RunChat:
  fixes w :: "(devStore, 'n) dash_scheme" and msg :: string
    and lower :: "string \<Rightarrow> string" and markdown :: "string \<Rightarrow> err + string" and gt :: go_texts
  assumes "dev_ok w" "dev_GetIncident ns name (dw_store w) = Inr detail" "TrimSpace msg \<noteq> []"
  defines "env \<equiv> dev_web_env lower markdown (Some (devProvider (\<lambda>x. (None, x)))) gt"
  shows "\<exists>w' i1 t1 i2 t2. RunChat (we_chat env) (devProvider (\<lambda>x. (None, x))) ns name msg w = (None, w')
     \<and> dev_conversation (dw_store w') = extended (dev_conversation (dw_store w)) (ns, name)
         [turn i1 ns name ''user'' msg t1,
          turn i2 ns name ''assistant'' (dev_answer (if length msg \<le> 8192 then msg else ''this incident'')) t2]"
proof -
  let ?ce = "we_chat env"
  let ?answer = "dev_answer (if length msg \<le> 8192 then msg else ''this incident'')"
  obtain t1 w0 where n1: "next_now w = (t1, w0)" by fastforce
  define w1 where "w1 = w0\<lparr>dw_store := dev_AppendChatMessage t1 ns name ''user'' msg (dw_store w0)\<rparr>"
  have s1: "ce_AppendChatMessage ?ce ns name ''user'' msg w = (None, w1)"
    by (simp add: env_def dev_web_env_def n1 w1_def)
  have st1: "dw_store w1 = dev_AppendChatMessage t1 ns name ''user'' msg (dw_store w)"
    by (simp add: w1_def next_now_facts(1) [OF n1])
  then have s2: "ce_GetIncident ?ce ns name w1 = (Inr detail, w1)"
    using assms(2) by (simp add: env_def dev_web_env_def dev_read_def dev_GetIncident_def dev_AppendChatMessage_def)
  have "dev_ok w1" using dev_append_ok [OF assms(1) n1] by (simp add: w1_def)
  then have "ce_ListChatMessages ?ce ns name w1 = (Inr (dev_conversation (dw_store w1) (ns, name)), w1)"
    by (simp add: env_def dev_web_env_def dev_read_def dev_turns)
  then obtain hs i1 where s3: "ce_ListChatMessages ?ce ns name w1 = (Inr (hs @ [turn i1 ns name ''user'' msg t1]), w1)"
    by (simp add: st1 dev_append_conversation)
  let ?req = "chat_request detail (hs @ [turn i1 ns name ''user'' msg t1])"
  have "ce_Publish ?ce = dash_publish" by (simp add: env_def dev_web_env_def)
  from send_tokens_chat [OF this, of "ns @ ''/'' @ name @ ''/chat''" "split_after [] (devReply ?req)" "[]" w1]
  obtain b where s4: "StreamOrComplete (devProvider (\<lambda>x. (None, x))) ?req (on_chat_delta ?ce (ns @ ''/'' @ name @ ''/chat'')) ([], w1) =
      (Inr (dev_response ?answer), (?answer, w1\<lparr>dw_broker := b\<rparr>))"
    by (auto simp: StreamOrComplete_def devProvider_def dev_CompleteStream_def Let_def concat_split_after devReply_chat [OF assms(3)])
  have "TrimSpace ?answer \<noteq> []" by (rule TrimSpace_keeps) (simp add: dev_answer_def)
  obtain t2 w2 where n2: "next_now (w1\<lparr>dw_broker := b\<rparr>) = (t2, w2)" by fastforce
  define w3 where "w3 = w2\<lparr>dw_store := dev_AppendChatMessage t2 ns name ''assistant'' ?answer (dw_store w2)\<rparr>"
  have st2: "dw_store w3 = dev_AppendChatMessage t2 ns name ''assistant'' ?answer (dw_store w1)"
    by (simp add: w3_def next_now_facts(1) [OF n2])
  have "RunChat ?ce (devProvider (\<lambda>x. (None, x))) ns name msg w = ce_AppendChatMessage ?ce ns name ''assistant'' ?answer (w1\<lparr>dw_broker := b\<rparr>)"
    using \<open>TrimSpace ?answer \<noteq> []\<close> by (simp only: RunChat_def s1 s2 s3 s4 prod.case sum.case option.case if_False)
  also have "\<dots> = (None, w3)"
    by (simp add: env_def dev_web_env_def n2 w3_def)
  finally have run: "RunChat ?ce (devProvider (\<lambda>x. (None, x))) ns name msg w = (None, w3)" .
  have "dev_conversation (dw_store w3) = extended (dev_conversation (dw_store w)) (ns, name)
      [turn (dv_nextChatID (dw_store w)) ns name ''user'' msg t1, turn (dv_nextChatID (dw_store w1)) ns name ''assistant'' ?answer t2]"
    by (simp add: st2 dev_append_conversation st1)
  with run show ?thesis by blast
qed

section \<open>Properties\<close>

text \<open>
On the development server every chat question about a sample incident is answered: the request
succeeds, and its conversation gets the question and the canned answer to it. The answer that
is stored is the whole text that was streamed word by word. It quotes the question, unless
that is longer than the history budget of the chat, where the question never reaches the model client.
\<close>

theorem dev_chat_replies:
  fixes w :: "(devStore, 'n) dash_scheme"
  assumes "dev_ok w" "dev_GetIncident ns name (dw_store w) = Inr detail" "posted_message r \<noteq> []"
  shows "\<exists>w' i1 t1 i2 t2.
     chatPost (dev_web_env lower markdown (Some (devProvider (\<lambda>x. (None, x)))) gt) ns name r w = (Answer (Page 200 [] []), w')
     \<and> dev_conversation (dw_store w') = extended (dev_conversation (dw_store w)) (ns, name)
         [turn i1 ns name ''user'' (posted_message r) t1,
          turn i2 ns name ''assistant''
            (dev_answer (if length (posted_message r) \<le> 8192 then posted_message r else ''this incident'')) t2]"
proof -
  let ?env = "dev_web_env lower markdown (Some (devProvider (\<lambda>x. (None, x)))) gt :: (devStore, 'n) dash_scheme web_env"
  have "TrimSpace (posted_message r) = posted_message r"
    by (simp add: posted_message_def Let_def TrimSpace_idem)
  then have "TrimSpace (posted_message r) \<noteq> []" using assms(3) by simp
  have post: "chatPost ?env ns name r w = (Answer (Page 200 [] []), w')"
    if "RunChat (we_chat ?env) (devProvider (\<lambda>x. (None, x))) ns name (posted_message r) w = (None, w')" for w'
    using that assms(3) by (simp add: chatPost_def) (simp add: dev_web_env_def)
  show ?thesis
    using dev_RunChat [OF assms(1,2) \<open>TrimSpace (posted_message r) \<noteq> []\<close>, of lower markdown gt] post by blast
qed

text \<open>The fresh store keeps the contract, and every incident it lists can be opened.\<close>

lemma newDevStore_ok: "dw_store w = newDevStore now \<Longrightarrow> dev_ok w"
  by (simp add: dev_ok_def newDevStore_def turn_def)

lemma newDevStore_details:
  "\<forall>i \<in> set (filteredIncidents lower f (newDevStore now)). \<exists>d. det_Incident d = i
     \<and> dev_GetIncident (inc_Namespace i) (inc_Name i) (newDevStore now) = Inr d"
proof -
  have "inc_Namespace (det_Incident (crash_detail now)) = ''default'' \<and> inc_Name (det_Incident (crash_detail now)) = ''crashloop-demo''"
    "inc_Namespace (det_Incident (oom_detail now)) = ''payments'' \<and> inc_Name (det_Incident (oom_detail now)) = ''oom-demo''"
    "inc_Namespace (det_Incident (pending_detail now)) = ''infra'' \<and> inc_Name (det_Incident (pending_detail now)) = ''pending-demo''"
    by (simp_all add: crash_detail_def oom_detail_def pending_detail_def Let_def)
  then show ?thesis
    by (simp add: filteredIncidents_def newDevStore_def dev_GetIncident_def gm_get_def)
qed

definition sample_dev :: "devStore dash" where
  "sample_dev = \<lparr>dw_store = newDevStore 0, dw_broker = NewBroker, dw_clock = [], dw_faults = []\<rparr>"

theorem dev_chat_replies_witness:
  "\<forall>lower markdown gt. \<exists>w' i1 t1 i2 t2.
     chatPost (dev_web_env lower markdown (Some (devProvider (\<lambda>x. (None, x)))) gt) ''payments'' ''oom-demo''
       (sample_web_req\<lparr>rq_FormValue := (\<lambda>_. ''why?'')\<rparr>) sample_dev = (Answer (Page 200 [] []), w')
     \<and> dev_conversation (dw_store w') (''payments'', ''oom-demo'') =
         [turn i1 ''payments'' ''oom-demo'' ''user'' ''why?'' t1, turn i2 ''payments'' ''oom-demo'' ''assistant'' (dev_answer ''why?'') t2]"
proof (intro allI)
  fix lower markdown gt
  let ?r = "sample_web_req\<lparr>rq_FormValue := (\<lambda>_. ''why?'')\<rparr>"
  have msg: "posted_message ?r = ''why?''" by (simp add: posted_message_def) code_simp
  have "dev_GetIncident ''payments'' ''oom-demo'' (dw_store sample_dev) = Inr (oom_detail 0)"
    by (simp add: sample_dev_def dev_GetIncident_def newDevStore_def gm_get_def)
  moreover have "dev_ok sample_dev" by (rule newDevStore_ok [of _ 0]) (simp add: sample_dev_def)
  moreover have "dev_conversation (dw_store sample_dev) (''payments'', ''oom-demo'') = []"
    by (simp add: sample_dev_def newDevStore_def dev_conversation_def turn_def)
  ultimately have none: "dev_conversation (dw_store sample_dev) (''payments'', ''oom-demo'') = []"
    and all: "\<exists>w' i1 t1 i2 t2.
     chatPost (dev_web_env lower markdown (Some (devProvider (\<lambda>x. (None, x)))) gt) ''payments'' ''oom-demo'' ?r sample_dev = (Answer (Page 200 [] []), w')
     \<and> dev_conversation (dw_store w') = extended (dev_conversation (dw_store sample_dev)) (''payments'', ''oom-demo'')
         [turn i1 ''payments'' ''oom-demo'' ''user'' ''why?'' t1, turn i2 ''payments'' ''oom-demo'' ''assistant'' (dev_answer ''why?'') t2]"
    using dev_chat_replies [of sample_dev "''payments''" "''oom-demo''" "oom_detail 0" ?r lower markdown gt]
    unfolding msg by simp_all
  then have "extended (dev_conversation (dw_store sample_dev)) (''payments'', ''oom-demo'') xs (''payments'', ''oom-demo'') = xs" for xs
    by simp
  with all show "\<exists>w' i1 t1 i2 t2.
     chatPost (dev_web_env lower markdown (Some (devProvider (\<lambda>x. (None, x)))) gt) ''payments'' ''oom-demo'' ?r sample_dev = (Answer (Page 200 [] []), w')
     \<and> dev_conversation (dw_store w') (''payments'', ''oom-demo'') =
         [turn i1 ''payments'' ''oom-demo'' ''user'' ''why?'' t1, turn i2 ''payments'' ''oom-demo'' ''assistant'' (dev_answer ''why?'') t2]"
    by metis
qed

end
