(* ===== verification/Wiring.thy ===== *)
theory Wiring
  imports Reconciler_Laws Event_Watcher Openai Web_Server Pruner
begin

text \<open>
  The operator's command, \<^verbatim>\<open>src/cmd/kscribe/main.go\<close>: the start-up of \<^verbatim>\<open>newRootCmd\<close> as the sequence of its
  fallible steps, the choice of the notification channels, and the reconciler it builds. The calls
  of the libraries (configuration, client, manager, flags) are steps of the world; flag parsing
  itself and log output are left out.
\<close>

section \<open>Configuration of the parts\<close>

record flags =
  fl_ConfigFile :: string
  fl_LeaderElect :: bool
  fl_LeaderElectSet :: bool
  fl_Addr :: string
  fl_OperatorNamespace :: string

definition flag_overrides :: "flags \<Rightarrow> FlagOverrides" where
  "flag_overrides fl = \<lparr>fo_Addr = fl_Addr fl,
     fo_LeaderElect = (if fl_LeaderElectSet fl then Some (fl_LeaderElect fl) else None),
     fo_OperatorNamespace = fl_OperatorNamespace fl\<rparr>"

record manager_options =
  mo_LeaderElection :: bool
  mo_LeaderElectionID :: string
  mo_LeaderElectionNamespace :: string
  mo_MetricsBindAddress :: string
  mo_DefaultNamespaces :: "string list option"

definition manager_options_of :: "Config \<Rightarrow> manager_options" where
  "manager_options_of cfg =
     (let leaderNS = (if cfg_OperatorNamespace cfg = [] then ''kscribe-system'' else cfg_OperatorNamespace cfg)
      in \<lparr>mo_LeaderElection = cfg_LeaderElect cfg, mo_LeaderElectionID = ''kscribe.amjadjibon.dev'',
          mo_LeaderElectionNamespace = leaderNS, mo_MetricsBindAddress = cfg_MetricsAddr cfg,
          mo_DefaultNamespaces =
            (if cfg_OperatorNamespace cfg \<noteq> [] then Some [cfg_OperatorNamespace cfg] else None)\<rparr>)"

text \<open>The notification channels, in the order they are appended.\<close>

datatype channel_config =
    EmailChannel string string "string list"
  | SlackChannel string
  | JiraChannel string string string string
  | LinearChannel string string

definition channels :: "Config \<Rightarrow> channel_config list" where
  "channels cfg =
     (if cfg_ResendAPIKey cfg \<noteq> [] \<and> length (cfg_NotifyEmailTo cfg) > 0
      then [EmailChannel (cfg_ResendAPIKey cfg) (cfg_NotifyEmailFrom cfg) (cfg_NotifyEmailTo cfg)] else [])
   @ (if cfg_SlackWebhookURL cfg \<noteq> [] then [SlackChannel (cfg_SlackWebhookURL cfg)] else [])
   @ (if cfg_JiraBaseURL cfg \<noteq> [] \<and> cfg_JiraProjectKey cfg \<noteq> []
      then [JiraChannel (cfg_JiraBaseURL cfg) (cfg_JiraEmail cfg) (cfg_JiraAPIToken cfg) (cfg_JiraProjectKey cfg)] else [])
   @ (if cfg_LinearAPIKey cfg \<noteq> [] \<and> cfg_LinearTeamID cfg \<noteq> []
      then [LinearChannel (cfg_LinearAPIKey cfg) (cfg_LinearTeamID cfg)] else [])"

fun channel_notifier :: "'w http_env \<Rightarrow> channel_config \<Rightarrow> 'w Notifier" where
  "channel_notifier he (EmailChannel key from to) = resend_Notify he
     \<lparr>re_APIKey = key, re_From = from, re_To = to, re_BaseURL = [], re_HTTPClient = None\<rparr>"
| "channel_notifier he (SlackChannel url) = slack_Notify he \<lparr>sk_WebhookURL = url, sk_HTTPClient = None\<rparr>"
| "channel_notifier he (JiraChannel base email token key) = jira_Notify he
     \<lparr>ji_BaseURL = base, ji_Email = email, ji_APIToken = token, ji_ProjectKey = key, ji_HTTPClient = None\<rparr>"
| "channel_notifier he (LinearChannel key team) = linear_Notify he
     \<lparr>li_APIKey = key, li_TeamID = team, li_BaseURL = [], li_HTTPClient = None\<rparr>"

definition select_notifier :: "'w Notifier list \<Rightarrow> 'w Notifier option" where
  "select_notifier notifiers =
     (case notifiers of [] \<Rightarrow> None | [n] \<Rightarrow> Some n | _ \<Rightarrow> Some (Multi notifiers))"

text \<open>
  What the parts run on: the manager's client, the clientset, the opened store, the broker in
  the world, and the HTTP client.
\<close>

record 'w services =
  sv_Client :: "'w cr_client"
  sv_Kube :: "'w kube"
  sv_Store :: "'w DiagnosisStore"
  sv_OnBroker :: "(Broker \<Rightarrow> Broker) \<Rightarrow> 'w \<Rightarrow> 'w"
  sv_OpenAI :: "'w openai_env"
  sv_HTTP :: "'w http_env"
  sv_texts :: go_texts

definition brokerPublisher :: "((Broker \<Rightarrow> Broker) \<Rightarrow> 'w \<Rightarrow> 'w) \<Rightarrow> string \<Rightarrow> string \<Rightarrow> 'w \<Rightarrow> 'w" where
  "brokerPublisher on_broker id' html w = on_broker (Publish id' html) w"

definition config_provider :: "'w openai_env \<Rightarrow> Config \<Rightarrow> 'w Provider" where
  "config_provider oe cfg =
     (let baseURL = ResolveBaseURL (cfg_LLMProvider cfg) (cfg_LLMBaseURL cfg);
          c = NewOpenAIClient baseURL (cfg_LLMAPIKey cfg) (cfg_LLMModel cfg)
      in openai_provider oe c)"

definition reconciler_of :: "'w services \<Rightarrow> Config \<Rightarrow> 'w KscribeDiagnosisReconciler" where
  "reconciler_of sv cfg =
     \<lparr>r_Client = sv_Client sv, r_Store = sv_Store sv, r_AgentProvider = config_provider (sv_OpenAI sv) cfg,
      r_Publisher = Some (brokerPublisher (sv_OnBroker sv)), r_LLMProvider = cfg_LLMProvider cfg,
      r_LLMModel = cfg_LLMModel cfg, r_MaxIter = cfg_MaxIterations cfg, r_Concurrency = cfg_DiagnosisConcurrency cfg,
      r_Tools = KubeTools, r_ToolExecutor = Some (Execute (sv_texts sv) (sv_Kube sv)), r_KubeClient = Some (sv_Kube sv),
      r_MaxPodsPerWorkload = cfg_MaxPodsPerWorkload cfg,
      r_Notifier = select_notifier (map (channel_notifier (sv_HTTP sv)) (channels cfg))\<rparr>"

section \<open>Start-up\<close>

text \<open>The steps that return only an error, with what they are given; \<open>'c\<close> is the REST configuration.\<close>

datatype 'c startup_call =
    CreateManager 'c manager_options
  | OpenStore string
  | SetupEventWatcher Deduper string Config
  | BuildClientset 'c
  | SetupReconciler Config RateLimiter
  | AddWebServer string Server
  | AddPruner duration
  | StartManager

record ('c, 'w) startup_env =
  su_Load :: "'w \<Rightarrow> (err + Config) \<times> 'w"
  su_GetConfig :: "'w \<Rightarrow> (err + 'c) \<times> 'w"
  su_BuildConfigFromFlags :: "string \<Rightarrow> 'w \<Rightarrow> (err + 'c) \<times> 'w"
  su_Do :: "'c startup_call \<Rightarrow> 'w \<Rightarrow> err option \<times> 'w"

text \<open>One step: its error is returned with a prefix, and nothing after it runs.\<close>

definition attempt ::
  "('c, 'w) startup_env \<Rightarrow> 'c startup_call \<Rightarrow> string \<Rightarrow> ('w \<Rightarrow> err option \<times> 'w) \<Rightarrow> 'w \<Rightarrow> err option \<times> 'w" where
  "attempt env call what rest w =
     (case su_Do env call w of
        (Some e, w1) \<Rightarrow> (Some (errorf_w (what @ '': '') e), w1)
      | (None, w1) \<Rightarrow> rest w1)"

definition rest_config :: "('c, 'w) startup_env \<Rightarrow> flags \<Rightarrow> 'w \<Rightarrow> (err + 'c) \<times> 'w" where
  "rest_config env fl w =
     (case su_GetConfig env w of
        (r, w1) \<Rightarrow> if fl_ConfigFile fl \<noteq> [] then su_BuildConfigFromFlags env (fl_ConfigFile fl) w1 else (r, w1))"

definition start_parts :: "('c, 'w) startup_env \<Rightarrow> Config \<Rightarrow> 'c \<Rightarrow> 'w \<Rightarrow> err option \<times> 'w" where
  "start_parts env cfg c =
     attempt env (CreateManager c (manager_options_of cfg)) ''create manager''
    (attempt env (OpenStore (cfg_DBPath cfg)) ''open store''
    (attempt env (SetupEventWatcher (NewDeduper 0) (cfg_OperatorNamespace cfg) cfg) ''setup event watcher''
    (attempt env (BuildClientset c) ''build kubernetes clientset''
    (attempt env (SetupReconciler cfg (NewRateLimiter (cfg_MaxDiagnosesPerHour cfg))) ''setup diagnosis reconciler''
    (attempt env (AddWebServer (cfg_Addr cfg) (WithAuthToken (cfg_DashboardToken cfg) New)) ''add web server runnable''
    (if cfg_RetentionPeriod cfg > 0
     then attempt env (AddPruner (cfg_RetentionPeriod cfg)) ''add pruner runnable'' (su_Do env StartManager)
     else su_Do env StartManager))))))"

definition RunE :: "('c, 'w) startup_env \<Rightarrow> flags \<Rightarrow> 'w \<Rightarrow> err option \<times> 'w" where
  "RunE env fl w =
     (case su_Load env w of
        (Inl e, w1) \<Rightarrow> (Some (errorf_w ''loading config: '' e), w1)
      | (Inr cfg, w1) \<Rightarrow>
          (let cfg = ApplyFlags (flag_overrides fl) cfg
           in case rest_config env fl w1 of
                (Inl e, w2) \<Rightarrow> (Some (errorf_w ''rest config: '' e), w2)
              | (Inr c, w2) \<Rightarrow> start_parts env cfg c w2))"

text \<open>\<^verbatim>\<open>ListenAndServe\<close> returns an error in any case; that of an orderly shutdown is none.\<close>

definition ErrServerClosed :: err where
  "ErrServerClosed = errorf ''http: Server closed''"

definition serve_result :: "err \<Rightarrow> err option" where
  "serve_result e = (if e = ErrServerClosed then None else Some e)"

section \<open>Reference\<close>

text \<open>The steps of a start-up with their prefixes, and a run that stops at the first failure.\<close>

definition startup_plan :: "Config \<Rightarrow> 'c \<Rightarrow> ('c startup_call \<times> string) list" where
  "startup_plan cfg c =
     [(CreateManager c (manager_options_of cfg), ''create manager''),
      (OpenStore (cfg_DBPath cfg), ''open store''),
      (SetupEventWatcher (NewDeduper 0) (cfg_OperatorNamespace cfg) cfg, ''setup event watcher''),
      (BuildClientset c, ''build kubernetes clientset''),
      (SetupReconciler cfg (NewRateLimiter (cfg_MaxDiagnosesPerHour cfg)), ''setup diagnosis reconciler''),
      (AddWebServer (cfg_Addr cfg) (WithAuthToken (cfg_DashboardToken cfg) New), ''add web server runnable'')]
     @ (if cfg_RetentionPeriod cfg > 0 then [(AddPruner (cfg_RetentionPeriod cfg), ''add pruner runnable'')] else [])"

fun run_plan :: "('c, 'w) startup_env \<Rightarrow> ('c startup_call \<times> string) list \<Rightarrow> 'w \<Rightarrow> err option \<times> 'w" where
  "run_plan env [] w = su_Do env StartManager w"
| "run_plan env (s # ss) w = attempt env (fst s) (snd s) (run_plan env ss) w"

lemma start_parts_plan: "start_parts env cfg c w = run_plan env (startup_plan cfg c) w"
proof -
  have "run_plan env [] = su_Do env StartManager" "run_plan env (s # ss) = attempt env (fst s) (snd s) (run_plan env ss)" for s ss
    by (simp_all add: fun_eq_iff)
  then show ?thesis by (simp add: start_parts_def startup_plan_def)
qed

text \<open>An environment that records the steps and their answers.\<close>

type_synonym 'c startup_log = "('c startup_call \<times> err option) list"

definition logged_startup :: "('c, 'w) startup_env \<Rightarrow> ('c, 'w \<times> 'c startup_log) startup_env" where
  "logged_startup env =
     \<lparr>su_Load = (\<lambda>(w, l). case su_Load env w of (r, w') \<Rightarrow> (r, (w', l))),
      su_GetConfig = (\<lambda>(w, l). case su_GetConfig env w of (r, w') \<Rightarrow> (r, (w', l))),
      su_BuildConfigFromFlags = (\<lambda>f (w, l). case su_BuildConfigFromFlags env f w of (r, w') \<Rightarrow> (r, (w', l))),
      su_Do = (\<lambda>c (w, l). case su_Do env c w of (r, w') \<Rightarrow> (r, (w', l @ [(c, r)])))\<rparr>"

text \<open>
  A log of the plan: its steps in order, each successful but the last, up to the start of the
  manager or the first failure, which the result reports.
\<close>

fun follows_plan :: "('c startup_call \<times> string) list \<Rightarrow> 'c startup_log \<Rightarrow> err option \<Rightarrow> bool" where
  "follows_plan [] log e \<longleftrightarrow> log = [(StartManager, e)]"
| "follows_plan (s # ss) [] e \<longleftrightarrow> False"
| "follows_plan (s # ss) ((c, Some x) # log) e \<longleftrightarrow> c = fst s \<and> log = [] \<and> e = Some (errorf_w (snd s @ '': '') x)"
| "follows_plan (s # ss) ((c, None) # log) e \<longleftrightarrow> c = fst s \<and> follows_plan ss log e"

lemma run_plan_follows:
  "run_plan (logged_startup env) ss (w, l) = (e, (w', l')) \<Longrightarrow> \<exists>log. l' = l @ log \<and> follows_plan ss log e"
proof (induction ss arbitrary: w l)
  case Nil
  then show ?case by (auto simp: logged_startup_def split: prod.splits)
next
  case (Cons s ss)
  obtain r w1 where r: "su_Do env (fst s) w = (r, w1)" by fastforce
  then have step: "su_Do (logged_startup env) (fst s) (w, l) = (r, (w1, l @ [(fst s, r)]))"
    by (simp add: logged_startup_def)
  show ?case
  proof (cases r)
    case None
    then have "run_plan (logged_startup env) ss (w1, l @ [(fst s, None)]) = (e, (w', l'))"
      using Cons.prems step by (simp add: attempt_def)
    from Cons.IH [OF this] None show ?thesis by auto
  next
    case (Some x)
    then show ?thesis using Cons.prems step by (auto simp: attempt_def)
  qed
qed

lemma rest_config_logged: "\<exists>r w'. rest_config (logged_startup env) fl (w, l) = (r, (w', l))"
proof -
  obtain r w1 where "su_GetConfig env w = (r, w1)" by fastforce
  moreover obtain r' w2 where "su_BuildConfigFromFlags env (fl_ConfigFile fl) w1 = (r', w2)" by fastforce
  ultimately show ?thesis by (simp add: rest_config_def logged_startup_def)
qed

text \<open>The manager runs only after every step succeeded.\<close>

lemma follows_plan_started:
  "follows_plan ss log e \<Longrightarrow> StartManager \<notin> fst ` set ss \<Longrightarrow> StartManager \<in> fst ` set log \<Longrightarrow>
     log = map (\<lambda>s. (fst s, None)) ss @ [(StartManager, e)]"
  by (induction ss log e rule: follows_plan.induct) auto

lemma follows_plan_prefix:
  "follows_plan ss log e \<Longrightarrow> prefix (map fst log) (map fst ss @ [StartManager])
     \<and> (e = None \<longrightarrow> StartManager \<in> fst ` set log)"
  by (induction ss log e rule: follows_plan.induct) auto

section \<open>Properties\<close>


definition sample_startup :: "(unit, unit) startup_env" where
  "sample_startup =
     \<lparr>su_Load = (\<lambda>w. (Inr default_config, w)), su_GetConfig = (\<lambda>w. (Inr (), w)),
      su_BuildConfigFromFlags = (\<lambda>f w. (Inl (errorf []), w)),
      su_Do = (\<lambda>c w. (None, w))\<rparr>"

definition no_flags :: flags where
  "no_flags = \<lparr>fl_ConfigFile = [], fl_LeaderElect = False, fl_LeaderElectSet = False, fl_Addr = [],
     fl_OperatorNamespace = ''ops''\<rparr>"


fun delivered :: "'w Notifier list \<Rightarrow> Notification \<Rightarrow> 'w \<Rightarrow> err option list \<times> 'w" where
  "delivered [] n w = ([], w)"
| "delivered (nf # nfs) n w =
     (let (e, w1) = nf n w; (es, w2) = delivered nfs n w1 in (e # es, w2))"

lemma notify_all_delivered:
  "notify_all nfs n errs w = (errs @ List.map_filter id (fst (delivered nfs n w)), snd (delivered nfs n w))"
  by (induction nfs arbitrary: errs w) (auto simp: map_filter_simps split: prod.splits option.splits)

lemma errors_Join_None: "errors_Join (List.map_filter id es) = None \<longleftrightarrow> set es \<subseteq> {None}"
  by (induction es) (auto simp: errors_Join_def map_filter_simps split: option.splits)

text \<open>
A finished diagnosis is sent to exactly the channels that are configured, each once and in
order, whatever the others answer; the send fails iff one of them does. Without a configured
channel there is no notifier.
\<close>

theorem configured_channels_notified:
  "case r_Notifier (reconciler_of sv cfg) of
     None \<Rightarrow> channels cfg = []
   | Some nf \<Rightarrow> channels cfg \<noteq> []
       \<and> snd (nf n w) = snd (delivered (map (channel_notifier (sv_HTTP sv)) (channels cfg)) n w)
       \<and> (fst (nf n w) = None \<longleftrightarrow> set (fst (delivered (map (channel_notifier (sv_HTTP sv)) (channels cfg)) n w)) \<subseteq> {None})"
proof -
  let ?nfs = "map (channel_notifier (sv_HTTP sv)) (channels cfg)"
  have multi: "snd (Multi nfs n w) = snd (delivered nfs n w)"
    "fst (Multi nfs n w) = None \<longleftrightarrow> set (fst (delivered nfs n w)) \<subseteq> {None}" for nfs :: "'a Notifier list"
    by (simp_all add: Multi_def notify_all_delivered errors_Join_None split: prod.splits)
  have one: "delivered [nf] n w = ([fst (nf n w)], snd (nf n w))" for nf :: "'a Notifier"
    by (simp split: prod.splits)
  show ?thesis
  proof (cases ?nfs)
    case Nil
    then show ?thesis by (simp add: reconciler_of_def select_notifier_def)
  next
    case (Cons nf nfs)
    then have "channels cfg \<noteq> []" by auto
    then show ?thesis
      using Cons multi [of ?nfs] one [of nf] by (cases nfs) (simp_all add: reconciler_of_def select_notifier_def)
  qed
qed

end
