(* ===== verification/Live_View.thy ===== *)
theory Live_View
  imports Wiring
begin

text \<open>
  The live view of a diagnosis: from the reconciler over the publisher of
  \<^verbatim>\<open>src/cmd/kscribe/main.go\<close>, the broker and the event stream of the dashboard to the browser. The
  published fragments of a run are read off its calls.
\<close>

section \<open>What a run publishes\<close>

text \<open>
  The publications of a sequence of calls, each with whether the object was marked as Diagnosing
  and whether a diagnosis was stored before it.
\<close>

fun announcements :: "bool \<Rightarrow> bool \<Rightarrow> call list \<Rightarrow> (bool \<times> bool \<times> string \<times> string) list" where
  "announcements m s [] = []"
| "announcements m s (StatusWritten kd None # cs) = announcements (m \<or> kd_Phase kd = DiagnosisPhaseDiagnosing) s cs"
| "announcements m s (Inserted d None # cs) = announcements m True cs"
| "announcements m s (Published i h # cs) = (m, s, i, h) # announcements m s cs"
| "announcements m s (c # cs) = announcements m s cs"

text \<open>The broker after the publications of a run.\<close>

fun broker_after :: "call list \<Rightarrow> Broker \<Rightarrow> Broker" where
  "broker_after [] b = b"
| "broker_after (Published i h # cs) b = broker_after cs (brokerPublisher (\<lambda>f. f) i h b)"
| "broker_after (c # cs) b = broker_after cs b"

lemma patch_quiet:
  "patch_calls k mt cs e \<Longrightarrow> \<exists>m'. \<forall>ys. announcements m s (cs @ ys) = announcements m' s ys"
proof (induction arbitrary: m rule: patch_calls.induct)
  case (written cur r)
  show ?case by (cases r) auto
next
  case (retry cs e cs' r)
  then show ?case by (metis append.assoc)
qed auto

lemma patch_quiet_last: "patch_calls k mt cs e \<Longrightarrow> announcements m s cs = []"
  using patch_quiet [of k mt cs e m s] by (metis announcements.simps(1) append_Nil2)

lemma patch_marks:
  "patch_calls k mt cs e \<Longrightarrow> e = None \<Longrightarrow> (\<And>c. kd_Phase (mt c) = DiagnosisPhaseDiagnosing) \<Longrightarrow>
     announcements m s (cs @ ys) = announcements True s ys"
proof (induction arbitrary: m rule: patch_calls.induct)
  case (retry cs e cs' r)
  obtain m' where "\<And>zs. announcements m s (cs @ zs) = announcements m' s zs"
    using patch_quiet [OF retry.hyps(1)] by blast
  with retry show ?case by simp
qed auto

lemma announcements_silent [simp]:
  "announcements m s (replicate n ModelCalled @ cs) = announcements m s cs"
  "announcements m s (task_started r @ cs) = announcements m s cs"
  by (induction n) (simp_all add: task_started_def split: option.splits)

lemma announcements_published [simp]:
  "r_Publisher r \<noteq> None \<Longrightarrow>
     announcements m s (published r req p @ cs) = (m, s, sse_id req, phase_span p) # announcements m s cs"
  by (auto simp: published_def)

text \<open>The end of a run announces nothing, a failure, or a result that is stored.\<close>

definition ending :: "NamespacedName \<Rightarrow> (bool \<times> bool \<times> string \<times> string) list \<Rightarrow> bool" where
  "ending req xs \<longleftrightarrow> xs = []
     \<or> (\<exists>s p. xs = [(True, s, sse_id req, phase_span p)]
          \<and> (p = DiagnosisPhaseFailed \<or> s \<and> p \<in> {DiagnosisPhaseDone, DiagnosisPhasePartial}))"

lemma outcome_announces:
  assumes "outcome_calls ge r j cs res e" "r_Publisher r \<noteq> None"
  shows "ending (jb_req j) (announcements True False cs)"
  using assms
proof (induction rule: outcome_calls.induct)
  case (provider_failed oc t cs e u)
  then show ?case by (auto simp: patch_quiet_last ending_def)
next
  case (not_stored oc d ctx e cs p)
  then show ?case by (simp add: patch_quiet_last ending_def)
next
  case (stored oc d ctx t cs e u)
  then have "oc_Phase oc \<in> {DiagnosisPhaseDone, DiagnosisPhasePartial}" by (auto simp: terminal_outcome_def)
  with stored show ?case by (auto simp: patch_quiet_last ending_def)
qed

definition live_run :: "NamespacedName \<Rightarrow> (bool \<times> bool \<times> string \<times> string) list \<Rightarrow> bool" where
  "live_run req xs \<longleftrightarrow> xs = []
     \<or> (\<exists>ys. xs = (True, False, sse_id req, phase_span DiagnosisPhaseDiagnosing) # ys \<and> ending req ys)"

lemma diagnosis_announces:
  assumes "diagnosis_calls ge r req kd cs res e" "r_Publisher r \<noteq> None"
  shows "live_run req (announcements False False cs)"
proof -
  have marks: "kd_Phase (set_diagnosing ge t p m c) = DiagnosisPhaseDiagnosing" for t p m c
    by (simp add: set_diagnosing_def SetCondition_def Let_def)
  show ?thesis
    using assms
  proof (induction rule: diagnosis_calls.induct)
    case (not_marked t cs e)
    then show ?case by (simp add: patch_quiet_last live_run_def)
  next
    case (vanished t cs e)
    then show ?case by (simp add: patch_marks [OF vanished.hyps refl marks] live_run_def ending_def)
  next
    case (diagnosed t cs n kd' cs' res e)
    then show ?case
      using outcome_announces [OF diagnosed.hyps(4)]
      by (simp add: patch_marks [OF diagnosed.hyps(1) refl marks] live_run_def)
  qed (simp add: live_run_def)
qed

lemma handler_announces:
  assumes "handler_calls ge r req cs res e" "r_Publisher r \<noteq> None"
  shows "live_run req (announcements False False cs)"
  using assms
proof (induction rule: handler_calls.induct)
  case (started kd cs res e)
  then show ?case using diagnosis_announces by simp
qed (simp_all add: live_run_def patch_quiet_last)

section \<open>To the browser\<close>

lemma Publish_facts:
  assumes "broker_inv b" "c \<in> set (subs_of b t)" "length (buffer_of b c) < 8"
  shows "buffer_of (Publish t e b) c = buffer_of b c @ [e]" "subs_of (Publish t e b) t' = subs_of b t'"
  using assms by (simp_all add: Publish_def fold_offer broker_invD(5) channel_capacity_def)

lemma broker_after_buffer:
  assumes "broker_inv b" "ch \<in> set (subs_of b t)" "\<forall>(m, s, i, h) \<in> set (announcements m0 s0 cs). i = t"
    "length (buffer_of b ch) + length (announcements m0 s0 cs) \<le> 8"
  shows "buffer_of (broker_after cs b) ch = buffer_of b ch @ map (\<lambda>(m, s, i, h). h) (announcements m0 s0 cs)"
  using assms
proof (induction m0 s0 cs arbitrary: b rule: announcements.induct)
  case (4 m s i h cs)
  then have "i = t" by simp
  with 4 Publish_facts [OF 4(2,3), of h] show ?case
    by (simp add: brokerPublisher_def inv_Publish)
qed simp_all

lemma phase_span_safe:
  assumes "p \<in> {DiagnosisPhaseDiagnosing, DiagnosisPhaseDone, DiagnosisPhasePartial, DiagnosisPhaseFailed}"
  shows "sse_safe (phase_span p)" "chomp (phase_span p) = phase_span p" "phase_span p \<noteq> []"
  using assms by (auto simp: phase_span_def phase_defs sse_safe_def MaxScanTokenSize_def chomp_def dquote_def)

lemma phase_span_distinct:
  "phase_span DiagnosisPhaseDiagnosing \<notin> {phase_span DiagnosisPhaseDone, phase_span DiagnosisPhasePartial}"
  "phase_span DiagnosisPhaseFailed \<notin> {phase_span DiagnosisPhaseDone, phase_span DiagnosisPhasePartial}"
  by (simp_all add: phase_span_def phase_defs)

definition phase_sequence :: "DiagnosisPhase list \<Rightarrow> bool" where
  "phase_sequence phases \<longleftrightarrow> phases \<in> {[], [DiagnosisPhaseDiagnosing]}
     \<or> (\<exists>p \<in> {DiagnosisPhaseDone, DiagnosisPhasePartial, DiagnosisPhaseFailed}. phases = [DiagnosisPhaseDiagnosing, p])"

lemma live_run_phases:
  assumes "live_run req xs"
  obtains phases where "map (\<lambda>(m, s, i, h). h) xs = map phase_span phases" "phase_sequence phases"
    "\<forall>(m, s, i, h) \<in> set xs. i = sse_id req \<and> m
       \<and> (h \<in> {phase_span DiagnosisPhaseDone, phase_span DiagnosisPhasePartial} \<longrightarrow> s)"
    "length xs \<le> 2"
proof -
  consider (quiet) "xs = []" | (marked) "xs = [(True, False, sse_id req, phase_span DiagnosisPhaseDiagnosing)]"
    | (ended) s p where "xs = [(True, False, sse_id req, phase_span DiagnosisPhaseDiagnosing), (True, s, sse_id req, phase_span p)]"
        "p = DiagnosisPhaseFailed \<or> s \<and> p \<in> {DiagnosisPhaseDone, DiagnosisPhasePartial}"
    using assms unfolding live_run_def ending_def by blast
  then show ?thesis
  proof cases
    case quiet
    then show ?thesis using that [of "[]"] by (simp add: phase_sequence_def)
  next
    case marked
    then show ?thesis using that [of "[DiagnosisPhaseDiagnosing]"] phase_span_distinct by (simp add: phase_sequence_def)
  next
    case ended
    then show ?thesis using that [of "[DiagnosisPhaseDiagnosing, p]"] phase_span_distinct by (auto simp: phase_sequence_def)
  qed
qed

section \<open>Properties\<close>



text \<open>A closed run: the object is marked as Diagnosing and then deleted by its user.\<close>

definition live_reconciler :: "op_world KscribeDiagnosisReconciler" where
  "live_reconciler = sql_reconciler sample_texts sample_codec None True None ''openai'' ''m'' 5"

definition live_world :: op_world where
  "live_world = (sample_world [])\<lparr>ow_gets := [Inr sample_kd, Inr sample_kd]\<rparr>"

lemma live_reconciler_run:
  "\<exists>w' kd1 kd2 inc. Reconcile sample_env live_reconciler sample_req None live_world = ((done_result, None, w'), None)
     \<and> ow_calls w' = [Read sample_req (Inr sample_kd), Upserted inc None, Read sample_req (Inr kd1),
          StatusWritten kd2 None, Published (sse_id sample_req) (phase_span DiagnosisPhaseDiagnosing),
          Read sample_req (Inl (Err NotFound ''not found''))]"
proof -
  have kd: "kd_Phase sample_kd = DiagnosisPhasePending" by (rule sample_kd_simps)
  show ?thesis
    by (simp add: Reconcile_def start_diagnosis_def allow_start_def begin_diagnosis_def publish_def patchStatus_def patch_attempt_def
        kd Allow_def live_reconciler_def live_world_def sample_world_def sample_env_def sql_env_def sql_reconciler_def sql_client_def
        sql_store_def first_def next_clock_def Let_def eval_nat_numeral UpsertIncident_def IgnoreNotFound_def IsNotFound_def case_prod_beta)
qed


end
