(* ===== verification/Spec2Isabelle.thy ===== *)
theory Spec2Isabelle
  imports Dedup Rate_Limit Store_Laws Migrations Agent_Laws Enricher_Laws Tool_Executor Event_Watcher Reconciler_Laws Broker Auth Pruner Chat Openai Web_Templates_Laws
    Dev_Server Live_View
begin

text \<open>
  Verification of kscribe, a Kubernetes operator that watches warning events of a cluster,
  diagnoses each of them with a language model and a few read-only tools, keeps the result in a
  SQLite database and in the status of a custom resource, and shows it on a dashboard.

  \<^bold>\<open>The parts and how they work together.\<close> The event watcher receives events, drops repetitions
  (Dedup), asks for the policy that applies (Policy) and creates a diagnosis object. The
  reconciler takes a Pending object, asks the rate limiter for a start, collects a snapshot of the
  cluster (Context_Builder), redacts and encodes it (Redactor, Enricher), runs the agent against
  the model (Agent, Openai, Tool_Executor), stores incident and diagnosis (Store, Migrations),
  writes the status, publishes the phase to the broker and notifies (Notify). The dashboard reads
  the store (Web_Views, Web_Templates), follows the broker (Broker, Web_Server), guards its routes
  (Auth) and lets users chat with the model about an incident (Chat). A pruner deletes what is old
  (Pruner). The command sets all of this up (Wiring); a second command serves the same dashboard
  on sample data (Dev_Server).

  \<^bold>\<open>Theories\<close>, with the code they model under \<^verbatim>\<open>src/\<close>:
  \<^item> Kscribe_Prelude: Go values shared by all parts: errors with their text and class, times and
    durations as integers of nanoseconds, the maps of Go as association lists with distinct keys,
    string functions of the standard library, wrap-around of 32- and 64-bit integers.
  \<^item> Go_Utf8, Go_Json, Go_Time, Go_Bufio, Url, Html: the parts of the language's library that the
    code's results depend on: UTF-8 validity, encoding/json (printer, lexer and parser, with the
    round trip \<open>json_parse_print\<close>), time formatting in the two layouts of the store, the line scanner
    of bufio, query strings of net/url (and the links of the dashboard), and a scanner for
    the contexts of an HTML page.
  \<^item> Api_Types: \<^verbatim>\<open>api/v1alpha1\<close>, the custom resources and conditions.
  \<^item> Dedup, Rate_Limit: \<^verbatim>\<open>internal/controller/dedup.go\<close> and \<^verbatim>\<open>ratelimit.go\<close>. Each states its contract
    as a locale (\<open>dedup_guard\<close>, \<open>start_limiter\<close>) against a specification that remembers everything;
    the sliding window of failed logins is a second instance of \<open>start_limiter\<close>.
  \<^item> Policy: \<^verbatim>\<open>internal/config\<close> and \<^verbatim>\<open>internal/controller/diagnosispolicy_controller.go\<close>.
  \<^item> Event_Watcher: \<^verbatim>\<open>internal/controller/event_watcher.go\<close>.
  \<^item> Reconciler, Reconciler_Protocol, Reconciler_Laws: \<^verbatim>\<open>internal/controller/kscribediagnosis_controller.go\<close>.
    The protocol is an inductive relation between the object a run reads, its calls and its result;
    the locale \<open>audited_reconciler\<close> says that the world logs the calls; it is interpreted on the
    store, a scripted model and an API server with faults.
  \<^item> Agent, Agent_Laws, Openai, Tool_Executor: \<^verbatim>\<open>internal/agent\<close> and \<^verbatim>\<open>internal/controller/tool_executor.go\<close>.
  \<^item> Redactor, Enricher, Enricher_Laws, Context_Builder: \<^verbatim>\<open>internal/enricher\<close>. The redaction rules are
    regular expressions with the leftmost-first matching of Go.
  \<^item> Store, Store_Laws, Migrations: \<^verbatim>\<open>internal/store\<close>. Tables are lists of rows, each statement is a
    function with its fault as an argument, and the order SQLite leaves open is a parameter.
  \<^item> Notify: \<^verbatim>\<open>internal/notify\<close>. Pruner: \<^verbatim>\<open>internal/controller/prune.go\<close> and \<^verbatim>\<open>runPruner\<close>.
  \<^item> Broker, Auth, Chat, Web_Views, Web_Server, Dashboard, Web_Templates, Web_Templates_Laws: \<^verbatim>\<open>internal/web\<close>.
    The templates are the lists of pieces they write: literals, escaped values, attributes,
    class lists, URLs and rendered Markdown. The interface of the server to its store is the
    locale \<open>dashboard_store\<close> (Dashboard), interpreted on the SQLite store and on the store of the development server.
  \<^item> Dev_Server: \<^verbatim>\<open>cmd/kscribe-web-dev/main.go\<close>. Wiring: \<^verbatim>\<open>cmd/kscribe/main.go\<close>. Live_View: the
    way of a phase from the reconciler over publisher, broker and event stream to the browser.

  \<^bold>\<open>State and effects.\<close> Code that calls out is a function on a world of any type: the calls it makes
  are fields of a record of functions, so that a theorem holds for whatever they answer, failures
  included. Errors are values. Mutexes make an operation one step. A goroutine is a task handed to
  the world, which may run it at any time. Times come from the world's clock.

  \<^bold>\<open>What is shown.\<close> Of the reconciler: every run follows the protocol, a terminal phase is written only
  after the diagnosis was stored, a failed store is retried, success means finished, and the
  model is called only with a grant. Of the watcher: what it writes and when, that creations for one
  key are spaced, and what happens to an event whose processing failed. Of the guards: they
  equal their specifications and cap every hour. Of the agent: the number of calls, and
  that the outcome follows from the exchanges. Of the enricher: total, bounded, redaction
  replaces whole matches, encoding round trips. Of the store: refinement of a finite map, exact
  pruning, pages that partition the incidents, an injection-free WHERE clause, and its invariant.
  Of the dashboard: access, pages, links, views, markup, that a chat adds the turns the page shows,
  and that the live view shows the phases of a run, each only once it is true. Of the
  commands: the start-up makes its calls in order and stops at the first failure, a notification
  reaches exactly the configured channels, and the development server answers every question.

  \<^bold>\<open>Bounds and fuel.\<close> No definition of the program needs fuel but the loops that run until the
  process ends: the pruner and a stream take the number of rounds, and their theorems hold for
  every number. The agent's loop recurses on the iterations left, JSON parsing on the length of the
  text with the nesting limit 10000 of encoding/json, the conflict retry of the API client is
  an inductive relation that any finite number of attempts satisfies.

  \<^bold>\<open>Parameters.\<close> The Kubernetes client and its informers, the environment parser, the SDK for model calls, the
  HTTP client, the match of the router, goldmark and bluemonday, the escapers of templ (with the
  characters they must not let through), the code of floats and of quoted texts in errors, Unicode
  case mapping, the clock and the random source.

  \<^bold>\<open>Not modelled.\<close> Generated DeepCopy functions and scheme registration, since values
  here have no aliases to copy; Prometheus collectors, which nothing reads (the reconciler's
  increments are events of its world); log output; the embedded assets and their version hash;
  the flag parser and the manager's own loop, which are libraries.
\<close>

end
